(* ===== verification/C_Prelude.thy ===== *)
theory C_Prelude
  imports Main "HOL-Library.Word" "HOL-Library.Signed_Division"
begin

text \<open>
  The part of C that every component of the library needs: results that carry the ways in
  which a C function fails to return, 32-bit \<open>int\<close> arithmetic in which a signed overflow or a
  division by zero is an error value and not a number, the conversions between \<open>int\<close> and
  \<open>unsigned int\<close>, and the theorem collections the component theories extend.
\<close>

named_theorems c_arith \<open>unfolds the checked integer operations of C\<close>
named_theorems c_range \<open>discharges the range conditions of the checked operations\<close>

subsection \<open>Results\<close>

text \<open>
  \<open>Exited\<close> is a call of \<open>exit\<close> with its status. The other errors are undefined behaviour:
  the execution has no defined continuation.
\<close>

datatype c_error =
    Int_Overflow
  | Div_By_Zero
  | Null_Deref
  | Out_Of_Bounds
  | Exited int

type_synonym 'a c_result = "c_error + 'a"

definition c_bind :: "'a c_result \<Rightarrow> ('a \<Rightarrow> 'b c_result) \<Rightarrow> 'b c_result" where
  "c_bind m f = (case m of Inl e \<Rightarrow> Inl e | Inr x \<Rightarrow> f x)"

lemma c_bind_Inl [simp]: "c_bind (Inl e) f = Inl e"
  by (simp add: c_bind_def)

lemma c_bind_Inr [simp]: "c_bind (Inr x) f = f x"
  by (simp add: c_bind_def)

lemma c_bind_eq_Inr: "c_bind m f = Inr y \<longleftrightarrow> (\<exists>x. m = Inr x \<and> f x = Inr y)"
  by (simp add: c_bind_def split: sum.splits)

lemma c_bind_eq_Inl: "c_bind m f = Inl e \<longleftrightarrow> m = Inl e \<or> (\<exists>x. m = Inr x \<and> f x = Inl e)"
  by (auto simp: c_bind_def split: sum.splits)

lemma c_bind_InrE [elim]:
  assumes "c_bind m f = Inr y"
  obtains x where "m = Inr x" and "f x = Inr y"
  using assms by (auto simp: c_bind_eq_Inr)

lemma c_bind_assoc: "c_bind (c_bind m f) g = c_bind m (\<lambda>x. c_bind (f x) g)"
  by (simp add: c_bind_def split: sum.split)

lemma c_bind_cong [fundef_cong]:
  "m = m' \<Longrightarrow> (\<And>x. m' = Inr x \<Longrightarrow> f x = f' x) \<Longrightarrow> c_bind m f = c_bind m' f'"
  by (simp add: c_bind_def split: sum.split)

lemma c_bind_eqI: "(\<And>x. m = Inr x \<Longrightarrow> f x = g x) \<Longrightarrow> c_bind m f = c_bind m g"
  by (simp add: c_bind_def split: sum.split)

subsection \<open>Signed 32-bit integers\<close>

text \<open>
  A value of C's \<open>int\<close> is an \<open>int\<close> in the range of two's complement; an operation whose
  exact result leaves the range is an error. Division truncates towards zero (\<open>sdiv\<close>).
\<close>

definition INT_MAX :: int where "INT_MAX = 2147483647"

definition INT_MIN :: int where "INT_MIN = - 2147483648"

definition in_int :: "int \<Rightarrow> bool" where
  "in_int z \<longleftrightarrow> INT_MIN \<le> z \<and> z \<le> INT_MAX"

definition c_int :: "int \<Rightarrow> int c_result" where
  "c_int z = (if in_int z then Inr z else Inl Int_Overflow)"

definition c_add :: "int \<Rightarrow> int \<Rightarrow> int c_result" where
  "c_add a b = c_int (a + b)"

definition c_sub :: "int \<Rightarrow> int \<Rightarrow> int c_result" where
  "c_sub a b = c_int (a - b)"

definition c_mul :: "int \<Rightarrow> int \<Rightarrow> int c_result" where
  "c_mul a b = c_int (a * b)"

definition c_div :: "int \<Rightarrow> int \<Rightarrow> int c_result" where
  "c_div a b = (if b = 0 then Inl Div_By_Zero else c_int (a sdiv b))"

definition c_abs :: "int \<Rightarrow> int c_result" where
  "c_abs a = c_int \<bar>a\<bar>"

lemmas c_int_defs [c_arith] =
  c_int_def c_add_def c_sub_def c_mul_def c_div_def c_abs_def

lemmas int_range_defs [c_range] = in_int_def INT_MAX_def INT_MIN_def

lemma c_int_Inr: "c_int z = Inr y \<longleftrightarrow> y = z \<and> in_int z"
  by (auto simp: c_int_def)

lemma c_add_Inr: "c_add a b = Inr y \<longleftrightarrow> y = a + b \<and> in_int (a + b)"
  by (simp add: c_add_def c_int_Inr)

lemma c_sub_Inr: "c_sub a b = Inr y \<longleftrightarrow> y = a - b \<and> in_int (a - b)"
  by (simp add: c_sub_def c_int_Inr)

lemma c_mul_Inr: "c_mul a b = Inr y \<longleftrightarrow> y = a * b \<and> in_int (a * b)"
  by (simp add: c_mul_def c_int_Inr)

lemma c_div_Inr: "c_div a b = Inr y \<longleftrightarrow> b \<noteq> 0 \<and> y = a sdiv b \<and> in_int (a sdiv b)"
  by (auto simp: c_div_def c_int_Inr)

lemma c_abs_Inr: "c_abs a = Inr y \<longleftrightarrow> y = \<bar>a\<bar> \<and> in_int \<bar>a\<bar>"
  by (simp add: c_abs_def c_int_Inr)

lemmas c_op_Inr = c_int_Inr c_add_Inr c_sub_Inr c_mul_Inr c_div_Inr c_abs_Inr

lemma sdiv_nonneg:
  fixes a b :: int
  assumes "0 \<le> a" and "0 \<le> b"
  shows "a sdiv b = a div b"
  using assms by (cases "a = 0"; cases "b = 0") (auto simp: signed_divide_int_def)

lemma sdiv_nonneg_ge0:
  fixes a b :: int
  shows "0 \<le> a \<Longrightarrow> 0 \<le> b \<Longrightarrow> 0 \<le> a sdiv b"
  by (simp add: sdiv_nonneg div_int_pos_iff)

lemma in_int_sdiv:
  fixes a b :: int
  assumes "0 \<le> a" and "in_int a" and "0 < b"
  shows "in_int (a sdiv b)"
proof -
  have "a div b \<le> a"
    using assms div_by_1 by (metis int_one_le_iff_zero_less zdiv_mono2 zero_less_one)
  moreover have "0 \<le> a div b"
    using assms by (simp add: pos_imp_zdiv_nonneg_iff)
  ultimately show ?thesis
    using assms by (simp add: sdiv_nonneg c_range)
qed

lemma c_div_nonneg:
  "0 \<le> a \<Longrightarrow> in_int a \<Longrightarrow> 0 < b \<Longrightarrow> c_div a b = Inr (a div b)"
  using in_int_sdiv [of a b] by (simp add: c_div_def c_int_def sdiv_nonneg)

lemma in_int_between:
  "in_int a \<Longrightarrow> in_int b \<Longrightarrow> a \<le> x \<Longrightarrow> x \<le> b \<Longrightarrow> in_int x"
  by (simp add: c_range)

lemma in_int_le: "0 \<le> x \<Longrightarrow> x \<le> y \<Longrightarrow> in_int y \<Longrightarrow> in_int x"
  by (simp add: c_range)

lemma in_int_minus: "in_int c \<Longrightarrow> 0 \<le> c \<Longrightarrow> 0 \<le> k \<Longrightarrow> k < 2 ^ 31 \<Longrightarrow> in_int (c - k)"
  by (simp add: c_range)

lemma in_int_0 [simp]: "in_int 0"
  by (simp add: c_range)

subsection \<open>Unsigned integers\<close>

text \<open>
  \<open>unsigned int\<close> and \<open>__uint32_t\<close> are \<open>u32\<close>, \<open>uint64_t\<close> and \<open>unsigned long\<close> are \<open>u64\<close>:
  arithmetic wraps. The conversions to and from \<open>int\<close> keep the bit pattern, as the usual
  compilers define them.
\<close>

type_synonym u32 = "32 word"
type_synonym u64 = "64 word"

definition int_of_u32 :: "u32 \<Rightarrow> int" where
  "int_of_u32 w = sint w"

definition u32_of_int :: "int \<Rightarrow> u32" where
  "u32_of_int z = word_of_int z"

lemma in_int_of_u32: "in_int (int_of_u32 w)"
proof -
  have "- (2 ^ 31) \<le> sint w" and "sint w < 2 ^ 31"
    using sint_ge [of w] sint_lt [of w] by simp_all
  then show ?thesis by (simp add: int_of_u32_def c_range)
qed

lemma int_of_u32_small: "uint w < 2 ^ 31 \<Longrightarrow> int_of_u32 w = uint w"
proof -
  assume "uint w < 2 ^ 31"
  then have "signed_take_bit 31 (uint w) = uint w"
    by (intro signed_take_bit_int_eq_self) (simp_all add: order_trans [OF _ uint_ge_0])
  then show ?thesis
    by (simp add: int_of_u32_def sint_uint)
qed

lemma int_of_u32_large: "2 ^ 31 \<le> uint w \<Longrightarrow> int_of_u32 w = uint w - 2 ^ 32"
proof -
  assume large: "2 ^ 31 \<le> uint w"
  have "uint w < 2 ^ 32"
    using uint_bounded [of w] by simp
  moreover have "sint w = (uint w + 2 ^ 31) mod 2 ^ 32 - 2 ^ 31"
    by (simp add: sint_uint signed_take_bit_eq_take_bit_shift take_bit_eq_mod)
  moreover have "(uint w + 2 ^ 31) mod 2 ^ 32 = (uint w - 2 ^ 31 + 2 ^ 32) mod 2 ^ 32"
    by (rule arg_cong [where f = "\<lambda>z. z mod 2 ^ 32"]) simp
  ultimately have "sint w = uint w - 2 ^ 31 - 2 ^ 31"
    using large by (simp only: mod_add_self2) simp
  then show ?thesis
    by (simp add: int_of_u32_def)
qed

lemma u32_of_int_nonneg: "0 \<le> z \<Longrightarrow> z < 2 ^ 32 \<Longrightarrow> uint (u32_of_int z) = z"
  by (simp add: u32_of_int_def uint_word_of_int)


lemma uint_of_int_of_u32: "0 \<le> int_of_u32 w \<Longrightarrow> uint w = int_of_u32 w"
proof -
  assume nonneg: "0 \<le> int_of_u32 w"
  have "uint w = sint w mod 2 ^ 32"
    by (simp add: uint_sint take_bit_eq_mod)
  then show ?thesis
    using nonneg in_int_of_u32 [of w] by (simp add: int_of_u32_def c_range)
qed

lemma not_less_tenth:
  assumes "0 \<le> z" and "z < int_of_u32 w"
  shows "\<not> w < u32_of_int (z div 10)"
proof -
  have z: "z < 2 ^ 31"
    using assms in_int_of_u32 [of w] by (simp add: c_range)
  moreover have "0 \<le> z div 10" "z div 10 \<le> z"
    using assms(1) by auto
  ultimately have "uint (u32_of_int (z div 10)) = z div 10"
    by (intro u32_of_int_nonneg) auto
  moreover have "uint w = int_of_u32 w"
    using assms by (intro uint_of_int_of_u32) simp
  ultimately show ?thesis
    using assms \<open>z div 10 \<le> z\<close> by (simp add: word_less_def)
qed

lemma less_wrapped_minus: "(a :: 'w::len word) < b \<Longrightarrow> a < a - b"
  using uint_bounded [of b] by (simp add: word_less_def uint_sub_if')

end
