(* ===== verification/Device_Monitor.thy ===== *)
theory Device_Monitor
  imports C_Prelude
begin

text \<open>
  The device monitor: \<open>core/monitor/monitor_gpu.c\<close>, \<open>monitor_mlu.c\<close>, \<open>monitor.c\<close> and
  \<open>monitor.h\<close>. It probes the geometry of device 0 once (\<open>initCudev\<close>, \<open>initCndev\<close>) and
  samples its load (\<open>get_gpu_uti\<close>, \<open>get_mlu_uti\<close>) and its memory (\<open>get_mlu_mem\<close>). NVML,
  CUDA and CNDEV are not part of the repository: what they return is an argument of the
  definitions, collected in the records \<open>cuda_probe\<close>, \<open>cndev_probe\<close>, \<open>nvml_reply\<close> and
  \<open>cndev_reply\<close>; a driver function that the loader could not resolve is \<open>None\<close>.
\<close>

subsection \<open>The globals of the monitor\<close>

record monitor_state =
  sm_num :: int
  max_thread_per_sm :: int
  total_gpu_cores :: int
  card_core_count :: int
  total_mlu_cores :: int
  card_thread_pre_core :: int

definition monitor_init :: monitor_state where
  "monitor_init = \<lparr>sm_num = 0, max_thread_per_sm = 0, total_gpu_cores = 0,
     card_core_count = 0, total_mlu_cores = 0, card_thread_pre_core = 256\<rparr>"

text \<open>
  The status codes the source compares with; every other code of the library is in the last
  constructor. A C condition on an NVML or CUDA status holds for every code but success.
\<close>

datatype nvmlReturn = NVML_SUCCESS | NVML_ERROR int

datatype CUresult = CUDA_SUCCESS | CUDA_ERROR int

datatype cndevRet =
    CNDEV_SUCCESS
  | CNDEV_ERROR_NOT_SUPPORTED
  | CNDEV_ERROR_INSUFFICIENT_SPACE
  | CNDEV_ERROR_OTHER int

text \<open>Calling a driver function through a pointer that is \<open>NULL\<close> is undefined.\<close>

definition call_ptr :: "'a option \<Rightarrow> 'a c_result" where
  "call_ptr f = (case f of None \<Rightarrow> Inl Null_Deref | Some r \<Rightarrow> Inr r)"

lemma call_ptr_simps [simp]:
  "call_ptr None = Inl Null_Deref" "call_ptr (Some r) = Inr r"
  by (simp_all add: call_ptr_def)

text \<open>\<open>LOGGER(FATAL, ...)\<close> ends in \<open>exit(-1)\<close>, whatever the log level is.\<close>

definition fatal_unless :: "bool \<Rightarrow> unit c_result" where
  "fatal_unless ok = (if ok then Inr () else Inl (Exited (- 1)))"

subsection \<open>Device initialisation\<close>

record cuda_probe =
  nvmlInit_ret :: nvmlReturn
  cuInit_call :: "CUresult option"
  attr_sm_call :: "(CUresult \<times> int) option"
  attr_thread_call :: "(CUresult \<times> int) option"

definition initCudev ::
    "cuda_probe \<Rightarrow> 'a monitor_state_scheme \<Rightarrow> 'a monitor_state_scheme c_result" where
  "initCudev p m =
     (if nvmlInit_ret p \<noteq> NVML_SUCCESS then Inr m
      else
        c_bind (call_ptr (cuInit_call p)) (\<lambda>r0.
        c_bind (fatal_unless (r0 = CUDA_SUCCESS)) (\<lambda>_.
        c_bind (call_ptr (attr_sm_call p)) (\<lambda>(r1, sm).
        c_bind (fatal_unless (r1 = CUDA_SUCCESS)) (\<lambda>_.
        c_bind (call_ptr (attr_thread_call p)) (\<lambda>(r2, thr).
        c_bind (fatal_unless (r2 = CUDA_SUCCESS)) (\<lambda>_.
        c_bind (c_mul sm thr) (\<lambda>a.
        c_bind (c_mul a 32) (\<lambda>cores.
          Inr (m\<lparr>sm_num := sm, max_thread_per_sm := thr, total_gpu_cores := cores\<rparr>))))))))))"

record cndev_probe =
  cndevInit_ret :: cndevRet
  core_count_call :: "cndevRet \<times> int"

text \<open>
  \<open>cndevCheckErrors\<close> is a macro of the vendor's header; the argument \<open>check\<close> says what it does
  with a status.
\<close>

definition initCndev ::
    "(cndevRet \<Rightarrow> unit c_result) \<Rightarrow> cndev_probe
     \<Rightarrow> 'a monitor_state_scheme \<Rightarrow> 'a monitor_state_scheme c_result" where
  "initCndev check p m =
     (if cndevInit_ret p \<noteq> CNDEV_SUCCESS then Inl (Exited 0)
      else
        c_bind (check (fst (core_count_call p))) (\<lambda>_.
        c_bind (c_mul (snd (core_count_call p)) (card_thread_pre_core m)) (\<lambda>a.
        c_bind (c_mul a 32) (\<lambda>cores.
          Inr (m\<lparr>card_core_count := snd (core_count_call p), total_mlu_cores := cores\<rparr>)))))"

subsection \<open>GPU utilization\<close>

definition MAX_PIDS :: nat where "MAX_PIDS = 1024"

definition GET_VALID_VALUE :: "u32 \<Rightarrow> u32" where
  "GET_VALID_VALUE x = (if x \<le> 100 then x else 0)"

definition CODEC_NORMALIZE :: "int \<Rightarrow> int c_result" where
  "CODEC_NORMALIZE x = c_bind (c_mul x 85) (\<lambda>y. c_div y 100)"

record gpu_sample =
  timeStamp :: u64
  smUtil :: u32
  encUtil :: u32
  decUtil :: u32

text \<open>
  What the NVML calls of one round leave behind: the status of the handle lookup, the time of
  day, and the sample count and sample array after \<open>nvmlDeviceGetProcessUtilization\<close>. The
  statuses of the other two calls are only logged.
\<close>

record nvml_reply =
  handle_ret :: nvmlReturn
  tv_sec :: int
  tv_usec :: int
  processes_num :: int
  processes_sample :: "gpu_sample list"

definition checktime_of :: "nvml_reply \<Rightarrow> u64" where
  "checktime_of r = word_of_int (tv_sec r - 1) * 1000 * 1000 + word_of_int (tv_usec r)"

text \<open>The body of the loop for one sample: the accumulated load grows only by recent samples.\<close>

definition gpu_sample_step :: "u64 \<Rightarrow> gpu_sample \<Rightarrow> u32 \<Rightarrow> u32 c_result" where
  "gpu_sample_step checktime s acc =
     (if timeStamp s \<ge> checktime
      then c_bind (CODEC_NORMALIZE (int_of_u32
                     (GET_VALID_VALUE (encUtil s) + GET_VALID_VALUE (decUtil s))))
             (\<lambda>codec. Inr (acc + GET_VALID_VALUE (smUtil s) + u32_of_int codec))
      else Inr acc)"

fun gpu_uti_loop :: "u64 \<Rightarrow> gpu_sample list \<Rightarrow> nat \<Rightarrow> nat \<Rightarrow> u32 \<Rightarrow> u32 c_result" where
  "gpu_uti_loop checktime samples i 0 acc = Inr acc"
| "gpu_uti_loop checktime samples i (Suc k) acc =
     (if i < length samples
      then c_bind (gpu_sample_step checktime (samples ! i) acc)
             (\<lambda>acc'. gpu_uti_loop checktime samples (Suc i) k acc')
      else Inl Out_Of_Bounds)"

definition get_gpu_uti :: "nvml_reply \<Rightarrow> u32 c_result" where
  "get_gpu_uti r =
     (if handle_ret r \<noteq> NVML_SUCCESS then Inl (Exited 1)
      else gpu_uti_loop (checktime_of r) (processes_sample r) 0 (nat (processes_num r)) 0)"

subsection \<open>MLU queries that grow their buffer\<close>

text \<open>
  \<open>get_mlu_uti\<close> and \<open>get_mlu_mem\<close> ask for a list of processes and ask again with a larger
  buffer while the driver answers \<open>CNDEV_ERROR_INSUFFICIENT_SPACE\<close>. A driver is a function of
  the number of the call and of the buffer's capacity; it returns the status, the count it
  stores back and the contents of the buffer. \<open>None\<close> is a loop that never ends.
\<close>

type_synonym 'e query = "nat \<Rightarrow> u32 \<Rightarrow> cndevRet \<times> u32 \<times> 'e list"

partial_function (option) query_retry ::
    "'e query \<Rightarrow> nat \<Rightarrow> cndevRet \<times> u32 \<times> 'e list \<Rightarrow> (cndevRet \<times> u32 \<times> 'e list) option" where
  "query_retry drv k reply =
     (if fst reply = CNDEV_ERROR_INSUFFICIENT_SPACE
      then query_retry drv (Suc k) (drv (Suc k) (fst (snd reply)))
      else Some reply)"

text \<open>The summing loop: \<open>for (i = 0; i < pCount; i++) total += (buf + i)->field\<close>.\<close>

fun sum_loop :: "('e \<Rightarrow> 'w::len word) \<Rightarrow> 'e list \<Rightarrow> nat \<Rightarrow> nat \<Rightarrow> 'w word \<Rightarrow> 'w word c_result" where
  "sum_loop field buf i 0 acc = Inr acc"
| "sum_loop field buf i (Suc k) acc =
     (if i < length buf then sum_loop field buf (Suc i) k (acc + field (buf ! i))
      else Inl Out_Of_Bounds)"

definition get_mlu_uti ::
    "(cndevRet \<Rightarrow> unit c_result) \<Rightarrow> cndevRet \<Rightarrow> u32 query \<Rightarrow> u32 c_result option" where
  "get_mlu_uti check dev_uti_ret drv =
     (case check dev_uti_ret of
        Inl e \<Rightarrow> Some (Inl e)
      | Inr _ \<Rightarrow>
          (let reply = drv 0 10 in
           if fst reply = CNDEV_ERROR_NOT_SUPPORTED then Some (Inr 0)
           else Option.bind (query_retry drv 0 reply) (\<lambda>(ret, pCount, procUtil).
             Some (c_bind (check ret) (\<lambda>_.
               sum_loop (\<lambda>ipuUtil. ipuUtil) procUtil 0 (unat pCount) 0)))))"

definition get_mlu_mem :: "(cndevRet \<Rightarrow> unit c_result) \<Rightarrow> u64 query \<Rightarrow> u64 c_result option" where
  "get_mlu_mem check drv =
     Option.bind (query_retry drv 0 (drv 0 10)) (\<lambda>(ret, tCount, procInfo).
       Some (c_bind (check ret) (\<lambda>_.
         sum_loop (\<lambda>physicalMemoryUsed. physicalMemoryUsed) procInfo 0 (unat tCount) 0)))"

text \<open>\<open>get_uti\<close> dispatches on the device name and exits with status 0 on any other name.\<close>

definition get_uti :: "u32 c_result \<Rightarrow> u32 c_result \<Rightarrow> string \<Rightarrow> u32 c_result" where
  "get_uti mlu_uti gpu_uti device =
     (if device = ''mlu'' then mlu_uti
      else if device = ''gpu'' then gpu_uti
      else Inl (Exited 0))"


subsection \<open>Device initialisation: results\<close>

lemma fatal_unless_Inr [simp]: "fatal_unless ok = Inr u \<longleftrightarrow> ok"
  by (simp add: fatal_unless_def)

lemma fatal_unless_simps [simp]:
  "fatal_unless True = Inr ()" "fatal_unless False = Inl (Exited (- 1))"
  by (simp_all add: fatal_unless_def)

text \<open>
  The device geometry a successful initialisation establishes: the bucket size of the token
  bucket is 32 times the number of resident threads (GPU) or of core threads (MLU).
\<close>

definition gpu_ready :: "'a monitor_state_scheme \<Rightarrow> bool" where
  "gpu_ready m \<longleftrightarrow> total_gpu_cores m = sm_num m * max_thread_per_sm m * 32
     \<and> in_int (total_gpu_cores m)"

definition mlu_ready :: "'a monitor_state_scheme \<Rightarrow> bool" where
  "mlu_ready m \<longleftrightarrow> total_mlu_cores m = card_core_count m * card_thread_pre_core m * 32
     \<and> in_int (total_mlu_cores m)"

lemma monitor_init_ready: "gpu_ready monitor_init" "mlu_ready monitor_init"
  by (simp_all add: gpu_ready_def mlu_ready_def monitor_init_def)

lemma initCudev_frame:
  assumes "initCudev p m = Inr m'"
  shows "card_core_count m' = card_core_count m" "total_mlu_cores m' = total_mlu_cores m"
    "card_thread_pre_core m' = card_thread_pre_core m"
  using assms by (auto simp: initCudev_def c_bind_eq_Inr split: if_splits prod.splits)

lemma initCndev_frame:
  assumes "initCndev check p m = Inr m'"
  shows "sm_num m' = sm_num m" "max_thread_per_sm m' = max_thread_per_sm m"
    "total_gpu_cores m' = total_gpu_cores m" "card_thread_pre_core m' = card_thread_pre_core m"
  using assms by (auto simp: initCndev_def c_bind_eq_Inr split: if_splits)

lemma initCudev_ready:
  assumes "gpu_ready m" and "initCudev p m = Inr m'"
  shows "gpu_ready m'"
  using assms
  by (auto simp: initCudev_def gpu_ready_def c_bind_eq_Inr c_op_Inr split: if_splits prod.splits)

lemma initCndev_ready:
  assumes "initCndev check p m = Inr m'"
  shows "mlu_ready m'"
  using assms by (auto simp: initCndev_def mlu_ready_def c_bind_eq_Inr c_op_Inr split: if_splits)

subsection \<open>GPU utilization: the sum of the recent loads\<close>

definition valid_percent :: "u32 \<Rightarrow> nat" where
  "valid_percent x = (if unat x \<le> 100 then unat x else 0)"

definition sample_load :: "u64 \<Rightarrow> gpu_sample \<Rightarrow> nat" where
  "sample_load checktime s =
     (if timeStamp s \<ge> checktime
      then valid_percent (smUtil s)
           + (valid_percent (encUtil s) + valid_percent (decUtil s)) * 85 div 100
      else 0)"

lemma valid_percent_le: "valid_percent x \<le> 100"
  by (simp add: valid_percent_def)

lemma GET_VALID_VALUE_unat: "GET_VALID_VALUE x = of_nat (valid_percent x)"
  by (simp add: GET_VALID_VALUE_def valid_percent_def word_le_nat_alt)

lemma sample_load_le: "sample_load checktime s \<le> 270"
proof -
  have "valid_percent (encUtil s) + valid_percent (decUtil s) \<le> 200"
    using valid_percent_le [of "encUtil s"] valid_percent_le [of "decUtil s"] by linarith
  then have "(valid_percent (encUtil s) + valid_percent (decUtil s)) * 85 div 100 \<le> 200 * 85 div 100"
    by (intro div_le_mono mult_le_mono1)
  with valid_percent_le [of "smUtil s"] show ?thesis
    by (simp add: sample_load_def)
qed

lemma CODEC_NORMALIZE_in_range:
  assumes "n \<le> 200"
  shows "CODEC_NORMALIZE (int n) = Inr (int (n * 85 div 100))"
proof -
  have "in_int (int n * 85)"
    using assms by (simp add: c_range)
  then have "c_mul (int n) 85 = Inr (int n * 85)"
    by (simp add: c_mul_Inr)
  moreover have "c_div (int n * 85) 100 = Inr (int n * 85 div 100)"
    using \<open>in_int (int n * 85)\<close> by (intro c_div_nonneg) simp_all
  ultimately show ?thesis
    by (simp add: CODEC_NORMALIZE_def zdiv_int)
qed

lemma int_of_u32_of_nat: "n < 2 ^ 31 \<Longrightarrow> int_of_u32 (of_nat n) = int n"
proof -
  assume n: "n < 2 ^ 31"
  then have "uint (of_nat n :: u32) = int n"
    by (simp add: unsigned_of_nat take_bit_nat_eq_self)
  then show ?thesis
    using n by (subst int_of_u32_small) simp_all
qed

lemma gpu_sample_step_load:
  "gpu_sample_step checktime s acc = Inr (acc + of_nat (sample_load checktime s))"
proof (cases "timeStamp s \<ge> checktime")
  case True
  define c where "c = valid_percent (encUtil s) + valid_percent (decUtil s)"
  have c: "c \<le> 200"
    using valid_percent_le [of "encUtil s"] valid_percent_le [of "decUtil s"]
    unfolding c_def by linarith
  have "GET_VALID_VALUE (encUtil s) + GET_VALID_VALUE (decUtil s) = of_nat c"
    by (simp add: GET_VALID_VALUE_unat c_def)
  then have "CODEC_NORMALIZE (int_of_u32
      (GET_VALID_VALUE (encUtil s) + GET_VALID_VALUE (decUtil s))) = Inr (int (c * 85 div 100))"
    using c by (simp add: int_of_u32_of_nat CODEC_NORMALIZE_in_range)
  moreover have "u32_of_int (int (c * 85 div 100)) = of_nat (c * 85 div 100)"
    by (simp add: u32_of_int_def)
  ultimately show ?thesis
    using True by (simp add: gpu_sample_step_def sample_load_def c_def GET_VALID_VALUE_unat)
qed (simp add: gpu_sample_step_def sample_load_def)

lemma gpu_uti_loop_sum:
  assumes "i + k \<le> length samples"
  shows "gpu_uti_loop checktime samples i k acc =
    Inr (acc + of_nat (sum_list (map (sample_load checktime) (take k (drop i samples)))))"
  using assms
proof (induction k arbitrary: i acc)
  case (Suc k)
  then have "i < length samples" by simp
  then have "take (Suc k) (drop i samples) = samples ! i # take k (drop (Suc i) samples)"
    by (simp add: Cons_nth_drop_Suc [symmetric])
  with Suc show ?case
    by (simp add: gpu_sample_step_load add.assoc)
qed simp

lemma gpu_uti_loop_overrun:
  assumes "i \<le> length samples" and "length samples < i + k"
  shows "gpu_uti_loop checktime samples i k acc = Inl Out_Of_Bounds"
  using assms
proof (induction k arbitrary: i acc)
  case (Suc k)
  show ?case
  proof (cases "i < length samples")
    case True
    with Suc show ?thesis by (simp add: gpu_sample_step_load)
  qed simp
qed simp

lemma sum_list_bound:
  fixes f :: "'a \<Rightarrow> nat"
  assumes "\<And>x. f x \<le> b"
  shows "sum_list (map f xs) \<le> b * length xs"
proof (induction xs)
  case (Cons x xs)
  with assms [of x] show ?case by simp
qed simp


text \<open>
  C36: One round of \<open>get_gpu_uti\<close> over \<open>n\<close> samples that fit the array returns the sum of the
  loads of the recent ones (valid SM percentage plus 85\% of the valid codec percentages),
  without wrap-around and at most 270 per sample. A status of the two later NVML calls plays
  no role.
\<close>

theorem get_gpu_uti_sum:
  assumes "handle_ret r = NVML_SUCCESS"
    and "nat (processes_num r) \<le> length (processes_sample r)"
    and "nat (processes_num r) \<le> MAX_PIDS"
  shows "\<exists>u. get_gpu_uti r = Inr u
    \<and> unat u = sum_list (map (sample_load (checktime_of r))
                 (take (nat (processes_num r)) (processes_sample r)))
    \<and> unat u \<le> 270 * nat (processes_num r)"
proof -
  let ?xs = "take (nat (processes_num r)) (processes_sample r)"
  let ?t = "sum_list (map (sample_load (checktime_of r)) ?xs)"
  have "?t \<le> 270 * length ?xs"
    by (rule sum_list_bound) (rule sample_load_le)
  then have t: "?t \<le> 270 * nat (processes_num r)"
    using assms(2) by simp
  then have "?t < 2 ^ 32"
    using assms(3) by (simp add: MAX_PIDS_def)
  then have "unat (of_nat ?t :: u32) = ?t"
    by (simp add: unsigned_of_nat take_bit_nat_eq_self)
  moreover have "get_gpu_uti r = Inr (of_nat ?t)"
    using assms(1,2) by (simp add: get_gpu_uti_def gpu_uti_loop_sum)
  ultimately show ?thesis
    using t by auto
qed

definition sample_reply :: nvml_reply where
  "sample_reply = \<lparr>handle_ret = NVML_SUCCESS, tv_sec = 2, tv_usec = 0, processes_num = 3,
     processes_sample =
       [\<lparr>timeStamp = 1000000, smUtil = 40, encUtil = 20, decUtil = 300\<rparr>,
        \<lparr>timeStamp = 999999, smUtil = 90, encUtil = 0, decUtil = 0\<rparr>,
        \<lparr>timeStamp = 1500000, smUtil = 10, encUtil = 0, decUtil = 0\<rparr>]\<rparr>"

theorem get_gpu_uti_sum_witness:
  "\<exists>u. get_gpu_uti sample_reply = Inr u \<and> unat u = 67"
proof -
  have "sum_list (map (sample_load (checktime_of sample_reply))
      (take (nat (processes_num sample_reply)) (processes_sample sample_reply))) = 67"
    by (simp add: sample_reply_def sample_load_def valid_percent_def checktime_of_def)
  moreover have "handle_ret sample_reply = NVML_SUCCESS"
    "nat (processes_num sample_reply) \<le> length (processes_sample sample_reply)"
    "nat (processes_num sample_reply) \<le> MAX_PIDS"
    by (simp_all add: sample_reply_def MAX_PIDS_def)
  ultimately show ?thesis
    using get_gpu_uti_sum [of sample_reply] by auto
qed

text \<open>
  NVML reports how many samples it has when the array is too small, and \<open>get_gpu_uti\<close>
  only logs that status: with more than \<open>MAX_PIDS\<close> reported samples the loop reads past the
  end of \<open>processes_sample\<close>.
\<close>

theorem get_gpu_uti_overrun:
  assumes "handle_ret r = NVML_SUCCESS"
    and "length (processes_sample r) = MAX_PIDS"
    and "int MAX_PIDS < processes_num r"
  shows "get_gpu_uti r = Inl Out_Of_Bounds"
  using assms by (simp add: get_gpu_uti_def gpu_uti_loop_overrun)

definition busy_reply :: nvml_reply where
  "busy_reply = \<lparr>handle_ret = NVML_SUCCESS, tv_sec = 2, tv_usec = 0, processes_num = 1025,
     processes_sample = replicate MAX_PIDS
       \<lparr>timeStamp = 1000000, smUtil = 1, encUtil = 0, decUtil = 0\<rparr>\<rparr>"

theorem get_gpu_uti_overrun_witness: "get_gpu_uti busy_reply = Inl Out_Of_Bounds"
proof (rule get_gpu_uti_overrun)
  show "handle_ret busy_reply = NVML_SUCCESS"
    and "length (processes_sample busy_reply) = MAX_PIDS"
    by (simp_all add: busy_reply_def)
  have "processes_num busy_reply = 1025"
    by (simp add: busy_reply_def)
  then show "int MAX_PIDS < processes_num busy_reply"
    by (simp add: MAX_PIDS_def)
qed

subsection \<open>MLU queries: termination and the summed total\<close>

text \<open>
  The documented protocol of the CNDEV queries: the count stored back is the number of
  processes; when it fits the capacity the call succeeds and the buffer has the capacity's
  length, when it does not the status is \<open>CNDEV_ERROR_INSUFFICIENT_SPACE\<close>. The number of
  processes may change from call to call.
\<close>

definition reports_need :: "'e query \<Rightarrow> bool" where
  "reports_need drv \<longleftrightarrow> (\<forall>k cap. case drv k cap of (ret, n, buf) \<Rightarrow>
     (n \<le> cap \<longrightarrow> ret = CNDEV_SUCCESS \<and> length buf = unat cap) \<and>
     (cap < n \<longrightarrow> ret = CNDEV_ERROR_INSUFFICIENT_SPACE))"

lemma reports_needD:
  assumes "reports_need drv" and "drv k cap = (ret, n, buf)"
  shows "n \<le> cap \<Longrightarrow> ret = CNDEV_SUCCESS" "n \<le> cap \<Longrightarrow> length buf = unat cap"
    "cap < n \<Longrightarrow> ret = CNDEV_ERROR_INSUFFICIENT_SPACE"
proof -
  have "case drv k cap of (ret, n, buf) \<Rightarrow>
     (n \<le> cap \<longrightarrow> ret = CNDEV_SUCCESS \<and> length buf = unat cap) \<and>
     (cap < n \<longrightarrow> ret = CNDEV_ERROR_INSUFFICIENT_SPACE)"
    using assms(1) by (simp add: reports_need_def)
  then show "n \<le> cap \<Longrightarrow> ret = CNDEV_SUCCESS" "n \<le> cap \<Longrightarrow> length buf = unat cap"
    "cap < n \<Longrightarrow> ret = CNDEV_ERROR_INSUFFICIENT_SPACE"
    using assms(2) by simp_all
qed

lemma query_retry_returns:
  assumes "reports_need drv"
  shows "\<exists>k' cap' n buf. query_retry drv k (drv k cap) = Some (CNDEV_SUCCESS, n, buf)
    \<and> drv k' cap' = (CNDEV_SUCCESS, n, buf) \<and> unat n \<le> length buf"
proof (induction "2 ^ 32 - unat cap" arbitrary: k cap rule: less_induct)
  case less
  obtain ret n buf where d: "drv k cap = (ret, n, buf)" by (cases "drv k cap")
  show ?case
  proof (cases "n \<le> cap")
    case True
    with reports_needD [OF assms d] d show ?thesis
      by (subst query_retry.simps) (force simp: word_le_nat_alt)
  next
    case False
    then have lt: "unat cap < unat n" by (simp add: word_le_nat_alt)
    moreover have "unat n < 2 ^ 32"
      using unsigned_less [of n] by simp
    ultimately have "2 ^ 32 - unat n < 2 ^ 32 - unat cap" by linarith
    from less [OF this, of "Suc k"] show ?thesis
      using False reports_needD(3) [OF assms d] d by (subst query_retry.simps) simp
  qed
qed

lemma sum_loop_sum:
  assumes "i + k \<le> length buf"
  shows "sum_loop field buf i k acc = Inr (acc + sum_list (map field (take k (drop i buf))))"
  using assms
proof (induction k arbitrary: i acc)
  case (Suc k)
  then have "take (Suc k) (drop i buf) = buf ! i # take k (drop (Suc i) buf)"
    by (simp add: Cons_nth_drop_Suc [symmetric])
  with Suc show ?case by (simp add: add.assoc)
qed simp

text \<open>
  C37: Under the driver's protocol \<open>get_mlu_mem\<close> returns, however the number of processes
  changes between calls: its buffer never shrinks below a request and 32-bit counts are
  bounded. Its result is the sum of the memory of every process one answer lists.
\<close>

theorem get_mlu_mem_total:
  assumes "reports_need drv" and "check CNDEV_SUCCESS = Inr ()"
  shows "\<exists>k cap n buf. drv k cap = (CNDEV_SUCCESS, n, buf) \<and> unat n \<le> length buf
    \<and> get_mlu_mem check drv = Some (Inr (sum_list (take (unat n) buf)))"
proof -
  obtain k cap n buf where "query_retry drv 0 (drv 0 10) = Some (CNDEV_SUCCESS, n, buf)"
    and "drv k cap = (CNDEV_SUCCESS, n, buf)" and "unat n \<le> length buf"
    using query_retry_returns [OF assms(1)] by blast
  then show ?thesis
    using assms(2) by (auto simp: get_mlu_mem_def sum_loop_sum)
qed

definition three_then_many :: "'e \<Rightarrow> 'e query" where
  "three_then_many x k cap =
     (let n = (if k = 0 then 11 else 3 :: u32) in
      if n \<le> cap then (CNDEV_SUCCESS, n, replicate (unat cap) x)
      else (CNDEV_ERROR_INSUFFICIENT_SPACE, n, replicate (unat cap) x))"

lemma three_then_many_protocol: "reports_need (three_then_many x)"
  by (auto simp: reports_need_def three_then_many_def Let_def split: prod.splits)

theorem get_mlu_mem_total_witness:
  "\<exists>k cap n buf. three_then_many (7 :: u64) k cap = (CNDEV_SUCCESS, n, buf) \<and> unat n \<le> length buf
    \<and> get_mlu_mem (\<lambda>_. Inr ()) (three_then_many 7) = Some (Inr (sum_list (take (unat n) buf)))"
  by (rule get_mlu_mem_total [OF three_then_many_protocol refl])

text \<open>
  A driver that keeps answering \<open>CNDEV_ERROR_INSUFFICIENT_SPACE\<close> keeps the loop of
  \<open>get_mlu_mem\<close> running for ever: the loop has no bound of its own, so every allocation that
  asks for the used memory hangs.
\<close>

theorem get_mlu_mem_diverges:
  assumes "\<And>k cap. fst (drv k cap) = CNDEV_ERROR_INSUFFICIENT_SPACE"
  shows "get_mlu_mem check drv = None"
proof -
  have no: "d = drv \<longrightarrow> fst r \<noteq> CNDEV_ERROR_INSUFFICIENT_SPACE"
    if ret: "query_retry d k r = Some y" for d k r y
  proof (rule query_retry.raw_induct
      [where P = "\<lambda>d k r y. d = drv \<longrightarrow> fst r \<noteq> CNDEV_ERROR_INSUFFICIENT_SPACE", OF _ ret])
    fix f d k r y
    assume IH: "\<And>d k r y. f d k r = Some y \<Longrightarrow> d = drv \<longrightarrow> fst r \<noteq> CNDEV_ERROR_INSUFFICIENT_SPACE"
      and step: "(if fst r = CNDEV_ERROR_INSUFFICIENT_SPACE
        then f d (Suc k) (d (Suc k) (fst (snd r))) else Some r) = Some y"
    show "d = drv \<longrightarrow> fst r \<noteq> CNDEV_ERROR_INSUFFICIENT_SPACE"
      using step assms IH [of d "Suc k" "d (Suc k) (fst (snd r))" y] by auto
  qed
  have "query_retry drv 0 (drv 0 10) = None"
    using assms [of 0 10] no [of drv 0 "drv 0 10"] by (metis option.exhaust)
  then show ?thesis
    by (simp add: get_mlu_mem_def)
qed

theorem get_mlu_mem_diverges_witness:
  "get_mlu_mem (\<lambda>_. Inr ()) (\<lambda>k cap. (CNDEV_ERROR_INSUFFICIENT_SPACE, 0, [])) = None"
  by (rule get_mlu_mem_diverges) simp

end
