(* ===== verification/Core_Controller.thy ===== *)
theory Core_Controller
  imports Device_Monitor
begin

text \<open>
  The compute controller, \<open>core/controller/pc_alg.c\<close>: the token bucket \<open>cur_cores\<close>, the share
  \<open>delta_for_mlu\<close> or \<open>delta_for_gpu\<close> computes from the measured load, the refill
  \<open>change_token\<close>, the admission \<open>rate_limiter\<close> and the loop of \<open>source_control\<close>. This theory
  runs them one after the other; \<open>Limiter_Concurrency\<close> interleaves their reads and
  compare-and-swaps.
\<close>

record controller_state = monitor_state +
  cur_cores :: int
  total_cores :: int

definition controller_init :: controller_state where
  "controller_init =
     monitor_state.extend monitor_init \<lparr>cur_cores = 0, total_cores = 0\<rparr>"

subsection \<open>The share\<close>

text \<open>The four statements \<open>delta_for_mlu\<close> and \<open>delta_for_gpu\<close> are made of.\<close>

definition utilization_diff :: "int \<Rightarrow> int \<Rightarrow> int c_result" where
  "utilization_diff up_limit user_current =
     c_bind (c_sub up_limit user_current) (\<lambda>d.
     c_bind (c_abs d) (\<lambda>a. Inr (if a < 5 then 5 else a)))"

definition mlu_increment :: "'a monitor_state_scheme \<Rightarrow> int \<Rightarrow> int c_result" where
  "mlu_increment s diff =
     c_bind (c_mul (card_core_count s) (card_core_count s)) (\<lambda>a.
     c_bind (c_mul a (card_thread_pre_core s)) (\<lambda>b.
     c_bind (c_mul b diff) (\<lambda>c. c_div c 256)))"

definition gpu_increment :: "'a monitor_state_scheme \<Rightarrow> int \<Rightarrow> int c_result" where
  "gpu_increment s diff =
     c_bind (c_mul (sm_num s) (sm_num s)) (\<lambda>a.
     c_bind (c_mul a (max_thread_per_sm s)) (\<lambda>b.
     c_bind (c_mul b diff) (\<lambda>c. c_div c 2560)))"

definition boost_increment :: "int \<Rightarrow> int \<Rightarrow> int \<Rightarrow> int c_result" where
  "boost_increment up_limit diff increment =
     c_bind (c_div up_limit 2) (\<lambda>half.
     if diff > half
     then c_bind (c_mul increment diff) (\<lambda>a.
          c_bind (c_mul a 2) (\<lambda>b.
          c_bind (c_add up_limit 1) (\<lambda>d. c_div b d)))
     else Inr increment)"

definition adjust_share :: "int \<Rightarrow> int \<Rightarrow> int \<Rightarrow> int \<Rightarrow> int \<Rightarrow> int c_result" where
  "adjust_share tot up_limit user_current share increment =
     (if user_current \<le> up_limit
      then c_bind (c_add share increment) (\<lambda>v. Inr (if v > tot then tot else v))
      else c_bind (c_sub share increment) (\<lambda>v. Inr (if v < 0 then 0 else v)))"

definition delta_for_mlu :: "controller_state \<Rightarrow> int \<Rightarrow> int \<Rightarrow> int \<Rightarrow> int c_result" where
  "delta_for_mlu s up_limit user_current share =
     c_bind (utilization_diff up_limit user_current) (\<lambda>diff.
     c_bind (mlu_increment s diff) (\<lambda>increment.
     c_bind (boost_increment up_limit diff increment) (\<lambda>increment'.
       adjust_share (total_cores s) up_limit user_current share increment')))"

definition delta_for_gpu :: "controller_state \<Rightarrow> int \<Rightarrow> int \<Rightarrow> int \<Rightarrow> int c_result" where
  "delta_for_gpu s up_limit user_current share =
     c_bind (utilization_diff up_limit user_current) (\<lambda>diff.
     c_bind (gpu_increment s diff) (\<lambda>increment.
     c_bind (boost_increment up_limit diff increment) (\<lambda>increment'.
       adjust_share (total_cores s) up_limit user_current share increment')))"

subsection \<open>The bucket\<close>

text \<open>The value \<open>change_token\<close> and \<open>rate_limiter\<close> try to store, from the value they read.\<close>

definition cores_after :: "int \<Rightarrow> int \<Rightarrow> int \<Rightarrow> int c_result" where
  "cores_after tot before delta =
     c_bind (c_add before delta) (\<lambda>v. Inr (if v > tot then tot else v))"

definition after_cores :: "int \<Rightarrow> int \<Rightarrow> int c_result" where
  "after_cores before kernel_size = c_sub before kernel_size"

text \<open>\<open>__sync_bool_compare_and_swap\<close>: the success flag and the new value of the cell.\<close>

definition CAS :: "int \<Rightarrow> int \<Rightarrow> int \<Rightarrow> bool \<times> int" where
  "CAS cell old new = (if cell = old then (True, new) else (False, cell))"

definition change_token :: "controller_state \<Rightarrow> int \<Rightarrow> controller_state c_result" where
  "change_token s delta =
     c_bind (cores_after (total_cores s) (cur_cores s) delta) (\<lambda>after.
       Inr (s\<lparr>cur_cores := snd (CAS (cur_cores s) (cur_cores s) after)\<rparr>))"

text \<open>
  \<open>rate_limiter\<close> sleeps while the bucket is negative. Run alone it can only wait for the
  controller: \<open>None\<close> is a call that is still waiting.
\<close>

definition rate_limiter ::
    "controller_state \<Rightarrow> int \<Rightarrow> int \<Rightarrow> controller_state c_result option" where
  "rate_limiter s grids blocks =
     (let kernel_size = grids; before = cur_cores s in
      if before < 0 then None
      else Some (c_bind (after_cores before kernel_size) (\<lambda>after.
             Inr (s\<lparr>cur_cores := snd (CAS (cur_cores s) before after)\<rparr>))))"

subsection \<open>The control loop\<close>

text \<open>
  \<open>source_control\<close> up to its loop: the limit it copies from the configuration, the share 0 and
  the device initialisation, which is an argument.
\<close>

definition source_control_start ::
    "(controller_state \<Rightarrow> controller_state c_result) \<Rightarrow> (controller_state \<Rightarrow> controller_state c_result)
     \<Rightarrow> string \<Rightarrow> controller_state \<Rightarrow> (controller_state \<times> int) c_result" where
  "source_control_start init_cndev init_cudev accelerator s =
     (if accelerator = ''mlu''
      then c_bind (init_cndev s) (\<lambda>s'. Inr (s'\<lparr>total_cores := total_mlu_cores s'\<rparr>, 0))
      else c_bind (init_cudev s) (\<lambda>s'. Inr (s'\<lparr>total_cores := total_gpu_cores s'\<rparr>, 0)))"

text \<open>
  The two branches of the loop differ only in the share function. The measured load is
  unsigned, so it is compared with \<open>yaml_limit / 10\<close> as unsigned numbers, and passed on as an
  \<open>int\<close>. Below a tenth of the limit the bucket is overwritten and the share kept; otherwise the
  share moves and is added to the bucket.
\<close>

definition control_branch ::
    "(controller_state \<Rightarrow> int \<Rightarrow> int \<Rightarrow> int \<Rightarrow> int c_result) \<Rightarrow> int \<Rightarrow> u32
     \<Rightarrow> controller_state \<times> int \<Rightarrow> (controller_state \<times> int) c_result" where
  "control_branch delta yaml_limit uti = (\<lambda>(s, share).
     c_bind (c_div yaml_limit 10) (\<lambda>tenth.
     if uti < u32_of_int tenth
     then c_bind (delta s yaml_limit (int_of_u32 uti) share) (\<lambda>v.
            Inr (s\<lparr>cur_cores := v\<rparr>, share))
     else c_bind (delta s yaml_limit (int_of_u32 uti) share) (\<lambda>share'.
          c_bind (change_token s share') (\<lambda>s'. Inr (s', share')))))"

definition control_iteration ::
    "string \<Rightarrow> int \<Rightarrow> u32 c_result
     \<Rightarrow> controller_state \<times> int \<Rightarrow> (controller_state \<times> int) c_result" where
  "control_iteration accelerator yaml_limit uti c =
     (if accelerator = ''mlu''
      then c_bind uti (\<lambda>u. control_branch delta_for_mlu yaml_limit u c)
      else if accelerator = ''gpu''
      then c_bind uti (\<lambda>u. control_branch delta_for_gpu yaml_limit u c)
      else c_bind (change_token (fst c) (snd c)) (\<lambda>s'. Inr (s', snd c)))"

text \<open>The loop over the loads measured in its first rounds.\<close>

fun control_run ::
    "string \<Rightarrow> int \<Rightarrow> u32 list \<Rightarrow> controller_state \<times> int \<Rightarrow> (controller_state \<times> int) c_result" where
  "control_run accelerator yaml_limit [] c = Inr c"
| "control_run accelerator yaml_limit (u # us) c =
     c_bind (control_iteration accelerator yaml_limit (Inr u) c)
       (control_run accelerator yaml_limit us)"


text \<open>The same loop for one branch: what \<open>control_run\<close> is for either device.\<close>

fun branch_run ::
    "(controller_state \<Rightarrow> int \<Rightarrow> int \<Rightarrow> int \<Rightarrow> int c_result) \<Rightarrow> int \<Rightarrow> u32 list
     \<Rightarrow> controller_state \<times> int \<Rightarrow> (controller_state \<times> int) c_result" where
  "branch_run delta yaml_limit [] c = Inr c"
| "branch_run delta yaml_limit (u # us) c =
     c_bind (control_branch delta yaml_limit u c) (branch_run delta yaml_limit us)"

lemma control_run_mlu: "control_run ''mlu'' yaml us c = branch_run delta_for_mlu yaml us c"
  by (induction us arbitrary: c) (auto simp: control_iteration_def intro: c_bind_eqI)

lemma control_run_gpu: "control_run ''gpu'' yaml us c = branch_run delta_for_gpu yaml us c"
  by (induction us arbitrary: c) (auto simp: control_iteration_def intro: c_bind_eqI)

lemmas control_run_device = control_run_mlu control_run_gpu

subsection \<open>The interface of a share function\<close>

text \<open>
  What \<open>source_control\<close> relies on: the increment is computed from the geometry, the limit and
  the load alone and is not negative; at or below the limit the share rises by it up to the
  size of the bucket, above the limit it falls by it down to 0.
\<close>

locale share_policy =
  fixes delta :: "controller_state \<Rightarrow> int \<Rightarrow> int \<Rightarrow> int \<Rightarrow> int c_result"
    and inc :: "controller_state \<Rightarrow> int \<Rightarrow> int \<Rightarrow> int c_result"
    and good :: "controller_state \<Rightarrow> bool"
  assumes tot_range: "good s \<Longrightarrow> 0 \<le> total_cores s \<and> in_int (total_cores s)"
    and good_cur: "good (s\<lparr>cur_cores := c\<rparr>) = good s"
    and delta_cur: "delta (s\<lparr>cur_cores := c\<rparr>) = delta s"
    and inc_nonneg: "good s \<Longrightarrow> 0 \<le> up \<Longrightarrow> inc s up cur = Inr k \<Longrightarrow> 0 \<le> k \<and> in_int k"
    and delta_fault: "inc s up cur = Inl e \<Longrightarrow> delta s up cur share = Inl e"
    and delta_adjust: "inc s up cur = Inr k \<Longrightarrow>
          delta s up cur share = adjust_share (total_cores s) up cur share k"
begin

lemma delta_InrE:
  assumes "delta s up cur share = Inr v"
  obtains k where "inc s up cur = Inr k" and "adjust_share (total_cores s) up cur share k = Inr v"
  using assms delta_fault delta_adjust by (cases "inc s up cur") auto

lemma delta_bounds:
  assumes "good s" "0 \<le> up" "0 \<le> share" "share \<le> total_cores s" "delta s up cur share = Inr v"
  shows "0 \<le> v \<and> v \<le> total_cores s"
proof -
  from assms(5) obtain k where "inc s up cur = Inr k"
    and "adjust_share (total_cores s) up cur share k = Inr v"
    by (rule delta_InrE)
  moreover from this(1) have "0 \<le> k"
    using inc_nonneg assms(1,2) by blast
  ultimately show ?thesis
    using assms(3,4) tot_range [OF assms(1)]
    by (auto simp: adjust_share_def c_bind_eq_Inr c_op_Inr split: if_splits)
qed

lemma delta_direction:
  assumes "good s" "0 \<le> up" "0 \<le> share" "share \<le> total_cores s" "delta s up cur share = Inr v"
  shows "cur \<le> up \<Longrightarrow> share \<le> v" and "up < cur \<Longrightarrow> v \<le> share"
proof -
  from assms(5) obtain k where "inc s up cur = Inr k"
    and adj: "adjust_share (total_cores s) up cur share k = Inr v"
    by (rule delta_InrE)
  then have k: "0 \<le> k"
    using inc_nonneg assms(1,2) by blast
  show "cur \<le> up \<Longrightarrow> share \<le> v"
    using adj k assms(3,4) by (auto simp: adjust_share_def c_bind_eq_Inr c_op_Inr split: if_splits)
  show "up < cur \<Longrightarrow> v \<le> share"
    using adj k assms(3,4) by (auto simp: adjust_share_def c_bind_eq_Inr c_op_Inr split: if_splits)
qed

lemma delta_lowers:
  assumes "good s" "0 \<le> up" "inc s up cur = Inr k" "up < cur" "0 \<le> share" "share \<le> total_cores s"
  shows "delta s up cur share = Inr (max 0 (share - k))"
proof -
  have "0 \<le> k" and "in_int k"
    using inc_nonneg [OF assms(1-3)] by auto
  moreover have "in_int (total_cores s)"
    using tot_range [OF assms(1)] by simp
  ultimately have "in_int (share - k)"
    using assms(5,6) by (simp add: c_range)
  then show ?thesis
    using assms(4) by (simp add: delta_adjust [OF assms(3)] adjust_share_def c_sub_def c_int_def)
qed

lemma delta_raises:
  assumes "good s" "0 \<le> up" "inc s up cur = Inr k" "cur \<le> up" "0 \<le> share" "share \<le> total_cores s"
    and "in_int (total_cores s + k)"
  shows "delta s up cur share = Inr (min (total_cores s) (share + k))"
proof -
  have "0 \<le> k"
    using inc_nonneg [OF assms(1-3)] by auto
  then have "in_int (share + k)"
    using assms(5-7) by (simp add: c_range)
  then show ?thesis
    using assms(4)
    by (simp add: delta_adjust [OF assms(3)] adjust_share_def c_add_def c_int_def)
qed

text \<open>One round at or above a tenth of the limit moves the share and refills the bucket by it.\<close>

lemma branch_refills:
  assumes "good s" "0 \<le> up" "\<not> u < u32_of_int (up div 10)" "in_int up"
    and "delta s up (int_of_u32 u) share = Inr v" "0 \<le> v" "v \<le> total_cores s"
    and "cur_cores s \<le> total_cores s" "in_int (cur_cores s)" "in_int (2 * total_cores s)"
  shows "\<exists>s'. control_branch delta up u (s, share) = Inr (s', v)
    \<and> s' = s\<lparr>cur_cores := min (total_cores s) (cur_cores s + v)\<rparr>"
proof -
  have "c_div up 10 = Inr (up div 10)"
    using assms(2,4) by (intro c_div_nonneg) simp_all
  moreover have "in_int (cur_cores s + v)"
    using assms(6-10) by (simp add: c_range)
  ultimately show ?thesis
    using assms(3,5)
    by (auto simp: control_branch_def change_token_def cores_after_def CAS_def c_add_def c_int_def
        min_def)
qed

lemma branch_bounds:
  assumes "good s" "0 \<le> up" "0 \<le> share" "share \<le> total_cores s" "cur_cores s \<le> total_cores s"
    and "control_branch delta up u (s, share) = Inr (s', share')"
  shows "0 \<le> share' \<and> share' \<le> total_cores s \<and> cur_cores s' \<le> total_cores s
    \<and> s' = s\<lparr>cur_cores := cur_cores s'\<rparr>"
  using assms delta_bounds [OF assms(1-4), of "int_of_u32 u"]
  by (auto simp: control_branch_def change_token_def cores_after_def CAS_def c_bind_eq_Inr c_op_Inr
      split: if_splits)

lemma branch_rounds_lower:
  assumes "good s" "0 \<le> up" "in_int up" "\<not> u < u32_of_int (up div 10)" "up < int_of_u32 u"
    and "inc s up (int_of_u32 u) = Inr k" "in_int (2 * total_cores s)"
    and "0 \<le> share" "share \<le> total_cores s" "cur_cores s \<le> total_cores s" "in_int (cur_cores s)"
  shows "\<exists>c. control_branch delta up u (s, share) = Inr (s\<lparr>cur_cores := c\<rparr>, max 0 (share - k))
    \<and> c \<le> total_cores s \<and> in_int c"
proof -
  have d: "delta s up (int_of_u32 u) share = Inr (max 0 (share - k))"
    using assms by (intro delta_lowers)
  have "0 \<le> k"
    using inc_nonneg assms(1,2,6) by blast
  then have m: "max 0 (share - k) \<le> total_cores s"
    using assms(8,9) by simp
  have "in_int (min (total_cores s) (cur_cores s + max 0 (share - k)))"
    using assms(7,8,9,10,11) m by (auto simp: c_range min_def max_def)
  then show ?thesis
    using branch_refills [OF assms(1,2,4,3) d _ m assms(10,11,7)] by auto
qed

lemma run_bounds:
  assumes "branch_run delta up us (s, share) = Inr (s', share')"
    and "good s" "0 \<le> up" "0 \<le> share" "share \<le> total_cores s" "cur_cores s \<le> total_cores s"
  shows "0 \<le> share' \<and> share' \<le> total_cores s \<and> cur_cores s' \<le> total_cores s
    \<and> s' = s\<lparr>cur_cores := cur_cores s'\<rparr>"
  using assms
proof (induction us arbitrary: s share)
  case (Cons u us)
  then obtain s1 share1 where b: "control_branch delta up u (s, share) = Inr (s1, share1)"
    and r: "branch_run delta up us (s1, share1) = Inr (s', share')"
    by (auto simp: c_bind_eq_Inr)
  from branch_bounds [OF Cons.prems(2-6) b]
  have s1: "s1 = s\<lparr>cur_cores := cur_cores s1\<rparr>" and "0 \<le> share1" "share1 \<le> total_cores s"
    "cur_cores s1 \<le> total_cores s"
    by auto
  moreover from s1 have "total_cores s1 = total_cores s" "good s1"
    using Cons.prems(2) by (metis controller_state.select_convs(2) controller_state.simps(4)
        controller_state.surjective good_cur)+
  ultimately have "0 \<le> share' \<and> share' \<le> total_cores s1 \<and> cur_cores s' \<le> total_cores s1
    \<and> s' = s1\<lparr>cur_cores := cur_cores s'\<rparr>"
    using Cons.IH [OF r] Cons.prems(3) by simp
  moreover have "s1\<lparr>cur_cores := cur_cores s'\<rparr> = s\<lparr>cur_cores := cur_cores s'\<rparr>"
    using s1 by (metis controller_state.update_convs(1) controller_state.surjective)
  ultimately show ?case
    using \<open>total_cores s1 = total_cores s\<close> by simp
qed simp

lemma run_lowers:
  assumes "good s" "0 \<le> up" "in_int up" "\<not> u < u32_of_int (up div 10)" "up < int_of_u32 u"
    and "\<And>c. inc (s\<lparr>cur_cores := c\<rparr>) up (int_of_u32 u) = Inr k" "in_int (2 * total_cores s)"
    and "0 \<le> share" "share \<le> total_cores s" "cur_cores s \<le> total_cores s" "in_int (cur_cores s)"
  shows "\<exists>c. branch_run delta up (replicate n u) (s, share)
      = Inr (s\<lparr>cur_cores := c\<rparr>, max 0 (share - int n * k))
    \<and> c \<le> total_cores s \<and> in_int c"
  using assms
proof (induction n arbitrary: s share)
  case 0
  then show ?case by (intro exI [of _ "cur_cores s"]) simp
next
  case (Suc n)
  have "inc s up (int_of_u32 u) = Inr k"
    using Suc.prems(6) [of "cur_cores s"] by simp
  then obtain c where b: "control_branch delta up u (s, share)
      = Inr (s\<lparr>cur_cores := c\<rparr>, max 0 (share - k))" and c: "c \<le> total_cores s" "in_int c"
    using branch_rounds_lower [OF Suc.prems(1-5) _ Suc.prems(7-11)] by blast
  have "0 \<le> k"
    using inc_nonneg Suc.prems(1,2) \<open>inc s up (int_of_u32 u) = Inr k\<close> by blast
  moreover from this have "0 \<le> int n * k" by simp
  moreover have "int (Suc n) * k = k + int n * k" by (simp add: algebra_simps)
  ultimately have "max 0 (max 0 (share - k) - int n * k) = max 0 (share - int (Suc n) * k)"
    by linarith
  moreover have "max 0 (share - k) \<le> total_cores s"
    using Suc.prems(8,9) \<open>0 \<le> k\<close> by simp
  ultimately show ?case
    using Suc.IH [of "s\<lparr>cur_cores := c\<rparr>" "max 0 (share - k)"] Suc.prems c b good_cur
    by (simp add: algebra_simps)
qed

text \<open>With the limit 0 and a share of 0, a device that is busy gets no tokens.\<close>

lemma branch_limit_zero:
  assumes "good s" "cur_cores s \<le> total_cores s" "0 < int_of_u32 u"
    and "control_branch delta 0 u (s, 0) = Inr (s', share)"
  shows "s' = s \<and> share = 0"
proof -
  have "c_div 0 10 = Inr 0"
    by (simp add: c_arith)
  moreover have "\<not> u < u32_of_int 0"
    by (simp add: u32_of_int_def)
  ultimately obtain v where v: "delta s 0 (int_of_u32 u) 0 = Inr v"
    and t: "change_token s v = Inr s'" "share = v"
    using assms(4) by (auto simp: control_branch_def c_bind_eq_Inr)
  have "0 \<le> v"
    using delta_bounds [OF assms(1) _ _ _ v] tot_range [OF assms(1)] by simp
  moreover have "v \<le> 0"
    using delta_direction(2) [OF assms(1) _ _ _ v assms(3)] tot_range [OF assms(1)] by simp
  ultimately have "v = 0" by simp
  with t assms(2) show ?thesis
    by (auto simp: change_token_def cores_after_def CAS_def c_bind_eq_Inr c_op_Inr split: if_splits)
qed

lemma run_limit_zero:
  assumes "good s" "cur_cores s \<le> total_cores s" "\<forall>u \<in> set us. 0 < int_of_u32 u"
    and "branch_run delta 0 us (s, 0) = Inr (s', share)"
  shows "s' = s \<and> share = 0"
  using assms
proof (induction us)
  case (Cons u us)
  then obtain s1 share1 where b: "control_branch delta 0 u (s, 0) = Inr (s1, share1)"
    and r: "branch_run delta 0 us (s1, share1) = Inr (s', share)"
    by (auto simp: c_bind_eq_Inr)
  have "s1 = s \<and> share1 = 0"
    using branch_limit_zero [OF Cons.prems(1,2) _ b] Cons.prems(3) by simp
  with r Cons show ?case by simp
qed simp

end

text \<open>The increments of the two devices, and the geometries for which they are not negative.\<close>

definition mlu_inc :: "controller_state \<Rightarrow> int \<Rightarrow> int \<Rightarrow> int c_result" where
  "mlu_inc s up cur =
     c_bind (utilization_diff up cur) (\<lambda>diff.
     c_bind (mlu_increment s diff) (boost_increment up diff))"

definition gpu_inc :: "controller_state \<Rightarrow> int \<Rightarrow> int \<Rightarrow> int c_result" where
  "gpu_inc s up cur =
     c_bind (utilization_diff up cur) (\<lambda>diff.
     c_bind (gpu_increment s diff) (boost_increment up diff))"

definition good_mlu :: "controller_state \<Rightarrow> bool" where
  "good_mlu s \<longleftrightarrow> 0 \<le> card_thread_pre_core s \<and> 0 \<le> total_cores s \<and> in_int (total_cores s)"

definition good_gpu :: "controller_state \<Rightarrow> bool" where
  "good_gpu s \<longleftrightarrow> 0 \<le> max_thread_per_sm s \<and> 0 \<le> total_cores s \<and> in_int (total_cores s)"

lemma utilization_diff_range:
  "utilization_diff up cur = Inr d \<Longrightarrow> 5 \<le> d \<and> in_int d"
  by (auto simp: utilization_diff_def c_bind_eq_Inr c_op_Inr split: if_splits) (simp add: c_range)

lemma boost_increment_nonneg:
  assumes "boost_increment up diff k = Inr k'" and "0 \<le> up" "0 \<le> diff" "0 \<le> k" "in_int k"
  shows "0 \<le> k' \<and> in_int k'"
  using assms
  by (auto simp: boost_increment_def c_bind_eq_Inr c_op_Inr split: if_splits
      intro!: sdiv_nonneg_ge0)

lemma mlu_increment_nonneg:
  assumes "mlu_increment s diff = Inr k" and "0 \<le> card_thread_pre_core s" "0 \<le> diff"
  shows "0 \<le> k \<and> in_int k"
  using assms
  by (auto simp: mlu_increment_def c_bind_eq_Inr c_op_Inr intro!: sdiv_nonneg_ge0)

lemma gpu_increment_nonneg:
  assumes "gpu_increment s diff = Inr k" and "0 \<le> max_thread_per_sm s" "0 \<le> diff"
  shows "0 \<le> k \<and> in_int k"
  using assms
  by (auto simp: gpu_increment_def c_bind_eq_Inr c_op_Inr intro!: sdiv_nonneg_ge0)

interpretation mlu: share_policy delta_for_mlu mlu_inc good_mlu
proof unfold_locales
  fix s up cur k
  assume "good_mlu s" "0 \<le> up" "mlu_inc s up cur = Inr k"
  then obtain diff k0 where "utilization_diff up cur = Inr diff"
    and "mlu_increment s diff = Inr k0" and "boost_increment up diff k0 = Inr k"
    and "0 \<le> card_thread_pre_core s"
    by (auto simp: mlu_inc_def good_mlu_def c_bind_eq_Inr)
  then show "0 \<le> k \<and> in_int k"
    using utilization_diff_range mlu_increment_nonneg boost_increment_nonneg \<open>0 \<le> up\<close>
    by (metis order_trans zero_le_numeral)
qed (auto simp: good_mlu_def delta_for_mlu_def mlu_inc_def mlu_increment_def c_bind_eq_Inl
    c_bind_eq_Inr fun_eq_iff)

interpretation gpu: share_policy delta_for_gpu gpu_inc good_gpu
proof unfold_locales
  fix s up cur k
  assume "good_gpu s" "0 \<le> up" "gpu_inc s up cur = Inr k"
  then obtain diff k0 where "utilization_diff up cur = Inr diff"
    and "gpu_increment s diff = Inr k0" and "boost_increment up diff k0 = Inr k"
    and "0 \<le> max_thread_per_sm s"
    by (auto simp: gpu_inc_def good_gpu_def c_bind_eq_Inr)
  then show "0 \<le> k \<and> in_int k"
    using utilization_diff_range gpu_increment_nonneg boost_increment_nonneg \<open>0 \<le> up\<close>
    by (metis order_trans zero_le_numeral)
qed (auto simp: good_gpu_def delta_for_gpu_def gpu_inc_def gpu_increment_def c_bind_eq_Inl
    c_bind_eq_Inr fun_eq_iff)


subsection \<open>Properties of the share\<close>

text \<open>
  C7: \<open>delta_for_gpu\<close> keeps the share inside the bucket and moves it the right way: at or below
  the utilization limit it does not fall, above the limit it does not rise.
\<close>

theorem delta_for_gpu_in_bucket:
  assumes "good_gpu s" "0 \<le> up" "0 \<le> share" "share \<le> total_cores s"
    and "delta_for_gpu s up cur share = Inr v"
  shows "0 \<le> v \<and> v \<le> total_cores s
    \<and> (cur \<le> up \<longrightarrow> share \<le> v) \<and> (up < cur \<longrightarrow> v \<le> share)"
  using gpu.delta_bounds [OF assms] gpu.delta_direction [OF assms] by blast

definition t4_state :: controller_state where
  "t4_state = controller_init\<lparr>sm_num := 40, max_thread_per_sm := 1024,
     total_gpu_cores := 1310720, total_cores := 1310720\<rparr>"

lemmas t4_defs = t4_state_def controller_init_def monitor_init_def monitor_state.extend_def

lemma t4_good: "good_gpu t4_state"
  by (simp add: good_gpu_def t4_defs c_range)

lemma delta_for_gpu_t4: "delta_for_gpu t4_state 30 80 500000 = Inr 396775"
  by (simp add: delta_for_gpu_def utilization_diff_def gpu_increment_def boost_increment_def
      adjust_share_def t4_defs c_arith c_range)

theorem delta_for_gpu_in_bucket_witness:
  "delta_for_gpu t4_state 30 80 500000 = Inr 396775 \<and> 396775 \<le> total_cores t4_state
    \<and> (396775 :: int) \<le> 500000"
  using delta_for_gpu_in_bucket [OF t4_good _ _ _ delta_for_gpu_t4] delta_for_gpu_t4
  by (simp add: t4_defs)

text \<open>
  The same for \<open>delta_for_mlu\<close>: the share stays between 0 and the size of the bucket, does
  not fall at or below the limit and does not rise above it.
\<close>

theorem delta_for_mlu_in_bucket:
  assumes "good_mlu s" "0 \<le> up" "0 \<le> share" "share \<le> total_cores s"
    and "delta_for_mlu s up cur share = Inr v"
  shows "0 \<le> v \<and> v \<le> total_cores s
    \<and> (cur \<le> up \<longrightarrow> share \<le> v) \<and> (up < cur \<longrightarrow> v \<le> share)"
  using mlu.delta_bounds [OF assms] mlu.delta_direction [OF assms] by blast

definition mlu370_state :: controller_state where
  "mlu370_state = controller_init\<lparr>card_core_count := 24, total_mlu_cores := 196608,
     total_cores := 196608\<rparr>"

lemmas mlu370_defs = mlu370_state_def controller_init_def monitor_init_def monitor_state.extend_def

lemma mlu370_good: "good_mlu mlu370_state"
  by (simp add: good_mlu_def mlu370_defs c_range)

lemma delta_for_mlu_370: "delta_for_mlu mlu370_state 30 10 0 = Inr 14864"
  by (simp add: delta_for_mlu_def utilization_diff_def mlu_increment_def boost_increment_def
      adjust_share_def mlu370_defs c_arith c_range)

theorem delta_for_mlu_in_bucket_witness:
  "delta_for_mlu mlu370_state 30 10 0 = Inr 14864 \<and> 14864 \<le> total_cores mlu370_state
    \<and> (0 :: int) \<le> 14864"
  using delta_for_mlu_in_bucket [OF mlu370_good _ _ _ delta_for_mlu_370] delta_for_mlu_370
  by (simp add: mlu370_defs)


subsection \<open>Geometries without overflow\<close>

lemma utilization_diff_defined:
  assumes "0 \<le> up" "up \<le> 100" "0 \<le> cur" "cur \<le> 270"
  shows "\<exists>d. utilization_diff up cur = Inr d \<and> 5 \<le> d \<and> d \<le> 270"
  using assms by (auto simp: utilization_diff_def c_arith c_range)

lemma boost_increment_defined:
  assumes "0 \<le> up" "up \<le> 100" "5 \<le> diff" "0 \<le> k" "k * diff * 2 \<le> INT_MAX"
  shows "\<exists>k'. boost_increment up diff k = Inr k' \<and> 0 \<le> k' \<and> k' \<le> k * diff * 2"
proof -
  have kd: "0 \<le> k * diff" "k \<le> k * diff"
    using assms(3,4) by (auto simp: mult_le_cancel_left1)
  have "in_int x \<and> in_int (x * 2)" if "0 \<le> x" "x * 2 \<le> INT_MAX" for x :: int
    using that by (simp add: c_range)
  from this [OF kd(1) assms(5)]
  have r: "in_int (k * diff)" "in_int (k * diff * 2)" "in_int (up + 1)" "in_int up"
    using assms(1,2) by (simp_all add: c_range)
  have "c_div (k * diff * 2) (up + 1) = Inr (k * diff * 2 div (up + 1))"
    using assms kd r by (intro c_div_nonneg) simp_all
  moreover have "k * diff * 2 div (up + 1) \<le> k * diff * 2" "0 \<le> k * diff * 2 div (up + 1)"
    using assms(1) kd by (simp_all add: pos_imp_zdiv_nonneg_iff)
      (smt (verit) div_by_1 zdiv_mono2)
  moreover have "c_div up 2 = Inr (up div 2)"
    using assms r by (intro c_div_nonneg) simp_all
  ultimately show ?thesis
    using r kd assms by (auto simp: boost_increment_def c_mul_def c_add_def c_int_def)
qed

lemma adjust_share_defined:
  assumes "0 \<le> share" "0 \<le> k" "in_int (share + k)" "in_int k"
  shows "\<exists>v. adjust_share tot up cur share k = Inr v"
  using assms by (auto simp: adjust_share_def c_arith) (simp_all add: c_range)

text \<open>
  With at least one thread per multiprocessor, \<open>sm_num\<close> squared times
  \<open>max_thread_per_sm\<close> at most 7953643, a bucket of at most 2 to the 30, a percentage limit and
  a load up to 270, every operation of \<open>delta_for_gpu\<close> stays in \<open>int\<close>. The documented
  Tesla T4 (40 by 40 by 1024) meets the bound.
\<close>

theorem delta_for_gpu_defined:
  assumes "0 \<le> sm_num s" "1 \<le> max_thread_per_sm s"
    and "sm_num s * sm_num s * max_thread_per_sm s \<le> 7953643"
    and "0 \<le> up" "up \<le> 100" "0 \<le> cur" "cur \<le> 270"
    and "0 \<le> share" "share \<le> 1073741824"
  shows "\<exists>v. delta_for_gpu s up cur share = Inr v"
proof -
  let ?p = "sm_num s * sm_num s * max_thread_per_sm s"
  obtain d where d: "utilization_diff up cur = Inr d" "5 \<le> d" "d \<le> 270"
    using utilization_diff_defined assms by blast
  have sq: "0 \<le> sm_num s * sm_num s" "sm_num s * sm_num s \<le> ?p"
    using assms(1,2) by (auto simp: mult_le_cancel_left1)
  then have "0 \<le> ?p" by linarith
  then have pd: "?p * d \<le> 7953643 * 270" "0 \<le> ?p * d"
    using mult_mono [OF assms(3) d(3)] d by simp_all
  define k where "k = ?p * d div 2560"
  have k: "0 \<le> k" "k \<le> 838860"
    using pd by (auto simp: k_def pos_imp_zdiv_nonneg_iff)
  have "in_int (sm_num s * sm_num s)" "in_int ?p" "in_int (?p * d)"
  proof -
    have top: "in_int 2147483610" by (simp add: c_range)
    show "in_int (sm_num s * sm_num s)" using sq(1) _ top
      by (rule in_int_le) (use sq(2) assms(3) in linarith)
    show "in_int ?p" using \<open>0 \<le> ?p\<close> _ top by (rule in_int_le) (use assms(3) in linarith)
    show "in_int (?p * d)" using pd(2) _ top by (rule in_int_le) (use pd(1) in linarith)
  qed
  then have inc: "gpu_increment s d = Inr k"
    using pd by (simp add: gpu_increment_def c_mul_def c_int_def k_def c_div_nonneg)
  have "k * d \<le> 838860 * 270"
    using k d by (intro mult_mono) simp_all
  then obtain k' where "boost_increment up d k = Inr k'" "0 \<le> k'" "k' \<le> 838860 * 270 * 2"
    using boost_increment_defined [of up d k] assms d k by (fastforce simp: INT_MAX_def)
  then show ?thesis
    using adjust_share_defined [of share k' "total_cores s" up cur] assms d inc
    by (auto simp: delta_for_gpu_def c_range)
qed

theorem delta_for_gpu_defined_witness:
  "sm_num t4_state * sm_num t4_state * max_thread_per_sm t4_state \<le> 7953643
    \<and> (\<exists>v. delta_for_gpu t4_state 100 0 1310720 = Inr v)"
  using delta_for_gpu_defined [of t4_state 100 0 1310720] by (simp add: t4_defs)

text \<open>
  On an A100 (108 multiprocessors, 2048 threads each) the first product of
  \<open>delta_for_gpu\<close> overflows \<open>int\<close> as soon as the limit and the load are 90 apart, whatever
  the share: a container limited to 100\% that is idle gets an undefined share.
\<close>

theorem delta_for_gpu_a100_overflow:
  assumes "sm_num s = 108" "max_thread_per_sm s = 2048" and "90 \<le> \<bar>up - cur\<bar>" "\<bar>up - cur\<bar> \<le> INT_MAX"
  shows "delta_for_gpu s up cur share = Inl Int_Overflow"
proof -
  have "utilization_diff up cur = Inr \<bar>up - cur\<bar>"
    using assms(3,4) by (auto simp: utilization_diff_def c_arith c_range)
  moreover have "gpu_increment s \<bar>up - cur\<bar> = Inl Int_Overflow"
    using assms by (auto simp: gpu_increment_def c_arith c_range)
  ultimately show ?thesis
    by (simp add: delta_for_gpu_def)
qed

theorem delta_for_gpu_a100_overflow_witness:
  "delta_for_gpu (t4_state\<lparr>sm_num := 108, max_thread_per_sm := 2048\<rparr>) 100 0 0 = Inl Int_Overflow"
  by (rule delta_for_gpu_a100_overflow) (simp_all add: INT_MAX_def)

subsection \<open>Properties of the control loop\<close>

definition device_good :: "string \<Rightarrow> controller_state \<Rightarrow> bool" where
  "device_good accelerator s \<longleftrightarrow>
     (if accelerator = ''mlu'' then good_mlu s else good_gpu s)"

text \<open>
  C6: Through every run of the control loop, for either device and any measured loads, the
  share stays between 0 and the size of the bucket, the bucket never exceeds its size, and
  nothing but the bucket and the share changes.
\<close>

theorem control_run_invariant:
  assumes "control_run accelerator up us (s, share) = Inr (s', share')"
    and "accelerator = ''mlu'' \<or> accelerator = ''gpu''" and "device_good accelerator s"
    and "0 \<le> up" "0 \<le> share" "share \<le> total_cores s" "cur_cores s \<le> total_cores s"
  shows "0 \<le> share' \<and> share' \<le> total_cores s \<and> cur_cores s' \<le> total_cores s
    \<and> s' = s\<lparr>cur_cores := cur_cores s'\<rparr>"
  using assms mlu.run_bounds [of up us s share s' share'] gpu.run_bounds [of up us s share s' share']
  by (auto simp: control_run_device device_good_def)

lemma control_run_t4:
  "control_run ''gpu'' 30 [0, 80] (t4_state, 0) = Inr (t4_state\<lparr>cur_cores := 37161\<rparr>, 0)"
  by (simp add: control_iteration_def control_branch_def change_token_def cores_after_def CAS_def
      delta_for_gpu_def utilization_diff_def gpu_increment_def boost_increment_def u32_of_int_def
      int_of_u32_def adjust_share_def t4_defs c_arith c_range)

theorem control_run_invariant_witness:
  "(37161 :: int) \<le> total_cores t4_state"
  using control_run_invariant [OF control_run_t4]
  by (simp add: device_good_def t4_good) (simp add: t4_defs)

text \<open>
  A GPU that stays above its limit is throttled to nothing: after \<open>n\<close> rounds at the same
  load the share has fallen by exactly \<open>n\<close> increments, down to 0.
\<close>

theorem control_run_drains_gpu:
  assumes "good_gpu s" "0 \<le> up" "in_int up" "up < int_of_u32 u"
    and "gpu_inc s up (int_of_u32 u) = Inr k" "in_int (2 * total_cores s)"
    and "0 \<le> share" "share \<le> total_cores s" "cur_cores s \<le> total_cores s" "in_int (cur_cores s)"
  shows "\<exists>c. control_run ''gpu'' up (replicate n u) (s, share)
      = Inr (s\<lparr>cur_cores := c\<rparr>, max 0 (share - int n * k)) \<and> c \<le> total_cores s"
proof -
  have "gpu_inc (s\<lparr>cur_cores := c\<rparr>) up (int_of_u32 u) = Inr k" for c
    using assms(5) by (simp add: gpu_inc_def gpu_increment_def)
  from gpu.run_lowers [OF assms(1-3) not_less_tenth [OF assms(2,4)] assms(4) this assms(6-10)]
  show ?thesis
    unfolding control_run_gpu by blast
qed

theorem control_run_drains_gpu_witness:
  "\<exists>c. control_run ''gpu'' 30 (replicate 13 80) (t4_state, 1310720)
     = Inr (t4_state\<lparr>cur_cores := c\<rparr>, 0)"
proof -
  have "gpu_inc t4_state 30 (int_of_u32 80) = Inr 103225"
    by (simp add: gpu_inc_def utilization_diff_def gpu_increment_def boost_increment_def
        int_of_u32_def t4_defs c_arith c_range)
  moreover have "int_of_u32 80 = 80"
    by (simp add: int_of_u32_def)
  ultimately have "\<exists>c. control_run ''gpu'' 30 (replicate 13 80) (t4_state, 1310720)
      = Inr (t4_state\<lparr>cur_cores := c\<rparr>, max 0 (1310720 - int 13 * 103225)) \<and> c \<le> total_cores t4_state"
    by (intro control_run_drains_gpu [OF t4_good]) (simp_all add: t4_defs c_range)
  then show ?thesis by auto
qed

end
