(* ===== verification/Token_Bucket.thy ===== *)
theory Token_Bucket
  imports Core_Controller
begin

text \<open>
  The contract of the token bucket behind \<open>rate_limiter\<close>, \<open>change_token\<close> and the direct
  assignment of \<open>source_control\<close>: three atomic operations on a level, the bounds on the level
  and on the admitted work that follow from their laws alone, and the two machines that keep
  them: the abstract bucket the concurrent limiter refines, and the functions of
  \<open>Core_Controller\<close> called one after the other.
\<close>

datatype bucket_op = Take int | Put int | Overwrite int

subsection \<open>Work done by a sequence of operations\<close>

fun taken :: "bucket_op list \<Rightarrow> int" where
  "taken [] = 0"
| "taken (Take k # ops) = k + taken ops"
| "taken (_ # ops) = taken ops"

fun supplied :: "int \<Rightarrow> bucket_op list \<Rightarrow> int" where
  "supplied K [] = 0"
| "supplied K (Take k # ops) = supplied K ops"
| "supplied K (Put d # ops) = d + supplied K ops"
| "supplied K (Overwrite v # ops) = v + K + supplied K ops"

text \<open>
  Operations a well-behaved system performs on a bucket of size \<open>tot\<close>: kernels of size 0 to \<open>K\<close>,
  refills that are not negative, and assigned levels inside the bucket.
\<close>

fun op_within :: "int \<Rightarrow> int \<Rightarrow> bucket_op \<Rightarrow> bool" where
  "op_within K tot (Take k) \<longleftrightarrow> 0 \<le> k \<and> k \<le> K"
| "op_within K tot (Put d) \<longleftrightarrow> 0 \<le> d"
| "op_within K tot (Overwrite v) \<longleftrightarrow> 0 \<le> v \<and> v \<le> tot"

subsection \<open>The interface\<close>

locale token_bucket =
  fixes level :: "'s \<Rightarrow> int"
    and size_of :: "'s \<Rightarrow> int"
    and perform :: "'s \<Rightarrow> bucket_op \<Rightarrow> 's option"
  assumes perform_size: "perform s op = Some s' \<Longrightarrow> size_of s' = size_of s"
    and take_enabled: "perform s (Take k) = Some s' \<Longrightarrow> 0 \<le> level s"
    and take_level: "perform s (Take k) = Some s' \<Longrightarrow> level s' = level s - k"
    and put_level: "perform s (Put d) = Some s' \<Longrightarrow> level s' = min (size_of s) (level s + d)"
    and overwrite_level: "perform s (Overwrite v) = Some s' \<Longrightarrow> level s' = v"

text \<open>Runs of a machine that may refuse an operation.\<close>

fun perform_all :: "('s \<Rightarrow> bucket_op \<Rightarrow> 's option) \<Rightarrow> 's \<Rightarrow> bucket_op list \<Rightarrow> 's option" where
  "perform_all perform s [] = Some s"
| "perform_all perform s (op # ops) =
     Option.bind (perform s op) (\<lambda>s'. perform_all perform s' ops)"

lemma perform_all_append:
  "perform_all perform s (xs @ ys) =
     Option.bind (perform_all perform s xs) (\<lambda>s'. perform_all perform s' ys)"
  by (induction xs arbitrary: s) (simp_all split: bind_splits)

context token_bucket
begin

lemma level_range_step:
  assumes "perform s op = Some s'" "op_within K (size_of s) op" "0 \<le> K" "0 \<le> size_of s"
    and "- K \<le> level s" "level s \<le> size_of s"
  shows "- K \<le> level s' \<and> level s' \<le> size_of s'"
proof (cases op)
  case (Take k)
  with take_enabled take_level perform_size assms show ?thesis
    by fastforce
next
  case (Put d)
  with put_level perform_size assms show ?thesis
    by fastforce
next
  case (Overwrite v)
  with overwrite_level perform_size assms show ?thesis
    by fastforce
qed

lemma level_range:
  assumes "perform_all perform s ops = Some s'" "\<forall>op \<in> set ops. op_within K (size_of s) op"
    and "0 \<le> K" "0 \<le> size_of s" "- K \<le> level s" "level s \<le> size_of s"
  shows "- K \<le> level s' \<and> level s' \<le> size_of s'"
  using assms
proof (induction ops arbitrary: s)
  case (Cons op ops)
  from Cons.prems(1) obtain t where t: "perform s op = Some t" "perform_all perform t ops = Some s'"
    by (auto split: bind_splits)
  from level_range_step [OF t(1) _ Cons.prems(3-6)] Cons.prems(2)
  have "- K \<le> level t \<and> level t \<le> size_of t" by simp
  moreover have "size_of t = size_of s"
    using t(1) by (rule perform_size)
  ultimately show ?case
    using Cons.IH [OF t(2)] Cons.prems by simp
qed simp

text \<open>
  The admission bound: whatever is taken was in the bucket, was supplied, or is the overdraft
  of the last kernel. An assigned level counts its value and the overdraft it cancels.
\<close>

lemma taken_bound:
  assumes "perform_all perform s ops = Some s'" "\<forall>op \<in> set ops. op_within K (size_of s) op"
    and "0 \<le> K" "0 \<le> size_of s" "- K \<le> level s" "level s \<le> size_of s"
  shows "taken ops + level s' \<le> level s + supplied K ops"
  using assms
proof (induction ops arbitrary: s)
  case (Cons op ops)
  from Cons.prems(1) obtain t where t: "perform s op = Some t" "perform_all perform t ops = Some s'"
    by (auto split: bind_splits)
  from level_range_step [OF t(1) _ Cons.prems(3-6)] Cons.prems(2)
  have r: "- K \<le> level t \<and> level t \<le> size_of t" by simp
  moreover have "size_of t = size_of s"
    using t(1) by (rule perform_size)
  ultimately have IH: "taken ops + level s' \<le> level t + supplied K ops"
    using Cons.IH [OF t(2)] Cons.prems by simp
  show ?case
    using IH t(1) Cons.prems(5) take_level put_level overwrite_level
    by (cases op) fastforce+
qed simp

lemma taken_bound_level:
  assumes "perform_all perform s ops = Some s'" "\<forall>op \<in> set ops. op_within K (size_of s) op"
    and "0 \<le> K" "0 \<le> size_of s" "- K \<le> level s" "level s \<le> size_of s"
  shows "taken ops \<le> level s + supplied K ops + K"
  using taken_bound [OF assms] level_range [OF assms] by linarith

text \<open>A negative bucket of size 0 admits nothing: refills cannot raise it.\<close>

lemma size_zero_blocks:
  assumes "perform_all perform s ops = Some s'" "size_of s = 0" "level s < 0"
    and "\<forall>op \<in> set ops. op = Put 0 \<or> (\<exists>k. op = Take k)"
  shows "taken ops = 0"
  using assms
proof (induction ops arbitrary: s)
  case (Cons op ops)
  from Cons.prems(1) obtain t where t: "perform s op = Some t" "perform_all perform t ops = Some s'"
    by (auto split: bind_splits)
  have "op \<noteq> Take k" for k
    using take_enabled t(1) Cons.prems(3) by fastforce
  then have op: "op = Put 0"
    using Cons.prems(4) by auto
  then have "level t < 0"
    using put_level t(1) Cons.prems(2,3) by fastforce
  with op show ?case
    using Cons.IH [OF t(2)] Cons.prems perform_size [OF t(1)] by simp
qed simp

end

subsection \<open>The abstract bucket\<close>

text \<open>A pair of the size and the level. The size never changes.\<close>

fun bucket_apply :: "int \<times> int \<Rightarrow> bucket_op \<Rightarrow> (int \<times> int) option" where
  "bucket_apply (tot, b) (Take k) = (if 0 \<le> b then Some (tot, b - k) else None)"
| "bucket_apply (tot, b) (Put d) = Some (tot, min tot (b + d))"
| "bucket_apply (tot, b) (Overwrite v) = Some (tot, v)"

interpretation abstract: token_bucket snd fst bucket_apply
proof unfold_locales
  fix s s' :: "int \<times> int" and op
  assume "bucket_apply s op = Some s'"
  then show "fst s' = fst s"
    by (cases s; cases op) (auto split: if_splits)
qed (auto split: if_splits)

subsection \<open>The functions of the controller, one call at a time\<close>

text \<open>
  An operation performed without interference; a faulting or waiting call is refused.
\<close>

definition ok :: "'a c_result \<Rightarrow> 'a option" where
  "ok r = (case r of Inl e \<Rightarrow> None | Inr x \<Rightarrow> Some x)"

lemma ok_Some [simp]: "ok r = Some x \<longleftrightarrow> r = Inr x"
  by (simp add: ok_def split: sum.splits)

fun controller_perform :: "controller_state \<Rightarrow> bucket_op \<Rightarrow> controller_state option" where
  "controller_perform s (Take k) = Option.bind (rate_limiter s k 0) ok"
| "controller_perform s (Put d) = ok (change_token s d)"
| "controller_perform s (Overwrite v) = Some (s\<lparr>cur_cores := v\<rparr>)"

interpretation sequential: token_bucket cur_cores total_cores controller_perform
proof unfold_locales
  fix s s' op
  assume "controller_perform s op = Some s'"
  then show "total_cores s' = total_cores s"
    by (cases op) (auto simp: rate_limiter_def change_token_def c_bind_eq_Inr Let_def
        split: if_splits bind_splits)
qed (auto simp: rate_limiter_def change_token_def after_cores_def cores_after_def CAS_def
    c_bind_eq_Inr c_op_Inr Let_def split: if_splits bind_splits)

end
