(* ===== verification/Limiter_Concurrency.thy ===== *)
theory Limiter_Concurrency
  imports Token_Bucket
begin

text \<open>
  The token bucket under concurrency: any number of application threads inside \<open>rate_limiter\<close>
  and the thread of \<open>source_control\<close>, interleaved at their accesses to \<open>cur_cores\<close>. A read, a
  compare-and-swap and the assignment of \<open>source_control\<close> are one step each; a thread can be
  overtaken between its read and its compare-and-swap. A completed operation is the label of
  its step, and the labels of a run are a run of the abstract bucket of \<open>Token_Bucket\<close>.
\<close>

subsection \<open>Program counters and the global state\<close>

text \<open>
  A launcher is outside \<open>rate_limiter\<close>, at the label \<open>CHECK\<close>, in \<open>nanosleep\<close>, or has read
  \<open>before_cores\<close> and computed \<open>after_cores\<close>. The number is \<open>kernel_size\<close>.
\<close>

datatype launcher_pc =
    Idle
  | Check int
  | Sleeping int
  | Swap int int int

text \<open>
  The controller is at the head of its loop, in \<open>change_token\<close> before its read, or has read
  \<open>cores_before\<close> and computed \<open>cores_after\<close>. The first number is \<open>delta\<close>.
\<close>

datatype controller_pc =
    Deciding
  | Refill int
  | Refill_Swap int int int

record limiter_state =
  cell :: int
  bucket_size :: int
  share :: int
  launchers :: "nat \<Rightarrow> launcher_pc"
  controller :: controller_pc
  fault :: bool

definition limiter_init :: "int \<Rightarrow> limiter_state" where
  "limiter_init tot = \<lparr>cell = 0, bucket_size = tot, share = 0, launchers = (\<lambda>_. Idle),
     controller = Deciding, fault = False\<rparr>"

subsection \<open>The steps\<close>

text \<open>
  \<open>delta\<close> is the share function on the geometry of the device and \<open>yaml\<close> the utilization limit.
  The measured load \<open>u\<close> of a round is any value. An operation with undefined behaviour sets
  \<open>fault\<close>, after which nothing is claimed and nothing runs.
\<close>

inductive limiter_step ::
    "(int \<Rightarrow> int \<Rightarrow> int \<Rightarrow> int c_result) \<Rightarrow> int \<Rightarrow> limiter_state \<Rightarrow> bucket_op option
     \<Rightarrow> limiter_state \<Rightarrow> bool"
  for delta :: "int \<Rightarrow> int \<Rightarrow> int \<Rightarrow> int c_result" and yaml :: int
where
  call: "\<not> fault s \<Longrightarrow> launchers s i = Idle \<Longrightarrow>
    limiter_step delta yaml s None (s\<lparr>launchers := (launchers s)(i := Check k)\<rparr>)"
| sleep: "\<not> fault s \<Longrightarrow> launchers s i = Check k \<Longrightarrow> cell s < 0 \<Longrightarrow>
    limiter_step delta yaml s None (s\<lparr>launchers := (launchers s)(i := Sleeping k)\<rparr>)"
| wake: "\<not> fault s \<Longrightarrow> launchers s i = Sleeping k \<Longrightarrow>
    limiter_step delta yaml s None (s\<lparr>launchers := (launchers s)(i := Check k)\<rparr>)"
| read: "\<not> fault s \<Longrightarrow> launchers s i = Check k \<Longrightarrow> \<not> cell s < 0 \<Longrightarrow>
    after_cores (cell s) k = Inr a \<Longrightarrow>
    limiter_step delta yaml s None (s\<lparr>launchers := (launchers s)(i := Swap k (cell s) a)\<rparr>)"
| read_fault: "\<not> fault s \<Longrightarrow> launchers s i = Check k \<Longrightarrow> \<not> cell s < 0 \<Longrightarrow>
    after_cores (cell s) k = Inl e \<Longrightarrow>
    limiter_step delta yaml s None (s\<lparr>fault := True\<rparr>)"
| admit: "\<not> fault s \<Longrightarrow> launchers s i = Swap k b a \<Longrightarrow> CAS (cell s) b a = (True, c) \<Longrightarrow>
    limiter_step delta yaml s (Some (Take k))
      (s\<lparr>cell := c, launchers := (launchers s)(i := Idle)\<rparr>)"
| retry: "\<not> fault s \<Longrightarrow> launchers s i = Swap k b a \<Longrightarrow> CAS (cell s) b a = (False, c) \<Longrightarrow>
    limiter_step delta yaml s None
      (s\<lparr>cell := c, launchers := (launchers s)(i := Check k)\<rparr>)"
| overwrite: "\<not> fault s \<Longrightarrow> controller s = Deciding \<Longrightarrow> c_div yaml 10 = Inr t \<Longrightarrow>
    u < u32_of_int t \<Longrightarrow> delta yaml (int_of_u32 u) (share s) = Inr v \<Longrightarrow>
    limiter_step delta yaml s (Some (Overwrite v)) (s\<lparr>cell := v\<rparr>)"
| decide: "\<not> fault s \<Longrightarrow> controller s = Deciding \<Longrightarrow> c_div yaml 10 = Inr t \<Longrightarrow>
    \<not> u < u32_of_int t \<Longrightarrow> delta yaml (int_of_u32 u) (share s) = Inr v \<Longrightarrow>
    limiter_step delta yaml s None (s\<lparr>share := v, controller := Refill v\<rparr>)"
| decide_fault: "\<not> fault s \<Longrightarrow> controller s = Deciding \<Longrightarrow>
    delta yaml (int_of_u32 u) (share s) = Inl e \<Longrightarrow>
    limiter_step delta yaml s None (s\<lparr>fault := True\<rparr>)"
| refill_read: "\<not> fault s \<Longrightarrow> controller s = Refill d \<Longrightarrow>
    cores_after (bucket_size s) (cell s) d = Inr a \<Longrightarrow>
    limiter_step delta yaml s None (s\<lparr>controller := Refill_Swap d (cell s) a\<rparr>)"
| refill_fault: "\<not> fault s \<Longrightarrow> controller s = Refill d \<Longrightarrow>
    cores_after (bucket_size s) (cell s) d = Inl e \<Longrightarrow>
    limiter_step delta yaml s None (s\<lparr>fault := True\<rparr>)"
| refill: "\<not> fault s \<Longrightarrow> controller s = Refill_Swap d b a \<Longrightarrow> CAS (cell s) b a = (True, c) \<Longrightarrow>
    limiter_step delta yaml s (Some (Put d)) (s\<lparr>cell := c, controller := Deciding\<rparr>)"
| refill_retry: "\<not> fault s \<Longrightarrow> controller s = Refill_Swap d b a \<Longrightarrow>
    CAS (cell s) b a = (False, c) \<Longrightarrow>
    limiter_step delta yaml s None (s\<lparr>cell := c, controller := Refill d\<rparr>)"

text \<open>A run collects the labels of its steps.\<close>

inductive limiter_run ::
    "(int \<Rightarrow> int \<Rightarrow> int \<Rightarrow> int c_result) \<Rightarrow> int \<Rightarrow> limiter_state \<Rightarrow> bucket_op list
     \<Rightarrow> limiter_state \<Rightarrow> bool"
  for delta :: "int \<Rightarrow> int \<Rightarrow> int \<Rightarrow> int c_result" and yaml :: int
where
  stop: "limiter_run delta yaml s [] s"
| silent: "limiter_step delta yaml s None t \<Longrightarrow> limiter_run delta yaml t ops u \<Longrightarrow>
    limiter_run delta yaml s ops u"
| visible: "limiter_step delta yaml s (Some op) t \<Longrightarrow> limiter_run delta yaml t ops u \<Longrightarrow>
    limiter_run delta yaml s (op # ops) u"

inductive_cases step_takeE: "limiter_step delta yaml s (Some (Take k)) t"
inductive_cases step_putE: "limiter_step delta yaml s (Some (Put d)) t"
inductive_cases step_overwriteE: "limiter_step delta yaml s (Some (Overwrite v)) t"
inductive_cases step_silentE: "limiter_step delta yaml s None t"
inductive_simps run_nil: "limiter_run delta yaml s [] t"

lemma CAS_simps [simp]:
  "CAS cur old new = (True, c) \<longleftrightarrow> cur = old \<and> c = new"
  "CAS cur old new = (False, c) \<longleftrightarrow> cur \<noteq> old \<and> c = cur"
  by (auto simp: CAS_def)

subsection \<open>What a stale read still guarantees\<close>

text \<open>
  A launcher that is about to swap read a bucket that was not negative and holds its exact
  difference; the controller holds the clamped sum. Neither mentions the present bucket.
\<close>

definition swaps_valid :: "limiter_state \<Rightarrow> bool" where
  "swaps_valid s \<longleftrightarrow>
     (\<forall>i k b a. launchers s i = Swap k b a \<longrightarrow> 0 \<le> b \<and> a = b - k) \<and>
     (\<forall>d b a. controller s = Refill_Swap d b a \<longrightarrow> a = min (bucket_size s) (b + d))"

lemma limiter_init_valid: "swaps_valid (limiter_init tot)"
  by (simp add: swaps_valid_def limiter_init_def)

lemma step_swaps_valid:
  "limiter_step delta yaml s l t \<Longrightarrow> swaps_valid s \<Longrightarrow> swaps_valid t"
  by (induction rule: limiter_step.induct)
    (auto simp: swaps_valid_def after_cores_def cores_after_def c_op_Inr c_bind_eq_Inr
      split: if_splits)

lemma step_size: "limiter_step delta yaml s l t \<Longrightarrow> bucket_size t = bucket_size s"
  by (induction rule: limiter_step.induct) auto

lemma silent_cell: "limiter_step delta yaml s None t \<Longrightarrow> cell t = cell s"
  by (erule step_silentE) auto

subsection \<open>Refinement\<close>

text \<open>Every labelled step is one operation of the abstract bucket on the present level.\<close>

lemma step_refines:
  assumes "limiter_step delta yaml s (Some op) t" and "swaps_valid s"
  shows "bucket_apply (bucket_size s, cell s) op = Some (bucket_size t, cell t)"
proof (cases op)
  case (Take k)
  then have "limiter_step delta yaml s (Some (Take k)) t"
    using assms(1) by simp
  then show ?thesis
    using assms(2) Take by (elim step_takeE) (force simp: swaps_valid_def)
next
  case (Put d)
  then have "limiter_step delta yaml s (Some (Put d)) t"
    using assms(1) by simp
  then show ?thesis
    using assms(2) Put by (elim step_putE) (force simp: swaps_valid_def)
next
  case (Overwrite v)
  then have "limiter_step delta yaml s (Some (Overwrite v)) t"
    using assms(1) by simp
  then show ?thesis
    using Overwrite by (elim step_overwriteE) auto
qed

lemma run_refines:
  assumes "limiter_run delta yaml s ops t" and "swaps_valid s"
  shows "perform_all bucket_apply (bucket_size s, cell s) ops = Some (bucket_size t, cell t)"
  using assms
proof (induction rule: limiter_run.induct)
  case (silent s t ops u)
  then have "swaps_valid t" "bucket_size t = bucket_size s" "cell t = cell s"
    using step_swaps_valid step_size silent_cell by blast+
  with silent.IH show ?case by simp
next
  case (visible s op t ops u)
  then have "swaps_valid t"
    using step_swaps_valid by blast
  with visible show ?case
    by (simp add: step_refines)
qed simp

lemma run_swaps_valid:
  "limiter_run delta yaml s ops t \<Longrightarrow> swaps_valid s \<Longrightarrow> swaps_valid t"
  by (induction rule: limiter_run.induct) (blast intro: step_swaps_valid)+

lemma run_size: "limiter_run delta yaml s ops t \<Longrightarrow> bucket_size t = bucket_size s"
  by (induction rule: limiter_run.induct) (simp_all add: step_size)


subsection \<open>What the controller supplies\<close>

text \<open>
  The part of the contract of a share function the bucket needs: from a share inside the bucket
  every computed share is inside the bucket. Both share functions of \<open>Core_Controller\<close> keep it.
\<close>

definition delta_sound :: "(int \<Rightarrow> int \<Rightarrow> int \<Rightarrow> int c_result) \<Rightarrow> int \<Rightarrow> int \<Rightarrow> bool" where
  "delta_sound delta yaml tot \<longleftrightarrow> (\<forall>cur share v. 0 \<le> share \<longrightarrow> share \<le> tot \<longrightarrow>
     delta yaml cur share = Inr v \<longrightarrow> 0 \<le> v \<and> v \<le> tot)"

lemma delta_sound_gpu:
  "good_gpu g \<Longrightarrow> 0 \<le> yaml \<Longrightarrow> delta_sound (delta_for_gpu g) yaml (total_cores g)"
  unfolding delta_sound_def by (blast dest: gpu.delta_bounds)

lemma delta_sound_mlu:
  "good_mlu g \<Longrightarrow> 0 \<le> yaml \<Longrightarrow> delta_sound (delta_for_mlu g) yaml (total_cores g)"
  unfolding delta_sound_def by (blast dest: mlu.delta_bounds)

definition shares_valid :: "limiter_state \<Rightarrow> bool" where
  "shares_valid s \<longleftrightarrow> 0 \<le> share s \<and> share s \<le> bucket_size s \<and>
     (\<forall>d. controller s = Refill d \<longrightarrow> 0 \<le> d \<and> d \<le> bucket_size s) \<and>
     (\<forall>d b a. controller s = Refill_Swap d b a \<longrightarrow> 0 \<le> d \<and> d \<le> bucket_size s)"

lemma limiter_init_shares: "0 \<le> tot \<Longrightarrow> shares_valid (limiter_init tot)"
  by (simp add: shares_valid_def limiter_init_def)

lemma step_shares_valid:
  "limiter_step delta yaml s l t \<Longrightarrow> delta_sound delta yaml (bucket_size s) \<Longrightarrow>
    shares_valid s \<Longrightarrow> shares_valid t"
  by (induction rule: limiter_step.induct) (auto simp: shares_valid_def delta_sound_def)

text \<open>The label of a refill or an assignment lies inside the bucket.\<close>

fun supply_within :: "int \<Rightarrow> bucket_op \<Rightarrow> bool" where
  "supply_within tot (Take k) = True"
| "supply_within tot (Put d) \<longleftrightarrow> 0 \<le> d \<and> d \<le> tot"
| "supply_within tot (Overwrite v) \<longleftrightarrow> 0 \<le> v \<and> v \<le> tot"

lemma step_supply:
  assumes "limiter_step delta yaml s (Some op) t" "delta_sound delta yaml (bucket_size s)"
    and "shares_valid s"
  shows "supply_within (bucket_size s) op"
  using assms
  by (cases rule: limiter_step.cases) (auto simp: shares_valid_def delta_sound_def)

lemma run_supply:
  assumes "limiter_run delta yaml s ops t" "delta_sound delta yaml (bucket_size s)"
    and "shares_valid s"
  shows "\<forall>op \<in> set ops. supply_within (bucket_size s) op"
  using assms
proof (induction rule: limiter_run.induct)
  case (silent s t ops u)
  then show ?case
    using step_shares_valid step_size by metis
next
  case (visible s op t ops u)
  then have "supply_within (bucket_size s) op"
    using step_supply by blast
  moreover have "bucket_size t = bucket_size s" "shares_valid t"
    using visible step_size step_shares_valid by blast+
  ultimately show ?case
    using visible by simp
qed simp

definition kernels_within :: "int \<Rightarrow> bucket_op list \<Rightarrow> bool" where
  "kernels_within K ops \<longleftrightarrow> (\<forall>k. Take k \<in> set ops \<longrightarrow> 0 \<le> k \<and> k \<le> K)"

lemma within_ops:
  assumes "\<forall>op \<in> set ops. supply_within tot op" "kernels_within K ops"
  shows "\<forall>op \<in> set ops. op_within K tot op"
proof
  fix op
  assume "op \<in> set ops"
  with assms show "op_within K tot op"
    by (cases op) (auto simp: kernels_within_def)
qed

subsection \<open>Properties of the concurrent limiter\<close>

lemma run_from_start:
  assumes "limiter_run delta yaml (limiter_init tot) ops t"
  shows "perform_all bucket_apply (tot, 0) ops = Some (tot, cell t)"
  using run_refines [OF assms limiter_init_valid] run_size [OF assms]
  by (simp add: limiter_init_def)

text \<open>
  C1: Every interleaving of the launchers and the controller is linearizable: the completed
  operations, in the order of their successful compare-and-swaps, are a run of the abstract
  bucket that ends at the value of \<open>cur_cores\<close>. In particular no update is lost and no kernel
  is admitted from a negative bucket, although reads may be stale.
\<close>

theorem limiter_linearizable:
  assumes "limiter_run delta yaml (limiter_init tot) ops t"
  shows "perform_all bucket_apply (tot, 0) ops = Some (tot, cell t)"
  using assms by (rule run_from_start)

text \<open>A launcher that runs alone on a bucket that is not negative is admitted in two steps.\<close>

lemma admit_alone:
  assumes "\<not> fault s" "launchers s i = Check k" "0 \<le> cell s" "after_cores (cell s) k = Inr a"
  shows "limiter_run delta yaml s [Take k] (s\<lparr>cell := a, launchers := (launchers s)(i := Idle)\<rparr>)"
proof -
  let ?t = "s\<lparr>launchers := (launchers s)(i := Swap k (cell s) a)\<rparr>"
  let ?u = "?t\<lparr>cell := a, launchers := (launchers ?t)(i := Idle)\<rparr>"
  have "limiter_step delta yaml s None ?t"
    by (rule limiter_step.read) (use assms in simp_all)
  moreover have "limiter_step delta yaml ?t (Some (Take k)) ?u"
    by (rule limiter_step.admit [where b = "cell s" and a = a]) (use assms(1) in simp_all)
  ultimately have "limiter_run delta yaml s [Take k] ?u"
    by (blast intro: limiter_run.silent limiter_run.visible limiter_run.stop)
  moreover have "?u = s\<lparr>cell := a, launchers := (launchers s)(i := Idle)\<rparr>" by simp
  ultimately show ?thesis by simp
qed

definition t4_limiter :: limiter_state where
  "t4_limiter = limiter_init 1310720"

text \<open>The controller assigns a level of 37161 to an idle T4, and a launcher takes 1000 of it.\<close>

definition t4_after :: limiter_state where
  "t4_after = t4_limiter\<lparr>cell := 36161\<rparr>"

lemma t4_run:
  "limiter_run (delta_for_gpu t4_state) 30 t4_limiter [Overwrite 37161, Take 1000] t4_after"
proof -
  let ?o = "t4_limiter\<lparr>cell := 37161\<rparr>"
  let ?c = "?o\<lparr>launchers := (launchers ?o)(0 := Check 1000)\<rparr>"
  have "delta_for_gpu t4_state 30 (int_of_u32 0) 0 = Inr 37161"
    by (simp add: delta_for_gpu_def utilization_diff_def gpu_increment_def boost_increment_def
        int_of_u32_def adjust_share_def t4_defs c_arith c_range)
  then have "limiter_step (delta_for_gpu t4_state) 30 t4_limiter (Some (Overwrite 37161)) ?o"
    by (intro limiter_step.overwrite [where t = 3 and u = 0])
      (simp_all add: t4_limiter_def limiter_init_def u32_of_int_def c_arith c_range)
  moreover have "limiter_step (delta_for_gpu t4_state) 30 ?o None ?c"
    by (rule limiter_step.call) (simp_all add: t4_limiter_def limiter_init_def)
  moreover have "limiter_run (delta_for_gpu t4_state) 30 ?c [Take 1000]
      (?c\<lparr>cell := 36161, launchers := (launchers ?c)(0 := Idle)\<rparr>)"
    by (rule admit_alone)
      (simp_all add: t4_limiter_def limiter_init_def after_cores_def c_arith c_range)
  moreover have "?c\<lparr>cell := 36161, launchers := (launchers ?c)(0 := Idle)\<rparr> = t4_after"
    by (simp add: t4_after_def t4_limiter_def limiter_init_def fun_eq_iff)
  ultimately show ?thesis
    by (auto intro: limiter_run.visible [OF _ limiter_run.silent])
qed

theorem limiter_linearizable_witness:
  "perform_all bucket_apply (1310720, 0) [Overwrite 37161, Take 1000] = Some (1310720, cell t4_after)"
  by (rule limiter_linearizable [OF t4_run [unfolded t4_limiter_def]])

text \<open>
  C5: With kernels of size 0 to \<open>K\<close> the bucket never exceeds its size and is overdrawn by at
  most one kernel, in every interleaving and for any measured loads.
\<close>

theorem limiter_overdraft:
  assumes "limiter_run delta yaml (limiter_init tot) ops t"
    and "delta_sound delta yaml tot" "0 \<le> tot" "0 \<le> K" "kernels_within K ops"
  shows "- K \<le> cell t \<and> cell t \<le> tot"
proof -
  have "\<forall>op \<in> set ops. op_within K tot op"
    using run_supply [OF assms(1)] assms(2,3,5) limiter_init_shares
    by (intro within_ops) (simp_all add: limiter_init_def)
  with abstract.level_range [OF run_from_start [OF assms(1)], of K] assms(3,4)
  show ?thesis by simp
qed


lemma t4_delta_sound: "delta_sound (delta_for_gpu t4_state) 30 1310720"
  using delta_sound_gpu [OF t4_good, of 30] by (simp add: t4_defs)

lemma t4_kernels: "kernels_within 1000 [Overwrite 37161, Take 1000]"
  by (simp add: kernels_within_def)

theorem limiter_overdraft_witness: "- 1000 \<le> cell t4_after \<and> cell t4_after \<le> 1310720"
  by (rule limiter_overdraft [OF t4_run [unfolded t4_limiter_def] t4_delta_sound _ _ t4_kernels])
    simp_all

text \<open>
  C4: The work admitted by any interleaving is bounded by what the controller supplied: the sum
  of the kernel sizes is at most the refills plus, for every assignment of \<open>cur_cores\<close>, its
  value and one kernel, plus the overdraft of one kernel.
\<close>

theorem limiter_admission_bound:
  assumes "limiter_run delta yaml (limiter_init tot) ops t"
    and "delta_sound delta yaml tot" "0 \<le> tot" "0 \<le> K" "kernels_within K ops"
  shows "taken ops \<le> supplied K ops + K"
proof -
  have "\<forall>op \<in> set ops. op_within K tot op"
    using run_supply [OF assms(1)] assms(2,3,5) limiter_init_shares
    by (intro within_ops) (simp_all add: limiter_init_def)
  with abstract.taken_bound_level [OF run_from_start [OF assms(1)], of K] assms(3,4)
  show ?thesis by simp
qed

theorem limiter_admission_bound_witness:
  "taken [Overwrite 37161, Take 1000] \<le> supplied 1000 [Overwrite 37161, Take 1000] + 1000"
  by (rule limiter_admission_bound
      [OF t4_run [unfolded t4_limiter_def] t4_delta_sound _ _ t4_kernels]) simp_all

text \<open>
  A kernel is admitted only after the bucket is not negative: from a negative bucket no
  interleaving of launchers alone, without a refill or an assignment by the controller, admits
  anything.
\<close>

theorem negative_bucket_blocks:
  assumes "limiter_run delta yaml s ops t" "swaps_valid s" "cell s < 0"
    and "\<forall>op \<in> set ops. \<exists>k. op = Take k"
  shows "ops = []"
proof (cases ops)
  case (Cons op rest)
  with assms(4) obtain k where "op = Take k" by auto
  with run_refines [OF assms(1,2)] Cons assms(3) show ?thesis
    by (simp add: bind_eq_Some_conv)
qed simp

definition negative_limiter :: limiter_state where
  "negative_limiter = t4_limiter\<lparr>cell := - 5, launchers := (\<lambda>_. Idle)(0 := Check 7)\<rparr>"

theorem negative_bucket_blocks_witness:
  "limiter_run (delta_for_gpu t4_state) 30 negative_limiter []
     (negative_limiter\<lparr>launchers := (launchers negative_limiter)(0 := Sleeping 7)\<rparr>)
   \<and> [] = ([] :: bucket_op list)"
proof -
  have "limiter_step (delta_for_gpu t4_state) 30 negative_limiter None
      (negative_limiter\<lparr>launchers := (launchers negative_limiter)(0 := Sleeping 7)\<rparr>)"
    by (rule limiter_step.sleep) (simp_all add: negative_limiter_def t4_limiter_def limiter_init_def)
  then have run: "limiter_run (delta_for_gpu t4_state) 30 negative_limiter []
      (negative_limiter\<lparr>launchers := (launchers negative_limiter)(0 := Sleeping 7)\<rparr>)"
    by (rule limiter_run.silent) (rule limiter_run.stop)
  moreover have "swaps_valid negative_limiter" "cell negative_limiter < 0"
    by (simp_all add: swaps_valid_def negative_limiter_def t4_limiter_def limiter_init_def)
  ultimately show ?thesis
    using negative_bucket_blocks [OF run] by simp
qed

lemma silent_run_cell:
  assumes "limiter_run delta yaml s ops t" "ops = []"
  shows "cell t = cell s"
  using assms by (induction rule: limiter_run.induct) (simp_all add: silent_cell)

text \<open>
  The limiter is lock-free: a compare-and-swap of a launcher fails only if another thread
  completed an operation since the launcher's read.
\<close>

theorem failed_swap_means_progress:
  assumes "limiter_run delta yaml s ops t"
    and "launchers s i = Swap k (cell s) a" "launchers t i = Swap k (cell s) a"
    and "CAS (cell t) (cell s) a = (False, c)"
  shows "ops \<noteq> []"
  using assms(4) silent_run_cell [OF assms(1)] by auto

definition racing_limiter :: limiter_state where
  "racing_limiter = t4_limiter\<lparr>cell := 10,
     launchers := (\<lambda>_. Idle)(0 := Swap 3 10 7, 1 := Check 4)\<rparr>"

theorem failed_swap_means_progress_witness:
  "limiter_run (delta_for_gpu t4_state) 30 racing_limiter [Take 4]
     (racing_limiter\<lparr>cell := 6, launchers := (launchers racing_limiter)(1 := Idle)\<rparr>)
   \<and> [Take 4 :: bucket_op] \<noteq> []"
proof -
  have run: "limiter_run (delta_for_gpu t4_state) 30 racing_limiter [Take 4]
     (racing_limiter\<lparr>cell := 6, launchers := (launchers racing_limiter)(1 := Idle)\<rparr>)"
    by (rule admit_alone) (simp_all add: racing_limiter_def t4_limiter_def limiter_init_def
        after_cores_def c_arith c_range)
  moreover have "[Take 4 :: bucket_op] \<noteq> []"
    by (rule failed_swap_means_progress [OF run, of 0 3 7 6])
      (simp_all add: racing_limiter_def t4_limiter_def)
  ultimately show ?thesis by blast
qed

definition waits_for :: "launcher_pc \<Rightarrow> int \<Rightarrow> bool" where
  "waits_for p k \<longleftrightarrow> p = Check k \<or> p = Sleeping k \<or> (\<exists>b a. p = Swap k b a)"

text \<open>
  C35: Progress: wherever a launcher is inside \<open>rate_limiter\<close>, once the bucket is not negative there
  is a run whose only completed operation is its admission, and it takes exactly its kernel size.
\<close>

theorem launcher_progress:
  assumes "\<not> fault s" "waits_for (launchers s i) k" "swaps_valid s"
    and "0 \<le> cell s" "after_cores (cell s) k = Inr a"
  shows "\<exists>t. limiter_run delta yaml s [Take k] t \<and> launchers t i = Idle \<and> cell t = cell s - k"
proof -
  let ?done = "s\<lparr>cell := a, launchers := (launchers s)(i := Idle)\<rparr>"
  have a: "a = cell s - k"
    using assms(5) by (simp add: after_cores_def c_op_Inr)
  have from_check: "limiter_run delta yaml (s\<lparr>launchers := (launchers s)(i := Check k)\<rparr>) [Take k] ?done"
    using admit_alone [of "s\<lparr>launchers := (launchers s)(i := Check k)\<rparr>" i k a delta yaml] assms
    by simp
  consider "launchers s i = Check k" | "launchers s i = Sleeping k"
    | b x where "launchers s i = Swap k b x" "b = cell s"
    | b x where "launchers s i = Swap k b x" "b \<noteq> cell s"
    using assms(2) by (auto simp: waits_for_def)
  then have "limiter_run delta yaml s [Take k] ?done"
  proof cases
    case 1
    with admit_alone assms show ?thesis by blast
  next
    case 2
    with assms(1) have "limiter_step delta yaml s None (s\<lparr>launchers := (launchers s)(i := Check k)\<rparr>)"
      by (intro limiter_step.wake)
    with from_check show ?thesis by (blast intro: limiter_run.silent)
  next
    case (3 b x)
    with assms(3) a have "x = a" by (simp add: swaps_valid_def)
    with 3 assms(1) have "limiter_step delta yaml s (Some (Take k)) ?done"
      by (intro limiter_step.admit) simp_all
    then show ?thesis by (blast intro: limiter_run.visible limiter_run.stop)
  next
    case (4 b x)
    with assms(1) have "limiter_step delta yaml s None
        (s\<lparr>cell := cell s, launchers := (launchers s)(i := Check k)\<rparr>)"
      by (intro limiter_step.retry) auto
    with from_check show ?thesis by (auto intro: limiter_run.silent)
  qed
  with a show ?thesis by auto
qed

theorem launcher_progress_witness:
  "\<exists>t. limiter_run (delta_for_gpu t4_state) 30 racing_limiter [Take 3] t
    \<and> launchers t 0 = Idle \<and> cell t = 7"
proof -
  have "\<exists>t. limiter_run (delta_for_gpu t4_state) 30 racing_limiter [Take 3] t
    \<and> launchers t 0 = Idle \<and> cell t = cell racing_limiter - 3"
    by (rule launcher_progress [where a = 7])
      (simp_all add: racing_limiter_def t4_limiter_def limiter_init_def waits_for_def
        swaps_valid_def after_cores_def c_arith c_range)
  then show ?thesis by (simp add: racing_limiter_def)
qed

lemma failed_probe:
  assumes "nvmlInit_ret p \<noteq> NVML_SUCCESS"
    and "source_control_start ic (initCudev p) ''gpu'' controller_init = Inr (g, share0)"
  shows "g = controller_init"
  using assms
  by (simp add: source_control_start_def initCudev_def controller_init_def monitor_init_def
      monitor_state.extend_def)

lemma controller_init_simps [simp]: "total_cores controller_init = 0" "good_gpu controller_init"
  by (simp_all add: good_gpu_def controller_init_def monitor_init_def monitor_state.extend_def)

text \<open>
  If \<open>nvmlInit\<close> fails, the control thread runs on a bucket of size 0. As soon as that bucket
  is negative, which the first kernel makes it, no interleaving in which the controller only
  refills it admits another kernel.
\<close>

theorem failed_probe_starves:
  assumes "nvmlInit_ret p \<noteq> NVML_SUCCESS"
    and "source_control_start ic (initCudev p) ''gpu'' controller_init = Inr (g, share0)"
    and "limiter_run (delta_for_gpu g) yaml s ops t" "0 \<le> yaml" "bucket_size s = total_cores g"
    and "swaps_valid s" "shares_valid s" "cell s < 0" "\<forall>v. Overwrite v \<notin> set ops"
  shows "taken ops = 0"
proof (rule abstract.size_zero_blocks [OF run_refines [OF assms(3,6)]])
  have g: "g = controller_init"
    using assms(1,2) by (rule failed_probe)
  show "fst (bucket_size s, cell s) = 0" "snd (bucket_size s, cell s) < 0"
    using assms(5,8) g by simp_all
  have "delta_sound (delta_for_gpu g) yaml 0"
    using delta_sound_gpu [of g, OF _ assms(4)] g by simp
  then have "\<forall>op \<in> set ops. supply_within 0 op"
    using run_supply [OF assms(3) _ assms(7)] assms(5) g by simp
  then show "\<forall>op \<in> set ops. op = Put 0 \<or> (\<exists>k. op = Take k)"
    using assms(9) by (metis bucket_op.exhaust order_antisym supply_within.simps(2))
qed

definition starved_limiter :: limiter_state where
  "starved_limiter = (limiter_init 0)\<lparr>cell := - 1\<rparr>"

lemma starved_run:
  "limiter_run (delta_for_gpu controller_init) 30 starved_limiter [Put 0] starved_limiter"
proof -
  let ?r = "starved_limiter\<lparr>share := 0, controller := Refill 0\<rparr>"
  let ?w = "?r\<lparr>controller := Refill_Swap 0 (cell ?r) (- 1)\<rparr>"
  have "limiter_step (delta_for_gpu controller_init) 30 starved_limiter None ?r"
    by (rule limiter_step.decide [where t = 3 and u = 50])
      (simp_all add: starved_limiter_def limiter_init_def u32_of_int_def delta_for_gpu_def
        utilization_diff_def gpu_increment_def boost_increment_def int_of_u32_def
        adjust_share_def controller_init_def monitor_init_def monitor_state.extend_def
        c_arith c_range)
  moreover have "limiter_step (delta_for_gpu controller_init) 30 ?r None ?w"
    by (rule limiter_step.refill_read)
      (simp_all add: starved_limiter_def limiter_init_def cores_after_def c_arith c_range)
  moreover have "limiter_step (delta_for_gpu controller_init) 30 ?w (Some (Put 0))
      (?w\<lparr>cell := - 1, controller := Deciding\<rparr>)"
    by (rule limiter_step.refill) (simp_all add: starved_limiter_def limiter_init_def)
  moreover have "?w\<lparr>cell := - 1, controller := Deciding\<rparr> = starved_limiter"
    by (simp add: starved_limiter_def limiter_init_def)
  ultimately show ?thesis
    by (auto intro: limiter_run.stop
        limiter_run.silent [OF _ limiter_run.silent [OF _ limiter_run.visible]])
qed

theorem failed_probe_starves_witness:
  "limiter_run (delta_for_gpu controller_init) 30 starved_limiter [Put 0] starved_limiter
    \<and> taken [Put 0] = 0"
proof
  let ?p = "\<lparr>nvmlInit_ret = NVML_ERROR 9, cuInit_call = None, attr_sm_call = None,
    attr_thread_call = None\<rparr>"
  have start: "source_control_start Inr (initCudev ?p) ''gpu'' controller_init = Inr (controller_init, 0)"
    by (simp add: source_control_start_def initCudev_def controller_init_def monitor_init_def
        monitor_state.extend_def)
  show "taken [Put 0] = 0"
    by (rule failed_probe_starves [OF _ start starved_run])
      (simp_all add: starved_limiter_def limiter_init_def swaps_valid_def shares_valid_def)
qed (rule starved_run)

end
