(* ===== verification/Driver_Tables.thy ===== *)
theory Driver_Tables
  imports Main
begin

text \<open>
  The symbols of the two driver libraries, as the source lists them twice: the enumerators of
  \<open>core/interceptor/hijack.h\<close>, which index the tables, and the \<open>name\<close> members of the tables in
  \<open>core/interceptor/hijack_mlu.c\<close> and \<open>core/interceptor/hijack_gpu.c\<close>, which are looked up in
  the library. An enumerator \<open>ENTRY_x\<close> is the name \<open>x\<close>, its value the position of \<open>x\<close>; the
  last enumerators \<open>MLU_ENTRY_END\<close> and \<open>CUDA_ENTRY_END\<close> are the lengths.
\<close>

subsection \<open>MLU: the enumerators\<close>

definition MLU_ENTRY_1 :: "string list" where
  "MLU_ENTRY_1 = [
    ''cnGetErrorString'', ''cnGetErrorName'', ''cnInit'', ''cnDriverGetVersion'',
    ''cnGetLibVersion'', ''cnGetDriverVersion'', ''cnDeviceGet'', ''cnDeviceGetCount'',
    ''cnDeviceGetName'', ''cnDeviceTotalMem'', ''cnDeviceGetAttribute'',
    ''cnDeviceGetByPCIBusId'', ''cnDeviceGetPCIBusId'', ''cnDeviceGetUuid'',
    ''cnDeviceGetUuidStr'', ''cnDeviceGetByUuidStr'', ''cnCtxCreate'', ''cnCtxDestroy'',
    ''cnCtxGetFlags'', ''cnCtxGetApiVersion'', ''cnCtxGetCurrent'', ''cnCtxSetCurrent'',
    ''cnCtxGetDevice'', ''cnCtxGetQueuePriorityRange'', ''cnCtxGetConfig'', ''cnCtxSetConfig'',
    ''cnSetCtxConfigParam_pt'', ''cnGetCtxConfigParam_pt'', ''cnGetCtxMaxParallelUnionTasks'',
    ''cnCtxSync'', ''cnCtxResetPersistingL2Cache'', ''cnSharedContextGetState'',
    ''cnSharedContextSetFlags'', ''cnSharedContextAcquire'', ''cnSharedContextRelease'',
    ''cnSharedContextReset'', ''cnMemGetInfo'', ''cnMemGetNodeInfo'', ''cnMalloc'',
    ''cnMallocSecurity'', ''cnMallocNode'', ''cnZmalloc'', ''cnZmallocNode'',
    ''cnMallocConstant'', ''cnMallocNodeConstant'', ''cnMallocFrameBuffer'',
    ''cnMallocPeerAble'', ''cnFree'', ''cnMemMerge'', ''cnMemGetAddressRange'', ''cnMallocHost'',
    ''cnFreeHost'', ''cnIpcGetMemHandle'', ''cnIpcOpenMemHandle'', ''cnIpcCloseMemHandle'',
    ''cnMemcpy'', ''cnMemcpyPeer'', ''cnMemcpyHtoD'', ''cnMemcpyDtoH'', ''cnMemcpyDtoD'',
    ''cnMemcpyDtoD2D'', ''cnMemcpyDtoD3D'', ''cnMemcpy2D'', ''cnMemcpy3D'', ''cnMemcpyAsync'',
    ''cnMemcpyAsync_V2'', ''cnMemcpyPeerAsync'', ''cnMemcpyHtoDAsync'', ''cnMemcpyHtoDAsync_V2'',
    ''cnMemcpyDtoHAsync'', ''cnMemcpyDtoHAsync_V2'', ''cnMemcpyDtoDAsync'', ''cnMemsetD8'',
    ''cnMemsetD16'', ''cnMemsetD32'', ''cnMemsetD8Async'', ''cnMemsetD16Async'',
    ''cnMemsetD32Async'', ''cnDeviceCanPeerAble'', ''cnGetMemAttribute'', ''cnGetMemAttributes'',
    ''cnSetMemAttribute'', ''cnSetMemRangeAttribute'', ''cnCreateQueue'',
    ''cnCreateQueueWithPriority'', ''cnQueueGetPriority'', ''cnDestroyQueue'', ''cnQueryQueue'',
    ''cnQueueSync'', ''cnQueueWaitNotifier'', ''cnQueueGetContext'', ''cnQueueSetAttribute'',
    ''cnQueueGetAttribute'', ''cnQueueCopyAttributes'', ''cnQueueAddCallback'',
    ''cnQueueBeginCapture'', ''cnQueueEndCapture'']"

definition MLU_ENTRY_2 :: "string list" where
  "MLU_ENTRY_2 = [
    ''cnQueueIsCapturing'', ''cnQueueGetCaptureInfo'', ''cnQueueUpdateCaptureDependencies'',
    ''cnCreateNotifier'', ''cnDestroyNotifier'', ''cnWaitNotifier'', ''cnQueryNotifier'',
    ''cnPlaceNotifier'', ''cnNotifierElapsedTime'', ''cnNotifierElapsedExecTime'',
    ''cnIpcGetNotifierHandle'', ''cnIpcOpenNotifierHandle'', ''cnQueueAtomicOperation'',
    ''cnAtomicOperation'', ''cnAtomicReadOps'', ''cnModuleLoadFatBinary'', ''cnModuleLoad'',
    ''cnModuleUnload'', ''cnModuleQueryMemoryUsage'', ''cnModuleQueryFatBinaryMemoryUsage'',
    ''cnModuleGetKernel'', ''cnModuleGetSymbol'', ''cnKernelGetAttribute'',
    ''cnModuleGetLoadingMode'', ''cnInvokeKernel'', ''cnInvokeHostFunc'',
    ''cnGetExportFunction'', ''cnCacheOperation'', ''cnMmap'', ''cnMmapCached'', ''cnMunmap'',
    ''cnMemCreate'', ''cnMemRelease'', ''cnMemAddressReserve'', ''cnMemAddressFree'',
    ''cnMemMap'', ''cnMemSetAccess'', ''cnMemUnmap'', ''cnMemGetAllocationGranularity'',
    ''cnMemGetAllocationPropertiesFromHandle'', ''cnMemGetAccess'',
    ''cnMemRetainAllocationHandle'', ''cnMemExportToShareableHandle'',
    ''cnMemImportFromShareableHandle'', ''cnTaskTopoCreate'', ''cnTaskTopoDestroy'',
    ''cnTaskTopoClone'', ''cnTaskTopoNodeFindInClone'', ''cnTaskTopoDestroyNode'',
    ''cnTaskTopoGetEdges'', ''cnTaskTopoGetNodes'', ''cnTaskTopoGetRootNodes'',
    ''cnTaskTopoAddDependencies'', ''cnTaskTopoRemoveDependencies'',
    ''cnTaskTopoNodeGetDependencies'', ''cnTaskTopoNodeGetDependentNodes'',
    ''cnTaskTopoNodeGetType'', ''cnTaskTopoDebugDotPrint'', ''cnTaskTopoKernelNodeGetAttribute'',
    ''cnTaskTopoKernelNodeSetAttribute'', ''cnTaskTopoKernelNodeCopyAttributes'',
    ''cnUserObjectCreate'', ''cnUserObjectAcquire'', ''cnUserObjectRelease'',
    ''cnTaskTopoAcquireUserObject'', ''cnTaskTopoReleaseUserObject'', ''cnTaskTopoAddEmptyNode'',
    ''cnTaskTopoAddHostNode'', ''cnTaskTopoHostNodeGetParams'', ''cnTaskTopoHostNodeSetParams'',
    ''cnTaskTopoAddKernelNode'', ''cnTaskTopoKernelNodeGetParams'',
    ''cnTaskTopoKernelNodeSetParams'', ''cnTaskTopoAddMemcpyNode'',
    ''cnTaskTopoMemcpyNodeGetParams'', ''cnTaskTopoMemcpyNodeSetParams'',
    ''cnTaskTopoAddMemsetNode'', ''cnTaskTopoMemsetNodeGetParams'',
    ''cnTaskTopoMemsetNodeSetParams'', ''cnTaskTopoAddChildTopoNode'',
    ''cnTaskTopoChildTopoNodeGetTopo'', ''cnTaskTopoInstantiate'', ''cnTaskTopoEntityDestroy'',
    ''cnTaskTopoEntityInvoke'', ''cnTaskTopoEntityHostNodeSetParams'',
    ''cnTaskTopoEntityKernelNodeSetParams'', ''cnTaskTopoEntityMemcpyNodeSetParams'',
    ''cnTaskTopoEntityMemsetNodeSetParams'', ''cnTaskTopoEntityChildTopoNodeSetParams'',
    ''cnTaskTopoEntityUpdate'', ''cnTaskTopoUpload'']"

definition MLU_ENTRY_names :: "string list" where
  "MLU_ENTRY_names = MLU_ENTRY_1 @ MLU_ENTRY_2"

subsection \<open>MLU: the names looked up\<close>

definition CNDrv_entry_1 :: "string list" where
  "CNDrv_entry_1 = [
    ''cnGetErrorString'', ''cnGetErrorName'', ''cnInit'', ''cnDriverGetVersion'',
    ''cnGetLibVersion'', ''cnGetDriverVersion'', ''cnDeviceGet'', ''cnDeviceGetCount'',
    ''cnDeviceGetName'', ''cnDeviceTotalMem'', ''cnDeviceGetAttribute'',
    ''cnDeviceGetByPCIBusId'', ''cnDeviceGetPCIBusId'', ''cnDeviceGetUuid'',
    ''cnDeviceGetUuidStr'', ''cnDeviceGetByUuidStr'', ''cnCtxCreate'', ''cnCtxDestroy'',
    ''cnCtxGetFlags'', ''cnCtxGetApiVersion'', ''cnCtxGetCurrent'', ''cnCtxSetCurrent'',
    ''cnCtxGetDevice'', ''cnCtxGetQueuePriorityRange'', ''cnCtxGetConfig'', ''cnCtxSetConfig'',
    ''cnSetCtxConfigParam_pt'', ''cnGetCtxConfigParam_pt'', ''cnGetCtxMaxParallelUnionTasks'',
    ''cnCtxSync'', ''cnCtxResetPersistingL2Cache'', ''cnSharedContextGetState'',
    ''cnSharedContextSetFlags'', ''cnSharedContextAcquire'', ''cnSharedContextRelease'',
    ''cnSharedContextReset'', ''cnMemGetInfo'', ''cnMemGetNodeInfo'', ''cnMalloc'',
    ''cnMallocSecurity'', ''cnMallocNode'', ''cnZmalloc'', ''cnZmallocNode'',
    ''cnMallocConstant'', ''cnMallocNodeConstant'', ''cnMallocFrameBuffer'',
    ''cnMallocPeerAble'', ''cnFree'', ''cnMemMerge'', ''cnMemGetAddressRange'', ''cnMallocHost'',
    ''cnFreeHost'', ''cnIpcGetMemHandle'', ''cnIpcOpenMemHandle'', ''cnIpcCloseMemHandle'',
    ''cnMemcpy'', ''cnMemcpyPeer'', ''cnMemcpyHtoD'', ''cnMemcpyDtoH'', ''cnMemcpyDtoD'',
    ''cnMemcpyDtoD2D'', ''cnMemcpyDtoD3D'', ''cnMemcpy2D'', ''cnMemcpy3D'', ''cnMemcpyAsync'',
    ''cnMemcpyAsync_V2'', ''cnMemcpyPeerAsync'', ''cnMemcpyHtoDAsync'', ''cnMemcpyHtoDAsync_V2'',
    ''cnMemcpyDtoHAsync'', ''cnMemcpyDtoHAsync_V2'', ''cnMemcpyDtoDAsync'', ''cnMemsetD8'',
    ''cnMemsetD16'', ''cnMemsetD32'', ''cnMemsetD8Async'', ''cnMemsetD16Async'',
    ''cnMemsetD32Async'', ''cnDeviceCanPeerAble'', ''cnGetMemAttribute'', ''cnGetMemAttributes'',
    ''cnSetMemAttribute'', ''cnSetMemRangeAttribute'', ''cnCreateQueue'',
    ''cnCreateQueueWithPriority'', ''cnQueueGetPriority'', ''cnDestroyQueue'', ''cnQueryQueue'',
    ''cnQueueSync'', ''cnQueueWaitNotifier'', ''cnQueueGetContext'', ''cnQueueSetAttribute'',
    ''cnQueueGetAttribute'', ''cnQueueCopyAttributes'', ''cnQueueAddCallback'',
    ''cnQueueBeginCapture'']"

definition CNDrv_entry_2 :: "string list" where
  "CNDrv_entry_2 = [
    ''cnQueueEndCapture'', ''cnQueueIsCapturing'', ''cnQueueGetCaptureInfo'',
    ''cnQueueUpdateCaptureDependencies'', ''cnCreateNotifier'', ''cnDestroyNotifier'',
    ''cnWaitNotifier'', ''cnQueryNotifier'', ''cnPlaceNotifier'', ''cnNotifierElapsedTime'',
    ''cnNotifierElapsedExecTime'', ''cnIpcGetNotifierHandle'', ''cnIpcOpenNotifierHandle'',
    ''cnQueueAtomicOperation'', ''cnAtomicOperation'', ''cnAtomicReadOps'',
    ''cnModuleLoadFatBinary'', ''cnModuleLoad'', ''cnModuleUnload'',
    ''cnModuleQueryMemoryUsage'', ''cnModuleQueryFatBinaryMemoryUsage'', ''cnModuleGetKernel'',
    ''cnModuleGetSymbol'', ''cnKernelGetAttribute'', ''cnModuleGetLoadingMode'',
    ''cnInvokeKernel'', ''cnInvokeHostFunc'', ''cnGetExportFunction'', ''cnCacheOperation'',
    ''cnMmap'', ''cnMmapCached'', ''cnMunmap'', ''cnMemCreate'', ''cnMemRelease'',
    ''cnMemAddressReserve'', ''cnMemAddressFree'', ''cnMemMap'', ''cnMemSetAccess'',
    ''cnMemUnmap'', ''cnMemGetAllocationGranularity'',
    ''cnMemGetAllocationPropertiesFromHandle'', ''cnMemGetAccess'',
    ''cnMemRetainAllocationHandle'', ''cnMemExportToShareableHandle'',
    ''cnMemImportFromShareableHandle'', ''cnTaskTopoCreate'', ''cnTaskTopoDestroy'',
    ''cnTaskTopoClone'', ''cnTaskTopoNodeFindInClone'', ''cnTaskTopoDestroyNode'',
    ''cnTaskTopoGetEdges'', ''cnTaskTopoGetNodes'', ''cnTaskTopoGetRootNodes'',
    ''cnTaskTopoAddDependencies'', ''cnTaskTopoRemoveDependencies'',
    ''cnTaskTopoNodeGetDependencies'', ''cnTaskTopoNodeGetDependentNodes'',
    ''cnTaskTopoNodeGetType'', ''cnTaskTopoDebugDotPrint'', ''cnTaskTopoKernelNodeGetAttribute'',
    ''cnTaskTopoKernelNodeSetAttribute'', ''cnTaskTopoKernelNodeCopyAttributes'',
    ''cnUserObjectCreate'', ''cnUserObjectAcquire'', ''cnUserObjectRelease'',
    ''cnTaskTopoAcquireUserObject'', ''cnTaskTopoReleaseUserObject'', ''cnTaskTopoAddEmptyNode'',
    ''cnTaskTopoAddHostNode'', ''cnTaskTopoHostNodeGetParams'', ''cnTaskTopoHostNodeSetParams'',
    ''cnTaskTopoAddKernelNode'', ''cnTaskTopoKernelNodeGetParams'',
    ''cnTaskTopoKernelNodeSetParams'', ''cnTaskTopoAddMemcpyNode'',
    ''cnTaskTopoMemcpyNodeGetParams'', ''cnTaskTopoMemcpyNodeSetParams'',
    ''cnTaskTopoAddMemsetNode'', ''cnTaskTopoMemsetNodeGetParams'',
    ''cnTaskTopoMemsetNodeSetParams'', ''cnTaskTopoAddChildTopoNode'',
    ''cnTaskTopoChildTopoNodeGetTopo'', ''cnTaskTopoInstantiate'', ''cnTaskTopoEntityDestroy'',
    ''cnTaskTopoEntityInvoke'', ''cnTaskTopoEntityHostNodeSetParams'',
    ''cnTaskTopoEntityKernelNodeSetParams'', ''cnTaskTopoEntityMemcpyNodeSetParams'',
    ''cnTaskTopoEntityMemsetNodeSetParams'', ''cnTaskTopoEntityChildTopoNodeSetParams'',
    ''cnTaskTopoEntityUpdate'', ''cnTaskTopoUpload'']"

definition CNDrv_entry_names :: "string list" where
  "CNDrv_entry_names = CNDrv_entry_1 @ CNDrv_entry_2"

subsection \<open>CUDA: the enumerators\<close>

definition CUDA_ENTRY_1 :: "string list" where
  "CUDA_ENTRY_1 = [
    ''cuInit'', ''cuDeviceGet'', ''cuDeviceGetCount'', ''cuDeviceGetName'',
    ''cuDeviceGetAttribute'', ''cuDeviceGetP2PAttribute'', ''cuDriverGetVersion'',
    ''cuDeviceGetByPCIBusId'', ''cuDeviceGetPCIBusId'', ''cuDevicePrimaryCtxRetain'',
    ''cuDevicePrimaryCtxRelease'', ''cuDevicePrimaryCtxSetFlags'',
    ''cuDevicePrimaryCtxGetState'', ''cuDevicePrimaryCtxReset'', ''cuCtxCreate_v2'',
    ''cuCtxGetFlags'', ''cuCtxSetCurrent'', ''cuCtxGetCurrent'', ''cuCtxDetach'',
    ''cuCtxGetApiVersion'', ''cuCtxGetDevice'', ''cuCtxGetLimit'', ''cuCtxSetLimit'',
    ''cuCtxGetCacheConfig'', ''cuCtxSetCacheConfig'', ''cuCtxGetSharedMemConfig'',
    ''cuCtxGetStreamPriorityRange'', ''cuCtxSetSharedMemConfig'', ''cuCtxSynchronize'',
    ''cuModuleLoad'', ''cuModuleLoadData'', ''cuModuleLoadFatBinary'', ''cuModuleUnload'',
    ''cuModuleGetFunction'', ''cuModuleGetGlobal_v2'', ''cuModuleGetTexRef'',
    ''cuModuleGetSurfRef'', ''cuLinkCreate'', ''cuLinkAddData'', ''cuLinkAddFile'',
    ''cuLinkComplete'', ''cuLinkDestroy'', ''cuMemAllocManaged'', ''cuMemFree_v2'',
    ''cuMemGetAddressRange_v2'', ''cuMemFreeHost'', ''cuMemHostAlloc'',
    ''cuMemHostGetDevicePointer_v2'', ''cuMemHostGetFlags'', ''cuMemHostRegister_v2'',
    ''cuMemHostUnregister'', ''cuPointerGetAttribute'', ''cuPointerGetAttributes'', ''cuMemcpy'',
    ''cuMemcpy_ptds'', ''cuMemcpyAsync'', ''cuMemcpyAsync_ptsz'', ''cuMemcpyPeer'',
    ''cuMemcpyPeer_ptds'', ''cuMemcpyPeerAsync'', ''cuMemcpyPeerAsync_ptsz'',
    ''cuMemcpyHtoD_v2'', ''cuMemcpyHtoD_v2_ptds'', ''cuMemcpyHtoDAsync_v2'',
    ''cuMemcpyHtoDAsync_v2_ptsz'', ''cuMemcpyDtoH_v2'', ''cuMemcpyDtoH_v2_ptds'',
    ''cuMemcpyDtoHAsync_v2'', ''cuMemcpyDtoHAsync_v2_ptsz'', ''cuMemcpyDtoD_v2'',
    ''cuMemcpyDtoD_v2_ptds'', ''cuMemcpyDtoDAsync_v2'', ''cuMemcpyDtoDAsync_v2_ptsz'',
    ''cuMemcpy2DUnaligned_v2'']"

definition CUDA_ENTRY_2 :: "string list" where
  "CUDA_ENTRY_2 = [
    ''cuMemcpy2DUnaligned_v2_ptds'', ''cuMemcpy2DAsync_v2'', ''cuMemcpy2DAsync_v2_ptsz'',
    ''cuMemcpy3D_v2'', ''cuMemcpy3D_v2_ptds'', ''cuMemcpy3DAsync_v2'',
    ''cuMemcpy3DAsync_v2_ptsz'', ''cuMemcpy3DPeer'', ''cuMemcpy3DPeer_ptds'',
    ''cuMemcpy3DPeerAsync'', ''cuMemcpy3DPeerAsync_ptsz'', ''cuMemsetD8_v2'',
    ''cuMemsetD8_v2_ptds'', ''cuMemsetD8Async'', ''cuMemsetD8Async_ptsz'', ''cuMemsetD2D8_v2'',
    ''cuMemsetD2D8_v2_ptds'', ''cuMemsetD2D8Async'', ''cuMemsetD2D8Async_ptsz'',
    ''cuFuncSetCacheConfig'', ''cuFuncSetSharedMemConfig'', ''cuFuncGetAttribute'',
    ''cuArrayGetDescriptor_v2'', ''cuArray3DGetDescriptor_v2'', ''cuArrayDestroy'',
    ''cuMipmappedArrayCreate'', ''cuMipmappedArrayGetLevel'', ''cuMipmappedArrayDestroy'',
    ''cuTexRefCreate'', ''cuTexRefDestroy'', ''cuTexRefSetArray'', ''cuTexRefSetMipmappedArray'',
    ''cuTexRefSetAddress_v2'', ''cuTexRefSetAddress2D_v3'', ''cuTexRefSetFormat'',
    ''cuTexRefSetAddressMode'', ''cuTexRefSetFilterMode'', ''cuTexRefSetMipmapFilterMode'',
    ''cuTexRefSetMipmapLevelBias'', ''cuTexRefSetMipmapLevelClamp'',
    ''cuTexRefSetMaxAnisotropy'', ''cuTexRefSetFlags'', ''cuTexRefSetBorderColor'',
    ''cuTexRefGetBorderColor'', ''cuSurfRefSetArray'', ''cuTexObjectCreate'',
    ''cuTexObjectDestroy'', ''cuTexObjectGetResourceDesc'', ''cuTexObjectGetTextureDesc'',
    ''cuTexObjectGetResourceViewDesc'', ''cuSurfObjectCreate'', ''cuSurfObjectDestroy'',
    ''cuSurfObjectGetResourceDesc'', ''cuLaunchKernel'', ''cuEventCreate'', ''cuEventRecord'',
    ''cuEventRecord_ptsz'', ''cuEventQuery'', ''cuEventSynchronize'', ''cuEventDestroy_v2'',
    ''cuEventElapsedTime'', ''cuStreamWaitValue32'', ''cuStreamWaitValue32_ptsz'',
    ''cuStreamWriteValue32'', ''cuStreamWriteValue32_ptsz'', ''cuStreamBatchMemOp'',
    ''cuStreamBatchMemOp_ptsz'', ''cuStreamCreate'', ''cuStreamCreateWithPriority'',
    ''cuStreamGetPriority'', ''cuStreamGetPriority_ptsz'', ''cuStreamGetFlags'',
    ''cuStreamGetFlags_ptsz'', ''cuStreamDestroy_v2'', ''cuStreamWaitEvent'']"

definition CUDA_ENTRY_3 :: "string list" where
  "CUDA_ENTRY_3 = [
    ''cuStreamWaitEvent_ptsz'', ''cuStreamAddCallback'', ''cuStreamAddCallback_ptsz'',
    ''cuStreamSynchronize'', ''cuStreamSynchronize_ptsz'', ''cuStreamQuery'',
    ''cuStreamQuery_ptsz'', ''cuStreamAttachMemAsync'', ''cuStreamAttachMemAsync_ptsz'',
    ''cuDeviceCanAccessPeer'', ''cuCtxEnablePeerAccess'', ''cuCtxDisablePeerAccess'',
    ''cuIpcGetEventHandle'', ''cuIpcOpenEventHandle'', ''cuIpcGetMemHandle'',
    ''cuIpcOpenMemHandle'', ''cuIpcCloseMemHandle'', ''cuGLCtxCreate_v2'', ''cuGLInit'',
    ''cuGLGetDevices'', ''cuGLRegisterBufferObject'', ''cuGLMapBufferObject_v2'',
    ''cuGLMapBufferObject_v2_ptds'', ''cuGLMapBufferObjectAsync_v2'',
    ''cuGLMapBufferObjectAsync_v2_ptsz'', ''cuGLUnmapBufferObject'',
    ''cuGLUnmapBufferObjectAsync'', ''cuGLUnregisterBufferObject'',
    ''cuGLSetBufferObjectMapFlags'', ''cuGraphicsGLRegisterImage'',
    ''cuGraphicsGLRegisterBuffer'', ''cuGraphicsUnregisterResource'', ''cuGraphicsMapResources'',
    ''cuGraphicsMapResources_ptsz'', ''cuGraphicsUnmapResources'',
    ''cuGraphicsUnmapResources_ptsz'', ''cuGraphicsResourceSetMapFlags_v2'',
    ''cuGraphicsSubResourceGetMappedArray'', ''cuGraphicsResourceGetMappedMipmappedArray'',
    ''cuGraphicsResourceGetMappedPointer_v2'', ''cuProfilerInitialize'', ''cuProfilerStart'',
    ''cuProfilerStop'', ''cuVDPAUGetDevice'', ''cuVDPAUCtxCreate_v2'',
    ''cuGraphicsVDPAURegisterVideoSurface'', ''cuGraphicsVDPAURegisterOutputSurface'',
    ''cuGetExportTable'', ''cuOccupancyMaxActiveBlocksPerMultiprocessor'', ''cuMemAdvise'',
    ''cuMemPrefetchAsync'', ''cuMemPrefetchAsync_ptsz'', ''cuMemRangeGetAttribute'',
    ''cuMemRangeGetAttributes'', ''cuGetErrorString'', ''cuGetErrorName'',
    ''cuArray3DCreate_v2'', ''cuArray3DGetDescriptor'', ''cuArrayCreate_v2'',
    ''cuArrayGetDescriptor'', ''cuCtxAttach'', ''cuCtxCreate'', ''cuCtxDestroy'',
    ''cuCtxDestroy_v2'', ''cuCtxPopCurrent'', ''cuCtxPopCurrent_v2'', ''cuCtxPushCurrent'',
    ''cuCtxPushCurrent_v2'', ''cudbgApiAttach'', ''cudbgApiDetach'', ''cudbgApiInit'',
    ''cudbgGetAPI'', ''cudbgGetAPIVersion'', ''cudbgMain'', ''cudbgReportDriverApiError'']"

definition CUDA_ENTRY_4 :: "string list" where
  "CUDA_ENTRY_4 = [
    ''cudbgReportDriverInternalError'', ''cuDeviceComputeCapability'', ''cuDeviceGetProperties'',
    ''cuDeviceTotalMem_v2'', ''cuEGLStreamConsumerAcquireFrame'', ''cuEGLStreamConsumerConnect'',
    ''cuEGLStreamConsumerConnectWithFlags'', ''cuEGLStreamConsumerDisconnect'',
    ''cuEGLStreamConsumerReleaseFrame'', ''cuEGLStreamProducerConnect'',
    ''cuEGLStreamProducerDisconnect'', ''cuEGLStreamProducerPresentFrame'',
    ''cuEGLStreamProducerReturnFrame'', ''cuEventDestroy'', ''cuFuncSetAttribute'',
    ''cuFuncSetSharedSize'', ''cuGLCtxCreate'', ''cuGLGetDevices_v2'', ''cuGLMapBufferObject'',
    ''cuGLMapBufferObjectAsync'', ''cuGraphicsEGLRegisterImage'',
    ''cuGraphicsResourceGetMappedEglFrame'', ''cuGraphicsResourceGetMappedPointer'',
    ''cuGraphicsResourceSetMapFlags'', ''cuLaunchCooperativeKernel'',
    ''cuLaunchCooperativeKernelMultiDevice'', ''cuLinkAddData_v2'', ''cuLinkAddFile_v2'',
    ''cuLinkCreate_v2'', ''cuMemAlloc_v2'', ''cuMemAllocHost'', ''cuMemAllocHost_v2'',
    ''cuMemAllocPitch_v2'', ''cuMemcpy2D'', ''cuMemcpy2DAsync'', ''cuMemcpy2DUnaligned'',
    ''cuMemcpy2D_v2'', ''cuMemcpy2D_v2_ptds'', ''cuMemcpy3D'', ''cuMemcpy3DAsync'',
    ''cuMemcpyAtoA'', ''cuMemcpyAtoA_v2'', ''cuMemcpyAtoA_v2_ptds'', ''cuMemcpyAtoD'',
    ''cuMemcpyAtoD_v2'', ''cuMemcpyAtoD_v2_ptds'', ''cuMemcpyAtoH'', ''cuMemcpyAtoHAsync'',
    ''cuMemcpyAtoHAsync_v2'', ''cuMemcpyAtoHAsync_v2_ptsz'', ''cuMemcpyAtoH_v2'',
    ''cuMemcpyAtoH_v2_ptds'', ''cuMemcpyDtoA'', ''cuMemcpyDtoA_v2'', ''cuMemcpyDtoA_v2_ptds'',
    ''cuMemcpyDtoD'', ''cuMemcpyDtoDAsync'', ''cuMemcpyDtoH'', ''cuMemcpyDtoHAsync'',
    ''cuMemcpyHtoA'', ''cuMemcpyHtoAAsync'', ''cuMemcpyHtoAAsync_v2'',
    ''cuMemcpyHtoAAsync_v2_ptsz'', ''cuMemcpyHtoA_v2'', ''cuMemcpyHtoA_v2_ptds'',
    ''cuMemcpyHtoD'', ''cuMemcpyHtoDAsync'', ''cuMemFree'', ''cuMemGetAddressRange'',
    ''cuMemGetAttribute'', ''cuMemGetAttribute_v2'', ''cuMemGetInfo_v2'',
    ''cuMemHostGetDevicePointer'', ''cuMemHostRegister'', ''cuMemsetD16'']"

definition CUDA_ENTRY_5 :: "string list" where
  "CUDA_ENTRY_5 = [
    ''cuMemsetD16Async'', ''cuMemsetD16Async_ptsz'', ''cuMemsetD16_v2'', ''cuMemsetD16_v2_ptds'',
    ''cuMemsetD2D16'', ''cuMemsetD2D16Async'', ''cuMemsetD2D16Async_ptsz'', ''cuMemsetD2D16_v2'',
    ''cuMemsetD2D16_v2_ptds'', ''cuMemsetD2D32'', ''cuMemsetD2D32Async'',
    ''cuMemsetD2D32Async_ptsz'', ''cuMemsetD2D32_v2'', ''cuMemsetD2D32_v2_ptds'',
    ''cuMemsetD2D8'', ''cuMemsetD32'', ''cuMemsetD32Async'', ''cuMemsetD32Async_ptsz'',
    ''cuMemsetD32_v2'', ''cuMemsetD32_v2_ptds'', ''cuMemsetD8'', ''cuModuleGetGlobal'',
    ''cuModuleLoadDataEx'', ''cuOccupancyMaxActiveBlocksPerMultiprocessorWithFlags'',
    ''cuOccupancyMaxPotentialBlockSize'', ''cuOccupancyMaxPotentialBlockSizeWithFlags'',
    ''cuParamSetf'', ''cuParamSeti'', ''cuParamSetSize'', ''cuParamSetTexRef'', ''cuParamSetv'',
    ''cuPointerSetAttribute'', ''cuStreamDestroy'', ''cuStreamWaitValue64'',
    ''cuStreamWaitValue64_ptsz'', ''cuStreamWriteValue64'', ''cuStreamWriteValue64_ptsz'',
    ''cuSurfRefGetArray'', ''cuTexRefGetAddress'', ''cuTexRefGetAddressMode'',
    ''cuTexRefGetAddress_v2'', ''cuTexRefGetArray'', ''cuTexRefGetFilterMode'',
    ''cuTexRefGetFlags'', ''cuTexRefGetFormat'', ''cuTexRefGetMaxAnisotropy'',
    ''cuTexRefGetMipmapFilterMode'', ''cuTexRefGetMipmapLevelBias'',
    ''cuTexRefGetMipmapLevelClamp'', ''cuTexRefGetMipmappedArray'', ''cuTexRefSetAddress'',
    ''cuTexRefSetAddress2D'', ''cuTexRefSetAddress2D_v2'', ''cuVDPAUCtxCreate'',
    ''cuEGLApiInit'', ''cuDestroyExternalMemory'', ''cuDestroyExternalSemaphore'',
    ''cuDeviceGetUuid'', ''cuExternalMemoryGetMappedBuffer'',
    ''cuExternalMemoryGetMappedMipmappedArray'', ''cuGraphAddChildGraphNode'',
    ''cuGraphAddDependencies'', ''cuGraphAddEmptyNode'', ''cuGraphAddHostNode'',
    ''cuGraphAddKernelNode'', ''cuGraphAddMemcpyNode'', ''cuGraphAddMemsetNode'',
    ''cuGraphChildGraphNodeGetGraph'', ''cuGraphClone'', ''cuGraphCreate'', ''cuGraphDestroy'',
    ''cuGraphDestroyNode'', ''cuGraphExecDestroy'', ''cuGraphGetEdges'', ''cuGraphGetNodes'']"

definition CUDA_ENTRY_6 :: "string list" where
  "CUDA_ENTRY_6 = [
    ''cuGraphGetRootNodes'', ''cuGraphHostNodeGetParams'', ''cuGraphHostNodeSetParams'',
    ''cuGraphInstantiate'', ''cuGraphKernelNodeGetParams'', ''cuGraphKernelNodeSetParams'',
    ''cuGraphLaunch'', ''cuGraphLaunch_ptsz'', ''cuGraphMemcpyNodeGetParams'',
    ''cuGraphMemcpyNodeSetParams'', ''cuGraphMemsetNodeGetParams'',
    ''cuGraphMemsetNodeSetParams'', ''cuGraphNodeFindInClone'', ''cuGraphNodeGetDependencies'',
    ''cuGraphNodeGetDependentNodes'', ''cuGraphNodeGetType'', ''cuGraphRemoveDependencies'',
    ''cuImportExternalMemory'', ''cuImportExternalSemaphore'', ''cuLaunchHostFunc'',
    ''cuLaunchHostFunc_ptsz'', ''cuSignalExternalSemaphoresAsync'',
    ''cuSignalExternalSemaphoresAsync_ptsz'', ''cuStreamBeginCapture'',
    ''cuStreamBeginCapture_ptsz'', ''cuStreamEndCapture'', ''cuStreamEndCapture_ptsz'',
    ''cuStreamGetCtx'', ''cuStreamGetCtx_ptsz'', ''cuStreamIsCapturing'',
    ''cuStreamIsCapturing_ptsz'', ''cuWaitExternalSemaphoresAsync'',
    ''cuWaitExternalSemaphoresAsync_ptsz'', ''cuGraphExecKernelNodeSetParams'',
    ''cuStreamBeginCapture_v2'', ''cuStreamBeginCapture_v2_ptsz'', ''cuStreamGetCaptureInfo'',
    ''cuStreamGetCaptureInfo_ptsz'', ''cuThreadExchangeStreamCaptureMode'',
    ''cuDeviceGetNvSciSyncAttributes'', ''cuGraphExecHostNodeSetParams'',
    ''cuGraphExecMemcpyNodeSetParams'', ''cuGraphExecMemsetNodeSetParams'',
    ''cuGraphExecUpdate'', ''cuMemAddressFree'', ''cuMemAddressReserve'', ''cuMemCreate'',
    ''cuMemExportToShareableHandle'', ''cuMemGetAccess'', ''cuMemGetAllocationGranularity'',
    ''cuMemGetAllocationPropertiesFromHandle'', ''cuMemImportFromShareableHandle'', ''cuMemMap'',
    ''cuMemRelease'', ''cuMemSetAccess'', ''cuMemUnmap'', ''cuCtxResetPersistingL2Cache'',
    ''cuDevicePrimaryCtxRelease_v2'', ''cuDevicePrimaryCtxReset_v2'',
    ''cuDevicePrimaryCtxSetFlags_v2'', ''cuFuncGetModule'', ''cuGraphInstantiate_v2'',
    ''cuGraphKernelNodeCopyAttributes'', ''cuGraphKernelNodeGetAttribute'',
    ''cuGraphKernelNodeSetAttribute'', ''cuMemRetainAllocationHandle'',
    ''cuOccupancyAvailableDynamicSMemPerBlock'', ''cuStreamCopyAttributes'',
    ''cuStreamCopyAttributes_ptsz'', ''cuStreamGetAttribute'', ''cuStreamGetAttribute_ptsz'',
    ''cuStreamSetAttribute'', ''cuStreamSetAttribute_ptsz'', ''cuArrayGetPlane'']"

definition CUDA_ENTRY_7 :: "string list" where
  "CUDA_ENTRY_7 = [
    ''cuArrayGetSparseProperties'', ''cuDeviceGetDefaultMemPool'', ''cuDeviceGetLuid'',
    ''cuDeviceGetMemPool'', ''cuDeviceGetTexture1DLinearMaxWidth'', ''cuDeviceSetMemPool'',
    ''cuEventRecordWithFlags'', ''cuEventRecordWithFlags_ptsz'', ''cuGraphAddEventRecordNode'',
    ''cuGraphAddEventWaitNode'', ''cuGraphAddExternalSemaphoresSignalNode'',
    ''cuGraphAddExternalSemaphoresWaitNode'', ''cuGraphEventRecordNodeGetEvent'',
    ''cuGraphEventRecordNodeSetEvent'', ''cuGraphEventWaitNodeGetEvent'',
    ''cuGraphEventWaitNodeSetEvent'', ''cuGraphExecChildGraphNodeSetParams'',
    ''cuGraphExecEventRecordNodeSetEvent'', ''cuGraphExecEventWaitNodeSetEvent'',
    ''cuGraphExecExternalSemaphoresSignalNodeSetParams'',
    ''cuGraphExecExternalSemaphoresWaitNodeSetParams'',
    ''cuGraphExternalSemaphoresSignalNodeGetParams'',
    ''cuGraphExternalSemaphoresSignalNodeSetParams'',
    ''cuGraphExternalSemaphoresWaitNodeGetParams'',
    ''cuGraphExternalSemaphoresWaitNodeSetParams'', ''cuGraphUpload'', ''cuGraphUpload_ptsz'',
    ''cuIpcOpenMemHandle_v2'', ''cuMemAllocAsync'', ''cuMemAllocAsync_ptsz'',
    ''cuMemAllocFromPoolAsync'', ''cuMemAllocFromPoolAsync_ptsz'', ''cuMemFreeAsync'',
    ''cuMemFreeAsync_ptsz'', ''cuMemMapArrayAsync'', ''cuMemMapArrayAsync_ptsz'',
    ''cuMemPoolCreate'', ''cuMemPoolDestroy'', ''cuMemPoolExportPointer'',
    ''cuMemPoolExportToShareableHandle'', ''cuMemPoolGetAccess'', ''cuMemPoolGetAttribute'',
    ''cuMemPoolImportFromShareableHandle'', ''cuMemPoolImportPointer'', ''cuMemPoolSetAccess'',
    ''cuMemPoolSetAttribute'', ''cuMemPoolTrimTo'', ''cuMipmappedArrayGetSparseProperties'',
    ''cuCtxCreate_v3'', ''cuCtxGetExecAffinity'', ''cuDeviceGetExecAffinitySupport'',
    ''cuDeviceGetGraphMemAttribute'', ''cuDeviceGetUuid_v2'', ''cuDeviceGraphMemTrim'',
    ''cuDeviceSetGraphMemAttribute'', ''cuFlushGPUDirectRDMAWrites'', ''cuGetProcAddress'',
    ''cuGraphAddMemAllocNode'', ''cuGraphAddMemFreeNode'', ''cuGraphDebugDotPrint'',
    ''cuGraphInstantiateWithFlags'', ''cuGraphMemAllocNodeGetParams'',
    ''cuGraphMemFreeNodeGetParams'', ''cuGraphReleaseUserObject'', ''cuGraphRetainUserObject'',
    ''cuStreamGetCaptureInfo_v2'', ''cuStreamGetCaptureInfo_v2_ptsz'',
    ''cuStreamUpdateCaptureDependencies'', ''cuStreamUpdateCaptureDependencies_ptsz'',
    ''cuUserObjectCreate'', ''cuUserObjectRelease'', ''cuUserObjectRetain'',
    ''cuArrayGetMemoryRequirements'', ''cuMipmappedArrayGetMemoryRequirements'',
    ''cuStreamWaitValue32_v2'', ''cuStreamWaitValue64_v2'', ''cuStreamWriteValue32_v2'',
    ''cuStreamWriteValue64_v2'', ''cuStreamBatchMemOp_v2'', ''cuGraphAddBatchMemOpNode'',
    ''cuGraphBatchMemOpNodeGetParams'', ''cuGraphBatchMemOpNodeSetParams'',
    ''cuGraphExecBatchMemOpNodeSetParams'', ''cuGraphNodeGetEnabled'', ''cuGraphNodeSetEnabled'',
    ''cuModuleGetLoadingMode'', ''cuMemGetHandleForAddressRange'']"

definition CUDA_ENTRY_names :: "string list" where
  "CUDA_ENTRY_names = CUDA_ENTRY_1 @ CUDA_ENTRY_2 @ CUDA_ENTRY_3 @ CUDA_ENTRY_4 @ CUDA_ENTRY_5 @ CUDA_ENTRY_6 @ CUDA_ENTRY_7"

subsection \<open>CUDA: the names looked up\<close>

definition cuda_library_entry_1 :: "string list" where
  "cuda_library_entry_1 = [
    ''cuInit'', ''cuDeviceGet'', ''cuDeviceGetCount'', ''cuDeviceGetName'',
    ''cuDeviceGetAttribute'', ''cuDeviceGetP2PAttribute'', ''cuDriverGetVersion'',
    ''cuDeviceGetByPCIBusId'', ''cuDeviceGetPCIBusId'', ''cuDevicePrimaryCtxRetain'',
    ''cuDevicePrimaryCtxRelease'', ''cuDevicePrimaryCtxSetFlags'',
    ''cuDevicePrimaryCtxGetState'', ''cuDevicePrimaryCtxReset'', ''cuCtxCreate_v2'',
    ''cuCtxGetFlags'', ''cuCtxSetCurrent'', ''cuCtxGetCurrent'', ''cuCtxDetach'',
    ''cuCtxGetApiVersion'', ''cuCtxGetDevice'', ''cuCtxGetLimit'', ''cuCtxSetLimit'',
    ''cuCtxGetCacheConfig'', ''cuCtxSetCacheConfig'', ''cuCtxGetSharedMemConfig'',
    ''cuCtxGetStreamPriorityRange'', ''cuCtxSetSharedMemConfig'', ''cuCtxSynchronize'',
    ''cuModuleLoad'', ''cuModuleLoadData'', ''cuModuleLoadFatBinary'', ''cuModuleUnload'',
    ''cuModuleGetFunction'', ''cuModuleGetGlobal_v2'', ''cuModuleGetTexRef'',
    ''cuModuleGetSurfRef'', ''cuLinkCreate'', ''cuLinkAddData'', ''cuLinkAddFile'',
    ''cuLinkComplete'', ''cuLinkDestroy'', ''cuMemAllocManaged'', ''cuMemFree_v2'',
    ''cuMemGetAddressRange_v2'', ''cuMemFreeHost'', ''cuMemHostAlloc'',
    ''cuMemHostGetDevicePointer_v2'', ''cuMemHostGetFlags'', ''cuMemHostRegister_v2'',
    ''cuMemHostUnregister'', ''cuPointerGetAttribute'', ''cuPointerGetAttributes'', ''cuMemcpy'',
    ''cuMemcpy_ptds'', ''cuMemcpyAsync'', ''cuMemcpyAsync_ptsz'', ''cuMemcpyPeer'',
    ''cuMemcpyPeer_ptds'', ''cuMemcpyPeerAsync'', ''cuMemcpyPeerAsync_ptsz'',
    ''cuMemcpyHtoD_v2'', ''cuMemcpyHtoD_v2_ptds'', ''cuMemcpyHtoDAsync_v2'',
    ''cuMemcpyHtoDAsync_v2_ptsz'', ''cuMemcpyDtoH_v2'', ''cuMemcpyDtoH_v2_ptds'',
    ''cuMemcpyDtoHAsync_v2'', ''cuMemcpyDtoHAsync_v2_ptsz'', ''cuMemcpyDtoD_v2'',
    ''cuMemcpyDtoD_v2_ptds'', ''cuMemcpyDtoDAsync_v2'', ''cuMemcpyDtoDAsync_v2_ptsz'',
    ''cuMemcpy2DUnaligned_v2'', ''cuMemcpy2DUnaligned_v2_ptds'', ''cuMemcpy2DAsync_v2'',
    ''cuMemcpy2DAsync_v2_ptsz'', ''cuMemcpy3D_v2'', ''cuMemcpy3D_v2_ptds'',
    ''cuMemcpy3DAsync_v2'', ''cuMemcpy3DAsync_v2_ptsz'', ''cuMemcpy3DPeer'',
    ''cuMemcpy3DPeer_ptds'', ''cuMemcpy3DPeerAsync'', ''cuMemcpy3DPeerAsync_ptsz'',
    ''cuMemsetD8_v2'', ''cuMemsetD8_v2_ptds'', ''cuMemsetD8Async'', ''cuMemsetD8Async_ptsz'',
    ''cuMemsetD2D8_v2'', ''cuMemsetD2D8_v2_ptds'', ''cuMemsetD2D8Async'',
    ''cuMemsetD2D8Async_ptsz'', ''cuFuncSetCacheConfig'', ''cuFuncSetSharedMemConfig'',
    ''cuFuncGetAttribute'', ''cuArrayGetDescriptor_v2'', ''cuArray3DGetDescriptor_v2'',
    ''cuArrayDestroy'', ''cuMipmappedArrayCreate'', ''cuMipmappedArrayGetLevel'',
    ''cuMipmappedArrayDestroy'', ''cuTexRefCreate'', ''cuTexRefDestroy'', ''cuTexRefSetArray'',
    ''cuTexRefSetMipmappedArray'', ''cuTexRefSetAddress_v2'', ''cuTexRefSetAddress2D_v3'',
    ''cuTexRefSetFormat'', ''cuTexRefSetAddressMode'', ''cuTexRefSetFilterMode'',
    ''cuTexRefSetMipmapFilterMode'', ''cuTexRefSetMipmapLevelBias'',
    ''cuTexRefSetMipmapLevelClamp'', ''cuTexRefSetMaxAnisotropy'', ''cuTexRefSetFlags'',
    ''cuTexRefSetBorderColor'', ''cuTexRefGetBorderColor'', ''cuSurfRefSetArray'',
    ''cuTexObjectCreate'', ''cuTexObjectDestroy'', ''cuTexObjectGetResourceDesc'',
    ''cuTexObjectGetTextureDesc'', ''cuTexObjectGetResourceViewDesc'', ''cuSurfObjectCreate'',
    ''cuSurfObjectDestroy'', ''cuSurfObjectGetResourceDesc'', ''cuLaunchKernel'',
    ''cuEventCreate'', ''cuEventRecord'', ''cuEventRecord_ptsz'', ''cuEventQuery'',
    ''cuEventSynchronize'', ''cuEventDestroy_v2'', ''cuEventElapsedTime'', ''cuStreamWaitValue32'']"

definition cuda_library_entry_2 :: "string list" where
  "cuda_library_entry_2 = [
    ''cuStreamWaitValue32_ptsz'', ''cuStreamWriteValue32'', ''cuStreamWriteValue32_ptsz'',
    ''cuStreamBatchMemOp'', ''cuStreamBatchMemOp_ptsz'', ''cuStreamCreate'',
    ''cuStreamCreateWithPriority'', ''cuStreamGetPriority'', ''cuStreamGetPriority_ptsz'',
    ''cuStreamGetFlags'', ''cuStreamGetFlags_ptsz'', ''cuStreamDestroy_v2'',
    ''cuStreamWaitEvent'', ''cuStreamWaitEvent_ptsz'', ''cuStreamAddCallback'',
    ''cuStreamAddCallback_ptsz'', ''cuStreamSynchronize'', ''cuStreamSynchronize_ptsz'',
    ''cuStreamQuery'', ''cuStreamQuery_ptsz'', ''cuStreamAttachMemAsync'',
    ''cuStreamAttachMemAsync_ptsz'', ''cuDeviceCanAccessPeer'', ''cuCtxEnablePeerAccess'',
    ''cuCtxDisablePeerAccess'', ''cuIpcGetEventHandle'', ''cuIpcOpenEventHandle'',
    ''cuIpcGetMemHandle'', ''cuIpcOpenMemHandle'', ''cuIpcCloseMemHandle'', ''cuGLCtxCreate_v2'',
    ''cuGLInit'', ''cuGLGetDevices'', ''cuGLRegisterBufferObject'', ''cuGLMapBufferObject_v2'',
    ''cuGLMapBufferObject_v2_ptds'', ''cuGLMapBufferObjectAsync_v2'',
    ''cuGLMapBufferObjectAsync_v2_ptsz'', ''cuGLUnmapBufferObject'',
    ''cuGLUnmapBufferObjectAsync'', ''cuGLUnregisterBufferObject'',
    ''cuGLSetBufferObjectMapFlags'', ''cuGraphicsGLRegisterImage'',
    ''cuGraphicsGLRegisterBuffer'', ''cuGraphicsUnregisterResource'', ''cuGraphicsMapResources'',
    ''cuGraphicsMapResources_ptsz'', ''cuGraphicsUnmapResources'',
    ''cuGraphicsUnmapResources_ptsz'', ''cuGraphicsResourceSetMapFlags_v2'',
    ''cuGraphicsSubResourceGetMappedArray'', ''cuGraphicsResourceGetMappedMipmappedArray'',
    ''cuGraphicsResourceGetMappedPointer_v2'', ''cuProfilerInitialize'', ''cuProfilerStart'',
    ''cuProfilerStop'', ''cuVDPAUGetDevice'', ''cuVDPAUCtxCreate_v2'',
    ''cuGraphicsVDPAURegisterVideoSurface'', ''cuGraphicsVDPAURegisterOutputSurface'',
    ''cuGetExportTable'', ''cuOccupancyMaxActiveBlocksPerMultiprocessor'', ''cuMemAdvise'',
    ''cuMemPrefetchAsync'', ''cuMemPrefetchAsync_ptsz'', ''cuMemRangeGetAttribute'',
    ''cuMemRangeGetAttributes'', ''cuGetErrorString'', ''cuGetErrorName'', ''cuArray3DCreate'',
    ''cuArray3DGetDescriptor'', ''cuArrayCreate'', ''cuArrayGetDescriptor'', ''cuCtxAttach'',
    ''cuCtxCreate'', ''cuCtxDestroy'', ''cuCtxDestroy_v2'', ''cuCtxPopCurrent'',
    ''cuCtxPopCurrent_v2'', ''cuCtxPushCurrent'', ''cuCtxPushCurrent_v2'', ''cudbgApiAttach'',
    ''cudbgApiDetach'', ''cudbgApiInit'', ''cudbgGetAPI'', ''cudbgGetAPIVersion'', ''cudbgMain'',
    ''cudbgReportDriverApiError'', ''cudbgReportDriverInternalError'',
    ''cuDeviceComputeCapability'', ''cuDeviceGetProperties'', ''cuDeviceTotalMem'',
    ''cuEGLStreamConsumerAcquireFrame'', ''cuEGLStreamConsumerConnect'',
    ''cuEGLStreamConsumerConnectWithFlags'', ''cuEGLStreamConsumerDisconnect'',
    ''cuEGLStreamConsumerReleaseFrame'', ''cuEGLStreamProducerConnect'',
    ''cuEGLStreamProducerDisconnect'', ''cuEGLStreamProducerPresentFrame'',
    ''cuEGLStreamProducerReturnFrame'', ''cuEventDestroy'', ''cuFuncSetAttribute'',
    ''cuFuncSetSharedSize'', ''cuGLCtxCreate'', ''cuGLGetDevices_v2'', ''cuGLMapBufferObject'',
    ''cuGLMapBufferObjectAsync'', ''cuGraphicsEGLRegisterImage'',
    ''cuGraphicsResourceGetMappedEglFrame'', ''cuGraphicsResourceGetMappedPointer'',
    ''cuGraphicsResourceSetMapFlags'', ''cuLaunchCooperativeKernel'',
    ''cuLaunchCooperativeKernelMultiDevice'', ''cuLinkAddData_v2'', ''cuLinkAddFile_v2'',
    ''cuLinkCreate_v2'', ''cuMemAlloc'', ''cuMemAllocHost'', ''cuMemAllocHost_v2'',
    ''cuMemAllocPitch'', ''cuMemcpy2D'', ''cuMemcpy2DAsync'', ''cuMemcpy2DUnaligned'',
    ''cuMemcpy2D_v2'', ''cuMemcpy2D_v2_ptds'', ''cuMemcpy3D'', ''cuMemcpy3DAsync'',
    ''cuMemcpyAtoA'', ''cuMemcpyAtoA_v2'', ''cuMemcpyAtoA_v2_ptds'', ''cuMemcpyAtoD'',
    ''cuMemcpyAtoD_v2'', ''cuMemcpyAtoD_v2_ptds'', ''cuMemcpyAtoH'', ''cuMemcpyAtoHAsync'',
    ''cuMemcpyAtoHAsync_v2'']"

definition cuda_library_entry_3 :: "string list" where
  "cuda_library_entry_3 = [
    ''cuMemcpyAtoHAsync_v2_ptsz'', ''cuMemcpyAtoH_v2'', ''cuMemcpyAtoH_v2_ptds'',
    ''cuMemcpyDtoA'', ''cuMemcpyDtoA_v2'', ''cuMemcpyDtoA_v2_ptds'', ''cuMemcpyDtoD'',
    ''cuMemcpyDtoDAsync'', ''cuMemcpyDtoH'', ''cuMemcpyDtoHAsync'', ''cuMemcpyHtoA'',
    ''cuMemcpyHtoAAsync'', ''cuMemcpyHtoAAsync_v2'', ''cuMemcpyHtoAAsync_v2_ptsz'',
    ''cuMemcpyHtoA_v2'', ''cuMemcpyHtoA_v2_ptds'', ''cuMemcpyHtoD'', ''cuMemcpyHtoDAsync'',
    ''cuMemFree'', ''cuMemGetAddressRange'', ''cuMemGetAttribute'', ''cuMemGetAttribute_v2'',
    ''cuMemGetInfo'', ''cuMemHostGetDevicePointer'', ''cuMemHostRegister'', ''cuMemsetD16'',
    ''cuMemsetD16Async'', ''cuMemsetD16Async_ptsz'', ''cuMemsetD16_v2'', ''cuMemsetD16_v2_ptds'',
    ''cuMemsetD2D16'', ''cuMemsetD2D16Async'', ''cuMemsetD2D16Async_ptsz'', ''cuMemsetD2D16_v2'',
    ''cuMemsetD2D16_v2_ptds'', ''cuMemsetD2D32'', ''cuMemsetD2D32Async'',
    ''cuMemsetD2D32Async_ptsz'', ''cuMemsetD2D32_v2'', ''cuMemsetD2D32_v2_ptds'',
    ''cuMemsetD2D8'', ''cuMemsetD32'', ''cuMemsetD32Async'', ''cuMemsetD32Async_ptsz'',
    ''cuMemsetD32_v2'', ''cuMemsetD32_v2_ptds'', ''cuMemsetD8'', ''cuModuleGetGlobal'',
    ''cuModuleLoadDataEx'', ''cuOccupancyMaxActiveBlocksPerMultiprocessorWithFlags'',
    ''cuOccupancyMaxPotentialBlockSize'', ''cuOccupancyMaxPotentialBlockSizeWithFlags'',
    ''cuParamSetf'', ''cuParamSeti'', ''cuParamSetSize'', ''cuParamSetTexRef'', ''cuParamSetv'',
    ''cuPointerSetAttribute'', ''cuStreamDestroy'', ''cuStreamWaitValue64'',
    ''cuStreamWaitValue64_ptsz'', ''cuStreamWriteValue64'', ''cuStreamWriteValue64_ptsz'',
    ''cuSurfRefGetArray'', ''cuTexRefGetAddress'', ''cuTexRefGetAddressMode'',
    ''cuTexRefGetAddress_v2'', ''cuTexRefGetArray'', ''cuTexRefGetFilterMode'',
    ''cuTexRefGetFlags'', ''cuTexRefGetFormat'', ''cuTexRefGetMaxAnisotropy'',
    ''cuTexRefGetMipmapFilterMode'', ''cuTexRefGetMipmapLevelBias'',
    ''cuTexRefGetMipmapLevelClamp'', ''cuTexRefGetMipmappedArray'', ''cuTexRefSetAddress'',
    ''cuTexRefSetAddress2D'', ''cuTexRefSetAddress2D_v2'', ''cuVDPAUCtxCreate'',
    ''cuEGLApiInit'', ''cuDestroyExternalMemory'', ''cuDestroyExternalSemaphore'',
    ''cuDeviceGetUuid'', ''cuExternalMemoryGetMappedBuffer'',
    ''cuExternalMemoryGetMappedMipmappedArray'', ''cuGraphAddChildGraphNode'',
    ''cuGraphAddDependencies'', ''cuGraphAddEmptyNode'', ''cuGraphAddHostNode'',
    ''cuGraphAddKernelNode'', ''cuGraphAddMemcpyNode'', ''cuGraphAddMemsetNode'',
    ''cuGraphChildGraphNodeGetGraph'', ''cuGraphClone'', ''cuGraphCreate'', ''cuGraphDestroy'',
    ''cuGraphDestroyNode'', ''cuGraphExecDestroy'', ''cuGraphGetEdges'', ''cuGraphGetNodes'',
    ''cuGraphGetRootNodes'', ''cuGraphHostNodeGetParams'', ''cuGraphHostNodeSetParams'',
    ''cuGraphInstantiate'', ''cuGraphKernelNodeGetParams'', ''cuGraphKernelNodeSetParams'',
    ''cuGraphLaunch'', ''cuGraphLaunch_ptsz'', ''cuGraphMemcpyNodeGetParams'',
    ''cuGraphMemcpyNodeSetParams'', ''cuGraphMemsetNodeGetParams'',
    ''cuGraphMemsetNodeSetParams'', ''cuGraphNodeFindInClone'', ''cuGraphNodeGetDependencies'',
    ''cuGraphNodeGetDependentNodes'', ''cuGraphNodeGetType'', ''cuGraphRemoveDependencies'',
    ''cuImportExternalMemory'', ''cuImportExternalSemaphore'', ''cuLaunchHostFunc'',
    ''cuLaunchHostFunc_ptsz'', ''cuSignalExternalSemaphoresAsync'',
    ''cuSignalExternalSemaphoresAsync_ptsz'', ''cuStreamBeginCapture'',
    ''cuStreamBeginCapture_ptsz'', ''cuStreamEndCapture'', ''cuStreamEndCapture_ptsz'',
    ''cuStreamGetCtx'', ''cuStreamGetCtx_ptsz'', ''cuStreamIsCapturing'',
    ''cuStreamIsCapturing_ptsz'', ''cuWaitExternalSemaphoresAsync'',
    ''cuWaitExternalSemaphoresAsync_ptsz'', ''cuGraphExecKernelNodeSetParams'',
    ''cuStreamBeginCapture_v2'', ''cuStreamBeginCapture_v2_ptsz'']"

definition cuda_library_entry_4 :: "string list" where
  "cuda_library_entry_4 = [
    ''cuStreamGetCaptureInfo'', ''cuStreamGetCaptureInfo_ptsz'',
    ''cuThreadExchangeStreamCaptureMode'', ''cuDeviceGetNvSciSyncAttributes'',
    ''cuGraphExecHostNodeSetParams'', ''cuGraphExecMemcpyNodeSetParams'',
    ''cuGraphExecMemsetNodeSetParams'', ''cuGraphExecUpdate'', ''cuMemAddressFree'',
    ''cuMemAddressReserve'', ''cuMemCreate'', ''cuMemExportToShareableHandle'',
    ''cuMemGetAccess'', ''cuMemGetAllocationGranularity'',
    ''cuMemGetAllocationPropertiesFromHandle'', ''cuMemImportFromShareableHandle'', ''cuMemMap'',
    ''cuMemRelease'', ''cuMemSetAccess'', ''cuMemUnmap'', ''cuCtxResetPersistingL2Cache'',
    ''cuDevicePrimaryCtxRelease_v2'', ''cuDevicePrimaryCtxReset_v2'',
    ''cuDevicePrimaryCtxSetFlags_v2'', ''cuFuncGetModule'', ''cuGraphInstantiate_v2'',
    ''cuGraphKernelNodeCopyAttributes'', ''cuGraphKernelNodeGetAttribute'',
    ''cuGraphKernelNodeSetAttribute'', ''cuMemRetainAllocationHandle'',
    ''cuOccupancyAvailableDynamicSMemPerBlock'', ''cuStreamCopyAttributes'',
    ''cuStreamCopyAttributes_ptsz'', ''cuStreamGetAttribute'', ''cuStreamGetAttribute_ptsz'',
    ''cuStreamSetAttribute'', ''cuStreamSetAttribute_ptsz'', ''cuArrayGetPlane'',
    ''cuArrayGetSparseProperties'', ''cuDeviceGetDefaultMemPool'', ''cuDeviceGetLuid'',
    ''cuDeviceGetMemPool'', ''cuDeviceGetTexture1DLinearMaxWidth'', ''cuDeviceSetMemPool'',
    ''cuEventRecordWithFlags'', ''cuEventRecordWithFlags_ptsz'', ''cuGraphAddEventRecordNode'',
    ''cuGraphAddEventWaitNode'', ''cuGraphAddExternalSemaphoresSignalNode'',
    ''cuGraphAddExternalSemaphoresWaitNode'', ''cuGraphEventRecordNodeGetEvent'',
    ''cuGraphEventRecordNodeSetEvent'', ''cuGraphEventWaitNodeGetEvent'',
    ''cuGraphEventWaitNodeSetEvent'', ''cuGraphExecChildGraphNodeSetParams'',
    ''cuGraphExecEventRecordNodeSetEvent'', ''cuGraphExecEventWaitNodeSetEvent'',
    ''cuGraphExecExternalSemaphoresSignalNodeSetParams'',
    ''cuGraphExecExternalSemaphoresWaitNodeSetParams'',
    ''cuGraphExternalSemaphoresSignalNodeGetParams'',
    ''cuGraphExternalSemaphoresSignalNodeSetParams'',
    ''cuGraphExternalSemaphoresWaitNodeGetParams'',
    ''cuGraphExternalSemaphoresWaitNodeSetParams'', ''cuGraphUpload'', ''cuGraphUpload_ptsz'',
    ''cuIpcOpenMemHandle_v2'', ''cuMemAllocAsync'', ''cuMemAllocAsync_ptsz'',
    ''cuMemAllocFromPoolAsync'', ''cuMemAllocFromPoolAsync_ptsz'', ''cuMemFreeAsync'',
    ''cuMemFreeAsync_ptsz'', ''cuMemMapArrayAsync'', ''cuMemMapArrayAsync_ptsz'',
    ''cuMemPoolCreate'', ''cuMemPoolDestroy'', ''cuMemPoolExportPointer'',
    ''cuMemPoolExportToShareableHandle'', ''cuMemPoolGetAccess'', ''cuMemPoolGetAttribute'',
    ''cuMemPoolImportFromShareableHandle'', ''cuMemPoolImportPointer'', ''cuMemPoolSetAccess'',
    ''cuMemPoolSetAttribute'', ''cuMemPoolTrimTo'', ''cuMipmappedArrayGetSparseProperties'',
    ''cuCtxCreate_v3'', ''cuCtxGetExecAffinity'', ''cuDeviceGetExecAffinitySupport'',
    ''cuDeviceGetGraphMemAttribute'', ''cuDeviceGetUuid_v2'', ''cuDeviceGraphMemTrim'',
    ''cuDeviceSetGraphMemAttribute'', ''cuFlushGPUDirectRDMAWrites'', ''cuGetProcAddress'',
    ''cuGraphAddMemAllocNode'', ''cuGraphAddMemFreeNode'', ''cuGraphDebugDotPrint'',
    ''cuGraphInstantiateWithFlags'', ''cuGraphMemAllocNodeGetParams'',
    ''cuGraphMemFreeNodeGetParams'', ''cuGraphReleaseUserObject'', ''cuGraphRetainUserObject'',
    ''cuStreamGetCaptureInfo_v2'', ''cuStreamGetCaptureInfo_v2_ptsz'',
    ''cuStreamUpdateCaptureDependencies'', ''cuStreamUpdateCaptureDependencies_ptsz'',
    ''cuUserObjectCreate'', ''cuUserObjectRelease'', ''cuUserObjectRetain'',
    ''cuArrayGetMemoryRequirements'', ''cuMipmappedArrayGetMemoryRequirements'',
    ''cuStreamWaitValue32_v2'', ''cuStreamWaitValue64_v2'', ''cuStreamWriteValue32_v2'',
    ''cuStreamWriteValue64_v2'', ''cuStreamBatchMemOp_v2'', ''cuGraphAddBatchMemOpNode'',
    ''cuGraphBatchMemOpNodeGetParams'', ''cuGraphBatchMemOpNodeSetParams'',
    ''cuGraphExecBatchMemOpNodeSetParams'', ''cuGraphNodeGetEnabled'', ''cuGraphNodeSetEnabled'',
    ''cuModuleGetLoadingMode'', ''cuMemGetHandleForAddressRange'']"

definition cuda_library_entry_names :: "string list" where
  "cuda_library_entry_names = cuda_library_entry_1 @ cuda_library_entry_2 @ cuda_library_entry_3 @ cuda_library_entry_4"

end
