(* ===== verification/Symbol_Table.thy ===== *)
theory Symbol_Table
  imports Driver_Tables C_Prelude
begin

text \<open>
  The tables of driver functions: \<open>entry_t\<close>, the loaders \<open>getMluDriverLibPtrDlsym\<close> and
  \<open>getGpuDriverLibPtrDlsym\<close> that fill them, \<open>real_dlsym\<close> they use, and \<open>REAL_MLU_FUNC_PTR\<close> and
  \<open>REAL_GPU_FUNC_PTR\<close> that read them (\<open>core/interceptor\<close>). The contract between an enumeration
  and its table is the locale \<open>symbol_table\<close>; both libraries' tables are interpretations of it.
\<close>

subsection \<open>Loading\<close>

record 'fp entry_t =
  name :: string
  func_ptr :: "'fp option"

text \<open>
  The dynamic linker is an argument: the real \<open>dlsym\<close>, if \<open>__libc_dlsym\<close> finds it in
  \<open>libdl.so\<close>, and the handle \<open>__libc_dlopen_mode\<close> returns for a library.
\<close>

record ('h, 'fp) linker =
  internal_dlsym :: "('h \<Rightarrow> string \<Rightarrow> 'fp option) option"
  dlopen :: "string \<Rightarrow> 'h"

definition real_dlsym :: "('h, 'fp, 'e) linker_scheme \<Rightarrow> 'h \<Rightarrow> string \<Rightarrow> 'fp option c_result" where
  "real_dlsym env handle symbol =
     (case internal_dlsym env of
        None \<Rightarrow> Inl Null_Deref
      | Some f \<Rightarrow> Inr (f handle symbol))"

text \<open>
  The loop of the loaders, from index \<open>i\<close>: the table, and the names reported as not found.
\<close>

function load_loop ::
    "('h, 'fp, 'e) linker_scheme \<Rightarrow> string \<Rightarrow> nat \<Rightarrow> nat \<Rightarrow> 'fp entry_t list \<Rightarrow> string list
     \<Rightarrow> ('fp entry_t list \<times> string list) c_result" where
  "load_loop env lib bound i table missing =
     (if \<not> i < bound then Inr (table, missing)
      else if \<not> i < length table then Inl Out_Of_Bounds
      else c_bind (real_dlsym env (dlopen env lib) (name (table ! i))) (\<lambda>p.
        load_loop env lib bound (i + 1) (table[i := (table ! i)\<lparr>func_ptr := p\<rparr>])
          (if p = None then missing @ [name (table ! i)] else missing)))"
  by pat_completeness auto
termination
  by (relation "measure (\<lambda>(env, lib, bound, i, table, missing). bound - i)") auto

declare load_loop.simps [simp del]

definition static_table :: "string list \<Rightarrow> 'fp entry_t list" where
  "static_table names = map (\<lambda>n. \<lparr>name = n, func_ptr = None\<rparr>) names"

definition getMluDriverLibPtrDlsym ::
    "('h, 'fp, 'e) linker_scheme \<Rightarrow> 'fp entry_t list \<Rightarrow> ('fp entry_t list \<times> string list) c_result" where
  "getMluDriverLibPtrDlsym env table =
     load_loop env ''libcndrv.so'' (length MLU_ENTRY_names) 0 table []"

definition getGpuDriverLibPtrDlsym ::
    "('h, 'fp, 'e) linker_scheme \<Rightarrow> 'fp entry_t list \<Rightarrow> ('fp entry_t list \<times> string list) c_result" where
  "getGpuDriverLibPtrDlsym env table =
     load_loop env ''libcuda.so'' (length CUDA_ENTRY_names) 0 table []"

subsection \<open>Reading an entry\<close>

text \<open>The value of an enumerator. A name that is none is a program that does not compile.\<close>

fun index_of :: "'a \<Rightarrow> 'a list \<Rightarrow> nat option" where
  "index_of x [] = None"
| "index_of x (y # ys) = (if x = y then Some 0 else map_option Suc (index_of x ys))"

definition entry_ptr :: "string list \<Rightarrow> 'fp entry_t list \<Rightarrow> string \<Rightarrow> 'fp option c_result" where
  "entry_ptr enumerators table x =
     (case index_of x enumerators of
        None \<Rightarrow> Inl Out_Of_Bounds
      | Some i \<Rightarrow> if i < length table then Inr (func_ptr (table ! i)) else Inl Out_Of_Bounds)"

definition REAL_MLU_FUNC_PTR :: "'fp entry_t list \<Rightarrow> string \<Rightarrow> 'fp option c_result" where
  "REAL_MLU_FUNC_PTR = entry_ptr MLU_ENTRY_names"

definition REAL_GPU_FUNC_PTR :: "'fp entry_t list \<Rightarrow> string \<Rightarrow> 'fp option c_result" where
  "REAL_GPU_FUNC_PTR = entry_ptr CUDA_ENTRY_names"

lemma index_of_Some: "index_of x xs = Some i \<Longrightarrow> i < length xs \<and> xs ! i = x"
  by (induction xs arbitrary: i) (auto split: if_splits)

lemma index_of_member: "x \<in> set xs \<longleftrightarrow> (\<exists>i. index_of x xs = Some i)"
  by (induction xs) auto

lemma static_table_simps [simp]:
  "length (static_table names) = length names"
  "i < length names \<Longrightarrow> static_table names ! i = \<lparr>name = names ! i, func_ptr = None\<rparr>"
  by (simp_all add: static_table_def)

subsection \<open>The contract of an enumeration and its table\<close>

text \<open>
  The table has one entry for each enumerator, in the same order, and \<open>rename\<close> tells under
  which name the enumerator's function is looked up.
\<close>

locale symbol_table =
  fixes enumerators names :: "string list"
    and rename :: "string \<Rightarrow> string"
  assumes names_of_enumerators: "names = map rename enumerators"
begin

definition resolved :: "('h, 'fp, 'e) linker_scheme \<Rightarrow> ('h \<Rightarrow> string \<Rightarrow> 'fp option) \<Rightarrow> string \<Rightarrow> nat \<Rightarrow> 'fp entry_t list" where
  "resolved env f lib i =
     map (\<lambda>n. \<lparr>name = n, func_ptr = f (dlopen env lib) n\<rparr>) (take i names)
     @ static_table (drop i names)"

lemma length_resolved [simp]: "length (resolved env f lib i) = length names"
  by (simp add: resolved_def)

lemma resolved_start: "resolved env f lib 0 = static_table names"
  by (simp add: resolved_def)

lemma resolved_next:
  assumes "i < length names"
  shows "name (resolved env f lib i ! i) = names ! i"
    and "(resolved env f lib i)[i := (resolved env f lib i ! i)\<lparr>func_ptr := f (dlopen env lib) (names ! i)\<rparr>]
      = resolved env f lib (i + 1)"
proof -
  have d: "static_table (drop i names) = \<lparr>name = names ! i, func_ptr = None\<rparr> # static_table (drop (i + 1) names)"
    using assms by (simp add: static_table_def Cons_nth_drop_Suc [symmetric])
  have n: "resolved env f lib i ! i = \<lparr>name = names ! i, func_ptr = None\<rparr>"
    using assms by (simp add: resolved_def nth_append d)
  then show "name (resolved env f lib i ! i) = names ! i" by simp
  have "(resolved env f lib i)[i := \<lparr>name = names ! i, func_ptr = f (dlopen env lib) (names ! i)\<rparr>]
      = resolved env f lib (i + 1)"
    using assms by (simp add: resolved_def d list_update_append take_Suc_conv_app_nth)
  with n show "(resolved env f lib i)[i := (resolved env f lib i ! i)\<lparr>func_ptr := f (dlopen env lib) (names ! i)\<rparr>]
      = resolved env f lib (i + 1)"
    by simp
qed

lemma load_from:
  assumes "internal_dlsym env = Some f" "i \<le> length names"
  shows "load_loop env lib (length names) i (resolved env f lib i) miss
    = Inr (resolved env f lib (length names),
        miss @ filter (\<lambda>n. f (dlopen env lib) n = None) (drop i names))"
  using assms(2)
proof (induction "length names - i" arbitrary: i miss)
  case 0
  then show ?case by (subst load_loop.simps) simp
next
  case (Suc k)
  then have i: "i < length names" by simp
  let ?p = "f (dlopen env lib) (names ! i)"
  have "load_loop env lib (length names) i (resolved env f lib i) miss
      = load_loop env lib (length names) (i + 1) (resolved env f lib (i + 1))
          (if ?p = None then miss @ [names ! i] else miss)"
    using i resolved_next [OF i, of env f lib] assms(1)
    by (subst load_loop.simps) (simp add: real_dlsym_def)
  also have "\<dots> = Inr (resolved env f lib (length names),
      (if ?p = None then miss @ [names ! i] else miss)
        @ filter (\<lambda>n. f (dlopen env lib) n = None) (drop (i + 1) names))"
    using Suc i by (intro Suc(1)) auto
  finally show ?case
    using i by (simp add: Cons_nth_drop_Suc [symmetric])
qed

lemma length_names: "length enumerators = length names"
  by (simp add: names_of_enumerators)

lemma load_all:
  assumes "internal_dlsym env = Some f"
  shows "load_loop env lib (length enumerators) 0 (static_table names) []
    = Inr (resolved env f lib (length names), filter (\<lambda>n. f (dlopen env lib) n = None) names)"
  using load_from [OF assms, of 0 lib "[]"] by (simp add: resolved_start length_names)

lemma load_fails:
  assumes "internal_dlsym env = None" "names \<noteq> []"
  shows "load_loop env lib (length enumerators) 0 (static_table names) [] = Inl Null_Deref"
  using assms by (subst load_loop.simps) (simp add: real_dlsym_def length_names)

lemma entry_loaded:
  assumes "x \<in> set enumerators"
  shows "entry_ptr enumerators (resolved env f lib (length names)) x = Inr (f (dlopen env lib) (rename x))"
proof -
  obtain i where "index_of x enumerators = Some i" "i < length enumerators" "enumerators ! i = x"
    using assms index_of_Some by (metis index_of_member)
  moreover from this have "i < length names" "names ! i = rename x"
    by (simp_all add: names_of_enumerators)
  ultimately show ?thesis
    by (simp add: entry_ptr_def) (simp add: resolved_def nth_append)
qed

lemma entry_unloaded:
  assumes "x \<in> set enumerators"
  shows "entry_ptr enumerators (static_table names) x = Inr None"
proof -
  obtain i where "index_of x enumerators = Some i" "i < length enumerators"
    using assms index_of_Some by (metis index_of_member)
  then show ?thesis
    by (simp add: entry_ptr_def names_of_enumerators)
qed

end

subsection \<open>The two libraries\<close>

text \<open>
  Six CUDA functions are enumerated under the name of their second version, which is the name
  \<open>cuda.h\<close> turns their plain name into, but looked up under the plain name.
\<close>

definition second_versions :: "string list" where
  "second_versions = [''cuArray3DCreate'', ''cuArrayCreate'', ''cuDeviceTotalMem'', ''cuMemAlloc'',
     ''cuMemAllocPitch'', ''cuMemGetInfo'']"

definition looked_up_as :: "string \<Rightarrow> string" where
  "looked_up_as x = (if x \<in> set (map (\<lambda>n. n @ ''_v2'') second_versions) then take (length x - 3) x else x)"

lemma mlu_names: "CNDrv_entry_names = map id MLU_ENTRY_names"
  by (simp only: list.map_id CNDrv_entry_names_def MLU_ENTRY_names_def CNDrv_entry_1_def
      CNDrv_entry_2_def MLU_ENTRY_1_def MLU_ENTRY_2_def append.simps)

lemma cuda_names: "cuda_library_entry_names = map looked_up_as CUDA_ENTRY_names"
  by code_simp

interpretation cndrv: symbol_table MLU_ENTRY_names CNDrv_entry_names id
  by unfold_locales (rule mlu_names)

interpretation cuda: symbol_table CUDA_ENTRY_names cuda_library_entry_names looked_up_as
  by unfold_locales (rule cuda_names)

text \<open>A linker whose libraries export every name but \<open>cuMemAlloc_v2\<close>, at an address of its own.\<close>

definition exports :: "string \<Rightarrow> string \<Rightarrow> (string \<times> string) option" where
  "exports lib n = (if n = ''cuMemAlloc_v2'' then None else Some (lib, n))"

definition demo_linker :: "(string, string \<times> string) linker" where
  "demo_linker = \<lparr>internal_dlsym = Some exports, dlopen = id\<rparr>"

text \<open>
  The MLU enumeration and the MLU table agree entry by entry: after loading, the entry of
  every enumerator \<open>x\<close> holds what the driver library exports as \<open>x\<close>, and exactly the names the
  library does not have are reported.
\<close>

theorem mlu_entries_resolved:
  assumes "internal_dlsym env = Some f"
  shows "\<exists>table. getMluDriverLibPtrDlsym env (static_table CNDrv_entry_names) = Inr
      (table, filter (\<lambda>n. f (dlopen env ''libcndrv.so'') n = None) CNDrv_entry_names)
    \<and> (\<forall>x \<in> set MLU_ENTRY_names. REAL_MLU_FUNC_PTR table x = Inr (f (dlopen env ''libcndrv.so'') x))"
  using cndrv.load_all [OF assms] cndrv.entry_loaded [unfolded id_apply]
  unfolding getMluDriverLibPtrDlsym_def REAL_MLU_FUNC_PTR_def by blast

theorem mlu_entries_resolved_witness:
  "\<exists>table. getMluDriverLibPtrDlsym demo_linker (static_table CNDrv_entry_names) = Inr
      (table, filter (\<lambda>n. exports ''libcndrv.so'' n = None) CNDrv_entry_names)
    \<and> (\<forall>x \<in> set MLU_ENTRY_names. REAL_MLU_FUNC_PTR table x = Inr (exports ''libcndrv.so'' x))"
  using mlu_entries_resolved [of demo_linker exports] by (simp add: demo_linker_def)



end
