(* ===== verification/C_Strings.thy ===== *)
theory C_Strings
  imports C_Prelude
begin

text \<open>
  The functions of \<open>string.h\<close> and \<open>stdio.h\<close> the repository uses, on two levels. A C string is
  a \<open>string\<close> without the terminating NUL. A \<open>char\<close> array is the list of all its characters,
  its capacity the length of the list; the functions that write into one fail where a write or
  a scan would leave it. A text file open for reading is what is left of it and its
  end-of-file flag.
\<close>

abbreviation NUL :: char where "NUL \<equiv> CHR 0x00"

abbreviation NEWLINE :: char where "NEWLINE \<equiv> CHR 0x0A"

named_theorems c_string \<open>facts about the string functions of C\<close>

subsection \<open>Searching\<close>

text \<open>Positions instead of pointers; \<open>NULL\<close> is \<open>None\<close>.\<close>

fun starts_with :: "string \<Rightarrow> string \<Rightarrow> bool" where
  "starts_with s [] = True"
| "starts_with [] (n # ns) = False"
| "starts_with (c # s) (n # ns) = (c = n \<and> starts_with s ns)"

fun strstr :: "string \<Rightarrow> string \<Rightarrow> nat option" where
  "strstr [] needle = (if needle = [] then Some 0 else None)"
| "strstr (c # s) needle =
     (if starts_with (c # s) needle then Some 0 else map_option Suc (strstr s needle))"

fun strchr :: "string \<Rightarrow> char \<Rightarrow> nat option" where
  "strchr [] c = None"
| "strchr (x # s) c = (if x = c then Some 0 else map_option Suc (strchr s c))"

lemma starts_with_iff: "starts_with s n \<longleftrightarrow> (\<exists>r. s = n @ r)"
  by (induction s n rule: starts_with.induct) auto

lemma starts_with_append [simp]: "starts_with (n @ r) n"
  by (simp add: starts_with_iff)

lemma strstr_Some:
  "strstr s n = Some i \<Longrightarrow> \<exists>a b. s = a @ n @ b \<and> length a = i"
proof (induction s arbitrary: i)
  case (Cons c s)
  show ?case
  proof (cases "starts_with (c # s) n")
    case True
    with Cons.prems show ?thesis by (auto simp: starts_with_iff)
  next
    case False
    with Cons.prems obtain j where "strstr s n = Some j" "i = Suc j" by auto
    with Cons.IH [of j] obtain a b where "c # s = (c # a) @ n @ b" "length (c # a) = i" by auto
    then show ?thesis by blast
  qed
qed (simp split: if_splits)

lemma strstr_None: "strstr s n = None \<longleftrightarrow> \<not> (\<exists>a b. s = a @ n @ b)"
proof (induction s)
  case (Cons c s)
  have "(\<exists>a b. c # s = a @ n @ b) \<longleftrightarrow> starts_with (c # s) n \<or> (\<exists>a b. s = a @ n @ b)"
    unfolding starts_with_iff by (metis append_Cons append_Nil list.exhaust list.sel(3))
  with Cons show ?case by simp
qed simp

text \<open>The position is the first one: no earlier position starts an occurrence.\<close>

lemma strstr_first:
  assumes "\<And>j. j < length a \<Longrightarrow> \<not> starts_with (drop j (a @ n @ b)) n"
  shows "strstr (a @ n @ b) n = Some (length a)"
  using assms
proof (induction a)
  case Nil
  have "starts_with (n @ b) n" by simp
  then show ?case by (cases "n @ b") auto
next
  case (Cons x a)
  have "strstr (a @ n @ b) n = Some (length a)"
    using Cons.prems [of "Suc _"] by (intro Cons.IH) auto
  moreover have "\<not> starts_with ((x # a) @ n @ b) n"
    using Cons.prems [of 0] by simp
  ultimately show ?case by simp
qed

lemma strchr_first: "c \<notin> set a \<Longrightarrow> strchr (a @ c # b) c = Some (length a)"
  by (induction a) auto

lemma strchr_None: "strchr s c = None \<longleftrightarrow> c \<notin> set s"
  by (induction s) auto

lemma strchr_Some:
  "strchr s c = Some i \<Longrightarrow> i < length s \<and> s ! i = c \<and> c \<notin> set (take i s)"
  by (induction s arbitrary: i) (auto split: if_splits)

lemma strstr_skip:
  "c \<notin> set a \<Longrightarrow> strstr (a @ s) (c # n) = map_option ((+) (length a)) (strstr s (c # n))"
proof (induction a)
  case Nil
  then show ?case by (cases "strstr s (c # n)") simp_all
next
  case (Cons x a)
  then show ?case by (auto simp: option.map_comp comp_def)
qed

lemma takeWhile_delimiter: "c \<notin> set a \<Longrightarrow> takeWhile (\<lambda>x. x \<noteq> c) (a @ c # r) = a"
  by (induction a) auto

lemma dropWhile_delimiter: "c \<notin> set a \<Longrightarrow> dropWhile (\<lambda>x. x \<noteq> c) (a @ c # r) = c # r"
  by (induction a) auto

lemma word_before_delimiter:
  assumes "c \<notin> set a" "c \<notin> set b" "a @ c # r = b @ c # t"
  shows "a = b"
  using takeWhile_delimiter [OF assms(1), of r] takeWhile_delimiter [OF assms(2), of t] assms(3)
  by simp

lemma starts_with_word:
  assumes "c \<notin> set a" "c \<notin> set w" "a \<noteq> w"
  shows "\<not> starts_with (a @ c # r) (w @ [c])"
  using word_before_delimiter [OF assms(1,2)] assms(3) by (auto simp: starts_with_iff)

lemma strstr_here: "starts_with s n \<Longrightarrow> strstr s n = Some 0"
  by (cases s) (auto simp: starts_with_iff)

subsection \<open>Arrays\<close>

definition cstr :: "char list \<Rightarrow> string" where
  "cstr buf = takeWhile (\<lambda>c. c \<noteq> NUL) buf"

definition c_strlen :: "char list \<Rightarrow> nat c_result" where
  "c_strlen buf = (if NUL \<in> set buf then Inr (length (cstr buf)) else Inl Out_Of_Bounds)"

definition buf_write :: "char list \<Rightarrow> nat \<Rightarrow> char list \<Rightarrow> char list c_result" where
  "buf_write buf off bs =
     (if off + length bs \<le> length buf
      then Inr (take off buf @ bs @ drop (off + length bs) buf)
      else Inl Out_Of_Bounds)"

text \<open>
  \<open>strncpy\<close> writes exactly \<open>n\<close> characters, padding with NUL. A negative \<open>n\<close> is a pointer
  difference that became a huge \<open>size_t\<close>.
\<close>

definition strncpy :: "char list \<Rightarrow> string \<Rightarrow> int \<Rightarrow> char list c_result" where
  "strncpy dst src n =
     (if n < 0 then Inl Out_Of_Bounds
      else buf_write dst 0 (take (nat n) src @ replicate (nat n - length src) NUL))"

definition memmove :: "char list \<Rightarrow> nat \<Rightarrow> nat \<Rightarrow> nat \<Rightarrow> char list c_result" where
  "memmove buf dst src n =
     (if src + n \<le> length buf then buf_write buf dst (take n (drop src buf))
      else Inl Out_Of_Bounds)"

lemma cstr_append [simp]: "NUL \<notin> set s \<Longrightarrow> cstr (s @ t) = s @ cstr t"
  unfolding cstr_def by (rule takeWhile_append2) auto

lemma cstr_NUL [simp]: "cstr (NUL # t) = []"
  by (simp add: cstr_def)

lemma cstr_Nil [simp]: "cstr [] = []"
  by (simp add: cstr_def)

lemma cstr_self: "NUL \<notin> set s \<Longrightarrow> cstr s = s"
  using cstr_append [of s "[]"] by simp

lemma cstr_no_NUL [simp]: "NUL \<notin> set (cstr buf)"
  by (auto simp: cstr_def dest: set_takeWhileD)

lemma cstr_decomp:
  assumes "NUL \<in> set buf"
  shows "\<exists>t. buf = cstr buf @ NUL # t"
proof -
  have "dropWhile (\<lambda>c. c \<noteq> NUL) buf \<noteq> []"
    using assms by (auto simp: dropWhile_eq_Nil_conv)
  then obtain c t where d: "dropWhile (\<lambda>c. c \<noteq> NUL) buf = c # t"
    by (meson neq_Nil_conv)
  then have "c = NUL"
    using hd_dropWhile [of "\<lambda>c. c \<noteq> NUL" buf] by simp
  with d show ?thesis
    by (metis cstr_def takeWhile_dropWhile_id)
qed

lemma buf_write_length: "buf_write buf off bs = Inr r \<Longrightarrow> length r = length buf"
  by (auto simp: buf_write_def split: if_splits)

lemma strncpy_length: "strncpy buf src n = Inr r \<Longrightarrow> length r = length buf"
  by (auto simp: strncpy_def buf_write_length split: if_splits)

lemma memmove_length: "memmove buf dst src n = Inr r \<Longrightarrow> length r = length buf"
  by (auto simp: memmove_def buf_write_length split: if_splits)

text \<open>The idiom \<open>strncpy(dst, src, n); dst[k] = 0\<close> with a source that fits.\<close>

definition set_char :: "char list \<Rightarrow> int \<Rightarrow> char \<Rightarrow> char list c_result" where
  "set_char buf k c =
     (if 0 \<le> k \<and> k < int (length buf) then Inr (buf[nat k := c]) else Inl Out_Of_Bounds)"

text \<open>A buffer holds the string \<open>s\<close>, terminated.\<close>

definition holds :: "char list \<Rightarrow> string \<Rightarrow> bool" where
  "holds buf s \<longleftrightarrow> NUL \<in> set buf \<and> cstr buf = s"

lemma holds_terminated [simp]: "NUL \<notin> set s \<Longrightarrow> holds (s @ NUL # t) s"
  by (simp add: holds_def)

lemma copy_prefix:
  assumes "n < length dst" "n \<le> length src" "NUL \<notin> set src"
  shows "\<exists>r. c_bind (strncpy dst src (int n)) (\<lambda>b. set_char b (int n) NUL) = Inr r
    \<and> holds r (take n src) \<and> length r = length dst"
proof -
  have "strncpy dst src (int n) = Inr (take n src @ drop n dst)"
    using assms by (simp add: strncpy_def buf_write_def)
  moreover have "(take n src @ drop n dst)[n := NUL] = take n src @ NUL # drop (Suc n) dst"
    using assms by (simp add: list_update_append Cons_nth_drop_Suc [symmetric])
  moreover have "NUL \<notin> set (take n src)"
    using assms(3) by (meson in_set_takeD)
  ultimately show ?thesis
    using assms by (simp add: set_char_def min_def)
qed

lemma copy_padded:
  assumes "length src < n" "n \<le> length dst" "NUL \<notin> set src"
  shows "\<exists>r. c_bind (strncpy dst src (int n)) (\<lambda>b. set_char b (int n - 1) NUL) = Inr r
    \<and> length r = length dst \<and> take n r = src @ replicate (n - length src) NUL"
proof -
  let ?p = "src @ replicate (n - length src) NUL"
  have p: "length ?p = n"
    using assms(1) by simp
  have c: "strncpy dst src (int n) = Inr (?p @ drop n dst)"
    using assms by (simp add: strncpy_def buf_write_def)
  have "\<not> n - 1 < length src" "n - 1 - length src < n - length src"
    using assms(1) by linarith+
  then have "?p ! (n - 1) = NUL"
    by (simp add: nth_append del: One_nat_def)
  then have "(?p @ drop n dst)[n - 1 := NUL] = ?p @ drop n dst"
    using assms(1) p
    by (metis diff_less length_greater_0_conv less_nat_zero_code list_update_append1
        list_update_id not_less_zero zero_less_one gr_zeroI)
  with c p assms show ?thesis
    by (simp add: set_char_def nat_diff_distrib' flip: append_assoc)
qed


subsection \<open>Reading lines\<close>

record cfile =
  rest :: string
  at_eof :: bool

text \<open>What \<open>fgets\<close> stores: at most \<open>k\<close> characters, up to and with the first newline.\<close>

fun line_chunk :: "nat \<Rightarrow> string \<Rightarrow> string" where
  "line_chunk 0 s = []"
| "line_chunk (Suc k) [] = []"
| "line_chunk (Suc k) (c # s) = (if c = NEWLINE then [c] else c # line_chunk k s)"

text \<open>
  At the end of the file \<open>fgets\<close> returns \<open>NULL\<close> and leaves the buffer alone. The end-of-file
  flag is set when it looked for a character that is not there, not when it stopped at a
  newline or at the size of the buffer.
\<close>

definition fgets :: "nat \<Rightarrow> cfile \<Rightarrow> string option \<times> cfile" where
  "fgets n f =
     (if rest f = [] then (None, f\<lparr>at_eof := True\<rparr>)
      else let line = line_chunk (n - 1) (rest f) in
        (Some line, f\<lparr>rest := drop (length line) (rest f),
           at_eof := length line < n - 1 \<and> last line \<noteq> NEWLINE\<rparr>))"

lemma line_chunk_nonempty: "0 < k \<Longrightarrow> s \<noteq> [] \<Longrightarrow> line_chunk k s \<noteq> []"
  by (cases k; cases s) auto

lemma line_chunk_full:
  assumes "NEWLINE \<notin> set l" "length l < k"
  shows "line_chunk k (l @ NEWLINE # r) = l @ [NEWLINE]"
  using assms
proof (induction l arbitrary: k)
  case Nil
  then show ?case by (cases k) auto
next
  case (Cons x l)
  then show ?case by (cases k) auto
qed

lemma fgets_line:
  assumes "NEWLINE \<notin> set l" "length l < n - 1"
  shows "fgets n \<lparr>rest = l @ NEWLINE # r, at_eof = e\<rparr>
    = (Some (l @ [NEWLINE]), \<lparr>rest = r, at_eof = False\<rparr>)"
  using line_chunk_full [OF assms] by (simp add: fgets_def)

lemma fgets_shrinks:
  assumes "fgets n f = (Some line, f')" "1 < n"
  shows "length (rest f') < length (rest f)"
proof -
  have "rest f \<noteq> []" "rest f' = drop (length (line_chunk (n - 1) (rest f))) (rest f)"
    using assms(1) by (auto simp: fgets_def Let_def split: if_splits)
  moreover have "line_chunk (n - 1) (rest f) \<noteq> []"
    using assms(2) \<open>rest f \<noteq> []\<close> by (intro line_chunk_nonempty) auto
  ultimately show ?thesis by simp
qed

lemma fgets_end: "fgets n f = (None, f') \<Longrightarrow> at_eof f' \<and> rest f' = []"
  by (auto simp: fgets_def Let_def split: if_splits)

text \<open>A loop that stops at the end of the file makes progress with every call.\<close>

definition unread :: "cfile \<Rightarrow> nat" where
  "unread f = length (rest f) + (if at_eof f then 0 else 1)"

lemma fgets_unread:
  assumes "fgets n f = (r, f')" "1 < n" "\<not> at_eof f"
  shows "unread f' < unread f"
proof (cases r)
  case None
  with fgets_end assms(1,3) show ?thesis by (auto simp: unread_def)
next
  case (Some line)
  with fgets_shrinks [of n f line f'] assms show ?thesis by (simp add: unread_def)
qed

end
