(* ===== verification/Cgroup_Parser.thy ===== *)
theory Cgroup_Parser
  imports C_Strings
begin

text \<open>
  How a process in a container finds out which container it is in: \<open>getStr\<close>,
  \<open>get_cgroupV2_data\<close>, \<open>get_cgroup_data\<close> and \<open>checkCgroupVersion\<close> of
  \<open>core/container/contInfoReg.c\<close>. The files under \<open>/proc\<close> and the output of \<open>mount\<close> are
  arguments; the buffers the callers pass in hold arbitrary characters.
\<close>

definition SLASH :: char where "SLASH = CHR 0x2F"

text \<open>The size of the line buffers and of the result buffers of this file.\<close>

definition BUF_SIZE :: nat where "BUF_SIZE = 4096"

subsection \<open>Cgroup version 2: the mount table\<close>

text \<open>
  \<open>getStr\<close> copies what lies between the first occurrence of \<open>prefixstr\<close> and the first
  occurrence of \<open>endstr\<close>, and then what lies between \<open>endstr\<close> and the next slash. If no slash
  follows, the code subtracts from a null pointer.
\<close>

definition getStr ::
    "string \<Rightarrow> string \<Rightarrow> string \<Rightarrow> char list \<Rightarrow> char list \<Rightarrow> (bool \<times> char list \<times> char list) c_result" where
  "getStr buffer prefixstr endstr poduid podName =
     (case (strstr buffer prefixstr, strstr buffer endstr) of
        (Some start, Some end0) \<Rightarrow>
          (let first = start + length prefixstr; len = int end0 - int first in
           c_bind (strncpy poduid (drop first buffer) len) (\<lambda>pod1.
           c_bind (set_char pod1 len NUL) (\<lambda>pod2.
             let end1 = end0 + length endstr in
             case strchr (drop end1 buffer) SLASH of
               None \<Rightarrow> Inl Null_Deref
             | Some k \<Rightarrow>
                 c_bind (strncpy podName (drop end1 buffer) (int k)) (\<lambda>name1.
                 c_bind (set_char name1 (int k) NUL) (\<lambda>name2. Inr (True, pod2, name2))))))
      | _ \<Rightarrow> Inr (False, poduid, podName))"

definition prefix_pod :: string where "prefix_pod = ''/var/lib/kubelet/pods/''"

definition end_pod :: string where "end_pod = ''/containers/''"

text \<open>\<open>while (!feof) { buffer[0] = 0; fgets; if (getStr(...)) break; }\<close>\<close>

function cgroupV2_loop :: "cfile \<Rightarrow> char list \<Rightarrow> char list \<Rightarrow> (char list \<times> char list) c_result" where
  "cgroupV2_loop f pod_uid cont_name =
     (if at_eof f then Inr (pod_uid, cont_name)
      else case fgets BUF_SIZE f of (r, f') \<Rightarrow>
        c_bind (getStr (case r of None \<Rightarrow> [] | Some line \<Rightarrow> cstr line)
                  prefix_pod end_pod pod_uid cont_name)
          (\<lambda>(found, pod_uid', cont_name').
             if found then Inr (pod_uid', cont_name')
             else cgroupV2_loop f' pod_uid' cont_name'))"
  by pat_completeness auto
termination
proof (relation "measure (\<lambda>(f, _, _). unread f)")
  fix f r f' and pod_uid cont_name :: "char list" and x y and pod' name' :: "char list" and b
  assume "\<not> at_eof f" "(r, f') = fgets BUF_SIZE f"
  then have "unread f' < unread f"
    using fgets_unread [of BUF_SIZE f r f'] by (simp add: BUF_SIZE_def)
  then show "((f', pod', name'), f, pod_uid, cont_name) \<in> measure (\<lambda>(f, _, _). unread f)"
    by simp
qed simp

declare cgroupV2_loop.simps [simp del]

text \<open>The status is 1 if the file cannot be opened and 0 otherwise.\<close>

definition get_cgroupV2_data ::
    "cfile option \<Rightarrow> char list \<Rightarrow> char list \<Rightarrow> (int \<times> char list \<times> char list) c_result" where
  "get_cgroupV2_data file pod_uid cont_name =
     (case file of
        None \<Rightarrow> Inr (1, pod_uid, cont_name)
      | Some f \<Rightarrow> c_bind (cgroupV2_loop f pod_uid cont_name)
          (\<lambda>(pod_uid', cont_name'). Inr (0, pod_uid', cont_name')))"

subsection \<open>Cgroup version 1: the memory controller's path\<close>

text \<open>
  \<open>strtok_r\<close> with one delimiter: the token, and what the saved pointer points at.
\<close>

definition strtok_r :: "char \<Rightarrow> string \<Rightarrow> string option \<times> string" where
  "strtok_r d s =
     (let s' = dropWhile (\<lambda>c. c = d) s in
      if s' = [] then (None, [])
      else (Some (takeWhile (\<lambda>c. c \<noteq> d) s'), drop 1 (dropWhile (\<lambda>c. c \<noteq> d) s')))"

lemma strtok_r_shrinks:
  assumes "strtok_r d s = (Some tok, s')"
  shows "length s' < length s"
proof -
  let ?t = "dropWhile (\<lambda>c. c = d) s"
  have t: "?t \<noteq> []" "s' = drop 1 (dropWhile (\<lambda>c. c \<noteq> d) ?t)"
    using assms by (auto simp: strtok_r_def Let_def split: if_splits)
  have "hd ?t \<noteq> d"
    using hd_dropWhile [of "\<lambda>c. c = d" s] t(1) by simp
  then have "length (dropWhile (\<lambda>c. c \<noteq> d) ?t) < length ?t"
    using t(1) by (cases ?t) (auto intro: le_imp_less_Suc length_dropWhile_le)
  moreover have "length ?t \<le> length s"
    by (rule length_dropWhile_le)
  ultimately show ?thesis
    using t(2) by simp
qed

text \<open>The token after the first token \<open>memory\<close> of a line, if there are both.\<close>

function memory_field :: "string \<Rightarrow> string option" where
  "memory_field s =
     (case strtok_r (CHR '':'') s of
        (None, _) \<Rightarrow> None
      | (Some token, s') \<Rightarrow>
          if token = ''memory'' then fst (strtok_r (CHR '':'') s') else memory_field s')"
  by pat_completeness auto
termination
  by (relation "measure length") (auto dest: strtok_r_shrinks [OF sym])

declare memory_field.simps [simp del]

text \<open>
  The line loop: \<open>None\<close> is one of the two ways to leave the function with status 1. The last
  character of every line is cut off without looking at it; on an empty string the write would
  be in front of the buffer.
\<close>

function memory_cgroup :: "cfile \<Rightarrow> string option c_result" where
  "memory_cgroup f =
     (if at_eof f then Inr None
      else case fgets BUF_SIZE f of
        (None, _) \<Rightarrow> Inr None
      | (Some line, f') \<Rightarrow>
          if cstr line = [] then Inl Out_Of_Bounds
          else case memory_field (butlast (cstr line)) of
            Some path \<Rightarrow> Inr (Some path)
          | None \<Rightarrow> memory_cgroup f')"
  by pat_completeness auto
termination
  by (relation "measure (\<lambda>f. length (rest f))")
    (auto simp: BUF_SIZE_def intro!: fgets_shrinks [OF sym])

declare memory_cgroup.simps [simp del]

text \<open>The positions of the last and the last but one slash: \<open>last_ptr\<close> and \<open>last_second\<close>.\<close>

fun scan_slashes :: "nat \<Rightarrow> string \<Rightarrow> nat option \<Rightarrow> nat option \<Rightarrow> nat option \<times> nat option" where
  "scan_slashes i [] last_ptr last_second = (last_ptr, last_second)"
| "scan_slashes i (c # s) last_ptr last_second =
     (if c = SLASH then scan_slashes (Suc i) s (Some i) last_ptr
      else scan_slashes (Suc i) s last_ptr last_second)"

text \<open>The position of the last dash.\<close>

fun scan_dash :: "nat \<Rightarrow> string \<Rightarrow> nat option \<Rightarrow> nat option" where
  "scan_dash i [] p = p"
| "scan_dash i (c # s) p = scan_dash (Suc i) s (if c = CHR ''-'' then Some i else p)"

text \<open>\<open>strncpy(dst, src, size); dst[size - 1] = 0\<close>\<close>

definition copy_string :: "char list \<Rightarrow> string \<Rightarrow> nat \<Rightarrow> char list c_result" where
  "copy_string dst src n =
     c_bind (strncpy dst src (int n)) (\<lambda>b. set_char b (int n - 1) NUL)"

text \<open>\<open>if ((p = strstr(buf, suffix))) *p = 0\<close>, with the condition as a flag.\<close>

definition prune_at :: "char list \<Rightarrow> string \<Rightarrow> bool \<times> char list" where
  "prune_at buf suffix =
     (case strstr (cstr buf) suffix of
        Some p \<Rightarrow> (True, buf[p := NUL])
      | None \<Rightarrow> (False, buf))"

text \<open>Every underscore up to the terminating NUL becomes a dash.\<close>

definition underscores_to_dashes :: "char list \<Rightarrow> char list" where
  "underscores_to_dashes buf =
     map (\<lambda>c. if c = CHR ''_'' then CHR ''-'' else c) (cstr buf) @ drop (length (cstr buf)) buf"

text \<open>
  The pod of a systemd path: move what follows \<open>-pod\<close> to the front of the buffer, end it at the
  length it had behind \<open>-pod\<close>, which is measured again after the move, and replace underscores.
\<close>

definition systemd_pod_uid :: "char list \<Rightarrow> (int \<times> char list) c_result" where
  "systemd_pod_uid pod_uid =
     (case strstr (cstr pod_uid) ''-pod'' of
        None \<Rightarrow> Inr (1, pod_uid)
      | Some q \<Rightarrow>
          (let prune_pos = q + length ''-pod'' in
           c_bind (c_strlen (drop prune_pos pod_uid)) (\<lambda>n.
           c_bind (memmove pod_uid 0 prune_pos n) (\<lambda>pod1.
           c_bind (c_strlen (drop prune_pos pod1)) (\<lambda>m.
           c_bind (set_char pod1 (int m) NUL) (\<lambda>pod2. Inr (0, underscores_to_dashes pod2)))))))"

definition systemd_ids ::
    "char list \<Rightarrow> char list \<Rightarrow> (int \<times> char list \<times> char list) c_result" where
  "systemd_ids container_id pod_uid =
     (case scan_dash 0 (cstr container_id) None of
        None \<Rightarrow> Inr (1, container_id, pod_uid)
      | Some p \<Rightarrow>
          c_bind (memmove container_id 0 (p + 1) (length (cstr container_id))) (\<lambda>cid1.
          c_bind (systemd_pod_uid pod_uid) (\<lambda>(ret, pod1). Inr (ret, cid1, pod1))))"

definition cgroupfs_ids ::
    "char list \<Rightarrow> char list \<Rightarrow> (int \<times> char list \<times> char list) c_result" where
  "cgroupfs_ids container_id pod_uid =
     c_bind (memmove pod_uid 0 (length ''/pod'') (length (cstr pod_uid))) (\<lambda>pod1.
       Inr (0, container_id, pod1))"

text \<open>From the path to the two identifiers, lines 168 to 258.\<close>

definition cgroup_path_ids ::
    "string \<Rightarrow> char list \<Rightarrow> char list \<Rightarrow> nat \<Rightarrow> (int \<times> char list \<times> char list) c_result" where
  "cgroup_path_ids path pod_uid container_id n =
     (case scan_slashes 0 path None None of
        (None, _) \<Rightarrow> Inr (1, pod_uid, container_id)
      | (Some last_ptr, last_second) \<Rightarrow>
          c_bind (copy_string container_id (drop (last_ptr + 1) path) n) (\<lambda>cid1.
          case prune_at cid1 ''.scope'' of (is_systemd, cid2) \<Rightarrow>
          (case last_second of
             None \<Rightarrow> Inr (1, pod_uid, cid2)
           | Some second \<Rightarrow>
               c_bind (copy_string pod_uid (drop second (take last_ptr path)) n) (\<lambda>pod1.
               let pod2 = (if is_systemd then snd (prune_at pod1 ''.slice'') else pod1) in
               c_bind (if is_systemd then systemd_ids cid2 pod2 else cgroupfs_ids cid2 pod2)
                 (\<lambda>(ret, cid3, pod3). Inr (ret, pod3, cid3))))))"

definition get_cgroup_data ::
    "cfile option \<Rightarrow> char list \<Rightarrow> char list \<Rightarrow> nat \<Rightarrow> (int \<times> char list \<times> char list) c_result" where
  "get_cgroup_data file pod_uid container_id n =
     (case file of
        None \<Rightarrow> Inr (1, pod_uid, container_id)
      | Some f \<Rightarrow>
          c_bind (memory_cgroup f) (\<lambda>p.
            case p of
              None \<Rightarrow> Inr (1, pod_uid, container_id)
            | Some path \<Rightarrow> cgroup_path_ids path pod_uid container_id n))"

subsection \<open>Which version: the mount points\<close>

function memory_mounted :: "cfile \<Rightarrow> bool" where
  "memory_mounted f =
     (case fgets BUF_SIZE f of
        (None, _) \<Rightarrow> False
      | (Some line, f') \<Rightarrow>
          strstr (cstr line) ''/sys/fs/cgroup/memory'' \<noteq> None \<or> memory_mounted f')"
  by pat_completeness auto
termination
  by (relation "measure (\<lambda>f. length (rest f))")
    (auto simp: BUF_SIZE_def intro!: fgets_shrinks [OF sym])

declare memory_mounted.simps [simp del]

text \<open>
  The version and the file to read. A failed \<open>popen\<close> is only logged, and \<open>fgets\<close> then reads
  through a null pointer.
\<close>

definition checkCgroupVersion :: "cfile option \<Rightarrow> (int \<times> string) c_result" where
  "checkCgroupVersion mounts =
     (case mounts of
        None \<Rightarrow> Inl Null_Deref
      | Some f \<Rightarrow> Inr (if memory_mounted f then (0, ''/proc/self/cgroup'')
                       else (1, ''/proc/self/mountinfo'')))"


subsection \<open>Mount table entries\<close>

lemma strstr_prefix_pod:
  assumes "SLASH \<notin> set a"
  shows "strstr (a @ prefix_pod @ s) prefix_pod = Some (length a)"
proof -
  obtain n where n: "prefix_pod = SLASH # n"
    by (simp add: prefix_pod_def SLASH_def)
  have "strstr (a @ prefix_pod @ s) (SLASH # n)
      = map_option ((+) (length a)) (strstr (prefix_pod @ s) (SLASH # n))"
    by (rule strstr_skip) (rule assms)
  then show ?thesis
    by (simp add: strstr_here n [symmetric])
qed

lemma strstr_end_pod:
  assumes "SLASH \<notin> set a" "SLASH \<notin> set uid" "uid \<noteq> ''containers''"
  shows "strstr (a @ prefix_pod @ uid @ end_pod @ s) end_pod
    = Some (length a + length prefix_pod + length uid)"
proof -
  obtain n where n: "end_pod = SLASH # n" and nn: "n = ''containers'' @ [SLASH]"
    by (simp add: end_pod_def SLASH_def)
  have "\<not> starts_with (uid @ end_pod @ s) (''containers'' @ [SLASH])"
    using starts_with_word [of SLASH uid "''containers''" "n @ s"] assms
    by (simp add: n SLASH_def)
  then have no: "\<not> starts_with (SLASH # uid @ end_pod @ s) end_pod"
    by (simp add: n nn)
  have "strstr (uid @ end_pod @ s) end_pod = Some (length uid)"
    using strstr_skip [of SLASH uid "end_pod @ s" n] assms(2)
    by (simp add: strstr_here n [symmetric])
  with no have tail: "strstr (SLASH # uid @ end_pod @ s) end_pod = Some (Suc (length uid))"
    by simp
  have "prefix_pod = ''/var/lib/kubelet/pods'' @ [SLASH]"
    by (simp add: prefix_pod_def SLASH_def)
  then have split: "prefix_pod @ uid @ end_pod @ s
      = ''/var/lib/kubelet/pods'' @ (SLASH # uid @ end_pod @ s)"
    by simp
  have "strstr (''/var/lib/kubelet/pods'' @ t) ''/containers/''
      = map_option ((+) 21) (strstr t ''/containers/'')" for t
    by (cases "strstr t ''/containers/''") simp_all
  with tail have "strstr (prefix_pod @ uid @ end_pod @ s) end_pod = Some (22 + length uid)"
    unfolding split by (simp add: end_pod_def)
  with strstr_skip [of SLASH a "prefix_pod @ uid @ end_pod @ s" n] assms(1)
  show ?thesis
    by (simp add: n [symmetric] prefix_pod_def)
qed

lemma getStr_found:
  assumes "SLASH \<notin> set a" "SLASH \<notin> set uid" "uid \<noteq> ''containers''" "SLASH \<notin> set name"
    and "NUL \<notin> set (a @ uid @ name @ tail)"
    and "length uid < length poduid" "length name < length podName"
  shows "\<exists>pod' name'. getStr (a @ prefix_pod @ uid @ end_pod @ name @ SLASH # tail)
      prefix_pod end_pod poduid podName = Inr (True, pod', name')
    \<and> holds pod' uid \<and> holds name' name"
proof -
  let ?line = "a @ prefix_pod @ uid @ end_pod @ name @ SLASH # tail"
  let ?first = "length a + length prefix_pod" and ?stop = "length a + length prefix_pod + length uid"
  have z: "NUL \<notin> set (uid @ end_pod @ name @ SLASH # tail)" "NUL \<notin> set (name @ SLASH # tail)"
    using assms(5) by (auto simp: end_pod_def SLASH_def)
  have d1: "drop ?first ?line = uid @ end_pod @ name @ SLASH # tail" by simp
  have d2: "drop (?stop + length end_pod) ?line = name @ SLASH # tail" by simp
  obtain pod' where pod': "c_bind (strncpy poduid (drop ?first ?line) (int (length uid)))
      (\<lambda>b. set_char b (int (length uid)) NUL) = Inr pod'" and "holds pod' uid"
    using copy_prefix [of "length uid" poduid "drop ?first ?line"] assms(6) z(1)
    unfolding d1 by auto
  moreover obtain name' where name':
    "c_bind (strncpy podName (drop (?stop + length end_pod) ?line) (int (length name)))
      (\<lambda>b. set_char b (int (length name)) NUL) = Inr name'" and "holds name' name"
    using copy_prefix [of "length name" podName "drop (?stop + length end_pod) ?line"] assms(7) z(2)
    unfolding d2 by auto
  moreover have "strstr ?line prefix_pod = Some (length a)"
    using strstr_prefix_pod [OF assms(1)] by simp
  moreover have "strstr ?line end_pod = Some ?stop"
    using strstr_end_pod [OF assms(1-3)] by simp
  moreover have "strchr (drop (?stop + length end_pod) ?line) SLASH = Some (length name)"
    unfolding d2 by (rule strchr_first) (rule assms(4))
  ultimately show ?thesis
    by (auto simp: getStr_def Let_def c_bind_eq_Inr)
qed

text \<open>
  A line that names a container but has no slash behind the name makes \<open>getStr\<close> compute
  with a null pointer: the length handed to \<open>strncpy\<close> is meaningless.
\<close>

theorem getStr_unterminated_name:
  assumes "SLASH \<notin> set a" "SLASH \<notin> set uid" "uid \<noteq> ''containers''" "SLASH \<notin> set name"
    and "NUL \<notin> set (uid @ name)" "length uid < length poduid"
  shows "getStr (a @ prefix_pod @ uid @ end_pod @ name) prefix_pod end_pod poduid podName
    = Inl Null_Deref"
proof -
  let ?line = "a @ prefix_pod @ uid @ end_pod @ name"
  let ?first = "length a + length prefix_pod" and ?stop = "length a + length prefix_pod + length uid"
  have d1: "drop ?first ?line = uid @ end_pod @ name" by simp
  have d2: "drop (?stop + length end_pod) ?line = name" by simp
  have "NUL \<notin> set (uid @ end_pod @ name)"
    using assms(5) by (auto simp: end_pod_def)
  then obtain pod' where "c_bind (strncpy poduid (drop ?first ?line) (int (length uid)))
      (\<lambda>b. set_char b (int (length uid)) NUL) = Inr pod'"
    using copy_prefix [of "length uid" poduid "drop ?first ?line"] assms(6)
    unfolding d1 by auto
  moreover have "strchr (drop (?stop + length end_pod) ?line) SLASH = None"
    unfolding d2 strchr_None by (rule assms(4))
  moreover have "strstr ?line prefix_pod = Some (length a)"
    using strstr_prefix_pod [OF assms(1)] by simp
  moreover have "strstr ?line end_pod = Some ?stop"
    using strstr_end_pod [OF assms(1-3)] by simp
  ultimately show ?thesis
    by (auto simp: getStr_def Let_def c_bind_eq_Inl c_bind_eq_Inr)
qed

theorem getStr_unterminated_name_witness:
  "getStr (''1 2 8:1 '' @ prefix_pod @ ''27882189'' @ end_pod @ ''main'') prefix_pod end_pod
     (replicate 48 NUL) (replicate 64 NUL) = Inl Null_Deref"
  by (rule getStr_unterminated_name) (simp_all add: SLASH_def)

text \<open>A line the loop passes over, and a file made of complete lines.\<close>

definition no_container :: "string \<Rightarrow> bool" where
  "no_container l \<longleftrightarrow> NEWLINE \<notin> set l \<and> NUL \<notin> set l \<and> length l < BUF_SIZE - 1 \<and>
     (strstr (l @ [NEWLINE]) prefix_pod = None \<or> strstr (l @ [NEWLINE]) end_pod = None)"

definition file_of :: "string list \<Rightarrow> string \<Rightarrow> cfile" where
  "file_of ls s = \<lparr>rest = concat (map (\<lambda>l. l @ [NEWLINE]) ls) @ s, at_eof = False\<rparr>"

lemma file_of_simps [simp]:
  "rest (file_of ls s) = concat (map (\<lambda>l. l @ [NEWLINE]) ls) @ s" "\<not> at_eof (file_of ls s)"
  by (simp_all add: file_of_def)

lemma fgets_file_of:
  assumes "NEWLINE \<notin> set l" "length l < BUF_SIZE - 1"
  shows "fgets BUF_SIZE (file_of (l # ls) s) = (Some (l @ [NEWLINE]), file_of ls s)"
  using fgets_line [of l BUF_SIZE] assms by (simp add: file_of_def)

lemma cgroupV2_skip:
  assumes "no_container l"
  shows "cgroupV2_loop (file_of (l # ls) s) pod name = cgroupV2_loop (file_of ls s) pod name"
proof -
  have "cstr (l @ [NEWLINE]) = l @ [NEWLINE]"
    using assms by (intro cstr_self) (auto simp: no_container_def)
  then have "getStr (cstr (l @ [NEWLINE])) prefix_pod end_pod pod name = Inr (False, pod, name)"
    using assms by (auto simp: getStr_def no_container_def split: option.splits)
  then show ?thesis
    using assms fgets_file_of [of l ls s]
    by (subst cgroupV2_loop.simps) (simp add: no_container_def)
qed

lemma cgroupV2_skip_all:
  "\<forall>l \<in> set ls. no_container l \<Longrightarrow>
    cgroupV2_loop (file_of (ls @ ms) s) pod name = cgroupV2_loop (file_of ms s) pod name"
  by (induction ls) (simp_all add: cgroupV2_skip)

lemma get_cgroupV2_data_match:
  assumes "\<forall>l \<in> set ls. no_container l"
    and "SLASH \<notin> set a" "SLASH \<notin> set uid" "uid \<noteq> ''containers''" "SLASH \<notin> set name"
    and "l = a @ prefix_pod @ uid @ end_pod @ name @ SLASH # tail"
    and "NUL \<notin> set l" "NEWLINE \<notin> set l" "length l < BUF_SIZE - 1"
    and "length pod = BUF_SIZE" "length cont = BUF_SIZE"
  shows "\<exists>pod' cont'. get_cgroupV2_data (Some (file_of (ls @ l # ms) s)) pod cont
      = Inr (0, pod', cont') \<and> holds pod' uid \<and> holds cont' name"
proof -
  have "cstr (l @ [NEWLINE]) = a @ prefix_pod @ uid @ end_pod @ name @ SLASH # (tail @ [NEWLINE])"
    using assms(6,7) by (simp add: cstr_self)
  moreover have "NUL \<notin> set (a @ uid @ name @ tail @ [NEWLINE])"
    "length uid < length pod" "length name < length cont"
    using assms(6,7,9-11) by auto
  ultimately obtain pod' cont' where
    "getStr (cstr (l @ [NEWLINE])) prefix_pod end_pod pod cont = Inr (True, pod', cont')"
    and "holds pod' uid" "holds cont' name"
    using getStr_found [OF assms(2-5), of "tail @ [NEWLINE]" pod cont] by auto
  moreover have "cgroupV2_loop (file_of (ls @ l # ms) s) pod cont
      = cgroupV2_loop (file_of (l # ms) s) pod cont"
    using cgroupV2_skip_all [OF assms(1)] .
  moreover have "fgets BUF_SIZE (file_of (l # ms) s) = (Some (l @ [NEWLINE]), file_of ms s)"
    using assms(8,9) by (rule fgets_file_of)
  ultimately show ?thesis
    by (auto simp: get_cgroupV2_data_def cgroupV2_loop.simps [of "file_of (l # ms) s"])
qed

text \<open>
  \<open>get_cgroupV2_data\<close> reads the mount table up to the first line that names a container of a
  pod and returns that line's container name and pod with status 0, whatever follows it.
\<close>

theorem get_cgroupV2_data_first_match:
  assumes "\<forall>l \<in> set ls. no_container l"
    and "SLASH \<notin> set a" "SLASH \<notin> set uid" "uid \<noteq> ''containers''" "SLASH \<notin> set name"
    and "l = a @ prefix_pod @ uid @ end_pod @ name @ SLASH # tail"
    and "NUL \<notin> set l" "NEWLINE \<notin> set l" "length l < BUF_SIZE - 1"
    and "length pod = BUF_SIZE" "length cont = BUF_SIZE"
  shows "\<exists>pod' cont'. get_cgroupV2_data (Some (file_of (ls @ l # ms) s)) pod cont
      = Inr (0, pod', cont') \<and> holds pod' uid \<and> holds cont' name"
  using assms by (rule get_cgroupV2_data_match)

definition blank_buffer :: "char list" where
  "blank_buffer = replicate BUF_SIZE NUL"

lemma blank_buffer_length [simp]: "length blank_buffer = BUF_SIZE"
  by (simp add: blank_buffer_def)

theorem get_cgroupV2_data_first_match_witness:
  "\<exists>pod' cont'. get_cgroupV2_data
      (Some (file_of ([''22 1 0:20 / /sys rw''] @
        (''1 2 8:1 '' @ prefix_pod @ ''27882189'' @ end_pod @ ''main'' @ SLASH # ''0a1b /dev/x'') # []) []))
      blank_buffer blank_buffer = Inr (0, pod', cont') \<and> holds pod' ''27882189'' \<and> holds cont' ''main''"
  by (rule get_cgroupV2_data_first_match [where a = "''1 2 8:1 ''" and tail = "''0a1b /dev/x''"])
    (simp_all add: SLASH_def no_container_def prefix_pod_def end_pod_def BUF_SIZE_def)

lemma get_cgroupV2_data_no_match:
  assumes "\<forall>l \<in> set ls. no_container l"
  shows "get_cgroupV2_data (Some (file_of ls [])) pod cont = Inr (0, pod, cont)"
proof -
  have "cgroupV2_loop (file_of ls []) pod cont = cgroupV2_loop (file_of [] []) pod cont"
    using cgroupV2_skip_all [OF assms, of "[]"] by simp
  moreover have "cgroupV2_loop (file_of [] []) pod cont = Inr (pod, cont)"
    by (subst cgroupV2_loop.simps, subst cgroupV2_loop.simps)
      (simp add: file_of_def fgets_def getStr_def prefix_pod_def)
  ultimately show ?thesis
    by (simp add: get_cgroupV2_data_def)
qed

subsection \<open>Splitting a cgroup path\<close>

lemma scan_slashes_append:
  "scan_slashes i (s @ t) l m =
     (case scan_slashes i s l m of (l', m') \<Rightarrow> scan_slashes (i + length s) t l' m')"
  by (induction s arbitrary: i l m) auto

lemma scan_slashes_none: "SLASH \<notin> set s \<Longrightarrow> scan_slashes i s l m = (l, m)"
  by (induction s arbitrary: i l m) auto

lemma scan_slashes_two:
  assumes "SLASH \<notin> set pod" "SLASH \<notin> set cid"
  shows "scan_slashes 0 (dir @ SLASH # pod @ SLASH # cid) None None
    = (Some (length dir + 1 + length pod), Some (length dir))"
  using assms
  by (simp add: scan_slashes_append scan_slashes_none split: prod.split)

lemma scan_dash_append: "scan_dash i (s @ t) p = scan_dash (i + length s) t (scan_dash i s p)"
  by (induction s arbitrary: i p) auto

lemma scan_dash_none: "CHR ''-'' \<notin> set s \<Longrightarrow> scan_dash i s p = p"
  by (induction s arbitrary: i p) auto

lemma scan_dash_last:
  "CHR ''-'' \<notin> set s \<Longrightarrow> scan_dash 0 (a @ CHR ''-'' # s) None = Some (length a)"
  by (simp add: scan_dash_append scan_dash_none)

lemma copy_string_ok:
  assumes "length src < n" "n \<le> length dst" "NUL \<notin> set src"
  shows "\<exists>t. copy_string dst src n = Inr (src @ NUL # t) \<and> length (src @ NUL # t) = length dst"
proof -
  obtain r where r: "copy_string dst src n = Inr r" "length r = length dst"
    "take n r = src @ replicate (n - length src) NUL"
    using copy_padded [OF assms] by (auto simp: copy_string_def)
  obtain k where k: "n - length src = Suc k"
    using assms(1) by (metis Suc_diff_Suc)
  let ?t = "replicate k NUL @ drop n r"
  have "r = take n r @ drop n r" by simp
  also have "\<dots> = src @ NUL # ?t"
    using r(3) k by simp
  finally show ?thesis
    using r(1,2) k by (intro exI [of _ ?t]) auto
qed

lemma prune_at_found:
  assumes "NUL \<notin> set a" "strstr (a @ b) suffix = Some (length a)" "NUL \<notin> set b" "b \<noteq> []"
  shows "\<exists>t'. prune_at (a @ b @ NUL # t) suffix = (True, a @ NUL # t')"
proof -
  have "cstr (a @ b @ NUL # t) = a @ b"
    using assms(1,3) by simp
  moreover have "(a @ b @ NUL # t)[length a := NUL] = a @ NUL # tl b @ NUL # t"
    using assms(4) by (cases b) (simp_all add: list_update_append)
  ultimately show ?thesis
    using assms(2) by (auto simp: prune_at_def)
qed

lemma prune_at_missing:
  "NUL \<notin> set a \<Longrightarrow> strstr a suffix = None \<Longrightarrow> prune_at (a @ NUL # t) suffix = (False, a @ NUL # t)"
  by (simp add: prune_at_def)

text \<open>
  Moving the tail of a NUL-terminated buffer to its front: the tail's length is still the
  distance to the terminating NUL, also where source and destination overlap.
\<close>

lemma memmove_front:
  assumes "NUL \<notin> set (a @ b)"
  shows "memmove (a @ b @ NUL # t) 0 (length a) (length b)
    = Inr (b @ drop (length b) (a @ b) @ NUL # t)"
  using assms by (simp add: memmove_def buf_write_def)

lemma strlen_after_move:
  assumes "NUL \<notin> set (a @ b)"
  shows "c_strlen (drop (length a) (b @ drop (length b) (a @ b) @ NUL # t)) = Inr (length b)"
proof -
  let ?w = "b @ drop (length b) (a @ b)"
  have w: "length ?w = length a + length b" "NUL \<notin> set ?w"
    using assms by (auto dest: in_set_dropD)
  then have "drop (length a) (?w @ NUL # t) = drop (length a) ?w @ NUL # t" by simp
  moreover have "NUL \<notin> set (drop (length a) ?w)"
    using w(2) by (meson in_set_dropD)
  ultimately show ?thesis
    using w(1) by (simp add: c_strlen_def)
qed


subsection \<open>The identifiers of the two path layouts\<close>

definition dashed :: "string \<Rightarrow> string" where
  "dashed s = map (\<lambda>c. if c = CHR ''_'' then CHR ''-'' else c) s"

lemma dashed_no_NUL: "NUL \<notin> set s \<Longrightarrow> NUL \<notin> set (dashed s)"
  by (auto simp: dashed_def)

lemma underscores_to_dashes_cstr:
  "NUL \<notin> set s \<Longrightarrow> underscores_to_dashes (s @ NUL # t) = dashed s @ NUL # t"
  by (simp add: underscores_to_dashes_def dashed_def)

text \<open>
  What the buffer holds after \<open>systemd_pod_uid\<close>: the part behind the first \<open>-pod\<close>, with dashes.
\<close>

lemma systemd_pod_uid_result:
  assumes "NUL \<notin> set (a @ uid)" "strstr (a @ ''-pod'' @ uid) ''-pod'' = Some (length a)"
  shows "\<exists>pod'. systemd_pod_uid ((a @ ''-pod'' @ uid) @ NUL # t) = Inr (0, pod')
    \<and> holds pod' (dashed uid)"
proof -
  let ?p = "a @ ''-pod''"
  let ?buf = "?p @ uid @ NUL # t"
  let ?moved = "uid @ drop (length uid) (?p @ uid) @ NUL # t"
  have z: "NUL \<notin> set (?p @ uid)" "NUL \<notin> set uid"
    using assms(1) by auto
  have c: "cstr ?buf = a @ ''-pod'' @ uid"
    using z(1) cstr_append [of "?p @ uid" "NUL # t"] by simp
  have n: "c_strlen (drop (length ?p) ?buf) = Inr (length uid)"
    using z(2) by (simp add: c_strlen_def)
  have m: "memmove ?buf 0 (length ?p) (length uid) = Inr ?moved"
    using memmove_front [OF z(1)] by simp
  have n2: "c_strlen (drop (length ?p) ?moved) = Inr (length uid)"
    using strlen_after_move [OF z(1)] by simp
  obtain x xs where x: "drop (length uid) (?p @ uid) @ NUL # t = x # xs"
    by (metis append_is_Nil_conv list.exhaust list.simps(3))
  then have "set_char ?moved (int (length uid)) NUL = Inr (uid @ NUL # xs)"
    by (simp add: set_char_def list_update_append)
  with c n m n2 assms(2) z(2) show ?thesis
    by (simp add: systemd_pod_uid_def Let_def underscores_to_dashes_cstr dashed_no_NUL)
qed

text \<open>
  The container of a systemd scope: what follows the last dash of its name. The move copies as
  many characters as the whole name has, so they have to be there.
\<close>

lemma memmove_leaf:
  assumes "NUL \<notin> set (a @ b)" "2 * length a + length b \<le> length (a @ b @ NUL # t)" "a \<noteq> []"
  shows "\<exists>t'. memmove (a @ b @ NUL # t) 0 (length a) (length (a @ b)) = Inr (b @ NUL # t')"
proof -
  obtain k where k: "length a = Suc k"
    using assms(3) by (cases a) auto
  have "take (length a + length b) (b @ NUL # t) = b @ NUL # take k t"
    using k by simp
  then show ?thesis
    using assms(1,2) by (simp add: memmove_def buf_write_def)
qed

lemma systemd_ids_result:
  assumes "NUL \<notin> set (runtime @ cid)" "CHR ''-'' \<notin> set cid"
    and "2 * (length runtime + 1) + length cid \<le> length (runtime @ CHR ''-'' # cid @ NUL # t)"
    and "NUL \<notin> set (a @ uid)" "strstr (a @ ''-pod'' @ uid) ''-pod'' = Some (length a)"
  shows "\<exists>cid' pod'. systemd_ids (runtime @ CHR ''-'' # cid @ NUL # t) ((a @ ''-pod'' @ uid) @ NUL # u)
    = Inr (0, cid', pod') \<and> holds cid' cid \<and> holds pod' (dashed uid)"
proof -
  let ?leaf = "runtime @ CHR ''-'' # cid"
  have "NUL \<notin> set ?leaf"
    using assms(1) by simp
  then have c: "cstr (runtime @ CHR ''-'' # cid @ NUL # t) = ?leaf"
    using cstr_append [of ?leaf "NUL # t"] by simp
  obtain t' where "memmove (runtime @ CHR ''-'' # cid @ NUL # t) 0 (length runtime + 1) (length ?leaf)
      = Inr (cid @ NUL # t')"
    using memmove_leaf [of "runtime @ ''-''" cid t] assms(1,3) by auto
  moreover have "scan_dash 0 ?leaf None = Some (length runtime)"
    using assms(2) by (rule scan_dash_last)
  moreover obtain pod' where "systemd_pod_uid ((a @ ''-pod'' @ uid) @ NUL # u) = Inr (0, pod')"
    "holds pod' (dashed uid)"
    using systemd_pod_uid_result [OF assms(4,5), of u] by blast
  moreover have "holds (cid @ NUL # t') cid"
    using assms(1) by simp
  ultimately show ?thesis
    using c by (simp add: systemd_ids_def)
qed

text \<open>What both layouts share: the two last components of the path are copied out.\<close>

lemma cgroup_path_ids_split:
  assumes "path = dir @ SLASH # pod @ SLASH # leaf" "SLASH \<notin> set pod" "SLASH \<notin> set leaf"
    and "NUL \<notin> set path" "length path < n" "length pbuf = n" "length cbuf = n"
  shows "\<exists>t u. length (leaf @ NUL # t) = n \<and> length (SLASH # pod @ NUL # u) = n
    \<and> cgroup_path_ids path pbuf cbuf n =
      (case prune_at (leaf @ NUL # t) ''.scope'' of (is_systemd, cid) \<Rightarrow>
        let pod' = (if is_systemd then snd (prune_at (SLASH # pod @ NUL # u) ''.slice'')
          else SLASH # pod @ NUL # u) in
        c_bind (if is_systemd then systemd_ids cid pod' else cgroupfs_ids cid pod')
          (\<lambda>(ret, cid3, pod3). Inr (ret, pod3, cid3)))"
proof -
  have scan: "scan_slashes 0 path None None = (Some (length dir + 1 + length pod), Some (length dir))"
    using scan_slashes_two [OF assms(2,3)] assms(1) by simp
  have d: "drop (length dir + 1 + length pod + 1) path = leaf"
    "drop (length dir) (take (length dir + 1 + length pod) path) = SLASH # pod"
    using assms(1) by simp_all
  have z: "NUL \<notin> set leaf" "NUL \<notin> set (SLASH # pod)" "length leaf < n" "length (SLASH # pod) < n"
    using assms(1,4,5) by auto
  obtain t where "copy_string cbuf leaf n = Inr (leaf @ NUL # t)" "length (leaf @ NUL # t) = n"
    using copy_string_ok [OF z(3) _ z(1), of cbuf] assms(7) by auto
  moreover obtain u where "copy_string pbuf (SLASH # pod) n = Inr (SLASH # pod @ NUL # u)"
    "length (SLASH # pod @ NUL # u) = n"
    using copy_string_ok [OF z(4) _ z(2), of pbuf] assms(6) by auto
  ultimately show ?thesis
    using scan d by (intro exI [of _ t] exI [of _ u]) (simp add: cgroup_path_ids_def)
qed

lemma systemd_path_found:
  assumes "path = dir @ SLASH # pod @ SLASH # scope"
    and "pod = parent @ ''-pod'' @ uid @ ''.slice''"
    and "scope = runtime @ CHR ''-'' # cid @ ''.scope''"
    and "NUL \<notin> set path" "2 * length path \<le> n" "length pbuf = n" "length cbuf = n"
    and "SLASH \<notin> set pod" "SLASH \<notin> set scope" "CHR ''-'' \<notin> set cid"
    and "strstr scope ''.scope'' = Some (length scope - 6)"
    and "strstr (SLASH # pod) ''.slice'' = Some (length pod - 5)"
    and "strstr (SLASH # parent @ ''-pod'' @ uid) ''-pod'' = Some (Suc (length parent))"
  shows "\<exists>pod' cid'. cgroup_path_ids path pbuf cbuf n = Inr (0, pod', cid')
    \<and> holds cid' cid \<and> holds pod' (dashed uid)"
proof -
  let ?leaf = "runtime @ CHR ''-'' # cid"
  let ?slice = "SLASH # parent @ ''-pod'' @ uid"
  have z: "NUL \<notin> set ?leaf" "NUL \<notin> set ?slice"
    using assms(1,2,3,4) by auto
  have "length path < n"
    using assms(1,5) by simp
  then obtain t u where len: "length (scope @ NUL # t) = n"
    and ids: "cgroup_path_ids path pbuf cbuf n =
      (case prune_at (scope @ NUL # t) ''.scope'' of (is_systemd, cid) \<Rightarrow>
        let pod' = (if is_systemd then snd (prune_at (SLASH # pod @ NUL # u) ''.slice'')
          else SLASH # pod @ NUL # u) in
        c_bind (if is_systemd then systemd_ids cid pod' else cgroupfs_ids cid pod')
          (\<lambda>(ret, cid3, pod3). Inr (ret, pod3, cid3)))"
    using cgroup_path_ids_split [OF assms(1,8,9,4) _ assms(6,7)] by blast
  obtain t' where c: "prune_at (scope @ NUL # t) ''.scope'' = (True, ?leaf @ NUL # t')"
    using prune_at_found [of ?leaf "''.scope''" "''.scope''" t] z(1) assms(3,11) by auto
  obtain u' where p: "prune_at (SLASH # pod @ NUL # u) ''.slice'' = (True, ?slice @ NUL # u')"
    using prune_at_found [of ?slice "''.slice''" "''.slice''" u] z(2) assms(2,12) by auto
  have "length (?leaf @ NUL # t') = n"
    using c len by (auto simp: prune_at_def split: option.splits dest!: arg_cong [where f = length])
  then have fits: "2 * (length runtime + 1) + length cid \<le> length (?leaf @ NUL # t')"
    using assms(1,3,5) by simp
  obtain cid' pod' where "systemd_ids (?leaf @ NUL # t') (?slice @ NUL # u') = Inr (0, cid', pod')"
    "holds cid' cid" "holds pod' (dashed uid)"
    using systemd_ids_result [of runtime cid t' "SLASH # parent" uid u'] z assms(10,13) fits by auto
  then show ?thesis
    using ids c p by simp
qed

text \<open>
  On a systemd cgroup path, that is a pod directory \<open>...-pod<uid>.slice\<close> below \<open>dir\<close> and a
  scope \<open><runtime>-<id>.scope\<close> below it, the container id is \<open>id\<close> and the pod is \<open>uid\<close> with its
  underscores turned back into dashes, although the pod is moved inside one buffer with
  overlapping source and destination and measured again afterwards.
\<close>

theorem cgroup_path_ids_systemd:
  assumes "path = dir @ SLASH # pod @ SLASH # scope"
    and "pod = parent @ ''-pod'' @ uid @ ''.slice''"
    and "scope = runtime @ CHR ''-'' # cid @ ''.scope''"
    and "NUL \<notin> set path" "2 * length path \<le> n" "length pbuf = n" "length cbuf = n"
    and "SLASH \<notin> set pod" "SLASH \<notin> set scope" "CHR ''-'' \<notin> set cid"
    and "strstr scope ''.scope'' = Some (length scope - 6)"
    and "strstr (SLASH # pod) ''.slice'' = Some (length pod - 5)"
    and "strstr (SLASH # parent @ ''-pod'' @ uid) ''-pod'' = Some (Suc (length parent))"
  shows "\<exists>pod' cid'. cgroup_path_ids path pbuf cbuf n = Inr (0, pod', cid')
    \<and> holds cid' cid \<and> holds pod' (dashed uid)"
  using assms by (rule systemd_path_found)

theorem cgroup_path_ids_systemd_witness:
  "\<exists>pod' cid'. cgroup_path_ids
      (''/kubepods.slice'' @ SLASH # ''kubepods-pod019c_0d92.slice'' @ SLASH # ''docker-9e07.scope'')
      blank_buffer blank_buffer BUF_SIZE = Inr (0, pod', cid')
    \<and> holds cid' ''9e07'' \<and> holds pod' (dashed ''019c_0d92'')"
  by (rule cgroup_path_ids_systemd [where dir = "''/kubepods.slice''" and parent = "''kubepods''"
        and pod = "''kubepods-pod019c_0d92.slice''" and scope = "''docker-9e07.scope''" and
        runtime = "''docker''", OF refl]) (simp_all add: SLASH_def BUF_SIZE_def)

lemma cgroupfs_path_found:
  assumes "path = dir @ SLASH # (''pod'' @ uid) @ SLASH # cid"
    and "NUL \<notin> set path" "2 * length path \<le> n" "length pbuf = n" "length cbuf = n"
    and "SLASH \<notin> set uid" "SLASH \<notin> set cid" "strstr cid ''.scope'' = None"
  shows "\<exists>pod' cid'. cgroup_path_ids path pbuf cbuf n = Inr (0, pod', cid')
    \<and> holds cid' cid \<and> holds pod' uid"
proof -
  have "SLASH \<notin> set (''pod'' @ uid)" "length path < n"
    using assms(1,3,6) by (auto simp: SLASH_def)
  then obtain t u where len: "length (SLASH # (''pod'' @ uid) @ NUL # u) = n"
    and ids: "cgroup_path_ids path pbuf cbuf n =
      (case prune_at (cid @ NUL # t) ''.scope'' of (is_systemd, cid) \<Rightarrow>
        let pod' = (if is_systemd then snd (prune_at (SLASH # (''pod'' @ uid) @ NUL # u) ''.slice'')
          else SLASH # (''pod'' @ uid) @ NUL # u) in
        c_bind (if is_systemd then systemd_ids cid pod' else cgroupfs_ids cid pod')
          (\<lambda>(ret, cid3, pod3). Inr (ret, pod3, cid3)))"
    using cgroup_path_ids_split [OF assms(1) _ assms(7,2) _ assms(4,5)] by blast
  have z: "NUL \<notin> set cid" "NUL \<notin> set uid"
    using assms(1,2) by auto
  have "prune_at (cid @ NUL # t) ''.scope'' = (False, cid @ NUL # t)"
    using z(1) assms(8) by (rule prune_at_missing)
  moreover have "cstr (SLASH # (''pod'' @ uid) @ NUL # u) = SLASH # ''pod'' @ uid"
    using cstr_append [of "SLASH # ''pod'' @ uid" "NUL # u"] z(2) by (simp add: SLASH_def)
  moreover obtain u' where "memmove ((SLASH # ''pod'') @ uid @ NUL # u) 0 (length (SLASH # ''pod''))
      (length ((SLASH # ''pod'') @ uid)) = Inr (uid @ NUL # u')"
    using memmove_leaf [of "SLASH # ''pod''" uid u] z(2) len assms(1,3) by (auto simp: SLASH_def)
  ultimately show ?thesis
    using ids z by (auto simp: cgroupfs_ids_def)
qed

text \<open>
  On a cgroupfs path \<open>dir/pod<uid>/<id>\<close> the container id is the last component and the
  pod is \<open>uid\<close>, unchanged: the four characters \<open>/pod\<close> are cut off.
\<close>

theorem cgroup_path_ids_cgroupfs:
  assumes "path = dir @ SLASH # (''pod'' @ uid) @ SLASH # cid"
    and "NUL \<notin> set path" "2 * length path \<le> n" "length pbuf = n" "length cbuf = n"
    and "SLASH \<notin> set uid" "SLASH \<notin> set cid" "strstr cid ''.scope'' = None"
  shows "\<exists>pod' cid'. cgroup_path_ids path pbuf cbuf n = Inr (0, pod', cid')
    \<and> holds cid' cid \<and> holds pod' uid"
  using assms by (rule cgroupfs_path_found)

theorem cgroup_path_ids_cgroupfs_witness:
  "\<exists>pod' cid'. cgroup_path_ids
      (''/kubepods'' @ SLASH # (''pod'' @ ''019c-0d92'') @ SLASH # ''9e07'')
      blank_buffer blank_buffer BUF_SIZE = Inr (0, pod', cid')
    \<and> holds cid' ''9e07'' \<and> holds pod' ''019c-0d92''"
  by (rule cgroup_path_ids_cgroupfs [OF refl]) (simp_all add: SLASH_def BUF_SIZE_def)

subsection \<open>The line of the memory controller\<close>

lemma strtok_r_token:
  assumes "d \<notin> set a" "a \<noteq> []"
  shows "strtok_r d (a @ d # r) = (Some a, r)" and "strtok_r d a = (Some a, [])"
proof -
  have "dropWhile (\<lambda>c. c = d) (a @ t) = a @ t" for t
    using assms by (cases a) auto
  note this [simp] this [of "[]", simplified, simp]
  show "strtok_r d (a @ d # r) = (Some a, r)"
    using assms by (simp add: strtok_r_def takeWhile_delimiter dropWhile_delimiter)
  have "\<forall>x \<in> set a. x \<noteq> d"
    using assms(1) by auto
  then have "takeWhile (\<lambda>c. c \<noteq> d) a = a" "dropWhile (\<lambda>c. c \<noteq> d) a = []"
    by (simp_all add: takeWhile_eq_all_conv dropWhile_eq_Nil_conv)
  then show "strtok_r d a = (Some a, [])"
    using assms by (simp add: strtok_r_def Let_def del: dropWhile_eq_Nil_conv)
qed

lemma memory_field_entry:
  assumes "CHR '':'' \<notin> set a" "a \<noteq> []" "a \<noteq> ''memory''" "CHR '':'' \<notin> set path" "path \<noteq> []"
  shows "memory_field (a @ '':memory:'' @ path) = Some path"
proof -
  have 1: "strtok_r (CHR '':'') (a @ CHR '':'' # ''memory'' @ CHR '':'' # path)
      = (Some a, ''memory'' @ CHR '':'' # path)"
    by (rule strtok_r_token) (rule assms)+
  have 2: "strtok_r (CHR '':'') (''memory'' @ CHR '':'' # path) = (Some ''memory'', path)"
    by (rule strtok_r_token) simp_all
  have 3: "strtok_r (CHR '':'') path = (Some path, [])"
    by (rule strtok_r_token) (rule assms)+
  have "memory_field (''memory'' @ CHR '':'' # path) = Some path"
    by (subst memory_field.simps) (simp only: 2 3 prod.case option.case refl if_True fst_conv)
  moreover have "memory_field (a @ CHR '':'' # ''memory'' @ CHR '':'' # path)
      = memory_field (''memory'' @ CHR '':'' # path)"
    using assms(3) by (subst memory_field.simps) (simp only: 1 prod.case option.case refl if_False)
  ultimately show ?thesis by simp
qed

text \<open>A line of \<open>/proc/self/cgroup\<close> that is not the memory controller's.\<close>

definition other_controller :: "string \<Rightarrow> bool" where
  "other_controller l \<longleftrightarrow> NEWLINE \<notin> set l \<and> NUL \<notin> set l \<and> length l < BUF_SIZE - 1 \<and>
     memory_field l = None"

lemma memory_cgroup_line:
  assumes "NEWLINE \<notin> set l" "NUL \<notin> set l" "length l < BUF_SIZE - 1"
  shows "memory_cgroup (file_of (l # ls) s) =
    (case memory_field l of Some path \<Rightarrow> Inr (Some path) | None \<Rightarrow> memory_cgroup (file_of ls s))"
proof -
  have "cstr (l @ [NEWLINE]) = l @ [NEWLINE]"
    using assms(2) by (intro cstr_self) auto
  then show ?thesis
    using fgets_file_of [OF assms(1,3), of ls s]
    by (subst memory_cgroup.simps) (simp split: option.split)
qed

lemma memory_cgroup_skip_all:
  "\<forall>l \<in> set ls. other_controller l \<Longrightarrow>
    memory_cgroup (file_of (ls @ ms) s) = memory_cgroup (file_of ms s)"
  by (induction ls) (simp_all add: memory_cgroup_line other_controller_def)

lemma memory_cgroup_none:
  assumes "\<forall>l \<in> set ls. other_controller l"
  shows "memory_cgroup (file_of ls []) = Inr None"
proof -
  have "memory_cgroup (file_of [] []) = Inr None"
    by (subst memory_cgroup.simps) (simp add: file_of_def fgets_def)
  with memory_cgroup_skip_all [OF assms, of "[]" "[]"] show ?thesis
    by simp
qed

lemma get_cgroup_data_memory_line:
  assumes "\<forall>l \<in> set ls. other_controller l"
    and "l = hierarchy @ '':memory:'' @ path" "NEWLINE \<notin> set l" "NUL \<notin> set l" "length l < BUF_SIZE - 1"
    and "CHR '':'' \<notin> set hierarchy" "hierarchy \<noteq> []" "hierarchy \<noteq> ''memory''"
    and "CHR '':'' \<notin> set path" "path \<noteq> []"
  shows "get_cgroup_data (Some (file_of (ls @ l # ms) s)) pod cid n = cgroup_path_ids path pod cid n"
proof -
  have "memory_field l = Some path"
    unfolding assms(2) by (rule memory_field_entry) (rule assms)+
  then have "memory_cgroup (file_of (l # ms) s) = Inr (Some path)"
    using memory_cgroup_line [OF assms(3-5)] by simp
  then show ?thesis
    by (simp add: get_cgroup_data_def memory_cgroup_skip_all [OF assms(1)])
qed

subsection \<open>The version test\<close>

lemma memory_mounted_line:
  assumes "NEWLINE \<notin> set l" "NUL \<notin> set l" "length l < BUF_SIZE - 1"
  shows "memory_mounted (file_of (l # ls) s) \<longleftrightarrow>
    strstr (l @ [NEWLINE]) ''/sys/fs/cgroup/memory'' \<noteq> None \<or> memory_mounted (file_of ls s)"
proof -
  have "cstr (l @ [NEWLINE]) = l @ [NEWLINE]"
    using assms(2) by (intro cstr_self) auto
  then show ?thesis
    using fgets_file_of [OF assms(1,3), of ls s]
    by (subst memory_mounted.simps) simp
qed

lemma memory_mounted_lines:
  assumes "\<forall>l \<in> set ls. NEWLINE \<notin> set l \<and> NUL \<notin> set l \<and> length l < BUF_SIZE - 1"
  shows "memory_mounted (file_of ls []) \<longleftrightarrow>
    (\<exists>l \<in> set ls. strstr (l @ [NEWLINE]) ''/sys/fs/cgroup/memory'' \<noteq> None)"
  using assms
proof (induction ls)
  case Nil
  show ?case by (subst memory_mounted.simps) (simp add: file_of_def fgets_def)
qed (simp add: memory_mounted_line)

end
