(* ===== verification/Container_Config.thy ===== *)
theory Container_Config
  imports Cgroup_Parser
begin

text \<open>
  The container's configuration: the paths built from the container's identifier and the
  record read from the file there (\<open>get_path_by_cgroup\<close> and \<open>read_controller_configuration\<close>
  of \<open>core/container/contInfoReg.c\<close>), the layout of the record
  (\<open>core/container/container.h\<close>) and the C function with which the node's resource manager
  writes that file (\<open>setting_to_disk\<close>, in the C preamble of
  \<open>k8sPlugins/resourceManager/manager.go\<close>). A byte is a \<open>char\<close>.
\<close>

subsection \<open>Little-endian integers\<close>

fun le_encode :: "nat \<Rightarrow> nat \<Rightarrow> char list" where
  "le_encode 0 v = []"
| "le_encode (Suc k) v = char_of (v mod 256) # le_encode k (v div 256)"

fun le_decode :: "char list \<Rightarrow> nat" where
  "le_decode [] = 0"
| "le_decode (c # cs) = of_char c + 256 * le_decode cs"

lemma le_encode_length [simp]: "length (le_encode k v) = k"
  by (induction k arbitrary: v) auto

lemma le_decode_encode: "le_decode (le_encode k v) = v mod 256 ^ k"
proof (induction k arbitrary: v)
  case (Suc k)
  have "v mod 256 ^ Suc k = v mod 256 + 256 * (v div 256 mod 256 ^ k)"
    by (metis add.commute mod_mult2_eq power_Suc)
  with Suc show ?case by simp
qed simp

subsection \<open>The configuration record\<close>

text \<open>
  \<open>resource_data_t\<close>, packed and aligned to 8 bytes: 48 bytes of pod, \<open>FILENAME_MAX\<close> bytes of
  container name, 8 bytes of memory, 4 bytes of utilization and 4 bytes of padding.
\<close>

record resource_data_t =
  pod_uid :: "char list"
  container_name :: "char list"
  memory :: u64
  utilization :: int

definition FILENAME_MAX :: nat where "FILENAME_MAX = 4096"

definition sizeof_resource_data_t :: nat where
  "sizeof_resource_data_t = 48 + FILENAME_MAX + 8 + 4 + 4"

definition rc_encode :: "resource_data_t \<Rightarrow> char list \<Rightarrow> char list" where
  "rc_encode d pad = pod_uid d @ container_name d @ le_encode 8 (unat (memory d)) @
     le_encode 4 (unat (u32_of_int (utilization d))) @ pad"

definition rc_decode :: "char list \<Rightarrow> resource_data_t" where
  "rc_decode bs =
     \<lparr>pod_uid = take 48 bs,
      container_name = take FILENAME_MAX (drop 48 bs),
      memory = of_nat (le_decode (take 8 (drop (48 + FILENAME_MAX) bs))),
      utilization = int_of_u32 (of_nat (le_decode (take 4 (drop (48 + FILENAME_MAX + 8) bs))))\<rparr>"

text \<open>Objects with static storage start with all bytes 0.\<close>

definition config_data_init :: resource_data_t where
  "config_data_init = \<lparr>pod_uid = replicate 48 NUL, container_name = replicate FILENAME_MAX NUL,
     memory = 0, utilization = 0\<rparr>"

definition rc_valid :: "resource_data_t \<Rightarrow> bool" where
  "rc_valid d \<longleftrightarrow> length (pod_uid d) = 48 \<and> length (container_name d) = FILENAME_MAX \<and>
     in_int (utilization d)"

text \<open>
  \<open>setting_to_disk\<close>: 1 if the file cannot be opened, 2 if fewer bytes than the record has were
  written, 0 otherwise, with what is in the file afterwards. A file that cannot be opened stays as
  it is, one that is opened is cut off to nothing and then written from its start. What \<open>write\<close>
  returns (-1 if it wrote nothing), the padding bytes and the contents before are arguments.
\<close>

definition write_at_start :: "int \<Rightarrow> char list \<Rightarrow> char list \<Rightarrow> char list" where
  "write_at_start wsize bytes old =
     take (nat wsize) bytes @ drop (length (take (nat wsize) bytes)) old"

definition setting_to_disk ::
    "bool \<Rightarrow> int \<Rightarrow> char list \<Rightarrow> char list option \<Rightarrow> resource_data_t \<Rightarrow> int \<times> char list option" where
  "setting_to_disk opened wsize pad old data =
     (if \<not> opened then (1, old)
      else (if wsize \<noteq> int sizeof_resource_data_t then 2 else 0,
            Some (write_at_start wsize (rc_encode data pad) [])))"

lemma write_at_start_empty [simp]: "write_at_start n bytes [] = take (nat n) bytes"
  by (simp add: write_at_start_def)

lemma rc_encode_length:
  "rc_valid d \<Longrightarrow> length pad = 4 \<Longrightarrow> length (rc_encode d pad) = sizeof_resource_data_t"
  by (simp add: rc_encode_def rc_valid_def sizeof_resource_data_t_def)

lemma int_of_u32_of_int: "in_int z \<Longrightarrow> int_of_u32 (u32_of_int z) = z"
  by (simp add: int_of_u32_def u32_of_int_def signed_of_int signed_take_bit_int_eq_self c_range)

lemma rc_decode_encode:
  assumes "rc_valid d" "length pad = 4"
  shows "rc_decode (rc_encode d pad @ extra) = d"
proof -
  have "unat (memory d) < 256 ^ 8" "unat (u32_of_int (utilization d)) < 256 ^ 4"
    using unsigned_less [of "memory d", where 'a = nat]
      unsigned_less [of "u32_of_int (utilization d)", where 'a = nat]
    by simp_all
  then have "le_decode (le_encode 8 (unat (memory d))) = unat (memory d)"
    "le_decode (le_encode 4 (unat (u32_of_int (utilization d)))) = unat (u32_of_int (utilization d))"
    unfolding le_decode_encode by simp_all
  then show ?thesis
    using assms by (simp add: rc_decode_def rc_encode_def rc_valid_def int_of_u32_of_int)
qed

subsection \<open>The paths\<close>

definition PATH_LENGTH :: nat where "PATH_LENGTH = 512"

definition VMLU_CONFIG_PATH :: string where "VMLU_CONFIG_PATH = ''/etc/unishare/vm/''"

definition PIDS_CONFIG_NAME :: string where "PIDS_CONFIG_NAME = ''pids.config''"

definition CONTROLLER_CONFIG_NAME :: string where "CONTROLLER_CONFIG_NAME = ''vcuda.config''"

text \<open>The state of the file: the four path buffers, as strings, and the configuration.\<close>

record container_state =
  cgroupInfoPath :: string
  base_dir :: string
  config_path :: string
  pid_path :: string
  config_data :: resource_data_t

definition container_init :: container_state where
  "container_init = \<lparr>cgroupInfoPath = [], base_dir = [], config_path = [], pid_path = [],
     config_data = config_data_init\<rparr>"

text \<open>
  What the code asks of the system: the output of \<open>mount | grep cgroup\<close>, the text files and the
  configuration file, as far as they can be opened.
\<close>

record container_env =
  mount_pipe :: "cfile option"
  text_file :: "string \<Rightarrow> cfile option"
  data_file :: "string \<Rightarrow> char list option"

text \<open>\<open>%s\<close> of a buffer needs a terminating NUL; \<open>snprintf\<close> cuts its result off.\<close>

definition string_arg :: "char list \<Rightarrow> string c_result" where
  "string_arg buf = (if NUL \<in> set buf then Inr (cstr buf) else Inl Out_Of_Bounds)"

definition snprintf :: "nat \<Rightarrow> string \<Rightarrow> string" where
  "snprintf n s = take (n - 1) s"

definition set_paths :: "string \<Rightarrow> container_state \<Rightarrow> container_state" where
  "set_paths name s =
     (let base = snprintf PATH_LENGTH (VMLU_CONFIG_PATH @ name) in
      s\<lparr>base_dir := base,
        config_path := snprintf PATH_LENGTH (base @ SLASH # CONTROLLER_CONFIG_NAME),
        pid_path := snprintf PATH_LENGTH (base @ SLASH # PIDS_CONFIG_NAME)\<rparr>)"

text \<open>
  The three local buffers are uninitialised but for the first character of the container name;
  what they hold is an argument.
\<close>

definition get_path_by_cgroup ::
    "container_env \<Rightarrow> char list \<times> char list \<times> char list \<Rightarrow> int \<Rightarrow> container_state
     \<Rightarrow> (int \<times> container_state) c_result" where
  "get_path_by_cgroup env locals cgroupVersion s =
     (case locals of (pod0, cid0, name0) \<Rightarrow>
      c_bind (set_char name0 0 NUL) (\<lambda>name1.
      if cgroupVersion \<noteq> 0 then
        c_bind (get_cgroupV2_data (text_file env (cgroupInfoPath s)) pod0 name1) (\<lambda>(ret, _, name2).
          if ret \<noteq> 0 then Inr (1, s)
          else c_bind (string_arg name2) (\<lambda>name. Inr (0, set_paths name s)))
      else
        c_bind (get_cgroup_data (text_file env (cgroupInfoPath s)) pod0 cid0 BUF_SIZE)
          (\<lambda>(ret, _, cid1).
            if ret \<noteq> 0 then Inr (1, s)
            else c_bind (string_arg cid1) (\<lambda>cid. Inr (0, set_paths cid s)))))"

text \<open>
  \<open>read_controller_configuration\<close>: every failure ends the process with status -1; \<open>read\<close> takes
  at most the size of the record from the file.
\<close>

definition read_controller_configuration ::
    "container_env \<Rightarrow> char list \<times> char list \<times> char list \<Rightarrow> container_state
     \<Rightarrow> container_state c_result" where
  "read_controller_configuration env locals s =
     c_bind (checkCgroupVersion (mount_pipe env)) (\<lambda>(version, info).
     c_bind (get_path_by_cgroup env locals version (s\<lparr>cgroupInfoPath := info\<rparr>)) (\<lambda>(ret, s1).
     if ret \<noteq> 0 then Inl (Exited (- 1))
     else case data_file env (config_path s1) of
       None \<Rightarrow> Inl (Exited (- 1))
     | Some contents \<Rightarrow>
         (let bytes = take sizeof_resource_data_t contents; rsize = length bytes in
          if rsize \<noteq> sizeof_resource_data_t then Inl (Exited (- 1))
          else Inr (s1\<lparr>config_data := rc_decode bytes\<rparr>))))"


subsection \<open>Paths that are not cut off\<close>

lemma snprintf_fits [simp]: "length s < n \<Longrightarrow> snprintf n s = s"
  by (simp add: snprintf_def)

definition config_file :: "string \<Rightarrow> string" where
  "config_file name = VMLU_CONFIG_PATH @ name @ SLASH # CONTROLLER_CONFIG_NAME"

lemma set_paths_config:
  assumes "length (config_file name) < PATH_LENGTH"
  shows "config_path (set_paths name s) = config_file name"
    "base_dir (set_paths name s) = VMLU_CONFIG_PATH @ name"
    "config_data (set_paths name s) = config_data s"
  using assms by (simp_all add: set_paths_def config_file_def Let_def)

text \<open>What is read once the path is known.\<close>

lemma read_located:
  assumes "checkCgroupVersion (mount_pipe env) = Inr (v, info)"
    and "get_path_by_cgroup env locals v (s\<lparr>cgroupInfoPath := info\<rparr>) = Inr (0, s1)"
    and "data_file env (config_path s1) = Some (rc_encode d pad @ extra)"
    and "rc_valid d" "length pad = 4"
  shows "read_controller_configuration env locals s = Inr (s1\<lparr>config_data := d\<rparr>)"
  using assms rc_encode_length [OF assms(4,5)] rc_decode_encode [OF assms(4,5), of "[]"]
  by (simp add: read_controller_configuration_def)

lemma checkCgroupVersion_lines:
  assumes "\<forall>l \<in> set ls. NEWLINE \<notin> set l \<and> NUL \<notin> set l \<and> length l < BUF_SIZE - 1"
  shows "checkCgroupVersion (Some (file_of ls [])) =
    Inr (if \<exists>l \<in> set ls. strstr (l @ [NEWLINE]) ''/sys/fs/cgroup/memory'' \<noteq> None
         then (0, ''/proc/self/cgroup'') else (1, ''/proc/self/mountinfo''))"
  using memory_mounted_lines [OF assms] by (simp add: checkCgroupVersion_def)

lemma set_char_first: "buf \<noteq> [] \<Longrightarrow> set_char buf 0 c = Inr (c # tl buf)"
  by (cases buf) (simp_all add: set_char_def)

lemma string_arg_cstr: "NUL \<in> set buf \<Longrightarrow> string_arg buf = Inr (cstr buf)"
  by (simp add: string_arg_def)

subsection \<open>A record comes only from a complete file\<close>

lemma rc_decode_valid:
  assumes "length bs = sizeof_resource_data_t"
  shows "rc_valid (rc_decode bs)"
  using assms by (simp add: rc_valid_def rc_decode_def sizeof_resource_data_t_def in_int_of_u32)

lemma set_paths_ends:
  "\<exists>name. set_paths n s = s\<lparr>base_dir := take 511 (VMLU_CONFIG_PATH @ name),
     config_path := take 511 (take 511 (VMLU_CONFIG_PATH @ name) @ SLASH # CONTROLLER_CONFIG_NAME),
     pid_path := take 511 (take 511 (VMLU_CONFIG_PATH @ name) @ SLASH # PIDS_CONFIG_NAME)\<rparr>"
  by (rule exI [of _ n]) (simp add: set_paths_def snprintf_def PATH_LENGTH_def Let_def)

definition demo_record :: resource_data_t where
  "demo_record = \<lparr>pod_uid = replicate 48 NUL, container_name = replicate FILENAME_MAX NUL,
     memory = 1073741824, utilization = 30\<rparr>"

lemma demo_record_valid [simp]: "rc_valid demo_record"
  by (simp add: rc_valid_def demo_record_def c_range)

text \<open>A container \<open>main\<close> of a pod on a node with cgroup version 2.\<close>

definition demo_mount_line :: string where
  "demo_mount_line = ''1 2 8:1 '' @ prefix_pod @ ''27882189'' @ end_pod @ ''main'' @ SLASH # ''0a1b /dev/x''"

definition demo_env :: container_env where
  "demo_env = \<lparr>mount_pipe = Some (file_of [''cgroup2 on /sys/fs/cgroup''] []),
     text_file = (\<lambda>p. if p = ''/proc/self/mountinfo''
       then Some (file_of ([''22 1 0:20 / /sys rw''] @ demo_mount_line # []) []) else None),
     data_file = (\<lambda>p. if p = ''/etc/unishare/vm/main/vcuda.config''
       then Some (rc_encode demo_record (replicate 4 NUL) @ []) else None)\<rparr>"

definition demo_locals :: "char list \<times> char list \<times> char list" where
  "demo_locals = (blank_buffer, blank_buffer, blank_buffer)"

lemma demo_version:
  "checkCgroupVersion (mount_pipe demo_env) = Inr (1, ''/proc/self/mountinfo'')"
  using checkCgroupVersion_lines [of "[''cgroup2 on /sys/fs/cgroup'']"]
  by (simp add: demo_env_def BUF_SIZE_def)


subsection \<open>Cgroup version 2\<close>

lemma get_path_v2:
  assumes "get_cgroupV2_data (text_file env (cgroupInfoPath s)) pod0 (NUL # tl name0)
      = Inr (0, pod', name')"
    and "name0 \<noteq> []" "NUL \<in> set name'" "v \<noteq> 0"
  shows "get_path_by_cgroup env (pod0, cid0, name0) v s = Inr (0, set_paths (cstr name') s)"
  using assms by (simp add: get_path_by_cgroup_def set_char_first string_arg_cstr)

text \<open>
  On a node with cgroup version 2, a container whose mount table names the container \<open>name\<close> of a pod
  gets exactly the record that was encoded into \<open>/etc/unishare/vm/<name>/vcuda.config\<close>, whatever
  the uninitialised local buffers held.
\<close>

lemma configuration_v2_found:
  assumes "checkCgroupVersion (mount_pipe env) = Inr (1, info)"
    and "text_file env info = Some (file_of (ls @ l # ms) t)"
    and "\<forall>l \<in> set ls. no_container l"
    and "SLASH \<notin> set a" "SLASH \<notin> set uid" "uid \<noteq> ''containers''" "SLASH \<notin> set name"
    and "l = a @ prefix_pod @ uid @ end_pod @ name @ SLASH # tail"
    and "NUL \<notin> set l" "NEWLINE \<notin> set l" "length l < BUF_SIZE - 1"
    and "length pod0 = BUF_SIZE" "length name0 = BUF_SIZE"
    and "data_file env (config_file name) = Some (rc_encode d pad @ extra)"
    and "rc_valid d" "length pad = 4" "length (config_file name) < PATH_LENGTH"
  shows "\<exists>s'. read_controller_configuration env (pod0, cid0, name0) s = Inr s'
    \<and> config_data s' = d \<and> config_path s' = config_file name"
proof -
  have ne: "name0 \<noteq> []"
    using assms(13) by (auto simp: BUF_SIZE_def)
  have "length (NUL # tl name0) = BUF_SIZE"
    using assms(13) by (simp add: BUF_SIZE_def)
  obtain pod' name' where r:
    "get_cgroupV2_data (text_file env info) pod0 (NUL # tl name0) = Inr (0, pod', name')"
    "cstr name' = name" "NUL \<in> set name'"
    using get_cgroupV2_data_match [OF assms(3-12) \<open>length (NUL # tl name0) = BUF_SIZE\<close>] assms(2)
    unfolding holds_def by metis
  let ?s1 = "set_paths name (s\<lparr>cgroupInfoPath := info\<rparr>)"
  have "get_path_by_cgroup env (pod0, cid0, name0) 1 (s\<lparr>cgroupInfoPath := info\<rparr>) = Inr (0, ?s1)"
    using get_path_v2 [of env "s\<lparr>cgroupInfoPath := info\<rparr>" pod0 name0 pod' name' 1 cid0] r ne by simp
  moreover have "config_path ?s1 = config_file name"
    using assms(17) by (rule set_paths_config)
  ultimately have "read_controller_configuration env (pod0, cid0, name0) s
      = Inr (?s1\<lparr>config_data := d\<rparr>)"
    using assms(14-16) by (intro read_located [OF assms(1)]) simp_all
  then show ?thesis
    using \<open>config_path ?s1 = config_file name\<close> by simp
qed

lemmas demo_facts = demo_env_def demo_mount_line_def config_file_def VMLU_CONFIG_PATH_def
  CONTROLLER_CONFIG_NAME_def SLASH_def BUF_SIZE_def PATH_LENGTH_def prefix_pod_def end_pod_def
  no_container_def

text \<open>
  \<open>read_controller_configuration\<close> returns only with a configuration taken from a complete
  record of the file it names: the file at \<open>config_path\<close> could be opened, it has at least the
  4160 bytes of the record, and \<open>config_data\<close> is what its first 4160 bytes encode.
\<close>

theorem read_controller_configuration_complete:
  assumes "read_controller_configuration env locals s = Inr s'"
  shows "\<exists>contents. data_file env (config_path s') = Some contents
    \<and> sizeof_resource_data_t \<le> length contents
    \<and> config_data s' = rc_decode (take sizeof_resource_data_t contents)
    \<and> rc_valid (config_data s')"
  using assms rc_decode_valid
  by (auto simp: read_controller_configuration_def c_bind_eq_Inr Let_def
      split: if_splits option.splits)

theorem read_controller_configuration_complete_witness:
  "\<exists>s' contents. read_controller_configuration demo_env (blank_buffer, blank_buffer, blank_buffer)
      container_init = Inr s'
    \<and> data_file demo_env (config_path s') = Some contents
    \<and> sizeof_resource_data_t \<le> length contents
    \<and> config_data s' = rc_decode (take sizeof_resource_data_t contents)
    \<and> rc_valid (config_data s')"
proof -
  have "\<exists>s'. read_controller_configuration demo_env (blank_buffer, blank_buffer, blank_buffer)
      container_init = Inr s' \<and> config_data s' = demo_record \<and> config_path s' = config_file ''main''"
    by (rule configuration_v2_found [where ls = "[''22 1 0:20 / /sys rw'']" and ms = "[]" and
          a = "''1 2 8:1 ''" and tail = "''0a1b /dev/x''" and extra = "[]" and pad = "replicate 4 NUL", OF demo_version _ _ _ _ _ _
          demo_mount_line_def]) (simp_all add: demo_facts)
  then show ?thesis
    using read_controller_configuration_complete by blast
qed

text \<open>
  C40: If no line of the mount table names a container, the process does not fail: it takes the
  configuration in \<open>/etc/unishare/vm//vcuda.config\<close>, the file every container that is not
  recognised shares.
\<close>

theorem unrecognised_container_shares_default:
  assumes "checkCgroupVersion (mount_pipe env) = Inr (1, info)"
    and "text_file env info = Some (file_of ls [])" "\<forall>l \<in> set ls. no_container l"
    and "name0 \<noteq> []"
    and "data_file env ''/etc/unishare/vm//vcuda.config'' = Some (rc_encode d pad @ extra)"
    and "rc_valid d" "length pad = 4"
  shows "\<exists>s'. read_controller_configuration env (pod0, cid0, name0) s = Inr s' \<and> config_data s' = d"
proof -
  let ?s1 = "set_paths [] (s\<lparr>cgroupInfoPath := info\<rparr>)"
  have "get_cgroupV2_data (text_file env info) pod0 (NUL # tl name0) = Inr (0, pod0, NUL # tl name0)"
    using get_cgroupV2_data_no_match [OF assms(3)] assms(2) by simp
  then have "get_path_by_cgroup env (pod0, cid0, name0) 1 (s\<lparr>cgroupInfoPath := info\<rparr>) = Inr (0, ?s1)"
    using get_path_v2 [of env "s\<lparr>cgroupInfoPath := info\<rparr>" pod0 name0 pod0 "NUL # tl name0" 1 cid0]
      assms(4) by simp
  moreover have "config_path ?s1 = ''/etc/unishare/vm//vcuda.config''"
    by (subst set_paths_config) (simp_all add: config_file_def VMLU_CONFIG_PATH_def
        CONTROLLER_CONFIG_NAME_def SLASH_def PATH_LENGTH_def)
  ultimately have "read_controller_configuration env (pod0, cid0, name0) s
      = Inr (?s1\<lparr>config_data := d\<rparr>)"
    using assms(5-7) by (intro read_located [OF assms(1)]) simp_all
  then show ?thesis by simp
qed

definition unknown_env :: container_env where
  "unknown_env = demo_env\<lparr>
     text_file := (\<lambda>p. Some (file_of [''22 1 0:20 / /sys rw''] [])),
     data_file := (\<lambda>p. Some (rc_encode demo_record (replicate 4 NUL) @ []))\<rparr>"

theorem unrecognised_container_shares_default_witness:
  "\<exists>s'. read_controller_configuration unknown_env (blank_buffer, blank_buffer, blank_buffer)
      container_init = Inr s' \<and> config_data s' = demo_record"
  by (rule unrecognised_container_shares_default [where info = "''/proc/self/mountinfo''" and
        ls = "[''22 1 0:20 / /sys rw'']" and extra = "[]" and pad = "replicate 4 NUL"])
    (use demo_version in \<open>simp_all add: unknown_env_def no_container_def prefix_pod_def BUF_SIZE_def
        blank_buffer_def\<close>)

subsection \<open>Cgroup version 1\<close>

lemma get_path_v1:
  assumes "get_cgroup_data (text_file env (cgroupInfoPath s)) pod0 cid0 BUF_SIZE = Inr (0, pod', cid')"
    and "name0 \<noteq> []" "NUL \<in> set cid'"
  shows "get_path_by_cgroup env (pod0, cid0, name0) 0 s = Inr (0, set_paths (cstr cid') s)"
  using assms by (simp add: get_path_by_cgroup_def set_char_first string_arg_cstr)

text \<open>
  On a node with cgroup version 1, a process whose memory cgroup is the systemd scope
  \<open><runtime>-<cid>.scope\<close> of a pod slice gets exactly the record that was encoded into
  \<open>/etc/unishare/vm/<cid>/vcuda.config\<close>.
\<close>

lemma configuration_systemd_found:
  assumes "checkCgroupVersion (mount_pipe env) = Inr (0, info)"
    and "text_file env info = Some (file_of (ls @ l # ms) t)"
    and "\<forall>l \<in> set ls. other_controller l"
    and "l = hierarchy @ '':memory:'' @ path" "NEWLINE \<notin> set l" "NUL \<notin> set l"
    and "2 * length l \<le> BUF_SIZE"
    and "CHR '':'' \<notin> set hierarchy" "hierarchy \<noteq> []" "hierarchy \<noteq> ''memory''" "CHR '':'' \<notin> set path"
    and "path = dir @ SLASH # pod @ SLASH # scope"
    and "pod = parent @ ''-pod'' @ uid @ ''.slice''"
    and "scope = runtime @ CHR ''-'' # cid @ ''.scope''"
    and "SLASH \<notin> set pod" "SLASH \<notin> set scope" "CHR ''-'' \<notin> set cid"
    and "strstr scope ''.scope'' = Some (length scope - 6)"
    and "strstr (SLASH # pod) ''.slice'' = Some (length pod - 5)"
    and "strstr (SLASH # parent @ ''-pod'' @ uid) ''-pod'' = Some (Suc (length parent))"
    and "length pod0 = BUF_SIZE" "length cid0 = BUF_SIZE" "name0 \<noteq> []"
    and "data_file env (config_file cid) = Some (rc_encode d pad @ extra)"
    and "rc_valid d" "length pad = 4" "length (config_file cid) < PATH_LENGTH"
  shows "\<exists>s'. read_controller_configuration env (pod0, cid0, name0) s = Inr s'
    \<and> config_data s' = d \<and> config_path s' = config_file cid"
proof -
  have path: "NUL \<notin> set path" "2 * length path \<le> BUF_SIZE" "path \<noteq> []" "length l < BUF_SIZE - 1"
    using assms(4,6,7,12) by auto
  then have "get_cgroup_data (text_file env info) pod0 cid0 BUF_SIZE
      = cgroup_path_ids path pod0 cid0 BUF_SIZE"
    using get_cgroup_data_memory_line [OF assms(3-6) path(4) assms(8-11) path(3)] assms(2) by simp
  moreover obtain pod' cid' where "cgroup_path_ids path pod0 cid0 BUF_SIZE = Inr (0, pod', cid')"
    "holds cid' cid"
    using systemd_path_found [OF assms(12-14) path(1,2) assms(21,22,15-20)] by blast
  ultimately have "get_path_by_cgroup env (pod0, cid0, name0) 0 (s\<lparr>cgroupInfoPath := info\<rparr>)
      = Inr (0, set_paths cid (s\<lparr>cgroupInfoPath := info\<rparr>))"
    using get_path_v1 [of env "s\<lparr>cgroupInfoPath := info\<rparr>" pod0 cid0 pod' cid' name0] assms(23)
    by (simp add: holds_def)
  moreover have "config_path (set_paths cid (s\<lparr>cgroupInfoPath := info\<rparr>)) = config_file cid"
    using assms(27) by (rule set_paths_config)
  ultimately show ?thesis
    using read_located [OF assms(1), of "(pod0, cid0, name0)" s _ d pad extra] assms(24-26) by simp
qed

definition systemd_env :: container_env where
  "systemd_env = \<lparr>mount_pipe = Some (file_of [''cgroup on /sys/fs/cgroup/memory type cgroup''] []),
     text_file = (\<lambda>_. Some (file_of ([''12:cpu:/''] @
       (''8'' @ '':memory:'' @ ''/kubepods.slice'' @ SLASH # ''kubepods-pod019c_0d92.slice'' @ SLASH # ''docker-9e07.scope'')
       # []) [])),
     data_file = (\<lambda>p. if p = ''/etc/unishare/vm/9e07/vcuda.config''
       then Some (rc_encode demo_record (replicate 4 NUL) @ []) else None)\<rparr>"

lemma systemd_version:
  "checkCgroupVersion (mount_pipe systemd_env) = Inr (0, ''/proc/self/cgroup'')"
  using checkCgroupVersion_lines [of "[''cgroup on /sys/fs/cgroup/memory type cgroup'']"]
  by (simp add: systemd_env_def BUF_SIZE_def)

lemma cpu_line: "other_controller ''12:cpu:/''"
proof -
  have "memory_field ''12:cpu:/'' = None"
    by (simp add: memory_field.simps strtok_r_def)
  then show ?thesis
    by (simp add: other_controller_def BUF_SIZE_def)
qed

lemma systemd_demo_read:
  "\<exists>s'. read_controller_configuration systemd_env (blank_buffer, blank_buffer, [NUL]) container_init = Inr s'
    \<and> config_data s' = demo_record \<and> config_path s' = config_file ''9e07''"
  by (rule configuration_systemd_found [where info = "''/proc/self/cgroup''" and
        ls = "[''12:cpu:/'']" and ms = "[]" and t = "[]" and hierarchy = "''8''" and
        dir = "''/kubepods.slice''" and pod = "''kubepods-pod019c_0d92.slice''" and
        scope = "''docker-9e07.scope''" and parent = "''kubepods''" and uid = "''019c_0d92''" and
        runtime = "''docker''" and pad = "replicate 4 NUL" and extra = "[]", OF systemd_version _ _ refl
        _ _ _ _ _ _ _ refl]) (simp_all add: systemd_env_def demo_facts cpu_line)

text \<open>
  On a node with cgroup version 1, a process without a memory cgroup line is ended with
  status -1, and no configuration is read.
\<close>

theorem no_memory_cgroup_exits:
  assumes "checkCgroupVersion (mount_pipe env) = Inr (0, info)"
    and "text_file env info = Some (file_of ls [])" "\<forall>l \<in> set ls. other_controller l" "name0 \<noteq> []"
  shows "read_controller_configuration env (pod0, cid0, name0) s = Inl (Exited (- 1))"
  using assms memory_cgroup_none [OF assms(3)]
  by (simp add: read_controller_configuration_def get_path_by_cgroup_def get_cgroup_data_def
      set_char_first)

theorem no_memory_cgroup_exits_witness:
  "read_controller_configuration (systemd_env\<lparr>text_file := \<lambda>_. Some (file_of [''12:cpu:/''] [])\<rparr>)
     (blank_buffer, blank_buffer, [NUL]) container_init = Inl (Exited (- 1))"
  by (rule no_memory_cgroup_exits [where info = "''/proc/self/cgroup''" and ls = "[''12:cpu:/'']"])
    (use systemd_version in \<open>simp_all add: cpu_line\<close>)

subsection \<open>The writer and the reader\<close>

text \<open>
  C13: What the container reads after \<open>setting_to_disk\<close> follows from its status. With status 0 the
  decoder of the reader gives back the record that was stored, whatever the padding; with status 2
  the file is too short, and the reader ends its process; with status 1 the file is as it was before,
  and a process in the container goes on with an earlier record, if there is one.
\<close>

theorem setting_to_disk_read_back:
  assumes "setting_to_disk opened wsize pad old d = (ret, contents)" "rc_valid d" "length pad = 4"
    and "wsize \<le> int sizeof_resource_data_t"
    and "checkCgroupVersion (mount_pipe env) = Inr (v, info)"
    and "get_path_by_cgroup env locals v (s\<lparr>cgroupInfoPath := info\<rparr>) = Inr (0, s1)"
    and "data_file env (config_path s1) = contents"
  shows "read_controller_configuration env locals s =
    (if ret = 0 then Inr (s1\<lparr>config_data := d\<rparr>)
     else if ret = 2 then Inl (Exited (- 1))
     else (case old of
         None \<Rightarrow> Inl (Exited (- 1))
       | Some bytes \<Rightarrow>
           if length bytes < sizeof_resource_data_t then Inl (Exited (- 1))
           else Inr (s1\<lparr>config_data := rc_decode (take sizeof_resource_data_t bytes)\<rparr>)))
    \<and> (ret = 1 \<longleftrightarrow> \<not> opened) \<and> ret \<in> {0, 1, 2}"
proof -
  have "read_controller_configuration env locals s = (case contents of
      None \<Rightarrow> Inl (Exited (- 1))
    | Some bytes \<Rightarrow>
        if length bytes < sizeof_resource_data_t then Inl (Exited (- 1))
        else Inr (s1\<lparr>config_data := rc_decode (take sizeof_resource_data_t bytes)\<rparr>))"
    by (simp add: read_controller_configuration_def assms(5-7) Let_def min_def split: option.split)
  moreover have "0 < sizeof_resource_data_t"
    by (simp add: sizeof_resource_data_t_def)
  ultimately show ?thesis
    using assms(1,4) rc_encode_length [OF assms(2,3)] rc_decode_encode [OF assms(2,3), of "[]"]
    by (auto simp: setting_to_disk_def split: if_splits)
qed

text \<open>An open that fails leaves the old record, and it is read.\<close>

definition other_record :: resource_data_t where
  "other_record = demo_record\<lparr>utilization := 70\<rparr>"

theorem setting_to_disk_read_back_witness:
  "read_controller_configuration
     (unknown_env\<lparr>data_file := \<lambda>_. Some (rc_encode demo_record (replicate 4 NUL))\<rparr>)
     (blank_buffer, blank_buffer, blank_buffer) container_init
   = Inr (set_paths [] (container_init\<lparr>cgroupInfoPath := ''/proc/self/mountinfo''\<rparr>)
       \<lparr>config_data := demo_record\<rparr>)
   \<and> setting_to_disk False 0 (replicate 4 NUL) (Some (rc_encode demo_record (replicate 4 NUL))) other_record
     = (1, Some (rc_encode demo_record (replicate 4 NUL)))"
proof -
  let ?env = "unknown_env\<lparr>data_file := \<lambda>_. Some (rc_encode demo_record (replicate 4 NUL))\<rparr>"
  let ?s = "container_init\<lparr>cgroupInfoPath := ''/proc/self/mountinfo''\<rparr>"
  have valid: "rc_valid other_record"
    by (simp add: other_record_def rc_valid_def demo_record_def c_range)
  have full: "length (rc_encode demo_record (replicate 4 NUL)) = sizeof_resource_data_t"
    by (intro rc_encode_length) simp_all
  have stale: "setting_to_disk False 0 (replicate 4 NUL) (Some (rc_encode demo_record (replicate 4 NUL))) other_record
      = (1, Some (rc_encode demo_record (replicate 4 NUL)))"
    by (simp add: setting_to_disk_def)
  have version: "checkCgroupVersion (mount_pipe ?env) = Inr (1, ''/proc/self/mountinfo'')"
    using demo_version by (simp add: unknown_env_def)
  have "get_cgroupV2_data (text_file ?env ''/proc/self/mountinfo'') blank_buffer
      (NUL # tl blank_buffer) = Inr (0, blank_buffer, NUL # tl blank_buffer)"
    using get_cgroupV2_data_no_match [of "[''22 1 0:20 / /sys rw'']"]
    by (simp add: unknown_env_def no_container_def prefix_pod_def BUF_SIZE_def)
  then have path: "get_path_by_cgroup ?env (blank_buffer, blank_buffer, blank_buffer) 1 ?s
      = Inr (0, set_paths [] ?s)"
    using get_path_v2 [of ?env ?s blank_buffer blank_buffer blank_buffer "NUL # tl blank_buffer" 1]
    by (simp add: blank_buffer_def BUF_SIZE_def)
  have "read_controller_configuration ?env (blank_buffer, blank_buffer, blank_buffer) container_init
      = Inr (set_paths [] ?s\<lparr>config_data := rc_decode (take sizeof_resource_data_t (rc_encode demo_record (replicate 4 NUL)))\<rparr>)"
    using setting_to_disk_read_back [OF stale valid _ _ version path] full by simp
  moreover have "rc_decode (rc_encode demo_record (replicate 4 NUL) @ []) = demo_record"
    by (intro rc_decode_encode) simp_all
  ultimately show ?thesis
    using stale full by simp
qed

end
