(* ===== verification/Hook_State.thy ===== *)
theory Hook_State
  imports Symbol_Table Container_Config Core_Controller
begin

text \<open>
  What the wrappers of \<open>core/interceptor\<close> share: the state of the preloaded library, the
  surroundings they call (linker, driver functions, container, device library),
  \<open>MY_CALL_ENTRY\<close>, \<open>pthread_once\<close>, the start of the control threads, and the replacement of
  \<open>dlsym\<close>. A call of a wrapper is a function of the state; the races on the token bucket, which
  two wrappers and the control threads share, are in the theory \<open>Limiter_Concurrency\<close>.
\<close>

subsection \<open>Memory and calls\<close>

text \<open>Addresses and everything else the wrappers only pass on are 64-bit words.\<close>

type_synonym addr = u64

text \<open>A function of this library, named as in the source, or one of the driver.\<close>

datatype 'fp code_ptr = Hook string | Driver 'fp

datatype 'fp cell = Word u64 | Code "'fp code_ptr option"

type_synonym 'fp heap = "addr \<Rightarrow> 'fp cell option"

datatype c_arg = U32_Arg u32 | Int_Arg int | U64_Arg u64 | Ptr_Arg addr | String_Arg string

definition store :: "'fp heap \<Rightarrow> addr \<Rightarrow> 'fp cell \<Rightarrow> 'fp heap c_result" where
  "store h p v =
     (if p = 0 then Inl Null_Deref
      else if h p = None then Inl Out_Of_Bounds
      else Inr (h(p \<mapsto> v)))"

subsection \<open>State and surroundings\<close>

datatype control_thread = Created string | Running string int

record 'fp hook_state =
  read_config :: bool
  gpu_lib_ptr_init :: bool
  gpu_prod :: bool
  mlu_lib_ptr_init :: bool
  mlu_prod :: bool
  cuda_library_entry :: "'fp entry_t list"
  CNDrv_entry :: "'fp entry_t list"
  total_mem :: u64
  container :: container_state
  limiter :: controller_state
  heap :: "'fp heap"
  threads :: "control_thread list"

definition hook_init :: "'fp heap \<Rightarrow> 'fp hook_state" where
  "hook_init h = \<lparr>read_config = False, gpu_lib_ptr_init = False, gpu_prod = False,
     mlu_lib_ptr_init = False, mlu_prod = False,
     cuda_library_entry = static_table cuda_library_entry_names,
     CNDrv_entry = static_table CNDrv_entry_names,
     total_mem = 0, container = container_init, limiter = controller_init, heap = h, threads = []\<rparr>"

text \<open>
  \<open>driver\<close> is what a driver function does: its status and the memory after it. \<open>cuda_h\<close> is the
  renaming of the API's functions by the macros of \<open>cuda.h\<close>, which \<open>REAL_GPU_FUNC_PTR\<close> expands
  before it builds the enumerator. The two constants are those of the vendors' headers.
\<close>

record ('h, 'fp) hook_env = "('h, 'fp) linker" +
  driver :: "'fp \<Rightarrow> c_arg list \<Rightarrow> 'fp heap \<Rightarrow> int \<times> 'fp heap"
  container_files :: container_env
  stack_garbage :: "char list \<times> char list \<times> char list"
  pthread_create_result :: int
  mlu_check :: "cndevRet \<Rightarrow> unit c_result"
  mlu_query :: "u64 query"
  cuda_h :: "string \<Rightarrow> string"
  CN_MEMORY_ERROR_OUT_OF_MEMORY :: int
  CU_MEM_ATTACH_GLOBAL :: u32

text \<open>\<open>MY_CALL_ENTRY\<close>: a call through a table entry that is not filled is a call of address 0.\<close>

definition MY_CALL_ENTRY ::
    "('h, 'fp) hook_env \<Rightarrow> 'fp option c_result \<Rightarrow> c_arg list \<Rightarrow> 'fp hook_state
     \<Rightarrow> (int \<times> 'fp hook_state) c_result" where
  "MY_CALL_ENTRY env entry args s =
     c_bind entry (\<lambda>ptr. case ptr of
        None \<Rightarrow> Inl Null_Deref
      | Some fp \<Rightarrow> (case driver env fp args (heap s) of (ret, h) \<Rightarrow> Inr (ret, s\<lparr>heap := h\<rparr>)))"

subsection \<open>Initialisation, once\<close>

definition pthread_once ::
    "('s \<Rightarrow> bool) \<Rightarrow> ((bool \<Rightarrow> bool) \<Rightarrow> 's \<Rightarrow> 's) \<Rightarrow> ('s \<Rightarrow> 's c_result) \<Rightarrow> 's \<Rightarrow> 's c_result" where
  "pthread_once flag set_flag routine s =
     (if flag s then Inr s else c_bind (routine s) (\<lambda>s'. Inr (set_flag (\<lambda>_. True) s')))"

definition read_configuration :: "('h, 'fp) hook_env \<Rightarrow> 'fp hook_state \<Rightarrow> 'fp hook_state c_result" where
  "read_configuration env s =
     c_bind (read_controller_configuration (container_files env) (stack_garbage env) (container s))
       (\<lambda>c. Inr (s\<lparr>container := c\<rparr>))"

definition load_mlu :: "('h, 'fp) hook_env \<Rightarrow> 'fp hook_state \<Rightarrow> 'fp hook_state c_result" where
  "load_mlu env s =
     c_bind (getMluDriverLibPtrDlsym env (CNDrv_entry s)) (\<lambda>(t, _). Inr (s\<lparr>CNDrv_entry := t\<rparr>))"

definition load_gpu :: "('h, 'fp) hook_env \<Rightarrow> 'fp hook_state \<Rightarrow> 'fp hook_state c_result" where
  "load_gpu env s =
     c_bind (getGpuDriverLibPtrDlsym env (cuda_library_entry s))
       (\<lambda>(t, _). Inr (s\<lparr>cuda_library_entry := t\<rparr>))"

definition EXIT_FAILURE :: int where "EXIT_FAILURE = 1"

definition create_prod_mlu_thread :: "('h, 'fp) hook_env \<Rightarrow> 'fp hook_state \<Rightarrow> 'fp hook_state c_result" where
  "create_prod_mlu_thread env s =
     (if pthread_create_result env \<noteq> 0 then Inl (Exited EXIT_FAILURE)
      else Inr (s\<lparr>threads := threads s @ [Created ''mlu'']\<rparr>))"

definition create_prod_gpu_thread :: "('h, 'fp) hook_env \<Rightarrow> 'fp hook_state \<Rightarrow> 'fp hook_state c_result" where
  "create_prod_gpu_thread env s =
     (if pthread_create_result env \<noteq> 0 then Inl (Exited EXIT_FAILURE)
      else Inr (s\<lparr>threads := threads s @ [Created ''gpu'']\<rparr>))"

text \<open>
  The first statement of \<open>source_control\<close>, when the thread gets to run: the limit it copies is
  the one it uses for as long as it lives.
\<close>

fun thread_begin :: "nat \<Rightarrow> 'fp hook_state \<Rightarrow> 'fp hook_state" where
  "thread_begin i s =
     (if i < length (threads s) then
        (case threads s ! i of
           Created kind \<Rightarrow>
             s\<lparr>threads := (threads s)[i := Running kind (utilization (config_data (container s)))]\<rparr>
         | Running _ _ \<Rightarrow> s)
      else s)"

subsection \<open>The replacement of \<open>dlsym\<close>\<close>

text \<open>\<open>strncmp(s, t, 2) != 0\<close> and \<open>strcmp(s, t) == 0\<close> on strings without NUL.\<close>

definition dlsym ::
    "('h, 'fp, 'e) linker_scheme \<Rightarrow> 'h \<Rightarrow> string \<Rightarrow> 'fp code_ptr option c_result" where
  "dlsym env handle symbol =
     (let real = c_bind (real_dlsym env handle symbol) (\<lambda>p. Inr (map_option Driver p)) in
      if take 2 symbol \<noteq> ''cn'' \<and> take 2 symbol \<noteq> ''cu'' then real
      else if symbol = ''cnGetLibVersion'' then Inr (Some (Hook ''cnGetLibVersion''))
      else if symbol = ''cnInit'' then Inr (Some (Hook ''cnInit''))
      else if symbol = ''cnGetExportFunction'' then Inr (Some (Hook ''cnGetExportFunction''))
      else if symbol = ''cnInvokeKernel'' then Inr (Some (Hook ''cnInvokeKernel''))
      else if symbol = ''cnMalloc'' then Inr (Some (Hook ''cnMalloc''))
      else if symbol = ''cuDriverGetVersion'' then Inr (Some (Hook ''cuDriverGetVersion''))
      else if symbol = ''cuInit'' then Inr (Some (Hook ''cuInit''))
      else if symbol = ''cuGetProcAddress'' then Inr (Some (Hook ''cuGetProcAddress''))
      else if symbol = ''cuMemAllocManaged'' then Inr (Some (Hook ''cuMemAllocManaged''))
      else if symbol = ''cuMemAlloc'' then Inr (Some (Hook ''cuMemAlloc''))
      else if symbol = ''cuMemAllocPitch'' then Inr (Some (Hook ''cuMemAllocPitch''))
      else if symbol = ''cuArrayCreate'' then Inr (Some (Hook ''cuArrayCreate''))
      else if symbol = ''cuArray3DCreate'' then Inr (Some (Hook ''cuArray3DCreate''))
      else if symbol = ''cuMipmappedArrayCreate'' then Inr (Some (Hook ''cuMipmappedArrayCreate''))
      else if symbol = ''cuDeviceTotalMem'' then Inr (Some (Hook ''cuDeviceTotalMem''))
      else if symbol = ''cuMemGetInfo'' then Inr (Some (Hook ''cuMemGetInfo''))
      else if symbol = ''cuLaunchKernel'' then Inr (Some (Hook ''cuLaunchKernel''))
      else if symbol = ''cuLaunchCooperativeKernel'' then Inr (Some (Hook ''cuLaunchCooperativeKernel''))
      else real)"

definition hooked_symbols :: "string list" where
  "hooked_symbols = [''cnGetLibVersion'', ''cnInit'', ''cnGetExportFunction'', ''cnInvokeKernel'',
     ''cnMalloc'', ''cuDriverGetVersion'', ''cuInit'', ''cuGetProcAddress'', ''cuMemAllocManaged'',
     ''cuMemAlloc'', ''cuMemAllocPitch'', ''cuArrayCreate'', ''cuArray3DCreate'',
     ''cuMipmappedArrayCreate'', ''cuDeviceTotalMem'', ''cuMemGetInfo'', ''cuLaunchKernel'',
     ''cuLaunchCooperativeKernel'']"

lemma dlsym_transparent:
  "dlsym env handle symbol =
     (if symbol \<in> set hooked_symbols then Inr (Some (Hook symbol))
      else c_bind (real_dlsym env handle symbol) (\<lambda>p. Inr (map_option Driver p)))"
proof (cases "symbol \<in> set hooked_symbols")
  case True
  then show ?thesis
    unfolding hooked_symbols_def by (auto simp: dlsym_def)
next
  case False
  then have "\<forall>h \<in> set hooked_symbols. symbol \<noteq> h" by blast
  then have "dlsym env handle symbol = c_bind (real_dlsym env handle symbol) (\<lambda>p. Inr (map_option Driver p))"
    unfolding hooked_symbols_def dlsym_def Let_def by (simp only: list.set ball_simps if_False if_cancel simp_thms)
  with False show ?thesis by simp
qed

text \<open>
  The replaced \<open>dlsym\<close> is transparent but for eighteen symbols: it answers each of these
  with this library's function of the same name, whatever the handle, and every other symbol
  with what the real \<open>dlsym\<close> answers for that handle.
\<close>

theorem dlsym_hooks:
  "dlsym env handle symbol =
     (if symbol \<in> set hooked_symbols then Inr (Some (Hook symbol))
      else c_bind (real_dlsym env handle symbol) (\<lambda>p. Inr (map_option Driver p)))"
  by (rule dlsym_transparent)

text \<open>
  The three allocating functions with a quota check besides \<open>cnMalloc\<close>, \<open>cnMemGetInfo\<close> and
  the versioned CUDA names are not among the symbols \<open>dlsym\<close> replaces: a program that looks
  them up gets the driver's functions, past the quota.
\<close>

theorem dlsym_bypass:
  assumes "internal_dlsym env = Some f"
    and "symbol \<in> {''cnMallocSecurity'', ''cnZmalloc'', ''cnMallocConstant'', ''cnMemGetInfo'',
      ''cuMemAlloc_v2'', ''cuMemGetInfo_v2'', ''cuLaunchKernel_ptsz''}"
  shows "dlsym env handle symbol = Inr (map_option Driver (f handle symbol))"
proof -
  have "symbol \<notin> set hooked_symbols"
    using assms(2) by (auto simp: hooked_symbols_def)
  moreover have "real_dlsym env handle symbol = Inr (f handle symbol)"
    using assms(1) by (simp add: real_dlsym_def)
  ultimately show ?thesis
    by (simp only: dlsym_transparent if_False c_bind_Inr)
qed

theorem dlsym_bypass_witness:
  "dlsym demo_linker ''libcndrv.so'' ''cnZmalloc'' = Inr (Some (Driver (''libcndrv.so'', ''cnZmalloc'')))"
  using dlsym_bypass [of demo_linker exports "''cnZmalloc''" "''libcndrv.so''"]
  by (simp add: demo_linker_def exports_def)

subsection \<open>Calls through the tables\<close>

text \<open>
  The tables have two states: as compiled, and resolved by the loader. \<open>linked\<close> ties them to the
  flags of \<open>pthread_once\<close>; a program cannot reach any other state (\<open>linked_init\<close> and the lemmas
  about the wrappers).
\<close>

definition linked :: "('h, 'fp) hook_env \<Rightarrow> ('h \<Rightarrow> string \<Rightarrow> 'fp option) \<Rightarrow> 'fp hook_state \<Rightarrow> bool" where
  "linked env f s \<longleftrightarrow> internal_dlsym env = Some f \<and>
     cuda_library_entry s = (if gpu_lib_ptr_init s
       then cuda.resolved env f ''libcuda.so'' (length cuda_library_entry_names)
       else static_table cuda_library_entry_names) \<and>
     CNDrv_entry s = (if mlu_lib_ptr_init s
       then cndrv.resolved env f ''libcndrv.so'' (length CNDrv_entry_names)
       else static_table CNDrv_entry_names)"

lemma linked_init: "internal_dlsym env = Some f \<Longrightarrow> linked env f (hook_init h)"
  by (simp add: linked_def hook_init_def)

named_theorems linked_frame \<open>changes of the state that keep the tables linked\<close>

lemma linked_updates [linked_frame]:
  "linked env f (s\<lparr>heap := h\<rparr>) = linked env f s"
  "linked env f (s\<lparr>container := c\<rparr>) = linked env f s"
  "linked env f (s\<lparr>limiter := l\<rparr>) = linked env f s"
  "linked env f (s\<lparr>threads := t\<rparr>) = linked env f s"
  "linked env f (s\<lparr>read_config := b\<rparr>) = linked env f s"
  "linked env f (s\<lparr>gpu_prod := b\<rparr>) = linked env f s"
  "linked env f (s\<lparr>mlu_prod := b\<rparr>) = linked env f s"
  by (simp_all add: linked_def)

lemma gpu_entry:
  assumes "linked env f s" "x \<in> set CUDA_ENTRY_names"
  shows "REAL_GPU_FUNC_PTR (cuda_library_entry s) x =
    Inr (if gpu_lib_ptr_init s then f (dlopen env ''libcuda.so'') (looked_up_as x) else None)"
  using assms cuda.entry_loaded cuda.entry_unloaded
  by (auto simp: linked_def REAL_GPU_FUNC_PTR_def)

lemma mlu_entry:
  assumes "linked env f s" "x \<in> set MLU_ENTRY_names"
  shows "REAL_MLU_FUNC_PTR (CNDrv_entry s) x =
    Inr (if mlu_lib_ptr_init s then f (dlopen env ''libcndrv.so'') x else None)"
  using assms cndrv.entry_loaded cndrv.entry_unloaded
  by (auto simp: linked_def REAL_MLU_FUNC_PTR_def)

lemma load_gpu_linked:
  assumes "linked env f s" "\<not> gpu_lib_ptr_init s"
  shows "load_gpu env s = Inr (s\<lparr>cuda_library_entry :=
    cuda.resolved env f ''libcuda.so'' (length cuda_library_entry_names)\<rparr>)"
  using assms cuda.load_all [of env f]
  by (simp add: load_gpu_def getGpuDriverLibPtrDlsym_def linked_def)

lemma load_mlu_linked:
  assumes "linked env f s" "\<not> mlu_lib_ptr_init s"
  shows "load_mlu env s = Inr (s\<lparr>CNDrv_entry :=
    cndrv.resolved env f ''libcndrv.so'' (length CNDrv_entry_names)\<rparr>)"
  using assms cndrv.load_all [of env f]
  by (simp add: load_mlu_def getMluDriverLibPtrDlsym_def linked_def)

text \<open>The state after the loader has run, by this call or an earlier one.\<close>

definition gpu_linked :: "('h, 'fp) hook_env \<Rightarrow> ('h \<Rightarrow> string \<Rightarrow> 'fp option) \<Rightarrow> 'fp hook_state \<Rightarrow> 'fp hook_state" where
  "gpu_linked env f s = s\<lparr>gpu_lib_ptr_init := True,
     cuda_library_entry := cuda.resolved env f ''libcuda.so'' (length cuda_library_entry_names)\<rparr>"

definition mlu_linked :: "('h, 'fp) hook_env \<Rightarrow> ('h \<Rightarrow> string \<Rightarrow> 'fp option) \<Rightarrow> 'fp hook_state \<Rightarrow> 'fp hook_state" where
  "mlu_linked env f s = s\<lparr>mlu_lib_ptr_init := True,
     CNDrv_entry := cndrv.resolved env f ''libcndrv.so'' (length CNDrv_entry_names)\<rparr>"

lemma once_load_gpu:
  assumes "linked env f s"
  shows "pthread_once gpu_lib_ptr_init gpu_lib_ptr_init_update (load_gpu env) s = Inr (gpu_linked env f s)"
proof (cases "gpu_lib_ptr_init s")
  case True
  with assms show ?thesis
    by (cases s) (simp add: pthread_once_def linked_def gpu_linked_def)
next
  case False
  then show ?thesis
    using load_gpu_linked [OF assms False] by (simp add: pthread_once_def gpu_linked_def)
qed

lemma once_load_mlu:
  assumes "linked env f s"
  shows "pthread_once mlu_lib_ptr_init mlu_lib_ptr_init_update (load_mlu env) s = Inr (mlu_linked env f s)"
proof (cases "mlu_lib_ptr_init s")
  case True
  with assms show ?thesis
    by (cases s) (simp add: pthread_once_def linked_def mlu_linked_def)
next
  case False
  then show ?thesis
    using load_mlu_linked [OF assms False] by (simp add: pthread_once_def mlu_linked_def)
qed

lemma linked_gpu_linked [linked_frame]: "linked env f s \<Longrightarrow> linked env f (gpu_linked env f s)"
  by (simp add: linked_def gpu_linked_def)

lemma linked_mlu_linked [linked_frame]: "linked env f s \<Longrightarrow> linked env f (mlu_linked env f s)"
  by (simp add: linked_def mlu_linked_def)

lemma gpu_linked_simps [simp]:
  "gpu_lib_ptr_init (gpu_linked env f s)" "threads (gpu_linked env f s) = threads s"
  "container (gpu_linked env f s) = container s" "total_mem (gpu_linked env f s) = total_mem s"
  "heap (gpu_linked env f s) = heap s" "limiter (gpu_linked env f s) = limiter s"
  "read_config (gpu_linked env f s) = read_config s" "gpu_prod (gpu_linked env f s) = gpu_prod s"
  "mlu_prod (gpu_linked env f s) = mlu_prod s"
  "mlu_lib_ptr_init (gpu_linked env f s) = mlu_lib_ptr_init s"
  by (simp_all add: gpu_linked_def)

lemma mlu_linked_simps [simp]:
  "mlu_lib_ptr_init (mlu_linked env f s)" "threads (mlu_linked env f s) = threads s"
  "container (mlu_linked env f s) = container s" "total_mem (mlu_linked env f s) = total_mem s"
  "heap (mlu_linked env f s) = heap s" "limiter (mlu_linked env f s) = limiter s"
  "read_config (mlu_linked env f s) = read_config s" "gpu_prod (mlu_linked env f s) = gpu_prod s"
  "mlu_prod (mlu_linked env f s) = mlu_prod s"
  "gpu_lib_ptr_init (mlu_linked env f s) = gpu_lib_ptr_init s"
  by (simp_all add: mlu_linked_def)

text \<open>Creating a thread once.\<close>

lemma once_create_gpu:
  "pthread_once gpu_prod gpu_prod_update (create_prod_gpu_thread env) s =
     (if gpu_prod s then Inr s
      else if pthread_create_result env \<noteq> 0 then Inl (Exited EXIT_FAILURE)
      else Inr (s\<lparr>gpu_prod := True, threads := threads s @ [Created ''gpu'']\<rparr>))"
  by (simp add: pthread_once_def create_prod_gpu_thread_def)

lemma once_create_mlu:
  "pthread_once mlu_prod mlu_prod_update (create_prod_mlu_thread env) s =
     (if mlu_prod s then Inr s
      else if pthread_create_result env \<noteq> 0 then Inl (Exited EXIT_FAILURE)
      else Inr (s\<lparr>mlu_prod := True, threads := threads s @ [Created ''mlu'']\<rparr>))"
  by (simp add: pthread_once_def create_prod_mlu_thread_def)

end
