(* ===== verification/Hook_Gpu.thy ===== *)
theory Hook_Gpu
  imports Hook_State
begin

text \<open>
  The CUDA wrappers of \<open>core/interceptor/hijack_gpu.c\<close>. Three of them initialise the library;
  the others only forward, and \<open>cuLaunchKernel\<close> takes its grid from the token bucket first.
\<close>

subsection \<open>The wrappers\<close>

definition call_gpu ::
    "('h, 'fp) hook_env \<Rightarrow> string \<Rightarrow> c_arg list \<Rightarrow> 'fp hook_state \<Rightarrow> (int \<times> 'fp hook_state) c_result" where
  "call_gpu env x args s =
     MY_CALL_ENTRY env (REAL_GPU_FUNC_PTR (cuda_library_entry s) (cuda_h env x)) args s"

definition cuDriverGetVersion ::
    "('h, 'fp) hook_env \<Rightarrow> addr \<Rightarrow> 'fp hook_state \<Rightarrow> (int \<times> 'fp hook_state) c_result" where
  "cuDriverGetVersion env driverVersion s =
     c_bind (pthread_once gpu_lib_ptr_init gpu_lib_ptr_init_update (load_gpu env) s) (\<lambda>s1.
     c_bind (pthread_once gpu_prod gpu_prod_update (create_prod_gpu_thread env) s1) (\<lambda>s2.
     call_gpu env ''cuDriverGetVersion'' [Ptr_Arg driverVersion] s2))"

definition cuInit ::
    "('h, 'fp) hook_env \<Rightarrow> u32 \<Rightarrow> 'fp hook_state \<Rightarrow> (int \<times> 'fp hook_state) c_result" where
  "cuInit env flag s =
     c_bind (pthread_once read_config read_config_update (read_configuration env) s) (\<lambda>s1.
     c_bind (pthread_once gpu_lib_ptr_init gpu_lib_ptr_init_update (load_gpu env) s1) (\<lambda>s2.
     c_bind (pthread_once gpu_prod gpu_prod_update (create_prod_gpu_thread env) s2) (\<lambda>s3.
     call_gpu env ''cuInit'' [U32_Arg flag] s3)))"

text \<open>The second test for \<open>cuLaunchKernel\<close> is in the source too.\<close>

definition cuGetProcAddress ::
    "('h, 'fp) hook_env \<Rightarrow> string \<Rightarrow> addr \<Rightarrow> int \<Rightarrow> u64 \<Rightarrow> 'fp hook_state
     \<Rightarrow> (int \<times> 'fp hook_state) c_result" where
  "cuGetProcAddress env symbol pfn cudaVersion flags s =
     c_bind (pthread_once read_config read_config_update (read_configuration env) s) (\<lambda>s1.
     c_bind (pthread_once gpu_lib_ptr_init gpu_lib_ptr_init_update (load_gpu env) s1) (\<lambda>s2.
     c_bind (pthread_once gpu_prod gpu_prod_update (create_prod_gpu_thread env) s2) (\<lambda>s3.
     c_bind (call_gpu env ''cuGetProcAddress''
               [String_Arg symbol, Ptr_Arg pfn, Int_Arg cudaVersion, U64_Arg flags] s3) (\<lambda>(ret, s4).
     if ret = 0 then
       (let put = (\<lambda>f. c_bind (store (heap s4) pfn (Code (Some (Hook f)))) (\<lambda>h. Inr (ret, s4\<lparr>heap := h\<rparr>))) in
        if symbol = ''cuGetProcAddress'' then put ''cuGetProcAddress''
        else if symbol = ''cuLaunchKernel'' then put ''cuLaunchKernel''
        else if symbol = ''cuInit'' then put ''cuInit''
        else if symbol = ''cuDriverGetVersion'' then put ''cuDriverGetVersion''
        else if symbol = ''cuLaunchKernel'' then put ''cuLaunchKernel''
        else Inr (ret, s4))
     else Inr (ret, s4)))))"

definition cuMemAllocManaged ::
    "('h, 'fp) hook_env \<Rightarrow> addr \<Rightarrow> u64 \<Rightarrow> u32 \<Rightarrow> 'fp hook_state \<Rightarrow> (int \<times> 'fp hook_state) c_result" where
  "cuMemAllocManaged env dptr bytesize flags s =
     call_gpu env ''cuMemAllocManaged'' [Ptr_Arg dptr, U64_Arg bytesize, U32_Arg flags] s"

definition cuMemAlloc ::
    "('h, 'fp) hook_env \<Rightarrow> addr \<Rightarrow> u64 \<Rightarrow> 'fp hook_state \<Rightarrow> (int \<times> 'fp hook_state) c_result" where
  "cuMemAlloc env dptr bytesize s =
     call_gpu env ''cuMemAllocManaged''
       [Ptr_Arg dptr, U64_Arg bytesize, U32_Arg (CU_MEM_ATTACH_GLOBAL env)] s"

definition cuMemAllocPitch ::
    "('h, 'fp) hook_env \<Rightarrow> addr \<Rightarrow> addr \<Rightarrow> u64 \<Rightarrow> u64 \<Rightarrow> u32 \<Rightarrow> 'fp hook_state
     \<Rightarrow> (int \<times> 'fp hook_state) c_result" where
  "cuMemAllocPitch env dptr pPitch WidthInBytes Height ElementSizeBytes s =
     call_gpu env ''cuMemAllocPitch''
       [Ptr_Arg dptr, Ptr_Arg pPitch, U64_Arg WidthInBytes, U64_Arg Height, U32_Arg ElementSizeBytes] s"

definition cuArrayCreate ::
    "('h, 'fp) hook_env \<Rightarrow> addr \<Rightarrow> addr \<Rightarrow> 'fp hook_state \<Rightarrow> (int \<times> 'fp hook_state) c_result" where
  "cuArrayCreate env pHandle pAllocateArray s =
     call_gpu env ''cuArrayCreate'' [Ptr_Arg pHandle, Ptr_Arg pAllocateArray] s"

definition cuArray3DCreate ::
    "('h, 'fp) hook_env \<Rightarrow> addr \<Rightarrow> addr \<Rightarrow> 'fp hook_state \<Rightarrow> (int \<times> 'fp hook_state) c_result" where
  "cuArray3DCreate env pHandle pAllocateArray s =
     call_gpu env ''cuArray3DCreate'' [Ptr_Arg pHandle, Ptr_Arg pAllocateArray] s"

definition cuMipmappedArrayCreate ::
    "('h, 'fp) hook_env \<Rightarrow> addr \<Rightarrow> addr \<Rightarrow> u32 \<Rightarrow> 'fp hook_state \<Rightarrow> (int \<times> 'fp hook_state) c_result" where
  "cuMipmappedArrayCreate env pHandle pMipmappedArrayDesc numMipmapLevels s =
     call_gpu env ''cuMipmappedArrayCreate''
       [Ptr_Arg pHandle, Ptr_Arg pMipmappedArrayDesc, U32_Arg numMipmapLevels] s"

definition cuDeviceTotalMem ::
    "('h, 'fp) hook_env \<Rightarrow> addr \<Rightarrow> int \<Rightarrow> 'fp hook_state \<Rightarrow> (int \<times> 'fp hook_state) c_result" where
  "cuDeviceTotalMem env bytes dev s = call_gpu env ''cuDeviceTotalMem'' [Ptr_Arg bytes, Int_Arg dev] s"

definition cuMemGetInfo ::
    "('h, 'fp) hook_env \<Rightarrow> addr \<Rightarrow> addr \<Rightarrow> 'fp hook_state \<Rightarrow> (int \<times> 'fp hook_state) c_result" where
  "cuMemGetInfo env free_out total_out s =
     call_gpu env ''cuMemGetInfo'' [Ptr_Arg free_out, Ptr_Arg total_out] s"

text \<open>
  The launch configuration is six \<open>unsigned int\<close>; their products wrap, and become an \<open>int\<close> when
  they are passed to \<open>rate_limiter\<close>. \<open>None\<close> is a launch that waits for tokens.
\<close>

definition cuLaunchKernel ::
    "('h, 'fp) hook_env \<Rightarrow> addr \<Rightarrow> u32 \<Rightarrow> u32 \<Rightarrow> u32 \<Rightarrow> u32 \<Rightarrow> u32 \<Rightarrow> u32 \<Rightarrow> u32 \<Rightarrow> addr \<Rightarrow> addr \<Rightarrow> addr
     \<Rightarrow> 'fp hook_state \<Rightarrow> (int \<times> 'fp hook_state) c_result option" where
  "cuLaunchKernel env f gridDimX gridDimY gridDimZ blockDimX blockDimY blockDimZ sharedMemBytes
     hStream kernelParams extra s =
     Option.bind (rate_limiter (limiter s) (int_of_u32 (gridDimX * gridDimY * gridDimZ))
         (int_of_u32 (blockDimX * blockDimY * blockDimZ))) (\<lambda>r.
       Some (c_bind r (\<lambda>l.
         call_gpu env ''cuLaunchKernel''
           [Ptr_Arg f, U32_Arg gridDimX, U32_Arg gridDimY, U32_Arg gridDimZ, U32_Arg blockDimX,
            U32_Arg blockDimY, U32_Arg blockDimZ, U32_Arg sharedMemBytes, Ptr_Arg hStream,
            Ptr_Arg kernelParams, Ptr_Arg extra] (s\<lparr>limiter := l\<rparr>))))"

definition cuLaunchCooperativeKernel ::
    "('h, 'fp) hook_env \<Rightarrow> addr \<Rightarrow> u32 \<Rightarrow> u32 \<Rightarrow> u32 \<Rightarrow> u32 \<Rightarrow> u32 \<Rightarrow> u32 \<Rightarrow> u32 \<Rightarrow> addr \<Rightarrow> addr
     \<Rightarrow> 'fp hook_state \<Rightarrow> (int \<times> 'fp hook_state) c_result" where
  "cuLaunchCooperativeKernel env f gridDimX gridDimY gridDimZ blockDimX blockDimY blockDimZ
     sharedMemBytes hStream kernelParams s =
     call_gpu env ''cuLaunchCooperativeKernel''
       [Ptr_Arg f, U32_Arg gridDimX, U32_Arg gridDimY, U32_Arg gridDimZ, U32_Arg blockDimX,
        U32_Arg blockDimY, U32_Arg blockDimZ, U32_Arg sharedMemBytes, Ptr_Arg hStream,
        Ptr_Arg kernelParams] s"

subsection \<open>Where a forwarded call ends\<close>

definition forwarded_symbols :: "string list" where
  "forwarded_symbols = [''cuDriverGetVersion'', ''cuInit'', ''cuGetProcAddress'', ''cuMemAllocManaged'',
     ''cuMemAllocPitch'', ''cuArrayCreate'', ''cuArray3DCreate'', ''cuMipmappedArrayCreate'',
     ''cuDeviceTotalMem'', ''cuMemGetInfo'', ''cuLaunchKernel'', ''cuLaunchCooperativeKernel'']"

text \<open>
  What the headers have to provide for \<open>hijack_gpu.c\<close> to compile against these enumerators:
  \<open>cuda.h\<close> maps the names in \<open>second_versions\<close> to their second version and no other of the
  forwarded names.
\<close>

definition headers_match :: "('h, 'fp) hook_env \<Rightarrow> bool" where
  "headers_match env \<longleftrightarrow> (\<forall>n \<in> set forwarded_symbols.
     cuda_h env n = (if n \<in> set second_versions then n @ ''_v2'' else n))"

lemma enumerated_1:
  "{''cuDriverGetVersion'', ''cuInit'', ''cuMemAllocManaged''} \<subseteq> set CUDA_ENTRY_1"
  by (simp add: CUDA_ENTRY_1_def)

lemma enumerated_2:
  "{''cuMipmappedArrayCreate'', ''cuLaunchKernel''} \<subseteq> set CUDA_ENTRY_2"
  by (simp add: CUDA_ENTRY_2_def)

lemma enumerated_3:
  "{''cuArrayCreate_v2'', ''cuArray3DCreate_v2''} \<subseteq> set CUDA_ENTRY_3"
  by (simp add: CUDA_ENTRY_3_def)

lemma enumerated_4:
  "{''cuMemAllocPitch_v2'', ''cuDeviceTotalMem_v2'', ''cuMemGetInfo_v2'', ''cuLaunchCooperativeKernel''} \<subseteq> set CUDA_ENTRY_4"
  by (simp add: CUDA_ENTRY_4_def)

lemma enumerated_7:
  "{''cuGetProcAddress''} \<subseteq> set CUDA_ENTRY_7"
  by (simp add: CUDA_ENTRY_7_def)

definition enumerator_of :: "string \<Rightarrow> string" where
  "enumerator_of n = (if n \<in> set second_versions then n @ ''_v2'' else n)"

lemma enumerators_of_forwarded: "map enumerator_of forwarded_symbols =
    [''cuDriverGetVersion'', ''cuInit'', ''cuGetProcAddress'', 
      ''cuMemAllocManaged'', ''cuMemAllocPitch_v2'', ''cuArrayCreate_v2'', 
      ''cuArray3DCreate_v2'', ''cuMipmappedArrayCreate'', ''cuDeviceTotalMem_v2'', ''cuMemGetInfo_v2'', 
      ''cuLaunchKernel'', ''cuLaunchCooperativeKernel'']"
  by code_simp

lemma looked_up_forwarded: "\<forall>n \<in> set forwarded_symbols. looked_up_as (enumerator_of n) = n"
  by code_simp

lemma entry_of_forwarded:
  assumes "headers_match env" "n \<in> set forwarded_symbols"
  shows "cuda_h env n \<in> set CUDA_ENTRY_names" "looked_up_as (cuda_h env n) = n"
proof -
  have n: "cuda_h env n = enumerator_of n"
    using assms by (simp add: headers_match_def enumerator_of_def)
  have "enumerator_of n \<in> set (map enumerator_of forwarded_symbols)"
    using assms(2) by simp
  also have "\<dots> \<subseteq> set CUDA_ENTRY_names"
    using enumerated_1 enumerated_2 enumerated_3 enumerated_4 enumerated_7
    unfolding enumerators_of_forwarded CUDA_ENTRY_names_def by simp
  finally show "cuda_h env n \<in> set CUDA_ENTRY_names"
    by (simp add: n)
  show "looked_up_as (cuda_h env n) = n"
    unfolding n using assms(2) looked_up_forwarded by blast
qed

text \<open>The call of the driver's function \<open>fp\<close>, if there is one.\<close>

definition drive :: "('h, 'fp) hook_env \<Rightarrow> 'fp option \<Rightarrow> c_arg list \<Rightarrow> 'fp hook_state
    \<Rightarrow> (int \<times> 'fp hook_state) c_result" where
  "drive env fp args s = MY_CALL_ENTRY env (Inr fp) args s"

lemma drive_simps [simp]:
  "drive env None args s = Inl Null_Deref"
  "drive env (Some fp) args s =
     Inr (fst (driver env fp args (heap s)), s\<lparr>heap := snd (driver env fp args (heap s))\<rparr>)"
  by (simp_all add: drive_def MY_CALL_ENTRY_def split: prod.split)

lemma call_gpu_resolved:
  assumes "linked env f s" "headers_match env" "n \<in> set forwarded_symbols"
  shows "call_gpu env n args s =
    (if gpu_lib_ptr_init s then drive env (f (dlopen env ''libcuda.so'') n) args s else Inl Null_Deref)"
  using gpu_entry [OF assms(1) entry_of_forwarded(1) [OF assms(2,3)]]
    entry_of_forwarded(2) [OF assms(2,3)]
  by (simp add: call_gpu_def drive_def) (simp add: MY_CALL_ENTRY_def)

subsection \<open>The forwarding wrappers\<close>

datatype gpu_call =
    Call_cuMemAllocManaged addr u64 u32
  | Call_cuMemAlloc addr u64
  | Call_cuMemAllocPitch addr addr u64 u64 u32
  | Call_cuArrayCreate addr addr
  | Call_cuArray3DCreate addr addr
  | Call_cuMipmappedArrayCreate addr addr u32
  | Call_cuDeviceTotalMem addr int
  | Call_cuMemGetInfo addr addr
  | Call_cuLaunchCooperativeKernel addr u32 u32 u32 u32 u32 u32 u32 addr addr

fun gpu_forward ::
    "('h, 'fp) hook_env \<Rightarrow> gpu_call \<Rightarrow> 'fp hook_state \<Rightarrow> (int \<times> 'fp hook_state) c_result" where
  "gpu_forward env (Call_cuMemAllocManaged p n k) s = cuMemAllocManaged env p n k s"
| "gpu_forward env (Call_cuMemAlloc p n) s = cuMemAlloc env p n s"
| "gpu_forward env (Call_cuMemAllocPitch p q w h e) s = cuMemAllocPitch env p q w h e s"
| "gpu_forward env (Call_cuArrayCreate p d) s = cuArrayCreate env p d s"
| "gpu_forward env (Call_cuArray3DCreate p d) s = cuArray3DCreate env p d s"
| "gpu_forward env (Call_cuMipmappedArrayCreate p d n) s = cuMipmappedArrayCreate env p d n s"
| "gpu_forward env (Call_cuDeviceTotalMem p d) s = cuDeviceTotalMem env p d s"
| "gpu_forward env (Call_cuMemGetInfo p q) s = cuMemGetInfo env p q s"
| "gpu_forward env (Call_cuLaunchCooperativeKernel f x y z bx by bz m h ps) s =
     cuLaunchCooperativeKernel env f x y z bx by bz m h ps s"

text \<open>The function of the driver that stands behind a call, and what it is to be given.\<close>

fun gpu_target :: "u32 \<Rightarrow> gpu_call \<Rightarrow> string \<times> c_arg list" where
  "gpu_target att (Call_cuMemAllocManaged p n k) =
     (''cuMemAllocManaged'', [Ptr_Arg p, U64_Arg n, U32_Arg k])"
| "gpu_target att (Call_cuMemAlloc p n) =
     (''cuMemAllocManaged'', [Ptr_Arg p, U64_Arg n, U32_Arg att])"
| "gpu_target att (Call_cuMemAllocPitch p q w h e) =
     (''cuMemAllocPitch'', [Ptr_Arg p, Ptr_Arg q, U64_Arg w, U64_Arg h, U32_Arg e])"
| "gpu_target att (Call_cuArrayCreate p d) = (''cuArrayCreate'', [Ptr_Arg p, Ptr_Arg d])"
| "gpu_target att (Call_cuArray3DCreate p d) = (''cuArray3DCreate'', [Ptr_Arg p, Ptr_Arg d])"
| "gpu_target att (Call_cuMipmappedArrayCreate p d n) =
     (''cuMipmappedArrayCreate'', [Ptr_Arg p, Ptr_Arg d, U32_Arg n])"
| "gpu_target att (Call_cuDeviceTotalMem p d) = (''cuDeviceTotalMem'', [Ptr_Arg p, Int_Arg d])"
| "gpu_target att (Call_cuMemGetInfo p q) = (''cuMemGetInfo'', [Ptr_Arg p, Ptr_Arg q])"
| "gpu_target att (Call_cuLaunchCooperativeKernel f x y z bx by bz m h ps) =
     (''cuLaunchCooperativeKernel'', [Ptr_Arg f, U32_Arg x, U32_Arg y, U32_Arg z, U32_Arg bx,
        U32_Arg by, U32_Arg bz, U32_Arg m, Ptr_Arg h, Ptr_Arg ps])"

lemma gpu_forward_resolved:
  assumes "linked env f s" "headers_match env"
  shows "gpu_forward env c s =
    (case gpu_target (CU_MEM_ATTACH_GLOBAL env) c of (symbol, args) \<Rightarrow>
      if gpu_lib_ptr_init s then drive env (f (dlopen env ''libcuda.so'') symbol) args s
      else Inl Null_Deref)"
  by (cases c)
    (simp_all only: gpu_forward.simps gpu_target.simps prod.case call_gpu_resolved [OF assms]
      forwarded_symbols_def list.set insertI1 insertI2 cuMemAllocManaged_def cuMemAlloc_def
      cuMemAllocPitch_def cuArrayCreate_def cuArray3DCreate_def cuMipmappedArrayCreate_def
      cuDeviceTotalMem_def cuMemGetInfo_def cuLaunchCooperativeKernel_def)

text \<open>
  C15: A forwarding CUDA wrapper calls the driver's function of its own name with its own
  arguments and changes nothing but the memory the driver writes; \<open>cuMemAlloc\<close> is turned into a
  managed allocation attached globally. The functions with a second version are reached in
  their first version. A wrapper called before any of the three that load the table calls
  address 0.
\<close>

theorem gpu_wrappers_forward:
  assumes "linked env f s" "headers_match env"
    and "gpu_target (CU_MEM_ATTACH_GLOBAL env) c = (symbol, args)"
    and "f (dlopen env ''libcuda.so'') symbol = Some fp"
    and "driver env fp args (heap s) = (ret, h)"
  shows "gpu_forward env c s =
    (if gpu_lib_ptr_init s then Inr (ret, s\<lparr>heap := h\<rparr>) else Inl Null_Deref)"
  using gpu_forward_resolved [OF assms(1,2), of c] assms(3-5) by simp

text \<open>A node whose driver functions succeed and write nothing.\<close>

definition demo_hook_env :: "(string, string \<times> string) hook_env" where
  "demo_hook_env = \<lparr>internal_dlsym = Some exports, dlopen = id, driver = (\<lambda>_ _ h. (0, h)),
     container_files = demo_env, stack_garbage = (blank_buffer, blank_buffer, blank_buffer),
     pthread_create_result = 0, mlu_check = (\<lambda>_. Inr ()),
     mlu_query = (\<lambda>i n. (CNDEV_SUCCESS, 1, [500])),
     cuda_h = (\<lambda>n. if n \<in> set second_versions then n @ ''_v2'' else n),
     CN_MEMORY_ERROR_OUT_OF_MEMORY = 100100, CU_MEM_ATTACH_GLOBAL = 1\<rparr>"

lemma demo_hook_env_simps [simp]:
  "internal_dlsym demo_hook_env = Some exports" "dlopen demo_hook_env lib = lib"
  "driver demo_hook_env fp args h = (0, h)" "pthread_create_result demo_hook_env = 0"
  "headers_match demo_hook_env"
  by (simp_all add: demo_hook_env_def headers_match_def)

text \<open>A process with a word of memory at address 16, and the same after the table is loaded.\<close>

definition demo_heap :: "(string \<times> string) heap" where
  "demo_heap = [16 \<mapsto> Code None, 24 \<mapsto> Word 0]"

definition demo_loaded :: "(string \<times> string) hook_state" where
  "demo_loaded = gpu_linked demo_hook_env exports (hook_init demo_heap)"

lemma demo_loaded_linked: "linked demo_hook_env exports demo_loaded"
  by (simp add: demo_loaded_def linked_frame linked_init)

lemma demo_start_linked: "linked demo_hook_env exports (hook_init h)"
  by (simp add: linked_init)

theorem gpu_wrappers_forward_witness:
  "gpu_forward demo_hook_env (Call_cuMemAlloc 16 4096) demo_loaded = Inr (0, demo_loaded)
   \<and> gpu_forward demo_hook_env (Call_cuMemAlloc 16 4096) (hook_init demo_heap) = Inl Null_Deref"
proof
  have f: "exports lib ''cuMemAllocManaged'' = Some (lib, ''cuMemAllocManaged'')" for lib
    by (simp add: exports_def)
  show "gpu_forward demo_hook_env (Call_cuMemAlloc 16 4096) demo_loaded = Inr (0, demo_loaded)"
    by (subst gpu_wrappers_forward [OF demo_loaded_linked _ gpu_target.simps(2)]) (simp_all add: f,
        simp add: demo_loaded_def)
  show "gpu_forward demo_hook_env (Call_cuMemAlloc 16 4096) (hook_init demo_heap) = Inl Null_Deref"
    by (subst gpu_wrappers_forward [OF demo_start_linked _ gpu_target.simps(2)])
      (simp_all add: f, simp add: hook_init_def)
qed

subsection \<open>The initialising wrappers\<close>

lemma once_read_config:
  assumes "pthread_once read_config read_config_update (read_configuration env) s = Inr s1"
  shows "\<exists>c. s1 = s\<lparr>read_config := True, container := c\<rparr>"
proof (cases "read_config s")
  case True
  with assms show ?thesis
    by (cases s) (auto simp: pthread_once_def)
next
  case False
  with assms show ?thesis
    by (cases s) (auto simp: pthread_once_def read_configuration_def c_bind_eq_Inr)
qed

text \<open>What the three prologues leave behind, from the state with the configuration read.\<close>

definition gpu_started :: "('h, 'fp) hook_env \<Rightarrow> ('h \<Rightarrow> string \<Rightarrow> 'fp option) \<Rightarrow> 'fp hook_state \<Rightarrow> 'fp hook_state" where
  "gpu_started env f s = (gpu_linked env f s)\<lparr>gpu_prod := True,
     threads := threads s @ (if gpu_prod s then [] else [Created ''gpu''])\<rparr>"

lemma gpu_started_simps [simp]:
  "gpu_lib_ptr_init (gpu_started env f s)" "gpu_prod (gpu_started env f s)"
  "heap (gpu_started env f s) = heap s" "container (gpu_started env f s) = container s"
  "read_config (gpu_started env f s) = read_config s" "total_mem (gpu_started env f s) = total_mem s"
  "mlu_prod (gpu_started env f s) = mlu_prod s"
  "threads (gpu_started env f s) = threads s @ (if gpu_prod s then [] else [Created ''gpu''])"
  by (simp_all add: gpu_started_def)

lemma linked_gpu_started [linked_frame]: "linked env f s \<Longrightarrow> linked env f (gpu_started env f s)"
  by (simp add: gpu_started_def linked_frame)

lemma gpu_prologue:
  assumes "linked env f s" "pthread_create_result env = 0"
  shows "c_bind (pthread_once gpu_lib_ptr_init gpu_lib_ptr_init_update (load_gpu env) s)
      (\<lambda>s1. c_bind (pthread_once gpu_prod gpu_prod_update (create_prod_gpu_thread env) s1) g)
    = g (gpu_started env f s)"
proof -
  have "gpu_prod s \<Longrightarrow> gpu_linked env f s = gpu_started env f s"
    by (cases s) (simp add: gpu_started_def gpu_linked_def)
  then show ?thesis
    by (simp add: once_load_gpu [OF assms(1)] once_create_gpu assms(2)) (simp add: gpu_started_def)
qed

lemma cuDriverGetVersion_result:
  assumes "linked env f s" "headers_match env" "pthread_create_result env = 0"
  shows "cuDriverGetVersion env p s =
    drive env (f (dlopen env ''libcuda.so'') ''cuDriverGetVersion'') [Ptr_Arg p] (gpu_started env f s)"
proof -
  have "''cuDriverGetVersion'' \<in> set forwarded_symbols"
    by (simp add: forwarded_symbols_def)
  then show ?thesis
    using call_gpu_resolved [OF linked_gpu_started [OF assms(1)] assms(2)]
    by (simp add: cuDriverGetVersion_def gpu_prologue [OF assms(1,3)])
qed

lemma cuInit_result:
  assumes "linked env f s" "headers_match env" "pthread_create_result env = 0"
    and "pthread_once read_config read_config_update (read_configuration env) s = Inr s1"
  shows "cuInit env flag s =
    drive env (f (dlopen env ''libcuda.so'') ''cuInit'') [U32_Arg flag] (gpu_started env f s1)"
proof -
  have s1: "linked env f s1"
    using once_read_config [OF assms(4)] assms(1) by (auto simp: linked_frame)
  have "''cuInit'' \<in> set forwarded_symbols"
    by (simp add: forwarded_symbols_def)
  then show ?thesis
    using call_gpu_resolved [OF linked_gpu_started [OF s1] assms(2)] assms(4)
    by (simp add: cuInit_def gpu_prologue [OF s1 assms(3)])
qed

text \<open>The hooks \<open>cuGetProcAddress\<close> hands out.\<close>

definition proc_address_hooks :: "string list" where
  "proc_address_hooks = [''cuGetProcAddress'', ''cuLaunchKernel'', ''cuInit'', ''cuDriverGetVersion'']"

lemma cuGetProcAddress_result:
  assumes "linked env f s" "headers_match env" "pthread_create_result env = 0"
    and "pthread_once read_config read_config_update (read_configuration env) s = Inr s1"
  shows "cuGetProcAddress env symbol pfn v flags s =
    c_bind (drive env (f (dlopen env ''libcuda.so'') ''cuGetProcAddress'')
        [String_Arg symbol, Ptr_Arg pfn, Int_Arg v, U64_Arg flags] (gpu_started env f s1)) (\<lambda>(ret, s4).
      if ret = 0 \<and> symbol \<in> set proc_address_hooks
      then c_bind (store (heap s4) pfn (Code (Some (Hook symbol)))) (\<lambda>h. Inr (ret, s4\<lparr>heap := h\<rparr>))
      else Inr (ret, s4))"
proof -
  have s1: "linked env f s1"
    using once_read_config [OF assms(4)] assms(1) by (auto simp: linked_frame)
  have "''cuGetProcAddress'' \<in> set forwarded_symbols"
    by (simp add: forwarded_symbols_def)
  then have call: "call_gpu env ''cuGetProcAddress'' args (gpu_started env f s1) =
      drive env (f (dlopen env ''libcuda.so'') ''cuGetProcAddress'') args (gpu_started env f s1)" for args
    using call_gpu_resolved [OF linked_gpu_started [OF s1] assms(2)] by simp
  show ?thesis
    unfolding cuGetProcAddress_def assms(4) c_bind_Inr gpu_prologue [OF s1 assms(3)] call
    by (intro c_bind_eqI) (auto simp: proc_address_hooks_def)
qed

text \<open>
  \<open>cuGetProcAddress\<close> asks the driver, and where the driver succeeds it replaces the answer
  for four symbols by this library's function of that name; for every other symbol, and for
  every failing status, the caller gets what the driver stored. The first call also reads the
  configuration, loads the table and creates the control thread.
\<close>

theorem cuGetProcAddress_replaces:
  assumes "linked env f s" "headers_match env" "pthread_create_result env = 0"
    and "pthread_once read_config read_config_update (read_configuration env) s = Inr s1"
    and "f (dlopen env ''libcuda.so'') ''cuGetProcAddress'' = Some fp"
    and "driver env fp [String_Arg symbol, Ptr_Arg pfn, Int_Arg v, U64_Arg flags] (heap s) = (ret, h)"
    and "pfn \<noteq> 0" "h pfn \<noteq> None"
  shows "cuGetProcAddress env symbol pfn v flags s =
    Inr (ret, (gpu_started env f s1)\<lparr>heap :=
      if ret = 0 \<and> symbol \<in> set proc_address_hooks then h(pfn \<mapsto> Code (Some (Hook symbol))) else h\<rparr>)"
proof -
  have "heap s1 = heap s"
    using once_read_config [OF assms(4)] by auto
  then show ?thesis
    using assms(5-8) by (simp add: cuGetProcAddress_result [OF assms(1-4)] store_def)
qed

lemma demo_read:
  "\<exists>c. read_configuration demo_hook_env (hook_init h) = Inr (hook_init h\<lparr>container := c\<rparr>)
    \<and> config_data c = demo_record"
proof -
  have "\<exists>c. read_controller_configuration demo_env (blank_buffer, blank_buffer, blank_buffer)
      container_init = Inr c \<and> config_data c = demo_record \<and> config_path c = config_file ''main''"
    by (rule configuration_v2_found [where ls = "[''22 1 0:20 / /sys rw'']" and ms = "[]" and
          a = "''1 2 8:1 ''" and tail = "''0a1b /dev/x''" and extra = "[]" and pad = "replicate 4 NUL",
          OF demo_version _ _ _ _ _ _ demo_mount_line_def]) (simp_all add: demo_facts)
  then show ?thesis
    by (auto simp: read_configuration_def demo_hook_env_def hook_init_def)
qed

theorem cuGetProcAddress_replaces_witness:
  "\<exists>s1. cuGetProcAddress demo_hook_env ''cuLaunchKernel'' 16 11000 0 (hook_init demo_heap) =
    Inr (0, (gpu_started demo_hook_env exports s1)\<lparr>heap :=
      demo_heap(16 \<mapsto> Code (Some (Hook ''cuLaunchKernel'')))\<rparr>)"
proof -
  have f: "exports lib ''cuGetProcAddress'' = Some (lib, ''cuGetProcAddress'')" for lib
    by (simp add: exports_def)
  obtain c where "read_configuration demo_hook_env (hook_init demo_heap)
      = Inr (hook_init demo_heap\<lparr>container := c\<rparr>)"
    using demo_read by blast
  then obtain s1 where "pthread_once read_config read_config_update (read_configuration demo_hook_env)
      (hook_init demo_heap) = Inr s1"
    by (auto simp: pthread_once_def hook_init_def)
  then show ?thesis
    by (intro exI [of _ s1], subst cuGetProcAddress_replaces [OF demo_start_linked])
      (simp_all add: f, simp_all add: demo_heap_def hook_init_def proc_address_hooks_def)
qed

subsection \<open>Kernel launches\<close>

lemma cuLaunchKernel_result:
  assumes "linked env f s" "headers_match env" "gpu_lib_ptr_init s" "0 \<le> cur_cores (limiter s)"
  shows "cuLaunchKernel env kf gx gy gz bx by bz m h ps e s =
    Some (c_bind (after_cores (cur_cores (limiter s)) (int_of_u32 (gx * gy * gz))) (\<lambda>v.
      drive env (f (dlopen env ''libcuda.so'') ''cuLaunchKernel'')
        [Ptr_Arg kf, U32_Arg gx, U32_Arg gy, U32_Arg gz, U32_Arg bx, U32_Arg by, U32_Arg bz,
         U32_Arg m, Ptr_Arg h, Ptr_Arg ps, Ptr_Arg e]
        (s\<lparr>limiter := (limiter s)\<lparr>cur_cores := v\<rparr>\<rparr>)))"
proof -
  have "linked env f (s\<lparr>limiter := l\<rparr>)" for l
    using assms(1) by (simp add: linked_frame)
  moreover have "''cuLaunchKernel'' \<in> set forwarded_symbols"
    by (simp add: forwarded_symbols_def)
  ultimately have "call_gpu env ''cuLaunchKernel'' args (s\<lparr>limiter := l\<rparr>) =
      drive env (f (dlopen env ''libcuda.so'') ''cuLaunchKernel'') args (s\<lparr>limiter := l\<rparr>)" for args l
    using call_gpu_resolved [of env f "s\<lparr>limiter := l\<rparr>"] assms(2,3) by simp
  then show ?thesis
    using assms(4) by (simp add: cuLaunchKernel_def rate_limiter_def Let_def CAS_def c_bind_assoc)
qed

text \<open>
  A launch whose grid has fewer than 2^31 blocks waits while the bucket is negative, and
  otherwise takes exactly the number of its blocks and is passed on to the driver unchanged;
  taking more than the bucket holds is allowed once and makes the bucket negative.
\<close>

theorem cuLaunchKernel_takes_grid:
  assumes "linked env f s" "headers_match env" "gpu_lib_ptr_init s"
    and "f (dlopen env ''libcuda.so'') ''cuLaunchKernel'' = Some fp"
    and "driver env fp [Ptr_Arg kf, U32_Arg gx, U32_Arg gy, U32_Arg gz, U32_Arg bx, U32_Arg by,
           U32_Arg bz, U32_Arg m, Ptr_Arg h, Ptr_Arg ps, Ptr_Arg e] (heap s) = (ret, hp)"
    and "in_int (cur_cores (limiter s))" "uint gx * uint gy * uint gz < 2 ^ 31"
  shows "cuLaunchKernel env kf gx gy gz bx by bz m h ps e s =
    (if cur_cores (limiter s) < 0 then None
     else Some (Inr (ret, s\<lparr>heap := hp, limiter := (limiter s)
       \<lparr>cur_cores := cur_cores (limiter s) - uint gx * uint gy * uint gz\<rparr>\<rparr>)))"
proof (cases "cur_cores (limiter s) < 0")
  case True
  then show ?thesis by (simp add: cuLaunchKernel_def rate_limiter_def Let_def)
next
  case False
  have nn: "0 \<le> uint gx * uint gy * uint gz" by simp
  have "uint (gx * gy * gz) = uint gx * uint gy * uint gz"
    using assms(7) nn by (simp add: uint_word_arith_bintrs take_bit_eq_mod mod_mult_left_eq)
  then have "int_of_u32 (gx * gy * gz) = uint gx * uint gy * uint gz"
    using assms(7) by (simp add: int_of_u32_small)
  moreover have "in_int (cur_cores (limiter s) - uint gx * uint gy * uint gz)"
    using False by (intro in_int_minus assms(6,7) nn) simp
  ultimately have "after_cores (cur_cores (limiter s)) (int_of_u32 (gx * gy * gz))
      = Inr (cur_cores (limiter s) - uint gx * uint gy * uint gz)"
    by (simp add: after_cores_def c_sub_Inr)
  then show ?thesis
    using False assms(4,5) by (simp add: cuLaunchKernel_result [OF assms(1-3)])
qed

definition demo_ready :: "(string \<times> string) hook_state" where
  "demo_ready = demo_loaded\<lparr>limiter := controller_init\<lparr>cur_cores := 100, total_cores := 400\<rparr>\<rparr>"

lemma demo_ready_linked: "linked demo_hook_env exports demo_ready"
  using demo_loaded_linked by (simp add: demo_ready_def linked_frame)

lemma same_heap [simp]: "s\<lparr>heap := heap s\<rparr> = s"
  by (cases s) simp

lemma demo_ready_simps [simp]:
  "gpu_lib_ptr_init demo_ready" "cur_cores (limiter demo_ready) = 100"
  by (simp_all add: demo_ready_def demo_loaded_def)

theorem cuLaunchKernel_takes_grid_witness:
  "cuLaunchKernel demo_hook_env 64 16 8 1 256 1 1 0 0 16 0 demo_ready =
    Some (Inr (0, demo_ready\<lparr>limiter := (limiter demo_ready)\<lparr>cur_cores := - 28\<rparr>\<rparr>))"
proof -
  have f: "exports lib ''cuLaunchKernel'' = Some (lib, ''cuLaunchKernel'')" for lib
    by (simp add: exports_def)
  show ?thesis
    by (subst cuLaunchKernel_takes_grid [OF demo_ready_linked, where ret = 0 and hp = "heap demo_ready"
          and fp = "(''libcuda.so'', ''cuLaunchKernel'')"]) (simp_all add: f c_range)
qed

text \<open>
  The grid's product is taken modulo 2^32 and read as an \<open>int\<close>, so a launch whose product
  is at least 2^31 is not charged: it adds the missing distance to 2^32 to the bucket, and is
  passed on to the driver.
\<close>

theorem cuLaunchKernel_large_grid_refills:
  assumes "linked env f s" "headers_match env" "gpu_lib_ptr_init s"
    and "f (dlopen env ''libcuda.so'') ''cuLaunchKernel'' = Some fp"
    and "driver env fp [Ptr_Arg kf, U32_Arg gx, U32_Arg gy, U32_Arg gz, U32_Arg bx, U32_Arg by,
           U32_Arg bz, U32_Arg m, Ptr_Arg h, Ptr_Arg ps, Ptr_Arg e] (heap s) = (ret, hp)"
    and "0 \<le> cur_cores (limiter s)" "2 ^ 31 \<le> uint (gx * gy * gz)"
    and "cur_cores (limiter s) + (2 ^ 32 - uint (gx * gy * gz)) \<le> INT_MAX"
  shows "cuLaunchKernel env kf gx gy gz bx by bz m h ps e s =
    Some (Inr (ret, s\<lparr>heap := hp, limiter := (limiter s)
      \<lparr>cur_cores := cur_cores (limiter s) + (2 ^ 32 - uint (gx * gy * gz))\<rparr>\<rparr>))"
proof -
  let ?w = "gx * gy * gz"
  have "int_of_u32 ?w = uint ?w - 2 ^ 32"
    using assms(7) by (rule int_of_u32_large)
  moreover have "uint ?w < 2 ^ 32"
    using uint_bounded [of ?w] by simp
  ultimately have "after_cores (cur_cores (limiter s)) (int_of_u32 ?w)
      = Inr (cur_cores (limiter s) + (2 ^ 32 - uint ?w))"
    using assms(6,8) by (simp add: after_cores_def c_sub_Inr c_range)
  then show ?thesis
    using assms(4,5) by (simp add: cuLaunchKernel_result [OF assms(1-3,6)])
qed

theorem cuLaunchKernel_large_grid_refills_witness:
  "cuLaunchKernel demo_hook_env 64 2147483647 2 1 256 1 1 0 0 16 0 demo_ready =
    Some (Inr (0, demo_ready\<lparr>limiter := (limiter demo_ready)\<lparr>cur_cores := 102\<rparr>\<rparr>))"
proof -
  have f: "exports lib ''cuLaunchKernel'' = Some (lib, ''cuLaunchKernel'')" for lib
    by (simp add: exports_def)
  show ?thesis
    by (subst cuLaunchKernel_large_grid_refills [OF demo_ready_linked, where ret = 0 and hp = "heap demo_ready"
          and fp = "(''libcuda.so'', ''cuLaunchKernel'')"]) (simp_all add: f c_range)
qed

end
