(* ===== verification/Hook_Mlu.thy ===== *)
theory Hook_Mlu
  imports Hook_Gpu
begin

text \<open>
  The wrappers of the MLU driver in \<open>core/interceptor/hijack_mlu.c\<close>: three initialise the library
  and read the configuration on every call, four allocate under a quota, one reports the quota,
  and \<open>cnInvokeKernel\<close> takes tokens.
\<close>

subsection \<open>The wrappers\<close>

definition call_mlu ::
    "('h, 'fp) hook_env \<Rightarrow> string \<Rightarrow> c_arg list \<Rightarrow> 'fp hook_state \<Rightarrow> (int \<times> 'fp hook_state) c_result" where
  "call_mlu env x args s = MY_CALL_ENTRY env (REAL_MLU_FUNC_PTR (CNDrv_entry s) x) args s"

definition cnInit ::
    "('h, 'fp) hook_env \<Rightarrow> u32 \<Rightarrow> 'fp hook_state \<Rightarrow> (int \<times> 'fp hook_state) c_result" where
  "cnInit env flags s =
     c_bind (read_configuration env s) (\<lambda>s1.
     c_bind (pthread_once mlu_lib_ptr_init mlu_lib_ptr_init_update (load_mlu env) s1) (\<lambda>s2.
     c_bind (pthread_once mlu_prod mlu_prod_update (create_prod_mlu_thread env) s2) (\<lambda>s3.
     call_mlu env ''cnInit'' [U32_Arg flags] s3)))"

definition cnGetLibVersion ::
    "('h, 'fp) hook_env \<Rightarrow> addr \<Rightarrow> addr \<Rightarrow> addr \<Rightarrow> 'fp hook_state \<Rightarrow> (int \<times> 'fp hook_state) c_result" where
  "cnGetLibVersion env major minor patch s =
     c_bind (read_configuration env s) (\<lambda>s1.
     c_bind (pthread_once mlu_lib_ptr_init mlu_lib_ptr_init_update (load_mlu env) s1) (\<lambda>s2.
     c_bind (pthread_once mlu_prod mlu_prod_update (create_prod_mlu_thread env) s2) (\<lambda>s3.
     call_mlu env ''cnGetLibVersion'' [Ptr_Arg major, Ptr_Arg minor, Ptr_Arg patch] s3)))"

definition cnGetExportFunction ::
    "('h, 'fp) hook_env \<Rightarrow> string \<Rightarrow> addr \<Rightarrow> 'fp hook_state \<Rightarrow> (int \<times> 'fp hook_state) c_result" where
  "cnGetExportFunction env symbol func s =
     c_bind (read_configuration env s) (\<lambda>s1.
     c_bind (pthread_once mlu_lib_ptr_init mlu_lib_ptr_init_update (load_mlu env) s1) (\<lambda>s2.
     c_bind (pthread_once mlu_prod mlu_prod_update (create_prod_mlu_thread env) s2) (\<lambda>s3.
     call_mlu env ''cnGetExportFunction'' [String_Arg symbol, Ptr_Arg func] s3)))"

text \<open>
  Both results of the driver's call are overwritten, the second before the device is asked for
  its memory. \<open>None\<close> is a device query that does not come to an end.
\<close>

definition cnMemGetInfo ::
    "('h, 'fp) hook_env \<Rightarrow> addr \<Rightarrow> addr \<Rightarrow> 'fp hook_state \<Rightarrow> (int \<times> 'fp hook_state) c_result option" where
  "cnMemGetInfo env pfreeBytes ptotalBytes s =
     (case call_mlu env ''cnMemGetInfo'' [Ptr_Arg pfreeBytes, Ptr_Arg ptotalBytes] s of
        Inl e \<Rightarrow> Some (Inl e)
      | Inr (ret, s1) \<Rightarrow>
          (case store (heap s1) ptotalBytes (Word (total_mem s1)) of
             Inl e \<Rightarrow> Some (Inl e)
           | Inr h1 \<Rightarrow>
               Option.bind (get_mlu_mem (mlu_check env) (mlu_query env)) (\<lambda>r.
                 Some (c_bind r (\<lambda>use.
                   c_bind (store h1 pfreeBytes (Word (total_mem s1 - use))) (\<lambda>h2.
                   Inr (ret, s1\<lparr>heap := h2\<rparr>)))))))"

text \<open>The body the four allocating wrappers have in common.\<close>

definition allocate_within_quota ::
    "('h, 'fp) hook_env \<Rightarrow> string \<Rightarrow> addr \<Rightarrow> u64 \<Rightarrow> 'fp hook_state
     \<Rightarrow> (int \<times> 'fp hook_state) c_result option" where
  "allocate_within_quota env symbol pmluAddr bytes s =
     Option.bind (get_mlu_mem (mlu_check env) (mlu_query env)) (\<lambda>r.
       Some (c_bind r (\<lambda>use.
         if use + bytes \<ge> total_mem s then Inr (CN_MEMORY_ERROR_OUT_OF_MEMORY env, s)
         else call_mlu env symbol [Ptr_Arg pmluAddr, U64_Arg bytes] s)))"

definition cnMalloc ::
    "('h, 'fp) hook_env \<Rightarrow> addr \<Rightarrow> u64 \<Rightarrow> 'fp hook_state \<Rightarrow> (int \<times> 'fp hook_state) c_result option" where
  "cnMalloc env pmluAddr bytes s = allocate_within_quota env ''cnMalloc'' pmluAddr bytes s"

definition cnMallocSecurity ::
    "('h, 'fp) hook_env \<Rightarrow> addr \<Rightarrow> u64 \<Rightarrow> 'fp hook_state \<Rightarrow> (int \<times> 'fp hook_state) c_result option" where
  "cnMallocSecurity env pmluAddr bytes s = allocate_within_quota env ''cnMallocSecurity'' pmluAddr bytes s"

definition cnZmalloc ::
    "('h, 'fp) hook_env \<Rightarrow> addr \<Rightarrow> u64 \<Rightarrow> 'fp hook_state \<Rightarrow> (int \<times> 'fp hook_state) c_result option" where
  "cnZmalloc env pmluAddr bytes s = allocate_within_quota env ''cnZmalloc'' pmluAddr bytes s"

definition cnMallocConstant ::
    "('h, 'fp) hook_env \<Rightarrow> addr \<Rightarrow> u64 \<Rightarrow> 'fp hook_state \<Rightarrow> (int \<times> 'fp hook_state) c_result option" where
  "cnMallocConstant env pmluAddr bytes s = allocate_within_quota env ''cnMallocConstant'' pmluAddr bytes s"

text \<open>The third dimension counts for the second argument only, which \<open>rate_limiter\<close> ignores.\<close>

definition cnInvokeKernel ::
    "('h, 'fp) hook_env \<Rightarrow> addr \<Rightarrow> u32 \<Rightarrow> u32 \<Rightarrow> u32 \<Rightarrow> u32 \<Rightarrow> u32 \<Rightarrow> addr \<Rightarrow> addr \<Rightarrow> addr
     \<Rightarrow> 'fp hook_state \<Rightarrow> (int \<times> 'fp hook_state) c_result option" where
  "cnInvokeKernel env hkernel dimx dimy dimz c reserve hqueue kernelParams extra s =
     Option.bind (rate_limiter (limiter s) (int_of_u32 (dimx * dimy)) (int_of_u32 (dimx * dimy * dimz)))
       (\<lambda>r. Some (c_bind r (\<lambda>l.
         call_mlu env ''cnInvokeKernel''
           [Ptr_Arg hkernel, U32_Arg dimx, U32_Arg dimy, U32_Arg dimz, U32_Arg c, U32_Arg reserve,
            Ptr_Arg hqueue, Ptr_Arg kernelParams, Ptr_Arg extra] (s\<lparr>limiter := l\<rparr>))))"

subsection \<open>Calls of the driver\<close>

definition mlu_symbols :: "string list" where
  "mlu_symbols = [''cnInit'', ''cnGetLibVersion'', ''cnGetExportFunction'', ''cnMemGetInfo'',
     ''cnMalloc'', ''cnMallocSecurity'', ''cnZmalloc'', ''cnMallocConstant'', ''cnInvokeKernel'']"

lemma mlu_symbols_1:
  "{''cnInit'', ''cnGetLibVersion'', ''cnMemGetInfo'', ''cnMalloc'', ''cnMallocSecurity'', ''cnZmalloc'',
     ''cnMallocConstant''} \<subseteq> set MLU_ENTRY_1"
  by (simp add: MLU_ENTRY_1_def)

lemma mlu_symbols_2: "{''cnGetExportFunction'', ''cnInvokeKernel''} \<subseteq> set MLU_ENTRY_2"
  by (simp add: MLU_ENTRY_2_def)

lemma mlu_symbols_enumerated: "set mlu_symbols \<subseteq> set MLU_ENTRY_names"
  using mlu_symbols_1 mlu_symbols_2 by (simp add: MLU_ENTRY_names_def mlu_symbols_def)

lemma call_mlu_resolved:
  assumes "linked env f s" "n \<in> set mlu_symbols"
  shows "call_mlu env n args s =
    (if mlu_lib_ptr_init s then drive env (f (dlopen env ''libcndrv.so'') n) args s else Inl Null_Deref)"
proof -
  have "n \<in> set MLU_ENTRY_names"
    using assms(2) mlu_symbols_enumerated by blast
  with mlu_entry [OF assms(1)] show ?thesis
    by (simp add: call_mlu_def drive_def) (simp add: MY_CALL_ENTRY_def)
qed

text \<open>A process whose MLU table is loaded; one process of the device uses 500 units.\<close>

definition mlu_demo :: "(string \<times> string) hook_state" where
  "mlu_demo = (mlu_linked demo_hook_env exports (hook_init demo_heap))\<lparr>total_mem := 2000\<rparr>"

lemma mlu_demo_linked: "linked demo_hook_env exports mlu_demo"
  using linked_mlu_linked [OF demo_start_linked [of demo_heap]]
  by (simp add: mlu_demo_def linked_def)

lemma mlu_demo_simps [simp]:
  "mlu_lib_ptr_init mlu_demo" "total_mem mlu_demo = 2000" "heap mlu_demo = demo_heap"
  by (simp_all add: mlu_demo_def hook_init_def)

lemma demo_mlu_mem: "get_mlu_mem (mlu_check demo_hook_env) (mlu_query demo_hook_env) = Some (Inr 500)"
  by (simp add: demo_hook_env_def get_mlu_mem_def query_retry.simps)

lemma exports_mlu:
  "n \<in> set mlu_symbols \<Longrightarrow> exports lib n = Some (lib, n)"
  by (auto simp: exports_def mlu_symbols_def)

lemma mlu_demo_heap [simp]: "mlu_demo\<lparr>heap := demo_heap\<rparr> = mlu_demo"
  using same_heap [of mlu_demo] by simp

subsection \<open>The quota\<close>

datatype mlu_alloc = Alloc_cnMalloc | Alloc_cnMallocSecurity | Alloc_cnZmalloc | Alloc_cnMallocConstant

fun mlu_allocate ::
    "('h, 'fp) hook_env \<Rightarrow> mlu_alloc \<Rightarrow> addr \<Rightarrow> u64 \<Rightarrow> 'fp hook_state
     \<Rightarrow> (int \<times> 'fp hook_state) c_result option" where
  "mlu_allocate env Alloc_cnMalloc p n s = cnMalloc env p n s"
| "mlu_allocate env Alloc_cnMallocSecurity p n s = cnMallocSecurity env p n s"
| "mlu_allocate env Alloc_cnZmalloc p n s = cnZmalloc env p n s"
| "mlu_allocate env Alloc_cnMallocConstant p n s = cnMallocConstant env p n s"

fun alloc_symbol :: "mlu_alloc \<Rightarrow> string" where
  "alloc_symbol Alloc_cnMalloc = ''cnMalloc''"
| "alloc_symbol Alloc_cnMallocSecurity = ''cnMallocSecurity''"
| "alloc_symbol Alloc_cnZmalloc = ''cnZmalloc''"
| "alloc_symbol Alloc_cnMallocConstant = ''cnMallocConstant''"

lemma alloc_symbol_member [simp]: "alloc_symbol a \<in> set mlu_symbols"
  by (cases a) (simp_all add: mlu_symbols_def)

lemma exports_alloc: "exports lib (alloc_symbol a) = Some (lib, alloc_symbol a)"
  by (rule exports_mlu) simp

lemma mlu_allocate_gate: "mlu_allocate env a p n s = allocate_within_quota env (alloc_symbol a) p n s"
  by (cases a) (simp_all add: cnMalloc_def cnMallocSecurity_def cnZmalloc_def cnMallocConstant_def)

lemma allocate_resolved:
  assumes "linked env f s" "mlu_lib_ptr_init s"
    and "get_mlu_mem (mlu_check env) (mlu_query env) = Some (Inr use)"
    and "f (dlopen env ''libcndrv.so'') (alloc_symbol a) = Some fp"
    and "driver env fp [Ptr_Arg p, U64_Arg bytes] (heap s) = (ret, h)"
  shows "mlu_allocate env a p bytes s = Some (Inr
    (if total_mem s \<le> use + bytes then (CN_MEMORY_ERROR_OUT_OF_MEMORY env, s) else (ret, s\<lparr>heap := h\<rparr>)))"
  using assms(2-5) call_mlu_resolved [OF assms(1) alloc_symbol_member]
  by (simp add: mlu_allocate_gate allocate_within_quota_def)

text \<open>
  C16: Each of the four allocating wrappers hands a request to the driver exactly if the memory
  in use and the request together stay below the quota, and otherwise answers out of memory and
  leaves the driver alone, for requests that do not overflow 64 bits together with the memory in
  use.
\<close>

theorem mlu_allocation_within_quota:
  assumes "linked env f s" "mlu_lib_ptr_init s"
    and "get_mlu_mem (mlu_check env) (mlu_query env) = Some (Inr use)"
    and "f (dlopen env ''libcndrv.so'') (alloc_symbol a) = Some fp"
    and "driver env fp [Ptr_Arg p, U64_Arg bytes] (heap s) = (ret, h)"
    and "unat use + unat bytes < 2 ^ 64"
  shows "mlu_allocate env a p bytes s = Some (Inr
    (if unat use + unat bytes < unat (total_mem s) then (ret, s\<lparr>heap := h\<rparr>)
     else (CN_MEMORY_ERROR_OUT_OF_MEMORY env, s)))"
proof -
  have "unat (use + bytes) = unat use + unat bytes"
    using assms(6) by (simp add: unat_word_ariths(1))
  then show ?thesis
    by (simp add: allocate_resolved [OF assms(1-5)] word_le_nat_alt)
qed

theorem mlu_allocation_within_quota_witness:
  "mlu_allocate demo_hook_env Alloc_cnZmalloc 16 1499 mlu_demo = Some (Inr (0, mlu_demo))
   \<and> mlu_allocate demo_hook_env Alloc_cnZmalloc 16 1500 mlu_demo = Some (Inr (100100, mlu_demo))"
proof -
  have oom: "CN_MEMORY_ERROR_OUT_OF_MEMORY demo_hook_env = 100100"
    by (simp add: demo_hook_env_def)
  have r: "mlu_allocate demo_hook_env Alloc_cnZmalloc 16 n mlu_demo = Some (Inr
      (if unat (500 :: u64) + unat n < unat (total_mem mlu_demo) then (0, mlu_demo)
       else (100100, mlu_demo)))" if "unat n \<le> 5000" for n
    using mlu_allocation_within_quota [OF mlu_demo_linked _ demo_mlu_mem exports_alloc, where a = Alloc_cnZmalloc and p = 16
        and bytes = n and ret = 0 and h = demo_heap] that oom by (simp del: mlu_allocate.simps)
  show ?thesis
    using r [of 1499] r [of 1500] by simp
qed

text \<open>
  The sum of the memory in use and the request wraps at 64 bits: with any memory in use and
  any quota, a request of 2^64 minus the memory in use is handed to the driver.
\<close>

theorem mlu_quota_wraps:
  assumes "linked env f s" "mlu_lib_ptr_init s"
    and "get_mlu_mem (mlu_check env) (mlu_query env) = Some (Inr use)"
    and "f (dlopen env ''libcndrv.so'') (alloc_symbol a) = Some fp"
    and "driver env fp [Ptr_Arg p, U64_Arg (- use)] (heap s) = (ret, h)"
    and "0 < total_mem s"
  shows "mlu_allocate env a p (- use) s = Some (Inr (ret, s\<lparr>heap := h\<rparr>))"
  using assms(6) by (simp add: allocate_resolved [OF assms(1-5)] linorder_not_less [symmetric])

theorem mlu_quota_wraps_witness:
  "mlu_allocate demo_hook_env Alloc_cnMalloc 16 (- 500) mlu_demo = Some (Inr (0, mlu_demo))"
proof -
  have "mlu_allocate demo_hook_env Alloc_cnMalloc 16 (- 500) mlu_demo
      = Some (Inr (0, mlu_demo\<lparr>heap := demo_heap\<rparr>))"
    by (rule mlu_quota_wraps [OF mlu_demo_linked _ demo_mlu_mem exports_alloc]) simp_all
  then show ?thesis
    by simp
qed

text \<open>
  \<open>cnMemGetInfo\<close> overrides both results of the driver: the total is the quota and the free
  memory is the quota less the memory in use, modulo 2^64. With more in use than the quota, the
  free memory it reports is larger than the total.
\<close>

theorem cnMemGetInfo_reports_quota:
  assumes "linked env f s" "mlu_lib_ptr_init s"
    and "get_mlu_mem (mlu_check env) (mlu_query env) = Some (Inr use)"
    and "f (dlopen env ''libcndrv.so'') ''cnMemGetInfo'' = Some fp"
    and "driver env fp [Ptr_Arg p, Ptr_Arg q] (heap s) = (ret, h)"
    and "p \<noteq> 0" "q \<noteq> 0" "p \<noteq> q" "h p \<noteq> None" "h q \<noteq> None"
  shows "cnMemGetInfo env p q s = Some (Inr (ret, s\<lparr>heap :=
      h(q \<mapsto> Word (total_mem s), p \<mapsto> Word (total_mem s - use))\<rparr>))
    \<and> (total_mem s < use \<longrightarrow> total_mem s < total_mem s - use)"
proof -
  have "''cnMemGetInfo'' \<in> set mlu_symbols"
    by (simp add: mlu_symbols_def)
  then have "call_mlu env ''cnMemGetInfo'' [Ptr_Arg p, Ptr_Arg q] s = Inr (ret, s\<lparr>heap := h\<rparr>)"
    using call_mlu_resolved [OF assms(1)] assms(2,4,5) by simp
  moreover have "total_mem s < total_mem s - use" if "total_mem s < use"
    using that by (rule less_wrapped_minus)
  ultimately show ?thesis
    using assms(3,6-10) by (simp add: cnMemGetInfo_def store_def)
qed

theorem cnMemGetInfo_reports_quota_witness:
  "cnMemGetInfo demo_hook_env 16 24 (mlu_demo\<lparr>total_mem := 100\<rparr>) = Some (Inr (0,
     mlu_demo\<lparr>total_mem := 100, heap := demo_heap(24 \<mapsto> Word 100, 16 \<mapsto> Word (100 - 500))\<rparr>))
   \<and> (100 :: u64) < 100 - 500"
proof -
  have "linked demo_hook_env exports (mlu_demo\<lparr>total_mem := 100\<rparr>)"
    using mlu_demo_linked by (simp add: linked_def)
  from cnMemGetInfo_reports_quota [OF this _ demo_mlu_mem exports_mlu, of 16 24 0 demo_heap]
  show ?thesis
    by (simp add: mlu_symbols_def demo_heap_def)
qed

subsection \<open>Initialisation\<close>

definition mlu_started :: "('h, 'fp) hook_env \<Rightarrow> ('h \<Rightarrow> string \<Rightarrow> 'fp option) \<Rightarrow> 'fp hook_state \<Rightarrow> 'fp hook_state" where
  "mlu_started env f s = (mlu_linked env f s)\<lparr>mlu_prod := True,
     threads := threads s @ (if mlu_prod s then [] else [Created ''mlu''])\<rparr>"

lemma mlu_started_simps [simp]:
  "mlu_lib_ptr_init (mlu_started env f s)" "mlu_prod (mlu_started env f s)"
  "heap (mlu_started env f s) = heap s" "container (mlu_started env f s) = container s"
  "read_config (mlu_started env f s) = read_config s" "total_mem (mlu_started env f s) = total_mem s"
  "gpu_prod (mlu_started env f s) = gpu_prod s"
  "gpu_lib_ptr_init (mlu_started env f s) = gpu_lib_ptr_init s"
  "threads (mlu_started env f s) = threads s @ (if mlu_prod s then [] else [Created ''mlu''])"
  by (simp_all add: mlu_started_def)

lemma linked_mlu_started [linked_frame]: "linked env f s \<Longrightarrow> linked env f (mlu_started env f s)"
  by (simp add: mlu_started_def linked_frame)

lemma mlu_prologue:
  assumes "linked env f s" "pthread_create_result env = 0"
  shows "c_bind (pthread_once mlu_lib_ptr_init mlu_lib_ptr_init_update (load_mlu env) s)
      (\<lambda>s1. c_bind (pthread_once mlu_prod mlu_prod_update (create_prod_mlu_thread env) s1) g)
    = g (mlu_started env f s)"
proof -
  have "mlu_prod s \<Longrightarrow> mlu_linked env f s = mlu_started env f s"
    by (cases s) (simp add: mlu_started_def mlu_linked_def)
  then show ?thesis
    by (simp add: once_load_mlu [OF assms(1)] once_create_mlu assms(2)) (simp add: mlu_started_def)
qed

lemma read_configuration_result:
  "read_configuration env s = Inr s1 \<Longrightarrow> \<exists>c. s1 = s\<lparr>container := c\<rparr> \<and>
    read_controller_configuration (container_files env) (stack_garbage env) (container s) = Inr c"
  by (auto simp: read_configuration_def c_bind_eq_Inr)

text \<open>The three initialising wrappers, as calls of the function they forward to.\<close>

lemma mlu_init_results:
  assumes "linked env f s" "pthread_create_result env = 0" "read_configuration env s = Inr s1"
  shows "cnInit env flags s =
      drive env (f (dlopen env ''libcndrv.so'') ''cnInit'') [U32_Arg flags] (mlu_started env f s1)"
    and "cnGetLibVersion env p q r s = drive env (f (dlopen env ''libcndrv.so'') ''cnGetLibVersion'')
      [Ptr_Arg p, Ptr_Arg q, Ptr_Arg r] (mlu_started env f s1)"
    and "cnGetExportFunction env symbol p s =
      drive env (f (dlopen env ''libcndrv.so'') ''cnGetExportFunction'')
        [String_Arg symbol, Ptr_Arg p] (mlu_started env f s1)"
proof -
  have s1: "linked env f s1"
    using read_configuration_result [OF assms(3)] assms(1) by (auto simp: linked_frame)
  have call: "call_mlu env n args (mlu_started env f s1) =
      drive env (f (dlopen env ''libcndrv.so'') n) args (mlu_started env f s1)"
    if "n \<in> set mlu_symbols" for n args
    using call_mlu_resolved [OF linked_mlu_started [OF s1] that] by simp
  show "cnInit env flags s =
      drive env (f (dlopen env ''libcndrv.so'') ''cnInit'') [U32_Arg flags] (mlu_started env f s1)"
    unfolding cnInit_def assms(3) c_bind_Inr mlu_prologue [OF s1 assms(2)]
    by (rule call) (simp add: mlu_symbols_def)
  show "cnGetLibVersion env p q r s = drive env (f (dlopen env ''libcndrv.so'') ''cnGetLibVersion'')
      [Ptr_Arg p, Ptr_Arg q, Ptr_Arg r] (mlu_started env f s1)"
    unfolding cnGetLibVersion_def assms(3) c_bind_Inr mlu_prologue [OF s1 assms(2)]
    by (rule call) (simp add: mlu_symbols_def)
  show "cnGetExportFunction env symbol p s =
      drive env (f (dlopen env ''libcndrv.so'') ''cnGetExportFunction'')
        [String_Arg symbol, Ptr_Arg p] (mlu_started env f s1)"
    unfolding cnGetExportFunction_def assms(3) c_bind_Inr mlu_prologue [OF s1 assms(2)]
    by (rule call) (simp add: mlu_symbols_def)
qed

subsection \<open>Kernel launches\<close>

lemma cnInvokeKernel_result:
  assumes "linked env f s" "mlu_lib_ptr_init s" "0 \<le> cur_cores (limiter s)"
  shows "cnInvokeKernel env k x y z c r q ps e s =
    Some (c_bind (after_cores (cur_cores (limiter s)) (int_of_u32 (x * y))) (\<lambda>v.
      drive env (f (dlopen env ''libcndrv.so'') ''cnInvokeKernel'')
        [Ptr_Arg k, U32_Arg x, U32_Arg y, U32_Arg z, U32_Arg c, U32_Arg r, Ptr_Arg q, Ptr_Arg ps, Ptr_Arg e]
        (s\<lparr>limiter := (limiter s)\<lparr>cur_cores := v\<rparr>\<rparr>)))"
proof -
  have "linked env f (s\<lparr>limiter := l\<rparr>)" for l
    using assms(1) by (simp add: linked_frame)
  moreover have "''cnInvokeKernel'' \<in> set mlu_symbols"
    by (simp add: mlu_symbols_def)
  ultimately have "call_mlu env ''cnInvokeKernel'' args (s\<lparr>limiter := l\<rparr>) =
      drive env (f (dlopen env ''libcndrv.so'') ''cnInvokeKernel'') args (s\<lparr>limiter := l\<rparr>)" for args l
    using call_mlu_resolved [of env f "s\<lparr>limiter := l\<rparr>"] assms(2) by simp
  then show ?thesis
    using assms(3) by (simp add: cnInvokeKernel_def rate_limiter_def Let_def CAS_def c_bind_assoc)
qed

text \<open>
  A kernel of an MLU takes the product of its first two dimensions from the bucket, whatever
  its third dimension is, waits while the bucket is negative, and is otherwise passed on to the
  driver unchanged.
\<close>

theorem cnInvokeKernel_ignores_depth:
  assumes "linked env f s" "mlu_lib_ptr_init s"
    and "f (dlopen env ''libcndrv.so'') ''cnInvokeKernel'' = Some fp"
    and "driver env fp [Ptr_Arg k, U32_Arg x, U32_Arg y, U32_Arg z, U32_Arg c, U32_Arg r, Ptr_Arg q,
           Ptr_Arg ps, Ptr_Arg e] (heap s) = (ret, h)"
    and "in_int (cur_cores (limiter s))" "uint x * uint y < 2 ^ 31"
  shows "cnInvokeKernel env k x y z c r q ps e s =
    (if cur_cores (limiter s) < 0 then None
     else Some (Inr (ret, s\<lparr>heap := h, limiter := (limiter s)
       \<lparr>cur_cores := cur_cores (limiter s) - uint x * uint y\<rparr>\<rparr>)))"
proof (cases "cur_cores (limiter s) < 0")
  case True
  then show ?thesis by (simp add: cnInvokeKernel_def rate_limiter_def Let_def)
next
  case False
  have nn: "0 \<le> uint x * uint y" by simp
  have "uint (x * y) = uint x * uint y"
    using assms(6) nn by (simp add: uint_word_arith_bintrs take_bit_eq_mod)
  then have "int_of_u32 (x * y) = uint x * uint y"
    using assms(6) by (simp add: int_of_u32_small)
  moreover have "in_int (cur_cores (limiter s) - uint x * uint y)"
    using False by (intro in_int_minus assms(5,6) nn) simp
  ultimately have "after_cores (cur_cores (limiter s)) (int_of_u32 (x * y))
      = Inr (cur_cores (limiter s) - uint x * uint y)"
    by (simp add: after_cores_def c_sub_Inr)
  then show ?thesis
    using False assms(3,4) by (simp add: cnInvokeKernel_result [OF assms(1,2)])
qed

theorem cnInvokeKernel_ignores_depth_witness:
  "cnInvokeKernel demo_hook_env 64 4 2 1000000 1 0 0 16 0 (mlu_demo\<lparr>limiter := controller_init\<rparr>) =
    Some (Inr (0, mlu_demo\<lparr>limiter := controller_init\<lparr>cur_cores := - 8\<rparr>\<rparr>))"
proof -
  have l: "linked demo_hook_env exports (mlu_demo\<lparr>limiter := controller_init\<rparr>)"
    using mlu_demo_linked by (simp add: linked_def)
  have c: "cur_cores controller_init = 0"
    by (simp add: controller_init_def monitor_init_def monitor_state.defs)
  have "cnInvokeKernel demo_hook_env 64 4 2 1000000 1 0 0 16 0 (mlu_demo\<lparr>limiter := controller_init\<rparr>) =
    Some (Inr (0, mlu_demo\<lparr>limiter := controller_init\<rparr>\<lparr>heap := demo_heap, limiter :=
      controller_init\<lparr>cur_cores := - 8\<rparr>\<rparr>))"
    by (subst cnInvokeKernel_ignores_depth [OF l _ exports_mlu, where ret = 0 and h = demo_heap])
      (simp_all add: c c_range mlu_symbols_def)
  also have "mlu_demo\<lparr>limiter := controller_init\<rparr>\<lparr>heap := demo_heap, limiter := controller_init\<lparr>cur_cores := - 8\<rparr>\<rparr>
      = (mlu_demo\<lparr>heap := demo_heap\<rparr>)\<lparr>limiter := controller_init\<lparr>cur_cores := - 8\<rparr>\<rparr>"
    by (cases mlu_demo) simp
  finally show ?thesis
    by (simp only: mlu_demo_heap)
qed

end
