(* ===== verification/Hook_Runs.thy ===== *)
theory Hook_Runs
  imports Hook_Mlu
begin

text \<open>
  Runs of the preloaded library: any sequence of calls of its wrappers by the application, of
  control threads getting to run, and of changes of the token bucket by them. What holds in
  every state such a run reaches, whatever the driver does.
\<close>

subsection \<open>Steps and runs\<close>

datatype hook_call =
    Do_cuDriverGetVersion addr
  | Do_cuInit u32
  | Do_cuGetProcAddress string addr int u64
  | Do_gpu gpu_call
  | Do_cuLaunchKernel addr u32 u32 u32 u32 u32 u32 u32 addr addr addr
  | Do_cnInit u32
  | Do_cnGetLibVersion addr addr addr
  | Do_cnGetExportFunction string addr
  | Do_cnMemGetInfo addr addr
  | Do_allocate mlu_alloc addr u64
  | Do_cnInvokeKernel addr u32 u32 u32 u32 u32 addr addr addr
  | Thread_Begins nat
  | Bucket_Moves int

fun hook_perform ::
    "('h, 'fp) hook_env \<Rightarrow> hook_call \<Rightarrow> 'fp hook_state \<Rightarrow> (int \<times> 'fp hook_state) c_result option" where
  "hook_perform env (Do_cuDriverGetVersion p) s = Some (cuDriverGetVersion env p s)"
| "hook_perform env (Do_cuInit flag) s = Some (cuInit env flag s)"
| "hook_perform env (Do_cuGetProcAddress symbol p v flags) s = Some (cuGetProcAddress env symbol p v flags s)"
| "hook_perform env (Do_gpu c) s = Some (gpu_forward env c s)"
| "hook_perform env (Do_cuLaunchKernel kf gx gy gz bx by bz m h ps e) s =
     cuLaunchKernel env kf gx gy gz bx by bz m h ps e s"
| "hook_perform env (Do_cnInit flags) s = Some (cnInit env flags s)"
| "hook_perform env (Do_cnGetLibVersion p q r) s = Some (cnGetLibVersion env p q r s)"
| "hook_perform env (Do_cnGetExportFunction symbol p) s = Some (cnGetExportFunction env symbol p s)"
| "hook_perform env (Do_cnMemGetInfo p q) s = cnMemGetInfo env p q s"
| "hook_perform env (Do_allocate a p n) s = mlu_allocate env a p n s"
| "hook_perform env (Do_cnInvokeKernel k x y z c r q ps e) s = cnInvokeKernel env k x y z c r q ps e s"
| "hook_perform env (Thread_Begins i) s = Some (Inr (0, thread_begin i s))"
| "hook_perform env (Bucket_Moves v) s = Some (Inr (0, s\<lparr>limiter := (limiter s)\<lparr>cur_cores := v\<rparr>\<rparr>))"

text \<open>A call that fails or does not return ends the run.\<close>

inductive hook_runs :: "('h, 'fp) hook_env \<Rightarrow> 'fp hook_state \<Rightarrow> 'fp hook_state \<Rightarrow> bool"
  for env :: "('h, 'fp) hook_env" and s :: "'fp hook_state" where
  here: "hook_runs env s s"
| step: "hook_runs env s t \<Longrightarrow> hook_perform env c t = Some (Inr (ret, u)) \<Longrightarrow> hook_runs env s u"

text \<open>What the library relies on: the linker, the headers and \<open>pthread_create\<close> work.\<close>

definition hook_good :: "('h, 'fp) hook_env \<Rightarrow> ('h \<Rightarrow> string \<Rightarrow> 'fp option) \<Rightarrow> bool" where
  "hook_good env f \<longleftrightarrow> internal_dlsym env = Some f \<and> headers_match env \<and> pthread_create_result env = 0"

lemma demo_hook_good: "hook_good demo_hook_env exports"
  by (simp add: hook_good_def)

subsection \<open>What one step can do\<close>

lemma same_heap_ex: "\<exists>h. s = s\<lparr>heap := h\<rparr>"
  by (rule exI [of _ "heap s"]) simp

lemma drive_effect: "drive env fp args s = Inr (ret, t) \<Longrightarrow> \<exists>h. t = s\<lparr>heap := h\<rparr>"
  by (cases fp) auto

text \<open>
  The five kinds of steps: one that changes at most memory and bucket, the two kinds of CUDA
  initialisation, an MLU initialisation, and a control thread that begins.
\<close>

inductive hook_effect ::
    "('h, 'fp) hook_env \<Rightarrow> ('h \<Rightarrow> string \<Rightarrow> 'fp option) \<Rightarrow> 'fp hook_state \<Rightarrow> 'fp hook_state \<Rightarrow> bool"
  for env :: "('h, 'fp) hook_env" and f :: "'h \<Rightarrow> string \<Rightarrow> 'fp option" where
  plain: "hook_effect env f s (s\<lparr>heap := h, limiter := l\<rparr>)"
| gpu_unread: "hook_effect env f s ((gpu_started env f s)\<lparr>heap := h\<rparr>)"
| gpu_read: "pthread_once read_config read_config_update (read_configuration env) s = Inr s1 \<Longrightarrow>
    hook_effect env f s ((gpu_started env f s1)\<lparr>heap := h\<rparr>)"
| mlu_read: "read_configuration env s = Inr s1 \<Longrightarrow>
    hook_effect env f s ((mlu_started env f s1)\<lparr>heap := h\<rparr>)"
| begins: "hook_effect env f s (thread_begin i s)"

lemma plain_heap: "hook_effect env f s (s\<lparr>heap := h\<rparr>)"
  using plain [of env f s "limiter s" h] by (cases s) simp

lemma plain_same: "hook_effect env f s s"
  using plain_heap [of env f s "heap s"] by simp

lemma drive_plain: "drive env fp args s = Inr (ret, t) \<Longrightarrow> hook_effect env f s t"
  using drive_effect plain_heap by metis

lemma gpu_started_effect:
  assumes "drive env fp args (gpu_started env f s1) = Inr (ret, t)"
    and "pthread_once read_config read_config_update (read_configuration env) s = Inr s1"
  shows "hook_effect env f s t"
proof -
  obtain h where "t = (gpu_started env f s1)\<lparr>heap := h\<rparr>"
    using drive_effect [OF assms(1)] by blast
  with gpu_read [OF assms(2)] show ?thesis by simp
qed

lemma mlu_started_effect:
  assumes "drive env fp args (mlu_started env f s1) = Inr (ret, t)"
    and "read_configuration env s = Inr s1"
  shows "hook_effect env f s t"
proof -
  obtain h where "t = (mlu_started env f s1)\<lparr>heap := h\<rparr>"
    using drive_effect [OF assms(1)] by blast
  with mlu_read [OF assms(2)] show ?thesis by simp
qed

lemma limited_effect:
  assumes "drive env fp args (s\<lparr>limiter := l\<rparr>) = Inr (ret, t)"
  shows "hook_effect env f s t"
proof -
  obtain h where "t = s\<lparr>limiter := l\<rparr>\<lparr>heap := h\<rparr>"
    using drive_effect [OF assms] by blast
  with plain [of env f s l h] show ?thesis
    by (cases s) simp
qed

lemma cuInit_effect:
  assumes "linked env f s" "hook_good env f" "cuInit env flag s = Inr (ret, t)"
  shows "hook_effect env f s t"
proof -
  obtain s1 where s1: "pthread_once read_config read_config_update (read_configuration env) s = Inr s1"
    using assms(3) by (auto simp: cuInit_def c_bind_eq_Inr)
  have env: "headers_match env" "pthread_create_result env = 0"
    using assms(2) by (simp_all add: hook_good_def)
  show ?thesis
    using assms(3) unfolding cuInit_result [OF assms(1) env s1] by (rule gpu_started_effect [OF _ s1])
qed

lemma cuGetProcAddress_effect:
  assumes "linked env f s" "hook_good env f" "cuGetProcAddress env symbol p v flags s = Inr (ret, t)"
  shows "hook_effect env f s t"
proof -
  obtain s1 where s1: "pthread_once read_config read_config_update (read_configuration env) s = Inr s1"
    using assms(3) by (auto simp: cuGetProcAddress_def c_bind_eq_Inr)
  have env: "headers_match env" "pthread_create_result env = 0"
    using assms(2) by (simp_all add: hook_good_def)
  note r = assms(3) [unfolded cuGetProcAddress_result [OF assms(1) env s1]]
  obtain ret' s4 where d: "drive env (f (dlopen env ''libcuda.so'') ''cuGetProcAddress'')
      [String_Arg symbol, Ptr_Arg p, Int_Arg v, U64_Arg flags] (gpu_started env f s1) = Inr (ret', s4)"
    and k: "(if ret' = 0 \<and> symbol \<in> set proc_address_hooks
      then c_bind (store (heap s4) p (Code (Some (Hook symbol)))) (\<lambda>h. Inr (ret', s4\<lparr>heap := h\<rparr>))
      else Inr (ret', s4)) = Inr (ret, t)"
    using r by (elim c_bind_InrE) (auto split: prod.splits)
  obtain h where h: "s4 = (gpu_started env f s1)\<lparr>heap := h\<rparr>"
    using drive_effect [OF d] by blast
  from k have "\<exists>h'. t = s4\<lparr>heap := h'\<rparr>"
    by (auto simp: c_bind_eq_Inr same_heap_ex split: if_splits)
  then have "\<exists>h. t = (gpu_started env f s1)\<lparr>heap := h\<rparr>"
    unfolding h by auto
  then show ?thesis
    using gpu_read [OF s1] by blast
qed

lemma mlu_init_effect:
  assumes "linked env f s" "hook_good env f"
  shows "cnInit env flags s = Inr (ret, t) \<Longrightarrow> hook_effect env f s t"
    and "cnGetLibVersion env p q r s = Inr (ret, t) \<Longrightarrow> hook_effect env f s t"
    and "cnGetExportFunction env symbol p s = Inr (ret, t) \<Longrightarrow> hook_effect env f s t"
proof -
  have pt: "pthread_create_result env = 0"
    using assms(2) by (simp add: hook_good_def)
  note results = mlu_init_results [OF assms(1) pt]
  show "cnInit env flags s = Inr (ret, t) \<Longrightarrow> hook_effect env f s t"
  proof -
    assume r: "cnInit env flags s = Inr (ret, t)"
    then obtain s1 where s1: "read_configuration env s = Inr s1"
      by (auto simp: cnInit_def)
    show ?thesis
      using r unfolding results(1) [OF s1] by (rule mlu_started_effect [OF _ s1])
  qed
  show "cnGetLibVersion env p q r s = Inr (ret, t) \<Longrightarrow> hook_effect env f s t"
  proof -
    assume r: "cnGetLibVersion env p q r s = Inr (ret, t)"
    then obtain s1 where s1: "read_configuration env s = Inr s1"
      by (auto simp: cnGetLibVersion_def)
    show ?thesis
      using r unfolding results(2) [OF s1] by (rule mlu_started_effect [OF _ s1])
  qed
  show "cnGetExportFunction env symbol p s = Inr (ret, t) \<Longrightarrow> hook_effect env f s t"
  proof -
    assume r: "cnGetExportFunction env symbol p s = Inr (ret, t)"
    then obtain s1 where s1: "read_configuration env s = Inr s1"
      by (auto simp: cnGetExportFunction_def)
    show ?thesis
      using r unfolding results(3) [OF s1] by (rule mlu_started_effect [OF _ s1])
  qed
qed

lemma launch_effect:
  assumes "linked env f s" "hook_good env f"
  shows "cuLaunchKernel env kf gx gy gz bx by bz m h ps e s = Some (Inr (ret, t)) \<Longrightarrow> hook_effect env f s t"
    and "cnInvokeKernel env k x y z c r q ps' e' s = Some (Inr (ret, t)) \<Longrightarrow> hook_effect env f s t"
proof -
  show "hook_effect env f s t"
    if "cuLaunchKernel env kf gx gy gz bx by bz m h ps e s = Some (Inr (ret, t))"
  proof -
    note launched = that
    obtain l where "call_gpu env ''cuLaunchKernel''
        [Ptr_Arg kf, U32_Arg gx, U32_Arg gy, U32_Arg gz, U32_Arg bx, U32_Arg by, U32_Arg bz,
         U32_Arg m, Ptr_Arg h, Ptr_Arg ps, Ptr_Arg e] (s\<lparr>limiter := l\<rparr>) = Inr (ret, t)"
      using launched by (auto simp: cuLaunchKernel_def c_bind_eq_Inr bind_eq_Some_conv)
    moreover have "linked env f (s\<lparr>limiter := l\<rparr>)" "headers_match env"
      "''cuLaunchKernel'' \<in> set forwarded_symbols"
      using assms by (simp_all add: linked_frame hook_good_def forwarded_symbols_def)
    ultimately show ?thesis
      using call_gpu_resolved limited_effect assms(2) by (metis Inl_Inr_False)
  qed
  show "hook_effect env f s t"
    if "cnInvokeKernel env k x y z c r q ps' e' s = Some (Inr (ret, t))"
  proof -
    note launched = that
    obtain l where "call_mlu env ''cnInvokeKernel''
        [Ptr_Arg k, U32_Arg x, U32_Arg y, U32_Arg z, U32_Arg c, U32_Arg r, Ptr_Arg q, Ptr_Arg ps', Ptr_Arg e']
        (s\<lparr>limiter := l\<rparr>) = Inr (ret, t)"
      using launched by (auto simp: cnInvokeKernel_def c_bind_eq_Inr bind_eq_Some_conv)
    moreover have "linked env f (s\<lparr>limiter := l\<rparr>)" "''cnInvokeKernel'' \<in> set mlu_symbols"
      using assms by (simp_all add: linked_frame mlu_symbols_def)
    ultimately show ?thesis
      using call_mlu_resolved limited_effect by (metis Inl_Inr_False)
  qed
qed

lemma cnMemGetInfo_effect:
  assumes "linked env f s" "cnMemGetInfo env p q s = Some (Inr (ret, t))"
  shows "hook_effect env f s t"
proof -
  obtain ret' s1 where c: "call_mlu env ''cnMemGetInfo'' [Ptr_Arg p, Ptr_Arg q] s = Inr (ret', s1)"
    using assms(2) by (auto simp: cnMemGetInfo_def split: sum.splits)
  have "''cnMemGetInfo'' \<in> set mlu_symbols"
    by (simp add: mlu_symbols_def)
  then obtain h where s1: "s1 = s\<lparr>heap := h\<rparr>"
    using c call_mlu_resolved [OF assms(1)] drive_effect by (metis Inl_Inr_False)
  have "\<exists>h'. t = s1\<lparr>heap := h'\<rparr>"
    using assms(2) c by (auto simp: cnMemGetInfo_def c_bind_eq_Inr bind_eq_Some_conv split: sum.splits)
  then have "\<exists>h'. t = s\<lparr>heap := h'\<rparr>"
    unfolding s1 by auto
  then show ?thesis
    using plain_heap by blast
qed

lemma allocate_effect:
  assumes "linked env f s" "mlu_allocate env a p n s = Some (Inr (ret, t))"
  shows "hook_effect env f s t"
proof -
  have "t = s \<or> call_mlu env (alloc_symbol a) [Ptr_Arg p, U64_Arg n] s = Inr (ret, t)"
    using assms(2)
    by (auto simp: mlu_allocate_gate allocate_within_quota_def c_bind_eq_Inr bind_eq_Some_conv split: if_splits)
  then show ?thesis
    using call_mlu_resolved [OF assms(1) alloc_symbol_member] drive_plain plain_same
    by (metis Inl_Inr_False)
qed

lemma forward_effect:
  assumes "linked env f s" "hook_good env f" "gpu_forward env c s = Inr (ret, t)"
  shows "hook_effect env f s t"
proof -
  have "headers_match env"
    using assms(2) by (simp add: hook_good_def)
  from gpu_forward_resolved [OF assms(1) this, of c] assms(3) show ?thesis
    by (auto split: prod.splits if_splits intro: drive_plain [OF sym])
qed

lemma version_effect:
  assumes "linked env f s" "hook_good env f" "cuDriverGetVersion env p s = Inr (ret, t)"
  shows "hook_effect env f s t"
proof -
  have env: "headers_match env" "pthread_create_result env = 0"
    using assms(2) by (simp_all add: hook_good_def)
  note r = assms(3) [unfolded cuDriverGetVersion_result [OF assms(1) env]]
  obtain h where "t = (gpu_started env f s)\<lparr>heap := h\<rparr>"
    using drive_effect [OF r] by blast
  with gpu_unread [of env f s h] show ?thesis by simp
qed

lemma bucket_effect: "hook_effect env f s (s\<lparr>limiter := l\<rparr>)"
  using plain [of env f s l "heap s"] by simp

lemma perform_effect:
  assumes "linked env f s" "hook_good env f" "hook_perform env c s = Some (Inr (ret, t))"
  shows "hook_effect env f s t"
proof (cases c)
  case (Do_cuDriverGetVersion p)
  then show ?thesis using assms(3) by (auto intro: version_effect [OF assms(1,2)])
next
  case (Do_cuInit flag)
  then show ?thesis using assms(3) by (auto intro: cuInit_effect [OF assms(1,2)])
next
  case (Do_cuGetProcAddress symbol p v flags)
  then show ?thesis using assms(3) by (auto intro: cuGetProcAddress_effect [OF assms(1,2)])
next
  case (Do_gpu g)
  then show ?thesis using assms(3) by (auto intro: forward_effect [OF assms(1,2)])
next
  case (Do_cuLaunchKernel kf gx gy gz bx b2 bz m h ps e)
  then show ?thesis using assms(3) by (auto intro: launch_effect(1) [OF assms(1,2)])
next
  case (Do_cnInit flags)
  then show ?thesis using assms(3) by (auto intro: mlu_init_effect(1) [OF assms(1,2)])
next
  case (Do_cnGetLibVersion p q r)
  then show ?thesis using assms(3) by (auto intro: mlu_init_effect(2) [OF assms(1,2)])
next
  case (Do_cnGetExportFunction symbol p)
  then show ?thesis using assms(3) by (auto intro: mlu_init_effect(3) [OF assms(1,2)])
next
  case (Do_cnMemGetInfo p q)
  then show ?thesis using assms(3) by (auto intro: cnMemGetInfo_effect [OF assms(1)])
next
  case (Do_allocate a p n)
  then show ?thesis using assms(3) by (auto intro: allocate_effect [OF assms(1)])
next
  case (Do_cnInvokeKernel k x y z kc r q ps e)
  then show ?thesis using assms(3) by (auto intro: launch_effect(2) [OF assms(1,2)])
next
  case (Thread_Begins i)
  then show ?thesis using assms(3) begins [of env f s i] by (simp del: thread_begin.simps)
next
  case (Bucket_Moves v)
  then show ?thesis using assms(3) bucket_effect by auto
qed

lemma linked_effect:
  assumes "hook_effect env f s t" "linked env f s"
  shows "linked env f t"
  using assms(1)
proof cases
  case (gpu_read s1 h)
  with assms(2) once_read_config [OF gpu_read(2)] show ?thesis
    by (auto simp: linked_frame)
next
  case (mlu_read s1 h)
  with assms(2) read_configuration_result [OF mlu_read(2)] show ?thesis
    by (auto simp: linked_frame)
next
  case (begins i)
  with assms(2) show ?thesis
    by (auto simp: linked_frame split: control_thread.split)
qed (use assms(2) in \<open>simp_all add: linked_frame\<close>)

lemma runs_linked:
  assumes "hook_runs env s t" "linked env f s" "hook_good env f"
  shows "linked env f t"
  using assms(1)
proof induction
  case here
  then show ?case by (rule assms(2))
next
  case (step t c ret u)
  then show ?case
    using perform_effect [OF step.IH assms(3)] linked_effect by blast
qed

text \<open>The induction for everything that every effect preserves.\<close>

lemma runs_invariant:
  assumes "hook_runs env s t" "linked env f s" "hook_good env f" "P s"
    and "\<And>u v. linked env f u \<Longrightarrow> P u \<Longrightarrow> hook_effect env f u v \<Longrightarrow> P v"
  shows "P t"
  using assms(1)
proof induction
  case here
  then show ?case by (rule assms(4))
next
  case (step t c ret u)
  have "linked env f t"
    using runs_linked [OF step.hyps(1) assms(2,3)] .
  then show ?case
    using assms(5) step.IH perform_effect [OF _ assms(3) step.hyps(2)] by blast
qed

subsection \<open>The quota\<close>

lemma effect_total_mem:
  assumes "hook_effect env f s t"
  shows "total_mem t = total_mem s"
  using assms
proof cases
  case (gpu_read s1 h)
  with once_read_config [OF gpu_read(2)] show ?thesis by auto
next
  case (mlu_read s1 h)
  with read_configuration_result [OF mlu_read(2)] show ?thesis by auto
next
  case (begins i)
  then show ?thesis by (auto split: control_thread.split)
qed simp_all

lemma runs_total_mem:
  assumes "hook_runs env s t" "linked env f s" "hook_good env f"
  shows "total_mem t = total_mem s"
proof (rule runs_invariant [OF assms])
  show "total_mem v = total_mem s" if "total_mem u = total_mem s" "hook_effect env f u v" for u v
    using that effect_total_mem by metis
qed simp

lemma linked_start: "hook_good env f \<Longrightarrow> linked env f (hook_init h)"
  by (intro linked_init) (simp add: hook_good_def)

text \<open>
  C39: No run ever sets the quota: the configuration that is read has a memory limit, but
  \<open>total_mem\<close> stays 0, so in every reachable state every request for MLU memory through the four
  allocating wrappers is answered out of memory, without asking the driver.
\<close>

theorem mlu_memory_never_allocated:
  assumes "hook_good env f" "hook_runs env (hook_init h) s"
    and "get_mlu_mem (mlu_check env) (mlu_query env) = Some (Inr use)"
  shows "mlu_allocate env a p n s = Some (Inr (CN_MEMORY_ERROR_OUT_OF_MEMORY env, s))"
proof -
  have "total_mem s = 0"
    using runs_total_mem [OF assms(2) linked_start [OF assms(1)] assms(1)] by (simp add: hook_init_def)
  then show ?thesis
    using assms(3) by (simp add: mlu_allocate_gate allocate_within_quota_def)
qed

theorem mlu_memory_never_allocated_witness:
  "mlu_allocate demo_hook_env Alloc_cnMalloc 16 1 (hook_init demo_heap)
    = Some (Inr (CN_MEMORY_ERROR_OUT_OF_MEMORY demo_hook_env, hook_init demo_heap))"
  by (rule mlu_memory_never_allocated [OF demo_hook_good here demo_mlu_mem])

subsection \<open>The control threads\<close>

fun thread_kind :: "control_thread \<Rightarrow> string" where
  "thread_kind (Created k) = k"
| "thread_kind (Running k y) = k"

definition thread_count :: "string \<Rightarrow> 'fp hook_state \<Rightarrow> nat" where
  "thread_count k s = length (filter (\<lambda>t. thread_kind t = k) (threads s))"

definition threads_counted :: "'fp hook_state \<Rightarrow> bool" where
  "threads_counted s \<longleftrightarrow>
     thread_count ''gpu'' s = (if gpu_prod s then 1 else 0) \<and>
     thread_count ''mlu'' s = (if mlu_prod s then 1 else 0)"

lemma kinds_thread_begin: "map thread_kind (threads (thread_begin i s)) = map thread_kind (threads s)"
proof -
  have "thread_kind (threads s ! i) = k \<Longrightarrow> map thread_kind ((threads s)[i := Running k y])
      = map thread_kind (threads s)" for k y
    by (simp add: map_update) (metis list_update_beyond list_update_id map_update nth_map not_le)
  then show ?thesis
    by (auto split: control_thread.split)
qed

lemma thread_count_kinds: "thread_count k s = count_list (map thread_kind (threads s)) k"
  by (simp add: thread_count_def count_list_eq_length_filter filter_map comp_def eq_commute)

lemma effect_threads_counted:
  assumes "hook_effect env f s t" "threads_counted s"
  shows "threads_counted t"
  using assms(1)
proof cases
  case (gpu_read s1 h)
  with assms(2) once_read_config [OF gpu_read(2)] show ?thesis
    by (auto simp: threads_counted_def thread_count_def)
next
  case (mlu_read s1 h)
  with assms(2) read_configuration_result [OF mlu_read(2)] show ?thesis
    by (auto simp: threads_counted_def thread_count_def)
next
  case (begins i)
  have "gpu_prod (thread_begin i s) = gpu_prod s" "mlu_prod (thread_begin i s) = mlu_prod s"
    by (auto split: control_thread.split)
  with begins assms(2) show ?thesis
    by (simp add: threads_counted_def thread_count_kinds kinds_thread_begin del: thread_begin.simps)
qed (use assms(2) in \<open>auto simp: threads_counted_def thread_count_def\<close>)

text \<open>
  C11: However often and in whatever order the initialising wrappers are called, a process never
  has more than one control thread for the GPU and one for the MLU, and it has one exactly if
  its creation has been recorded.
\<close>

theorem one_control_thread_each:
  assumes "hook_good env f" "hook_runs env (hook_init h) s"
  shows "thread_count ''gpu'' s = (if gpu_prod s then 1 else 0)
    \<and> thread_count ''mlu'' s = (if mlu_prod s then 1 else 0)"
proof -
  have "threads_counted s"
  proof (rule runs_invariant [OF assms(2) linked_start [OF assms(1)] assms(1)])
    show "threads_counted (hook_init h)"
      by (simp add: threads_counted_def thread_count_def hook_init_def)
  qed (rule effect_threads_counted)
  then show ?thesis
    by (simp add: threads_counted_def)
qed

theorem one_control_thread_each_witness:
  "\<exists>s1 s2 s4. cnInit demo_hook_env 0 (hook_init demo_heap) = Inr (0, s1)
    \<and> cuDriverGetVersion demo_hook_env 16 s1 = Inr (0, s2)
    \<and> cuDriverGetVersion demo_hook_env 16 (thread_begin 0 s2) = Inr (0, s4)
    \<and> thread_count ''gpu'' s4 = 1 \<and> thread_count ''mlu'' s4 = 1"
proof -
  let ?s0 = "hook_init demo_heap"
  obtain c where c: "read_configuration demo_hook_env ?s0 = Inr (?s0\<lparr>container := c\<rparr>)"
    using demo_read by blast
  define s1 where "s1 = mlu_started demo_hook_env exports (?s0\<lparr>container := c\<rparr>)"
  define s2 where "s2 = gpu_started demo_hook_env exports s1"
  define s3 where "s3 = thread_begin 0 s2"
  define s4 where "s4 = gpu_started demo_hook_env exports s3"
  have m: "''cnInit'' \<in> set mlu_symbols"
    by (simp add: mlu_symbols_def)
  have 1: "cnInit demo_hook_env 0 ?s0 = Inr (0, s1)"
    using mlu_init_results(1) [OF demo_start_linked _ c, of 0] exports_mlu [OF m] same_heap [of s1]
    by (simp add: s1_def)
  have f: "exports lib ''cuDriverGetVersion'' = Some (lib, ''cuDriverGetVersion'')" for lib
    by (simp add: exports_def)
  have l1: "linked demo_hook_env exports s1"
    using demo_start_linked by (simp add: s1_def linked_frame)
  have 2: "cuDriverGetVersion demo_hook_env 16 s1 = Inr (0, s2)"
    using cuDriverGetVersion_result [OF l1, where p = 16] f same_heap [of s2] by (simp add: s2_def)
  have l3: "linked demo_hook_env exports s3"
    using linked_effect [OF begins [of demo_hook_env exports s2 0]] l1 by (simp add: s3_def s2_def linked_frame del: thread_begin.simps)
  have 3: "cuDriverGetVersion demo_hook_env 16 s3 = Inr (0, s4)"
    using cuDriverGetVersion_result [OF l3, where p = 16] f same_heap [of s4] by (simp add: s4_def)
  have r1: "hook_runs demo_hook_env ?s0 s1"
    using step [OF here, of demo_hook_env "Do_cnInit 0"] 1 by simp
  have r2: "hook_runs demo_hook_env ?s0 s2"
    using step [OF r1, of "Do_cuDriverGetVersion 16"] 2 by simp
  have r3: "hook_runs demo_hook_env ?s0 s3"
    using step [OF r2, of "Thread_Begins 0" 0 s3] by (simp add: s3_def del: thread_begin.simps)
  have "hook_runs demo_hook_env ?s0 s4"
    using step [OF r3, of "Do_cuDriverGetVersion 16"] 3 by simp
  from one_control_thread_each [OF demo_hook_good this]
  have "thread_count ''gpu'' s4 = 1" "thread_count ''mlu'' s4 = 1"
    by (simp_all add: s4_def s3_def s2_def s1_def split: control_thread.split)
  with 1 2 3 show ?thesis
    unfolding s3_def by blast
qed

subsection \<open>The limit a control thread works with\<close>

text \<open>The record in the container's configuration file.\<close>

definition configured :: "('h, 'fp) hook_env \<Rightarrow> resource_data_t \<Rightarrow> bool" where
  "configured env d \<longleftrightarrow> (\<exists>c. read_controller_configuration (container_files env) (stack_garbage env)
     container_init = Inr c \<and> config_data c = d)"

lemma located_path:
  assumes "get_path_by_cgroup e (p, n, b) v s = Inr (0, s1)"
  shows "\<exists>name. s1 = set_paths name s \<and>
    (\<forall>s'. cgroupInfoPath s' = cgroupInfoPath s \<longrightarrow>
      get_path_by_cgroup e (p, n, b) v s' = Inr (0, set_paths name s'))"
proof (cases "v = 0")
  case True
  with assms show ?thesis
    by (auto simp: get_path_by_cgroup_def c_bind_eq_Inr split: if_splits)
next
  case False
  with assms show ?thesis
    by (auto simp: get_path_by_cgroup_def c_bind_eq_Inr split: if_splits)
qed

lemma config_path_set_paths: "config_path (set_paths n s) = config_path (set_paths n s')"
  by (simp add: set_paths_def Let_def)

lemma read_result:
  assumes "read_controller_configuration e l s = Inr c"
  obtains v i s1 contents where "checkCgroupVersion (mount_pipe e) = Inr (v, i)"
    "get_path_by_cgroup e l v (s\<lparr>cgroupInfoPath := i\<rparr>) = Inr (0, s1)"
    "data_file e (config_path s1) = Some contents"
    "config_data c = rc_decode (take sizeof_resource_data_t contents)"
  using assms unfolding read_controller_configuration_def
  by (elim c_bind_InrE) (auto simp: Let_def c_bind_eq_Inr split: if_splits option.splits)

lemma read_independent:
  assumes "read_controller_configuration e l s = Inr c" "read_controller_configuration e l s' = Inr c'"
  shows "config_data c' = config_data c"
proof -
  obtain p n b where l: "l = (p, n, b)"
    by (cases l)
  obtain v i s1 contents where 1: "checkCgroupVersion (mount_pipe e) = Inr (v, i)"
    "get_path_by_cgroup e l v (s\<lparr>cgroupInfoPath := i\<rparr>) = Inr (0, s1)"
    "data_file e (config_path s1) = Some contents"
    "config_data c = rc_decode (take sizeof_resource_data_t contents)"
    using read_result [OF assms(1)] .
  obtain v' i' s1' contents' where 2: "checkCgroupVersion (mount_pipe e) = Inr (v', i')"
    "get_path_by_cgroup e l v' (s'\<lparr>cgroupInfoPath := i'\<rparr>) = Inr (0, s1')"
    "data_file e (config_path s1') = Some contents'"
    "config_data c' = rc_decode (take sizeof_resource_data_t contents')"
    using read_result [OF assms(2)] .
  have v: "v' = v" "i' = i"
    using 1(1) 2(1) by simp_all
  have same: "cgroupInfoPath (s'\<lparr>cgroupInfoPath := i\<rparr>) = cgroupInfoPath (s\<lparr>cgroupInfoPath := i\<rparr>)"
    by simp
  obtain name where "s1 = set_paths name (s\<lparr>cgroupInfoPath := i\<rparr>)"
    "get_path_by_cgroup e l v (s'\<lparr>cgroupInfoPath := i\<rparr>) = Inr (0, set_paths name (s'\<lparr>cgroupInfoPath := i\<rparr>))"
    using located_path [OF 1(2) [unfolded l]] same unfolding l by blast
  then have "config_path s1' = config_path s1"
    using 2(2) config_path_set_paths unfolding v by (metis Inr_inject prod.inject)
  then show ?thesis
    using 1(3,4) 2(3,4) by simp
qed

lemma configured_read:
  assumes "configured env d"
    and "read_controller_configuration (container_files env) (stack_garbage env) s = Inr c"
  shows "config_data c = d"
  using assms read_independent unfolding configured_def by blast

lemma once_read_configured:
  assumes "configured env d"
    and "pthread_once read_config read_config_update (read_configuration env) s = Inr s1"
  shows "config_data (container s1) = (if read_config s then config_data (container s) else d)"
  using assms(2) configured_read [OF assms(1)]
  by (auto simp: pthread_once_def c_bind_eq_Inr read_configuration_def)

lemma demo_configured: "configured demo_hook_env demo_record"
proof -
  obtain c where "read_configuration demo_hook_env (hook_init demo_heap)
      = Inr (hook_init demo_heap\<lparr>container := c\<rparr>)" "config_data c = demo_record"
    using demo_read by blast
  moreover from this(1) obtain c' where "hook_init demo_heap\<lparr>container := c\<rparr> = hook_init demo_heap\<lparr>container := c'\<rparr>"
    "read_controller_configuration (container_files demo_hook_env) (stack_garbage demo_hook_env)
      container_init = Inr c'"
    using read_configuration_result [of demo_hook_env "hook_init demo_heap"] by (auto simp: hook_init_def)
  ultimately show ?thesis
    by (auto simp: configured_def hook_init_def)
qed

text \<open>Threads are only added at the end, and a running thread keeps its limit.\<close>

lemma effect_keeps_running:
  assumes "hook_effect env f s t" "i < length (threads s)" "threads s ! i = Running k y"
  shows "i < length (threads t) \<and> threads t ! i = Running k y"
  using assms(1)
proof cases
  case (gpu_read s1 h)
  with assms(2,3) once_read_config [OF gpu_read(2)] show ?thesis
    by (auto simp: nth_append)
next
  case (mlu_read s1 h)
  with assms(2,3) read_configuration_result [OF mlu_read(2)] show ?thesis
    by (auto simp: nth_append)
next
  case (begins j)
  with assms(2,3) show ?thesis
    by (auto simp: nth_list_update split: control_thread.split)
qed (use assms(2,3) in \<open>auto simp: nth_append\<close>)

lemma set_updateD: "x \<in> set (xs[i := v]) \<Longrightarrow> x = v \<or> x \<in> set xs"
  using set_update_subset_insert by fastforce

lemma begins_members:
  assumes "Running k y \<in> set (threads (thread_begin i s))"
  shows "Running k y \<in> set (threads s) \<or>
    (Created k \<in> set (threads s) \<and> y = utilization (config_data (container s)))"
proof -
  have "i < length (threads s) \<Longrightarrow> threads s ! i = Created k \<Longrightarrow> Created k \<in> set (threads s)"
    by (metis nth_mem)
  with assms show ?thesis
    by (auto split: if_splits control_thread.splits dest!: set_updateD)
qed

lemma created_members: "Created k \<in> set (threads (thread_begin i s)) \<Longrightarrow> Created k \<in> set (threads s)"
  by (auto split: if_splits control_thread.splits dest!: set_updateD)

lemma begins_frame: "container (thread_begin i s) = container s"
    "mlu_prod (thread_begin i s) = mlu_prod s"
  by (auto split: control_thread.split)

definition mlu_limit_inv :: "resource_data_t \<Rightarrow> 'fp hook_state \<Rightarrow> bool" where
  "mlu_limit_inv d s \<longleftrightarrow>
     (\<forall>y. Running ''mlu'' y \<in> set (threads s) \<longrightarrow> y = utilization d) \<and>
     (Created ''mlu'' \<in> set (threads s) \<longrightarrow> mlu_prod s) \<and>
     (mlu_prod s \<longrightarrow> config_data (container s) = d)"

lemma mlu_limit_effect:
  assumes "configured env d" "hook_effect env f s t" "mlu_limit_inv d s"
  shows "mlu_limit_inv d t"
  using assms(2)
proof cases
  case (gpu_read s1 h)
  with assms(3) once_read_config [OF gpu_read(2)] once_read_configured [OF assms(1) gpu_read(2)]
  show ?thesis
    by (auto simp: mlu_limit_inv_def)
next
  case (mlu_read s1 h)
  with assms(3) read_configuration_result [OF mlu_read(2)] configured_read [OF assms(1)]
  show ?thesis
    by (auto simp: mlu_limit_inv_def)
next
  case (begins i)
  with assms(3) begins_members [of "''mlu''" _ i s] created_members [of "''mlu''" i s]
    begins_frame [of i s]
  show ?thesis
    by (simp add: mlu_limit_inv_def del: thread_begin.simps) blast
qed (use assms(3) in \<open>auto simp: mlu_limit_inv_def\<close>)

text \<open>
  C10: Whatever calls come before and after, a control thread of the MLU works with the
  utilization limit of the container's configuration file.
\<close>

theorem mlu_limit_is_configured:
  assumes "hook_good env f" "configured env d" "hook_runs env (hook_init h) s"
    and "Running ''mlu'' y \<in> set (threads s)"
  shows "y = utilization d"
proof -
  have "mlu_limit_inv d s"
  proof (rule runs_invariant [OF assms(3) linked_start [OF assms(1)] assms(1)])
    show "mlu_limit_inv d (hook_init h)"
      by (simp add: mlu_limit_inv_def hook_init_def)
  qed (rule mlu_limit_effect [OF assms(2)])
  then show ?thesis
    using assms(4) by (simp add: mlu_limit_inv_def)
qed

theorem mlu_limit_is_configured_witness:
  "\<exists>s. cnInit demo_hook_env 0 (hook_init demo_heap) = Inr (0, s)
    \<and> threads (thread_begin 0 s) = [Running ''mlu'' 30]"
proof -
  obtain c where c: "read_configuration demo_hook_env (hook_init demo_heap)
      = Inr (hook_init demo_heap\<lparr>container := c\<rparr>)"
    using demo_read by blast
  let ?s = "mlu_started demo_hook_env exports (hook_init demo_heap\<lparr>container := c\<rparr>)"
  have "''cnInit'' \<in> set mlu_symbols"
    by (simp add: mlu_symbols_def)
  then have run: "cnInit demo_hook_env 0 (hook_init demo_heap) = Inr (0, ?s)"
    using mlu_init_results(1) [OF demo_start_linked _ c, of 0] exports_mlu [of "''cnInit''"] same_heap [of ?s]
    by simp
  obtain y where y: "threads (thread_begin 0 ?s) = [Running ''mlu'' y]"
    by (simp add: hook_init_def)
  have "hook_runs demo_hook_env (hook_init demo_heap) (thread_begin 0 ?s)"
    using step [OF step [OF here], of demo_hook_env "Do_cnInit 0" "hook_init demo_heap" 0 ?s
        "Thread_Begins 0" 0 "thread_begin 0 ?s"] run
    by (simp del: thread_begin.simps)
  then have "y = utilization demo_record"
    using y by (intro mlu_limit_is_configured [OF demo_hook_good demo_configured]) auto
  with run y show ?thesis
    by (auto simp: demo_record_def simp del: thread_begin.simps)
qed

definition gpu_limit_inv :: "resource_data_t \<Rightarrow> 'fp hook_state \<Rightarrow> bool" where
  "gpu_limit_inv d s \<longleftrightarrow>
     (\<forall>y. Running ''gpu'' y \<in> set (threads s) \<longrightarrow> y = utilization d) \<and> config_data (container s) = d"

lemma gpu_limit_effect:
  assumes "configured env d" "hook_effect env f s t" "gpu_limit_inv d s"
  shows "gpu_limit_inv d t"
  using assms(2)
proof cases
  case (gpu_read s1 h)
  with assms(3) once_read_config [OF gpu_read(2)] once_read_configured [OF assms(1) gpu_read(2)]
  show ?thesis
    by (auto simp: gpu_limit_inv_def)
next
  case (mlu_read s1 h)
  with assms(3) read_configuration_result [OF mlu_read(2)] configured_read [OF assms(1)]
  show ?thesis
    by (auto simp: gpu_limit_inv_def)
next
  case (begins i)
  with assms(3) begins_members [of "''gpu''" _ i s] begins_frame [of i s]
  show ?thesis
    by (simp add: gpu_limit_inv_def del: thread_begin.simps) blast
qed (use assms(3) in \<open>auto simp: gpu_limit_inv_def\<close>)

lemma first_cuInit:
  assumes "hook_good env f" "configured env d" "cuInit env flag (hook_init h) = Inr (ret, s)"
  shows "linked env f s" "gpu_limit_inv d s"
proof -
  show "linked env f s"
    using cuInit_effect [OF linked_start [OF assms(1)] assms(1,3)] linked_effect linked_start [OF assms(1)]
    by blast
  obtain s1 where s1: "pthread_once read_config read_config_update (read_configuration env) (hook_init h)
      = Inr s1"
    using assms(3) by (auto simp: cuInit_def c_bind_eq_Inr)
  have env: "headers_match env" "pthread_create_result env = 0"
    using assms(1) by (simp_all add: hook_good_def)
  obtain h' where "s = (gpu_started env f s1)\<lparr>heap := h'\<rparr>"
    using assms(3) drive_effect unfolding cuInit_result [OF linked_start [OF assms(1)] env s1] by blast
  then show "gpu_limit_inv d s"
    using once_read_config [OF s1] once_read_configured [OF assms(2) s1]
    by (auto simp: gpu_limit_inv_def hook_init_def)
qed

text \<open>
  C9: If the first call of the process is \<open>cuInit\<close>, the control thread of the GPU works with the
  utilization limit of the container's configuration file, whatever is called afterwards.
\<close>

theorem gpu_limit_is_configured:
  assumes "hook_good env f" "configured env d" "cuInit env flag (hook_init h) = Inr (ret, s)"
    and "hook_runs env s t" "Running ''gpu'' y \<in> set (threads t)"
  shows "y = utilization d"
proof -
  note start = first_cuInit [OF assms(1-3)]
  have "gpu_limit_inv d t"
    using start(2) gpu_limit_effect [OF assms(2)]
    by (rule runs_invariant [OF assms(4) start(1) assms(1)])
  then show ?thesis
    using assms(5) by (simp add: gpu_limit_inv_def)
qed

theorem gpu_limit_is_configured_witness:
  "\<exists>s. cuInit demo_hook_env 0 (hook_init demo_heap) = Inr (0, s)
    \<and> threads (thread_begin 0 s) = [Running ''gpu'' 30]"
proof -
  obtain c where "read_configuration demo_hook_env (hook_init demo_heap)
      = Inr (hook_init demo_heap\<lparr>container := c\<rparr>)"
    using demo_read by blast
  then have c: "pthread_once read_config read_config_update (read_configuration demo_hook_env)
      (hook_init demo_heap) = Inr (hook_init demo_heap\<lparr>container := c, read_config := True\<rparr>)"
    by (simp add: pthread_once_def hook_init_def)
  let ?s = "gpu_started demo_hook_env exports (hook_init demo_heap\<lparr>container := c, read_config := True\<rparr>)"
  have f: "exports lib ''cuInit'' = Some (lib, ''cuInit'')" for lib
    by (simp add: exports_def)
  have run: "cuInit demo_hook_env 0 (hook_init demo_heap) = Inr (0, ?s)"
    using cuInit_result [OF demo_start_linked _ _ c, of 0] f same_heap [of ?s] by simp
  obtain y where y: "threads (thread_begin 0 ?s) = [Running ''gpu'' y]"
    by (simp add: hook_init_def)
  have "hook_runs demo_hook_env ?s (thread_begin 0 ?s)"
    using step [OF here, of demo_hook_env "Thread_Begins 0" ?s 0 "thread_begin 0 ?s"]
    by (simp del: thread_begin.simps)
  then have "y = utilization demo_record"
    using y by (intro gpu_limit_is_configured [OF demo_hook_good demo_configured run]) auto
  with run y show ?thesis
    by (auto simp: demo_record_def simp del: thread_begin.simps)
qed

text \<open>
  \<open>cuDriverGetVersion\<close> creates the control thread without reading the configuration. If it
  is the first call and the thread begins before another call reads it, the limit of the thread
  is 0, and remains 0 whatever the configuration says and whatever is called afterwards.
\<close>

lemma gpu_limit_is_zero:
  assumes "hook_good env f" "cuDriverGetVersion env p (hook_init h) = Inr (ret, s)"
    and "hook_runs env (thread_begin 0 s) t"
  shows "0 < length (threads t) \<and> threads t ! 0 = Running ''gpu'' 0"
proof -
  have env: "headers_match env" "pthread_create_result env = 0"
    using assms(1) by (simp_all add: hook_good_def)
  note r = assms(2) [unfolded cuDriverGetVersion_result [OF linked_start [OF assms(1)] env]]
  obtain h' where s: "s = (gpu_started env f (hook_init h))\<lparr>heap := h'\<rparr>"
    using drive_effect [OF r] by blast
  have "utilization (config_data (container s)) = 0" "threads s = [Created ''gpu'']"
    by (simp_all add: s hook_init_def container_init_def config_data_init_def)
  then have start: "0 < length (threads (thread_begin 0 s)) \<and> threads (thread_begin 0 s) ! 0 = Running ''gpu'' 0"
    by simp
  have "linked env f (thread_begin 0 s)"
    using linked_effect [OF begins linked_effect [OF version_effect [OF _ assms(1,2)]]]
      linked_start [OF assms(1)] by blast
  then show ?thesis
    using start effect_keeps_running
    by (intro runs_invariant [OF assms(3) _ assms(1), where P = "\<lambda>s. 0 < length (threads s) \<and>
          threads s ! 0 = Running ''gpu'' 0"]) blast+
qed

end
