(* ===== verification/Hook_Bucket.thy ===== *)
theory Hook_Bucket
  imports Hook_Runs Token_Bucket
begin

text \<open>
  The preloaded library on the token bucket: what sequences of calls of its wrappers, with the control
  threads in between, do to the bucket.
\<close>

subsection \<open>Calls as operations of the bucket\<close>

lemma rate_limiter_take:
  "rate_limiter l n b = Some (Inr l') \<Longrightarrow> controller_perform l (Take n) = Some l'"
  by (simp add: rate_limiter_def Let_def split: if_splits)

text \<open>
  Which call is an operation of the bucket: the launches of kernels that wait for tokens, and a control
  thread that moves the bucket. A cooperative launch is none.
\<close>

fun bucket_operation :: "hook_call \<Rightarrow> bucket_op option" where
  "bucket_operation (Do_cuLaunchKernel kf gx gy gz bx by bz m h ps e) = Some (Take (int_of_u32 (gx * gy * gz)))"
| "bucket_operation (Do_cnInvokeKernel k x y z c r q ps e) = Some (Take (int_of_u32 (x * y)))"
| "bucket_operation (Bucket_Moves v) = Some (Overwrite v)"
| "bucket_operation _ = None"

fun hook_performs ::
    "('h, 'fp) hook_env \<Rightarrow> hook_call list \<Rightarrow> 'fp hook_state \<Rightarrow> 'fp hook_state c_result option" where
  "hook_performs env [] s = Some (Inr s)"
| "hook_performs env (c # cs) s =
     (case hook_perform env c s of
        None \<Rightarrow> None
      | Some (Inl e) \<Rightarrow> Some (Inl e)
      | Some (Inr (ret, t)) \<Rightarrow> hook_performs env cs t)"

subsection \<open>Calls that leave the bucket alone\<close>

lemma drive_bucket: "drive env fp args s = Inr (ret, t) \<Longrightarrow> limiter t = limiter s"
  using drive_effect by fastforce

lemma read_bucket: "read_configuration env s = Inr t \<Longrightarrow> limiter t = limiter s"
  using read_configuration_result by fastforce

lemma once_bucket:
  "pthread_once read_config read_config_update (read_configuration env) s = Inr t \<Longrightarrow> limiter t = limiter s"
  using once_read_config by fastforce

lemma started_bucket [simp]: "limiter (gpu_started env f s) = limiter s" "limiter (mlu_started env f s) = limiter s"
  by (simp_all add: gpu_started_def gpu_linked_def mlu_started_def mlu_linked_def)

lemma gpu_init_bucket:
  assumes "linked env f s" "hook_good env f"
  shows "cuDriverGetVersion env p s = Inr (ret, t) \<Longrightarrow> limiter t = limiter s"
    and "cuInit env flag s = Inr (ret, t) \<Longrightarrow> limiter t = limiter s"
    and "cuGetProcAddress env symbol p v flags s = Inr (ret, t) \<Longrightarrow> limiter t = limiter s"
proof -
  have env: "headers_match env" "pthread_create_result env = 0"
    using assms(2) by (simp_all add: hook_good_def)
  show "limiter t = limiter s" if "cuDriverGetVersion env p s = Inr (ret, t)"
    using that drive_bucket unfolding cuDriverGetVersion_result [OF assms(1) env] by fastforce
  show "limiter t = limiter s" if r: "cuInit env flag s = Inr (ret, t)"
  proof -
    obtain s1 where s1: "pthread_once read_config read_config_update (read_configuration env) s = Inr s1"
      using r by (auto simp: cuInit_def c_bind_eq_Inr)
    show ?thesis
      using r drive_bucket once_bucket [OF s1] unfolding cuInit_result [OF assms(1) env s1] by fastforce
  qed
  show "limiter t = limiter s" if r: "cuGetProcAddress env symbol p v flags s = Inr (ret, t)"
  proof -
    obtain s1 where s1: "pthread_once read_config read_config_update (read_configuration env) s = Inr s1"
      using r by (auto simp: cuGetProcAddress_def c_bind_eq_Inr)
    show ?thesis
      using r once_bucket [OF s1] unfolding cuGetProcAddress_result [OF assms(1) env s1]
      by (auto simp: c_bind_eq_Inr split: prod.splits if_splits dest!: drive_bucket)
  qed
qed

lemma mlu_init_bucket:
  assumes "linked env f s" "hook_good env f"
  shows "cnInit env flags s = Inr (ret, t) \<Longrightarrow> limiter t = limiter s"
    and "cnGetLibVersion env p q r s = Inr (ret, t) \<Longrightarrow> limiter t = limiter s"
    and "cnGetExportFunction env symbol p s = Inr (ret, t) \<Longrightarrow> limiter t = limiter s"
proof -
  have pt: "pthread_create_result env = 0"
    using assms(2) by (simp add: hook_good_def)
  note results = mlu_init_results [OF assms(1) pt]
  show "limiter t = limiter s" if r: "cnInit env flags s = Inr (ret, t)"
  proof -
    obtain s1 where s1: "read_configuration env s = Inr s1"
      using r by (auto simp: cnInit_def)
    show ?thesis
      using r drive_bucket read_bucket [OF s1] unfolding results(1) [OF s1] by fastforce
  qed
  show "limiter t = limiter s" if r: "cnGetLibVersion env p q r s = Inr (ret, t)"
  proof -
    obtain s1 where s1: "read_configuration env s = Inr s1"
      using r by (auto simp: cnGetLibVersion_def)
    show ?thesis
      using r drive_bucket read_bucket [OF s1] unfolding results(2) [OF s1] by fastforce
  qed
  show "limiter t = limiter s" if r: "cnGetExportFunction env symbol p s = Inr (ret, t)"
  proof -
    obtain s1 where s1: "read_configuration env s = Inr s1"
      using r by (auto simp: cnGetExportFunction_def)
    show ?thesis
      using r drive_bucket read_bucket [OF s1] unfolding results(3) [OF s1] by fastforce
  qed
qed

lemma memory_bucket:
  assumes "linked env f s" "hook_good env f"
  shows "gpu_forward env c s = Inr (ret, t) \<Longrightarrow> limiter t = limiter s"
    and "cnMemGetInfo env p q s = Some (Inr (ret, t)) \<Longrightarrow> limiter t = limiter s"
    and "mlu_allocate env a p n s = Some (Inr (ret, t)) \<Longrightarrow> limiter t = limiter s"
proof -
  have "headers_match env"
    using assms(2) by (simp add: hook_good_def)
  then show "limiter t = limiter s" if "gpu_forward env c s = Inr (ret, t)"
    using that gpu_forward_resolved [OF assms(1), of c]
    by (auto split: prod.splits if_splits dest!: drive_bucket)
  have mlu: "limiter u = limiter s" if "call_mlu env n args s = Inr (r, u)" "n \<in> set mlu_symbols" for n args r u
    using that call_mlu_resolved [OF assms(1)] drive_bucket by (metis Inl_Inr_False)
  show "limiter t = limiter s" if g: "cnMemGetInfo env p q s = Some (Inr (ret, t))"
  proof -
    obtain ret' s1 where c: "call_mlu env ''cnMemGetInfo'' [Ptr_Arg p, Ptr_Arg q] s = Inr (ret', s1)"
      using g by (auto simp: cnMemGetInfo_def split: sum.splits)
    have "limiter s1 = limiter s"
      by (rule mlu [OF c]) (simp add: mlu_symbols_def)
    moreover have "\<exists>h'. t = s1\<lparr>heap := h'\<rparr>"
      using g c by (auto simp: cnMemGetInfo_def c_bind_eq_Inr bind_eq_Some_conv split: sum.splits)
    ultimately show ?thesis by auto
  qed
  show "limiter t = limiter s" if "mlu_allocate env a p n s = Some (Inr (ret, t))"
  proof -
    have "t = s \<or> call_mlu env (alloc_symbol a) [Ptr_Arg p, U64_Arg n] s = Inr (ret, t)"
      using that by (auto simp: mlu_allocate_gate allocate_within_quota_def c_bind_eq_Inr bind_eq_Some_conv split: if_splits)
    then show ?thesis
      using mlu [OF _ alloc_symbol_member] by auto
  qed
qed

subsection \<open>Launches\<close>

lemma gpu_launch_takes:
  assumes "linked env f s" "headers_match env"
    and "cuLaunchKernel env kf gx gy gz bx by bz m h ps e s = Some (Inr (ret, t))"
  shows "controller_perform (limiter s) (Take (int_of_u32 (gx * gy * gz))) = Some (limiter t)"
proof -
  obtain l args where l: "rate_limiter (limiter s) (int_of_u32 (gx * gy * gz))
      (int_of_u32 (bx * by * bz)) = Some (Inr l)"
    and call: "call_gpu env ''cuLaunchKernel'' args (s\<lparr>limiter := l\<rparr>) = Inr (ret, t)"
    using assms(3) by (auto simp: cuLaunchKernel_def c_bind_eq_Inr bind_eq_Some_conv)
  have "linked env f (s\<lparr>limiter := l\<rparr>)" "''cuLaunchKernel'' \<in> set forwarded_symbols"
    using assms(1) by (simp_all add: linked_frame forwarded_symbols_def)
  then have "limiter t = l"
    using call call_gpu_resolved [OF _ assms(2)] drive_bucket by (fastforce split: if_splits)
  then show ?thesis
    using rate_limiter_take [OF l] by simp
qed

lemma mlu_launch_takes:
  assumes "linked env f s"
    and "cnInvokeKernel env k x y z c r q ps e s = Some (Inr (ret, t))"
  shows "controller_perform (limiter s) (Take (int_of_u32 (x * y))) = Some (limiter t)"
proof -
  obtain l args where l: "rate_limiter (limiter s) (int_of_u32 (x * y))
      (int_of_u32 (x * y * z)) = Some (Inr l)"
    and call: "call_mlu env ''cnInvokeKernel'' args (s\<lparr>limiter := l\<rparr>) = Inr (ret, t)"
    using assms(2) by (auto simp: cnInvokeKernel_def c_bind_eq_Inr bind_eq_Some_conv)
  have "linked env f (s\<lparr>limiter := l\<rparr>)" "''cnInvokeKernel'' \<in> set mlu_symbols"
    using assms(1) by (simp_all add: linked_frame mlu_symbols_def)
  then have "limiter t = l"
    using call by (auto simp: call_mlu_resolved split: if_splits dest: drive_bucket)
  then show ?thesis
    using rate_limiter_take [OF l] by simp
qed

lemma call_on_bucket:
  assumes "linked env f s" "hook_good env f" "hook_perform env c s = Some (Inr (ret, t))"
  shows "perform_all controller_perform (limiter s)
    (case bucket_operation c of None \<Rightarrow> [] | Some op \<Rightarrow> [op]) = Some (limiter t)"
proof -
  note keeps = gpu_init_bucket [OF assms(1,2)] mlu_init_bucket [OF assms(1,2)] memory_bucket [OF assms(1,2)]
  have m: "headers_match env"
    using assms(2) by (simp add: hook_good_def)
  show ?thesis
    using assms(3) gpu_launch_takes [OF assms(1) m] mlu_launch_takes [OF assms(1)]
    by (cases c) (auto dest!: keeps split: control_thread.splits)
qed

lemma performs_on_bucket:
  "hook_performs env cs s = Some (Inr t) \<Longrightarrow> linked env f s \<Longrightarrow> hook_good env f \<Longrightarrow>
    perform_all controller_perform (limiter s) (List.map_filter bucket_operation cs) = Some (limiter t)"
proof (induction cs arbitrary: s)
  case (Cons c cs)
  then obtain ret u where u: "hook_perform env c s = Some (Inr (ret, u))" "hook_performs env cs u = Some (Inr t)"
    by (auto split: option.splits sum.splits)
  have "linked env f u"
    using linked_effect [OF perform_effect [OF Cons.prems(2,3) u(1)] Cons.prems(2)] .
  with Cons.IH [OF u(2)] Cons.prems(3) call_on_bucket [OF Cons.prems(2,3) u(1)] show ?case
    by (auto simp: List.map_filter_simps bind_eq_Some_conv split: option.splits)
qed simp



end
