(* ===== verification/Go_Prelude.thy ===== *)
theory Go_Prelude
  imports C_Strings
begin

text \<open>
  The part of Go that the node's plugin (\<open>k8sPlugins\<close>) needs: results that carry a panic or a
  fatal log message, 64-bit integers that wrap, and the functions of the standard library's
  packages \<open>strconv\<close>, \<open>strings\<close> and \<open>path/filepath\<close> that the sources call.
\<close>

subsection \<open>Results\<close>

text \<open>
  \<open>Panic\<close> ends the process with a stack trace (no function of the plugin recovers from one),
  \<open>Fatal\<close> is a call of \<open>log.Fatal\<close> or \<open>log.Fatalf\<close>, which ends it with status 1, \<open>Cgo\<close> is an
  error of a C function called from Go.
\<close>

datatype go_stop = Panic | Fatal | Cgo c_error

type_synonym 'a go_result = "go_stop + 'a"

definition go_bind :: "'a go_result \<Rightarrow> ('a \<Rightarrow> 'b go_result) \<Rightarrow> 'b go_result" where
  "go_bind m f = (case m of Inl e \<Rightarrow> Inl e | Inr x \<Rightarrow> f x)"

lemma go_bind_simps [simp]: "go_bind (Inl e) f = Inl e" "go_bind (Inr x) f = f x"
  by (simp_all add: go_bind_def)

lemma go_bind_eq_Inr: "go_bind m f = Inr y \<longleftrightarrow> (\<exists>x. m = Inr x \<and> f x = Inr y)"
  by (simp add: go_bind_def split: sum.splits)

lemma go_bind_InrE [elim]:
  assumes "go_bind m f = Inr y"
  obtains x where "m = Inr x" and "f x = Inr y"
  using assms by (auto simp: go_bind_eq_Inr)

text \<open>A loop over a slice whose body may stop the process.\<close>

fun go_fold :: "('a \<Rightarrow> 's \<Rightarrow> 's go_result) \<Rightarrow> 'a list \<Rightarrow> 's \<Rightarrow> 's go_result" where
  "go_fold f [] s = Inr s"
| "go_fold f (x # xs) s = go_bind (f x s) (go_fold f xs)"

lemma go_fold_append: "go_fold f (xs @ ys) s = go_bind (go_fold f xs s) (go_fold f ys)"
  by (induction xs arbitrary: s) (simp_all add: go_bind_def split: sum.split)

lemma go_fold_invariant:
  assumes "go_fold f xs s = Inr t" and "P s"
    and "\<And>x s t. x \<in> set xs \<Longrightarrow> P s \<Longrightarrow> f x s = Inr t \<Longrightarrow> P t"
  shows "P t"
  using assms
proof (induction xs arbitrary: s)
  case (Cons x xs)
  then obtain u where u: "f x s = Inr u" "go_fold f xs u = Inr t" by auto
  with Cons.prems have "P u" by (meson list.set_intros(1))
  with Cons.prems(3) show ?case
    by (intro Cons.IH [OF u(2)]) (auto intro: list.set_intros(2))
qed simp

subsection \<open>64-bit integers\<close>

text \<open>Go's \<open>int64\<close>, and \<open>int\<close> on the platforms the plugin runs on: arithmetic wraps.\<close>

type_synonym i64 = "64 word"

definition in_i64 :: "int \<Rightarrow> bool" where
  "in_i64 z \<longleftrightarrow> - (2 ^ 63) \<le> z \<and> z < 2 ^ 63"

lemma sint_i64: "in_i64 (sint (w :: i64))"
  using sint_ge [of w] sint_lt [of w] by (simp add: in_i64_def)

lemma sint_i64_of_int: "in_i64 z \<Longrightarrow> sint (word_of_int z :: i64) = z"
  by (simp add: in_i64_def signed_of_int signed_take_bit_int_eq_self)

lemma sint_i64_add: "in_i64 (sint a + sint b) \<Longrightarrow> sint (a + b :: i64) = sint a + sint b"
  using sint_i64_of_int [of "sint a + sint b"] by (simp add: wi_hom_syms)

lemma sint_i64_diff: "in_i64 (sint a - sint b) \<Longrightarrow> sint (a - b :: i64) = sint a - sint b"
  using sint_i64_of_int [of "sint a - sint b"] by (simp add: wi_hom_syms)

subsection \<open>\<open>strconv\<close>\<close>

text \<open>\<open>FormatInt(i, 10)\<close> and \<open>Itoa\<close>.\<close>

definition digit_char :: "nat \<Rightarrow> char" where
  "digit_char d = char_of (48 + d)"

fun decimal :: "nat \<Rightarrow> string" where
  "decimal n = (if n < 10 then [digit_char n] else decimal (n div 10) @ [digit_char (n mod 10)])"

declare decimal.simps [simp del]

definition FormatInt :: "int \<Rightarrow> string" where
  "FormatInt z = (if z < 0 then CHR ''-'' # decimal (nat (- z)) else decimal (nat z))"

text \<open>
  \<open>ParseInt(s, 10, 64)\<close> returns a value also with an error: 0 for a syntax error, the nearest
  bound for a number out of range. The digits are read from the left and the first problem
  decides.
\<close>

datatype num_error = ErrSyntax | ErrRange

definition is_digit :: "char \<Rightarrow> bool" where
  "is_digit c \<longleftrightarrow> 48 \<le> (of_char c :: nat) \<and> (of_char c :: nat) \<le> 57"

definition digit_val :: "char \<Rightarrow> nat" where
  "digit_val c = of_char c - 48"

definition UINT64_MAX :: nat where "UINT64_MAX = 18446744073709551615"

fun parse_digits :: "string \<Rightarrow> nat \<Rightarrow> nat \<times> num_error option" where
  "parse_digits [] n = (n, None)"
| "parse_digits (c # s) n =
     (if \<not> is_digit c then (0, Some ErrSyntax)
      else if UINT64_MAX < 10 * n + digit_val c then (UINT64_MAX, Some ErrRange)
      else parse_digits s (10 * n + digit_val c))"

definition ParseUint :: "string \<Rightarrow> nat \<times> num_error option" where
  "ParseUint s = (if s = [] then (0, Some ErrSyntax) else parse_digits s 0)"

definition cutoff :: nat where "cutoff = 9223372036854775808"

definition ParseInt :: "string \<Rightarrow> int \<times> num_error option" where
  "ParseInt s =
     (let neg = (s \<noteq> [] \<and> hd s = CHR ''-'');
          digits = (if s \<noteq> [] \<and> (hd s = CHR ''-'' \<or> hd s = CHR ''+'') then tl s else s)
      in if s = [] then (0, Some ErrSyntax)
      else case ParseUint digits of
        (un, err) \<Rightarrow>
          if err = Some ErrSyntax then (0, Some ErrSyntax)
          else if \<not> neg \<and> cutoff \<le> un then (int cutoff - 1, Some ErrRange)
          else if neg \<and> cutoff < un then (- int cutoff, Some ErrRange)
          else (if neg then - int un else int un, None))"

lemma digit_char_val [simp]:
  assumes "d < 10"
  shows "is_digit (digit_char d)" "digit_val (digit_char d) = d"
  using assms by (simp_all add: is_digit_def digit_val_def digit_char_def)

lemma digit_char_plain [simp]:
  assumes "d < 10"
  shows "digit_char d \<noteq> CHR ''-''" "digit_char d \<noteq> CHR ''+''"
proof -
  have "(of_char (digit_char d) :: nat) = 48 + d"
    using assms by (simp add: digit_char_def)
  then show "digit_char d \<noteq> CHR ''-''" "digit_char d \<noteq> CHR ''+''"
    by auto
qed

lemma digit_char_0 [simp]: "digit_char 0 = CHR ''0''"
  by code_simp

lemma decimal_nonempty [simp]: "decimal n \<noteq> []"
  by (simp add: decimal.simps [of n])

lemma decimal_hd: "\<exists>d < 10. hd (decimal n) = digit_char d"
proof (induction n rule: decimal.induct)
  case (1 n)
  show ?case
  proof (cases "n < 10")
    case False
    then have "hd (decimal n) = hd (decimal (n div 10))"
      by (simp add: decimal.simps [of n])
    with 1 [OF False] show ?thesis by simp
  qed (auto simp: decimal.simps [of n])
qed

lemma parse_digits_snoc:
  assumes "parse_digits s n = (m, None)" "is_digit c"
  shows "parse_digits (s @ [c]) n =
    (if UINT64_MAX < 10 * m + digit_val c then (UINT64_MAX, Some ErrRange)
     else (10 * m + digit_val c, None))"
  using assms by (induction s n rule: parse_digits.induct) (auto split: if_splits)

lemma parse_digits_decimal: "n \<le> UINT64_MAX \<Longrightarrow> parse_digits (decimal n) 0 = (n, None)"
proof (induction n rule: decimal.induct)
  case (1 n)
  show ?case
  proof (cases "n < 10")
    case True
    then show ?thesis by (simp add: decimal.simps [of n] UINT64_MAX_def)
  next
    case False
    have "parse_digits (decimal (n div 10)) 0 = (n div 10, None)"
      using 1 False by simp
    then show ?thesis
      using 1(2) False parse_digits_snoc [of "decimal (n div 10)" 0 "n div 10" "digit_char (n mod 10)"]
      by (simp add: decimal.simps [of n])
  qed
qed

lemma ParseInt_FormatInt: "in_i64 z \<Longrightarrow> ParseInt (FormatInt z) = (z, None)"
proof -
  assume z: "in_i64 z"
  obtain d where d: "d < 10" "hd (decimal (nat z)) = digit_char d"
    using decimal_hd by blast
  have "parse_digits (decimal (nat \<bar>z\<bar>)) 0 = (nat \<bar>z\<bar>, None)"
    using z by (intro parse_digits_decimal) (auto simp: in_i64_def UINT64_MAX_def)
  then show ?thesis
    using z d by (cases "z < 0") (simp_all add: ParseInt_def FormatInt_def ParseUint_def Let_def
        in_i64_def cutoff_def)
qed

lemma ParseInt_in_i64: "in_i64 (fst (ParseInt s))"
  by (auto simp: ParseInt_def in_i64_def Let_def cutoff_def split: prod.split)

lemma ParseInt_empty [simp]: "ParseInt [] = (0, Some ErrSyntax)"
  by (simp add: ParseInt_def)

text \<open>What the sources use of it: the value as an \<open>int64\<close>, the error dropped.\<close>

definition parse_i64 :: "string \<Rightarrow> i64" where
  "parse_i64 s = word_of_int (fst (ParseInt s))"

lemma parse_i64_empty [simp]: "parse_i64 [] = 0"
  by (simp add: parse_i64_def)

lemma parse_i64_format [simp]: "parse_i64 (FormatInt (sint w)) = w"
  by (simp add: parse_i64_def ParseInt_FormatInt [OF sint_i64])

subsection \<open>\<open>strings\<close>\<close>

text \<open>\<open>strings.Split\<close> with a separator that is not empty, the only way it is called.\<close>

function Split :: "string \<Rightarrow> string \<Rightarrow> string list" where
  "Split s sep =
     (if sep = [] then map (\<lambda>c. [c]) s
      else case strstr s sep of
        None \<Rightarrow> [s]
      | Some i \<Rightarrow> take i s # Split (drop (i + length sep) s) sep)"
  by pat_completeness auto

lemma strstr_bound: "strstr s n = Some i \<Longrightarrow> i + length n \<le> length s"
  using strstr_Some by fastforce

termination Split
  by (relation "measure (\<lambda>(s, _). length s)")
    (auto dest!: strstr_bound simp flip: length_greater_0_conv)

declare Split.simps [simp del]

definition Contains :: "string \<Rightarrow> string \<Rightarrow> bool" where
  "Contains s sub \<longleftrightarrow> strstr s sub \<noteq> None"

text \<open>\<open>strings.Replace(s, old, new, -1)\<close> for one-character strings.\<close>

definition Replace_char :: "string \<Rightarrow> char \<Rightarrow> char \<Rightarrow> string" where
  "Replace_char s old new = map (\<lambda>c. if c = old then new else c) s"

lemma Split_absent: "sep \<noteq> [] \<Longrightarrow> strstr s sep = None \<Longrightarrow> Split s sep = [s]"
  by (simp add: Split.simps)

lemma Split_prefix: "sep \<noteq> [] \<Longrightarrow> Split (sep @ s) sep = [] # Split s sep"
proof -
  assume "sep \<noteq> []"
  moreover have "strstr (sep @ s) sep = Some 0"
    by (rule strstr_here) simp
  ultimately show ?thesis by (simp add: Split.simps [of "sep @ s"])
qed

subsection \<open>\<open>path/filepath\<close>\<close>

fun split_slash :: "string \<Rightarrow> string list" where
  "split_slash [] = [[]]"
| "split_slash (c # s) =
     (if c = CHR ''/'' then [] # split_slash s
      else case split_slash s of [] \<Rightarrow> [[c]] | w # ws \<Rightarrow> (c # w) # ws)"

fun join_slash :: "string list \<Rightarrow> string" where
  "join_slash [] = []"
| "join_slash [w] = w"
| "join_slash (w # ws) = w @ CHR ''/'' # join_slash ws"

text \<open>
  \<open>Clean\<close>: empty elements and \<open>.\<close> are dropped, \<open>..\<close> takes the element before it along; at the
  beginning \<open>..\<close> is dropped from a rooted path and kept in another. The elements kept are in
  the accumulator, the last one first.
\<close>

fun clean_elements :: "bool \<Rightarrow> string list \<Rightarrow> string list \<Rightarrow> string list" where
  "clean_elements rooted [] kept = rev kept"
| "clean_elements rooted (e # es) kept =
     clean_elements rooted es
       (if e = [] \<or> e = ''.'' then kept
        else if e = ''..'' then
          (case kept of
             [] \<Rightarrow> if rooted then [] else [e]
           | k # ks \<Rightarrow> if k = ''..'' then e # kept else ks)
        else e # kept)"

definition Clean :: "string \<Rightarrow> string" where
  "Clean path =
     (if path = [] then ''.''
      else if hd path = CHR ''/''
        then CHR ''/'' # join_slash (clean_elements True (split_slash (tl path)) [])
        else case clean_elements False (split_slash path) [] of
            [] \<Rightarrow> ''.''
          | es \<Rightarrow> join_slash es)"

definition Join :: "string list \<Rightarrow> string" where
  "Join elems =
     (case dropWhile (\<lambda>e. e = []) elems of
        [] \<Rightarrow> []
      | es \<Rightarrow> Clean (join_slash es))"

text \<open>Elements that stand for themselves.\<close>

definition plain_element :: "string \<Rightarrow> bool" where
  "plain_element e \<longleftrightarrow> e \<noteq> [] \<and> CHR ''/'' \<notin> set e \<and> e \<noteq> ''.'' \<and> e \<noteq> ''..''"

lemma split_slash_word: "CHR ''/'' \<notin> set w \<Longrightarrow> split_slash w = [w]"
  by (induction w) auto

lemma split_slash_append: "CHR ''/'' \<notin> set w \<Longrightarrow> split_slash (w @ CHR ''/'' # s) = w # split_slash s"
  by (induction w) auto

lemma split_join: "es \<noteq> [] \<Longrightarrow> \<forall>e \<in> set es. CHR ''/'' \<notin> set e \<Longrightarrow> split_slash (join_slash es) = es"
  by (induction es rule: join_slash.induct) (simp_all add: split_slash_word split_slash_append)

lemma join_slash_append:
  "es \<noteq> [] \<Longrightarrow> fs \<noteq> [] \<Longrightarrow> join_slash (es @ fs) = join_slash es @ CHR ''/'' # join_slash fs"
proof (induction es rule: join_slash.induct)
  case (2 w)
  then show ?case by (cases fs) simp_all
qed simp_all

lemma clean_plain:
  "\<forall>e \<in> set es. plain_element e \<Longrightarrow> clean_elements rooted es kept = rev kept @ es"
  by (induction es arbitrary: kept) (simp_all add: plain_element_def)

lemma Clean_plain:
  assumes "\<forall>e \<in> set es. plain_element e" "es \<noteq> []"
  shows "Clean (CHR ''/'' # join_slash es) = CHR ''/'' # join_slash es"
  using assms by (simp add: Clean_def split_join clean_plain plain_element_def)

lemma join_slash_inject:
  assumes "join_slash es = join_slash fs" "es \<noteq> []" "fs \<noteq> []"
    and "\<forall>e \<in> set es \<union> set fs. CHR ''/'' \<notin> set e"
  shows "es = fs"
  using assms split_join by (metis UnCI)

end
