(* ===== verification/Kube_Messenger.thy ===== *)
theory Kube_Messenger
  imports Go_Prelude
begin

text \<open>
  The plugin's side of the Kubernetes API (\<open>k8sPlugins/podWatch/messenger.go\<close>) with the objects
  it exchanges (\<open>k8sPlugins/deviceInfo/gpu_types.go\<close> and what the plugin uses of the API's pods
  and nodes), and the choice of a GPU for a pod (\<open>GetGpuResource\<close>).

  The client library, its JSON documents and the encoding of objects are arguments: a world of
  type \<open>'w\<close> that every request may change, documents of type \<open>'j\<close>, bytes of type \<open>'b\<close>.
\<close>

subsection \<open>Objects\<close>

text \<open>\<open>R\<close>, \<open>GPUSpec\<close> and \<open>GPU\<close>; of the metadata the name and the namespace are kept.\<close>

record R =
  Core :: string
  Memory :: string

record GPUSpec =
  UUID :: string
  Model :: string
  Family :: string
  Capacity :: R
  Used :: R
  Node :: string

record GPU =
  Kind :: string
  APIVersion :: string
  crd_name :: string
  crd_namespace :: string
  Spec :: GPUSpec

text \<open>
  Pods and nodes, as far as the plugin reads or sets them. A nil map of annotations is \<open>None\<close>;
  a limit is the value of its quantity, and the value of a missing quantity is 0.
\<close>

record v1_container =
  Limits :: "string \<Rightarrow> i64 option"

record v1_pod =
  pod_name :: string
  pod_namespace :: string
  pod_UID :: string
  Annotations :: "(string \<Rightarrow> string option) option"
  NodeName :: string
  Phase :: string
  Containers :: "v1_container list"
  pod_kind :: string
  pod_api :: string

definition zero_pod :: v1_pod where
  "zero_pod = \<lparr>pod_name = [], pod_namespace = [], pod_UID = [], Annotations = None, NodeName = [],
     Phase = [], Containers = [], pod_kind = [], pod_api = []\<rparr>"

definition limit_value :: "v1_container \<Rightarrow> string \<Rightarrow> i64" where
  "limit_value c k = (case Limits c k of None \<Rightarrow> 0 | Some v \<Rightarrow> v)"

subsection \<open>The libraries\<close>

text \<open>A call returns a value and an error, which is \<open>None\<close> for nil.\<close>

type_synonym 'a answer = "'a \<times> string option"

record ('b, 'j, 'w) kube =
  GetResource :: "string \<Rightarrow> string \<Rightarrow> string \<Rightarrow> 'w \<Rightarrow> 'b answer \<times> 'w"
  ListResources :: "string \<Rightarrow> string \<Rightarrow> 'w \<Rightarrow> 'b answer \<times> 'w"
  CreateResource :: "'b \<Rightarrow> 'w \<Rightarrow> 'b answer \<times> 'w"
  UpdateResource :: "'b \<Rightarrow> 'w \<Rightarrow> 'b answer \<times> 'w"
  UpdateResourceStatus :: "'b \<Rightarrow> 'w \<Rightarrow> 'b answer \<times> 'w"
  ToJsonObject :: "'b \<Rightarrow> 'j"
  JGet :: "'j \<Rightarrow> string \<Rightarrow> 'j"
  JExists :: "'j \<Rightarrow> bool"
  JString :: "'j \<Rightarrow> string"
  JInt :: "'j \<Rightarrow> i64"
  JEach :: "'j \<Rightarrow> 'j list"
  unmarshal_gpu :: "'b \<Rightarrow> GPU answer"
  marshal_gpu :: "GPU \<Rightarrow> 'b answer"
  unmarshal_pod :: "'b \<Rightarrow> v1_pod answer"
  marshal_pod :: "v1_pod \<Rightarrow> 'b answer"
  unmarshal_pods :: "'b \<Rightarrow> v1_pod list answer"

subsection \<open>Nodes and resources\<close>

text \<open>A node is passed on as it is; its decoding and encoding are arguments.\<close>

definition getNodeInfo ::
    "('b, 'j, 'w) kube \<Rightarrow> ('b \<Rightarrow> 'n answer) \<Rightarrow> string \<Rightarrow> 'w \<Rightarrow> 'n option \<times> 'w" where
  "getNodeInfo k unmarshal_node nodeName w =
     (case GetResource k ''Node'' [] nodeName w of
        ((_, Some _), w') \<Rightarrow> (None, w')
      | ((node, None), w') \<Rightarrow>
          (case unmarshal_node node of
             (_, Some _) \<Rightarrow> (None, w')
           | (nodeInfo, None) \<Rightarrow> (Some nodeInfo, w')))"

definition updateNodeStatus ::
    "('b, 'j, 'w) kube \<Rightarrow> ('n \<Rightarrow> 'b answer) \<Rightarrow> 'n \<Rightarrow> 'w \<Rightarrow> string option \<times> 'w" where
  "updateNodeStatus k marshal_node nodeInfo w =
     (case marshal_node nodeInfo of
        (_, Some err) \<Rightarrow> (Some err, w)
      | (json, None) \<Rightarrow> (case UpdateResourceStatus k json w of ((_, err), w') \<Rightarrow> (err, w')))"

definition updateNode ::
    "('b, 'j, 'w) kube \<Rightarrow> ('n \<Rightarrow> 'b answer) \<Rightarrow> 'n \<Rightarrow> 'w \<Rightarrow> string option \<times> 'w" where
  "updateNode k marshal_node nodeInfo w =
     (case marshal_node nodeInfo of
        (_, Some err) \<Rightarrow> (Some err, w)
      | (json, None) \<Rightarrow> (case UpdateResource k json w of ((_, err), w') \<Rightarrow> (err, w')))"

definition UpdateCrd :: "('b, 'j, 'w) kube \<Rightarrow> GPU \<Rightarrow> 'w \<Rightarrow> (string option \<times> 'w) go_result" where
  "UpdateCrd k gpu w =
     (case marshal_gpu k gpu of
        (_, Some _) \<Rightarrow> Inl Fatal
      | (jb, None) \<Rightarrow>
          (case UpdateResource k jb w of
             ((_, err), w') \<Rightarrow>
               if err \<noteq> None \<and> err \<noteq> Some ''request status 201 Created'' then Inl Fatal
               else Inr (err, w')))"

subsection \<open>Pods\<close>

definition UpdatePodAnnotations :: "('b, 'j, 'w) kube \<Rightarrow> v1_pod \<Rightarrow> 'w \<Rightarrow> string option \<times> 'w" where
  "UpdatePodAnnotations k pod w =
     (case marshal_pod k pod of
        (_, Some err) \<Rightarrow> (Some err, w)
      | (podJson, None) \<Rightarrow> (case UpdateResource k podJson w of ((_, err), w') \<Rightarrow> (err, w')))"

definition GetPodOnNode ::
    "('b, 'j, 'w) kube \<Rightarrow> string \<Rightarrow> string \<Rightarrow> 'w \<Rightarrow> v1_pod option \<times> 'w" where
  "GetPodOnNode k nameSpace podName w =
     (case GetResource k ''Pod'' nameSpace podName w of
        ((_, Some _), w') \<Rightarrow> (None, w')
      | ((podByteInfo, None), w') \<Rightarrow>
          (case unmarshal_pod k podByteInfo of
             (_, Some _) \<Rightarrow> (None, w')
           | (podInfo, None) \<Rightarrow> (Some podInfo, w')))"

definition GetPendingPodOnNode ::
    "('b, 'j, 'w) kube \<Rightarrow> string \<Rightarrow> 'w \<Rightarrow> v1_pod list \<times> 'w" where
  "GetPendingPodOnNode k nodeName w =
     (case ListResources k ''Pod'' [] w of
        ((_, Some _), w') \<Rightarrow> ([], w')
      | ((podByteList, None), w') \<Rightarrow>
          (case unmarshal_pods k podByteList of
             (_, Some _) \<Rightarrow> ([], w')
           | (items, None) \<Rightarrow>
               (map (\<lambda>pod. pod\<lparr>pod_api := ''v1'', pod_kind := ''Pod''\<rparr>)
                  (filter (\<lambda>pod. NodeName pod = nodeName \<and> Phase pod = ''Pending'') items), w')))"

subsection \<open>The choice of a GPU\<close>

record gpuresource =
  gpu_UUID :: string
  memTotal :: i64
  coreTotal :: i64
  memUsed :: i64
  coreUsed :: i64
  crdName :: string

text \<open>The fields are read as in the source: the totals and uses of cores and memory are crossed.\<close>

definition gpu_of_item :: "('b, 'j, 'w) kube \<Rightarrow> 'j \<Rightarrow> gpuresource" where
  "gpu_of_item k v =
     (let spec = JGet k v ''spec'' in
      \<lparr>gpu_UUID = JString k (JGet k spec ''uuid''),
       memTotal = JInt k (JGet k (JGet k spec ''capacity'') ''core''),
       coreTotal = JInt k (JGet k (JGet k spec ''capacity'') ''memory''),
       memUsed = JInt k (JGet k (JGet k spec ''used'') ''core''),
       coreUsed = JInt k (JGet k (JGet k spec ''used'') ''memory''),
       crdName = JString k (JGet k (JGet k v ''metadata'') ''name'')\<rparr>)"

definition gpu_matches :: "i64 \<Rightarrow> i64 \<Rightarrow> gpuresource \<Rightarrow> bool" where
  "gpu_matches podCoreReq podMemReq g \<longleftrightarrow>
     sint podCoreReq \<le> sint (coreTotal g - coreUsed g) \<and>
     sint podMemReq \<le> sint (memTotal g - memUsed g)"

definition statifyArr :: "i64 \<Rightarrow> i64 \<Rightarrow> gpuresource list \<Rightarrow> nat list" where
  "statifyArr podCoreReq podMemReq gs =
     filter (\<lambda>i. gpu_matches podCoreReq podMemReq (gs ! i)) [0..<length gs]"

definition gpu_left :: "gpuresource \<Rightarrow> int" where
  "gpu_left g = sint (coreTotal g - coreUsed g + memTotal g - memUsed g)"

fun candidata_loop :: "gpuresource list \<Rightarrow> nat list \<Rightarrow> int \<Rightarrow> nat \<Rightarrow> nat" where
  "candidata_loop gs [] smallest candidata = candidata"
| "candidata_loop gs (v # vs) smallest candidata =
     (if gpu_left (gs ! v) < smallest then candidata_loop gs vs (gpu_left (gs ! v)) v
      else candidata_loop gs vs smallest candidata)"

definition book :: "i64 \<Rightarrow> i64 \<Rightarrow> GPU \<Rightarrow> GPU" where
  "book podCoreReq podMemReq d =
     (let used = Used (Spec d);
          curCoreUsed = parse_i64 (Core used) + podCoreReq;
          curMemUsed = parse_i64 (Memory used) + podMemReq
      in d\<lparr>Spec := (Spec d)\<lparr>Used := \<lparr>Core = FormatInt (sint curCoreUsed),
                                    Memory = FormatInt (sint curMemUsed)\<rparr>\<rparr>\<rparr>)"

text \<open>The object is read again by its name, booked and written back; the first errors are dropped.\<close>

definition update_crd ::
    "('b, 'j, 'w) kube \<Rightarrow> i64 \<Rightarrow> i64 \<Rightarrow> gpuresource \<Rightarrow> 'w \<Rightarrow> string answer \<times> 'w" where
  "update_crd k podCoreReq podMemReq g w =
     (case GetResource k ''GPU'' ''default'' (crdName g) w of
        ((gpuByte, _), w1) \<Rightarrow>
          (let data = fst (unmarshal_gpu k gpuByte);
               jb = fst (marshal_gpu k (book podCoreReq podMemReq data))
           in case UpdateResource k jb w1 of
                ((_, Some _), w2) \<Rightarrow> (([], Some ''update crd failed''), w2)
              | ((_, None), w2) \<Rightarrow> ((gpu_UUID g, None), w2)))"

definition GetGpuResource ::
    "('b, 'j, 'w) kube \<Rightarrow> i64 \<Rightarrow> i64 \<Rightarrow> 'w \<Rightarrow> (string answer \<times> 'w) go_result" where
  "GetGpuResource k podCoreReq podMemReq w =
     (case GetResource k ''GPU'' ''default'' [] w of
        ((_, Some _), w1) \<Rightarrow> Inl Fatal
      | ((gpuByteList, None), w1) \<Rightarrow>
          (let gpudataList = map (gpu_of_item k) (JEach k (JGet k (ToJsonObject k gpuByteList) ''items''));
               statify = statifyArr podCoreReq podMemReq gpudataList
           in if statify = [] then Inr (([], Some ''no gpu match''), w1)
              else Inr (update_crd k podCoreReq podMemReq
                     (gpudataList ! candidata_loop gpudataList statify 99999 0) w1)))"

subsection \<open>What the loop chooses\<close>

text \<open>
  The reference, without positions and without a bound to start from: the first of the GPUs with
  the least left.
\<close>

fun least_left :: "gpuresource list \<Rightarrow> gpuresource option" where
  "least_left [] = None"
| "least_left (g # gs) =
     (case least_left gs of
        None \<Rightarrow> Some g
      | Some h \<Rightarrow> Some (if gpu_left g \<le> gpu_left h then g else h))"

lemma least_left_None [simp]: "least_left gs = None \<longleftrightarrow> gs = []"
  by (cases gs) (simp_all split: option.split)

lemma least_left_Some:
  "least_left gs = Some g \<Longrightarrow> g \<in> set gs \<and> (\<forall>h \<in> set gs. gpu_left g \<le> gpu_left h)"
  by (induction gs arbitrary: g) (force split: option.splits if_splits)+

lemma candidata_loop_none:
  "\<forall>v \<in> set vs. m \<le> gpu_left (gs ! v) \<Longrightarrow> candidata_loop gs vs m c = c"
  by (induction vs) auto

lemma candidata_loop_in: "candidata_loop gs vs m c \<in> insert c (set vs)"
  by (induction vs arbitrary: m c) auto

lemma candidata_loop_least:
  assumes "\<exists>v \<in> set vs. gpu_left (gs ! v) < m"
  shows "least_left (map ((!) gs) vs) = Some (gs ! candidata_loop gs vs m c)"
  using assms
proof (induction vs arbitrary: m c)
  case (Cons v vs)
  show ?case
  proof (cases "\<exists>u \<in> set vs. gpu_left (gs ! u) < m \<and> gpu_left (gs ! u) < gpu_left (gs ! v)")
    case True
    then obtain u where u: "u \<in> set vs" "gpu_left (gs ! u) < m" "gpu_left (gs ! u) < gpu_left (gs ! v)"
      by auto
    let ?c = "candidata_loop gs vs m c" and ?d = "candidata_loop gs vs (gpu_left (gs ! v)) v"
    have "least_left (map ((!) gs) vs) = Some (gs ! ?c)" "least_left (map ((!) gs) vs) = Some (gs ! ?d)"
      using u by (blast intro: Cons.IH)+
    moreover have "gpu_left (gs ! ?c) < gpu_left (gs ! v)"
      using least_left_Some [OF calculation(1)] u(1,3) by fastforce
    ultimately show ?thesis by simp
  next
    case out: False
    then have v: "gpu_left (gs ! v) < m"
      using Cons.prems by fastforce
    have "\<forall>u \<in> set vs. gpu_left (gs ! v) \<le> gpu_left (gs ! u)"
    proof
      fix u assume "u \<in> set vs"
      with out v show "gpu_left (gs ! v) \<le> gpu_left (gs ! u)" by fastforce
    qed
    then show ?thesis
      using v candidata_loop_none [of vs "gpu_left (gs ! v)" gs v]
        least_left_Some [of "map ((!) gs) vs"] by (fastforce split: option.split)
  qed
qed simp

lemma statifyArr_matching:
  "map ((!) gs) (statifyArr c m gs) = filter (gpu_matches c m) gs"
  unfolding statifyArr_def by (metis (no_types, lifting) filter_cong filter_map map_nth comp_def)

lemma statifyArr_empty: "statifyArr c m gs = [] \<longleftrightarrow> filter (gpu_matches c m) gs = []"
  by (metis map_is_Nil_conv statifyArr_matching)

text \<open>The documents of the GPUs as the list answer has them.\<close>

definition listed :: "('b, 'j, 'w) kube \<Rightarrow> 'b \<Rightarrow> gpuresource list" where
  "listed k bytes = map (gpu_of_item k) (JEach k (JGet k (ToJsonObject k bytes) ''items''))"

lemma GetGpuResource_listed:
  assumes "GetResource k ''GPU'' ''default'' [] w = ((bytes, None), w1)"
    and "\<forall>g \<in> set (listed k bytes). gpu_matches c m g \<longrightarrow> gpu_left g < 99999"
  shows "GetGpuResource k c m w =
    (case least_left (filter (gpu_matches c m) (listed k bytes)) of
       None \<Rightarrow> Inr (([], Some ''no gpu match''), w1)
     | Some g \<Rightarrow> Inr (update_crd k c m g w1))"
proof (cases "statifyArr c m (listed k bytes) = []")
  case True
  then show ?thesis
    by (simp add: GetGpuResource_def assms(1) Let_def flip: listed_def)
      (simp add: statifyArr_empty)
next
  case False
  then obtain v where v: "v \<in> set (statifyArr c m (listed k bytes))"
    using hd_in_set by blast
  then have "gpu_left (listed k bytes ! v) < 99999"
    using assms(2) by (auto simp: statifyArr_def)
  then have "least_left (filter (gpu_matches c m) (listed k bytes)) = Some (listed k bytes !
      candidata_loop (listed k bytes) (statifyArr c m (listed k bytes)) 99999 0)"
    using v candidata_loop_least [of "statifyArr c m (listed k bytes)" "listed k bytes" 99999 0]
    by (auto simp: statifyArr_matching)
  then show ?thesis
    using False by (simp add: GetGpuResource_def assms(1) Let_def flip: listed_def)
qed

text \<open>All candidates have too much left: the position 0 is taken, whether it is a candidate or not.\<close>

lemma GetGpuResource_sentinel:
  assumes "GetResource k ''GPU'' ''default'' [] w = ((bytes, None), w1)"
    and "filter (gpu_matches c m) (listed k bytes) \<noteq> []"
    and "\<forall>g \<in> set (filter (gpu_matches c m) (listed k bytes)). 99999 \<le> gpu_left g"
  shows "GetGpuResource k c m w = Inr (update_crd k c m (listed k bytes ! 0) w1)"
proof -
  have "\<forall>v \<in> set (statifyArr c m (listed k bytes)). 99999 \<le> gpu_left (listed k bytes ! v)"
    using assms(3) by (auto simp: statifyArr_def)
  then show ?thesis
    using assms(2) candidata_loop_none
    by (simp add: GetGpuResource_def assms(1) Let_def statifyArr_empty flip: listed_def)
qed

end
