(* ===== verification/Kube_Demo.thy ===== *)
theory Kube_Demo
  imports Kube_Messenger
begin

text \<open>
  A small API server in memory with documents as trees, one instance of the libraries the plugin
  uses. It serves only to show that what is assumed of them can hold; no property is about it.
\<close>

datatype json =
    JMissing
  | JStr string
  | JArr "json list"
  | JObj "(string \<times> json) list"

text \<open>
  Paths as \<open>gjson\<close> documents them: the dot separates keys, a backslash takes the next character
  as it is.
\<close>

fun path_keys :: "string \<Rightarrow> string \<Rightarrow> string list" where
  "path_keys [] key = [key]"
| "path_keys (c # s) key =
     (if c = CHR ''.'' then key # path_keys s []
      else if c = CHR 0x5C then
        (case s of [] \<Rightarrow> [key] | d # t \<Rightarrow> path_keys t (key @ [d]))
      else path_keys s (key @ [c]))"

fun member :: "json \<Rightarrow> string \<Rightarrow> json" where
  "member (JObj kvs) k = (case map_of kvs k of None \<Rightarrow> JMissing | Some v \<Rightarrow> v)"
| "member _ k = JMissing"

definition json_get :: "json \<Rightarrow> string \<Rightarrow> json" where
  "json_get j p = foldl member j (path_keys p [])"

fun json_string :: "json \<Rightarrow> string" where
  "json_string (JStr s) = s"
| "json_string _ = []"

fun json_each :: "json \<Rightarrow> json list" where
  "json_each (JArr js) = js"
| "json_each (JObj kvs) = map snd kvs"
| "json_each JMissing = []"
| "json_each j = [j]"

datatype bytes =
    No_Bytes
  | Gpus "GPU list"
  | Gpu GPU
  | Pods "v1_pod list"
  | Pod v1_pod json

definition json_of_gpu :: "GPU \<Rightarrow> json" where
  "json_of_gpu g =
     JObj [(''metadata'', JObj [(''name'', JStr (crd_name g))]),
           (''spec'', JObj [(''uuid'', JStr (UUID (Spec g))),
              (''capacity'', JObj [(''core'', JStr (Core (Capacity (Spec g)))),
                                   (''memory'', JStr (Memory (Capacity (Spec g))))]),
              (''used'', JObj [(''core'', JStr (Core (Used (Spec g)))),
                               (''memory'', JStr (Memory (Used (Spec g))))])])]"

record server =
  gpus :: "GPU list"
  pods :: "(v1_pod \<times> json) list"

fun json_of :: "bytes \<Rightarrow> json" where
  "json_of (Gpus gs) = JObj [(''items'', JArr (map json_of_gpu gs))]"
| "json_of (Pod p j) = j"
| "json_of _ = JMissing"

definition zero_gpu :: GPU where
  "zero_gpu = \<lparr>Kind = [], APIVersion = [], crd_name = [], crd_namespace = [],
     Spec = \<lparr>UUID = [], Model = [], Family = [], Capacity = \<lparr>Core = [], Memory = []\<rparr>,
       Used = \<lparr>Core = [], Memory = []\<rparr>, Node = []\<rparr>\<rparr>"

definition server_get :: "string \<Rightarrow> string \<Rightarrow> string \<Rightarrow> server \<Rightarrow> bytes answer \<times> server" where
  "server_get kind ns name w =
     (if kind = ''GPU'' \<and> name = [] then (Gpus (gpus w), None)
      else if kind = ''GPU'' then
        (case find (\<lambda>g. crd_name g = name) (gpus w) of
           None \<Rightarrow> (No_Bytes, Some ''not found'') | Some g \<Rightarrow> (Gpu g, None))
      else
        (case find (\<lambda>(p, _). pod_namespace p = ns \<and> pod_name p = name) (pods w) of
           None \<Rightarrow> (No_Bytes, Some ''not found'') | Some (p, j) \<Rightarrow> (Pod p j, None)), w)"

fun server_update :: "bytes \<Rightarrow> server \<Rightarrow> bytes answer \<times> server" where
  "server_update (Gpu g) w =
     (if find (\<lambda>h. crd_name h = crd_name g) (gpus w) = None
      then ((No_Bytes, Some ''request status 404 Not Found''), w)
      else ((No_Bytes, None),
            w\<lparr>gpus := map (\<lambda>h. if crd_name h = crd_name g then g else h) (gpus w)\<rparr>))"
| "server_update (Pod p _) w =
     ((No_Bytes, None), w\<lparr>pods := map (\<lambda>(q, j). if pod_namespace q = pod_namespace p
        \<and> pod_name q = pod_name p \<and> pod_UID q = pod_UID p then (p, j) else (q, j)) (pods w)\<rparr>)"
| "server_update _ w = ((No_Bytes, Some ''bad object''), w)"

fun server_create :: "bytes \<Rightarrow> server \<Rightarrow> bytes answer \<times> server" where
  "server_create (Gpu g) w =
     (if g \<in> set (gpus w) then ((No_Bytes, Some ''request status 409 Conflict''), w)
      else ((No_Bytes, Some ''request status 201 Created''), w\<lparr>gpus := gpus w @ [g]\<rparr>))"
| "server_create _ w = ((No_Bytes, Some ''bad object''), w)"

definition demo_kube :: "(bytes, json, server) kube" where
  "demo_kube =
     \<lparr>GetResource = server_get,
      ListResources = (\<lambda>kind ns w. ((Pods (map fst (pods w)), None), w)),
      CreateResource = server_create,
      UpdateResource = server_update,
      UpdateResourceStatus = (\<lambda>b w. ((No_Bytes, None), w)),
      ToJsonObject = json_of,
      JGet = json_get,
      JExists = (\<lambda>j. j \<noteq> JMissing),
      JString = json_string,
      JInt = (\<lambda>j. parse_i64 (json_string j)),
      JEach = json_each,
      unmarshal_gpu = (\<lambda>b. case b of Gpu g \<Rightarrow> (g, None) | _ \<Rightarrow> (zero_gpu, Some ''bad object'')),
      marshal_gpu = (\<lambda>g. (Gpu g, None)),
      unmarshal_pod = (\<lambda>b. case b of Pod p _ \<Rightarrow> (p, None) | _ \<Rightarrow> (zero_pod, Some ''bad object'')),
      marshal_pod = (\<lambda>p. (Pod p JMissing, None)),
      unmarshal_pods = (\<lambda>b. case b of Pods ps \<Rightarrow> (ps, None) | _ \<Rightarrow> ([], Some ''bad object''))\<rparr>"

definition demo_gpu :: "string \<Rightarrow> string \<Rightarrow> string \<Rightarrow> GPU" where
  "demo_gpu name mem used_mem =
     \<lparr>Kind = ''GPU'', APIVersion = ''doslab.io/v1'', crd_name = name, crd_namespace = ''default'',
      Spec = \<lparr>UUID = ''uuid-'' @ name, Model = ''ff'', Family = ''tesla'',
        Capacity = \<lparr>Core = ''100'', Memory = mem\<rparr>, Used = \<lparr>Core = ''0'', Memory = used_mem\<rparr>,
        Node = ''n1''\<rparr>\<rparr>"

definition demo_server :: server where
  "demo_server = \<lparr>gpus = [demo_gpu ''g0'' ''60'' ''0'', demo_gpu ''g1'' ''60'' ''20''], pods = []\<rparr>"

lemma demo_list:
  "GetResource demo_kube ''GPU'' ''default'' [] w = ((Gpus (gpus w), None), w)"
  by (simp add: demo_kube_def server_get_def)

lemma demo_listed:
  "listed demo_kube (Gpus gs) = map (\<lambda>g.
     \<lparr>gpu_UUID = UUID (Spec g),
      memTotal = parse_i64 (Core (Capacity (Spec g))), coreTotal = parse_i64 (Memory (Capacity (Spec g))),
      memUsed = parse_i64 (Core (Used (Spec g))), coreUsed = parse_i64 (Memory (Used (Spec g))),
      crdName = crd_name g\<rparr>) gs"
  by (simp add: listed_def demo_kube_def json_get_def gpu_of_item_def json_of_gpu_def)

end
