(* ===== verification/Device_Info.thy ===== *)
theory Device_Info
  imports Kube_Demo
begin

text \<open>
  The devices of the node (\<open>k8sPlugins/deviceInfo/gpu.go\<close> and \<open>mlu.go\<close>): what NVML reports of
  them, and the objects registered for them with Kubernetes. The answers of NVML are an argument.
\<close>

subsection \<open>Enumeration of the GPUs\<close>

record nvml_Memory =
  Total :: u64
  Free :: u64
  nvml_Used :: u64

text \<open>An answer of NVML is a value and whether the status was \<open>SUCCESS\<close>.\<close>

record nvml =
  nvml_Init :: bool
  nvml_Shutdown :: bool
  DeviceGetCount :: "nat \<times> bool"
  DeviceGetHandleByIndex :: "nat \<Rightarrow> bool"
  GetUUID :: "nat \<Rightarrow> string \<times> bool"
  nvml_GetMinorNumber :: "nat \<Rightarrow> int"
  GetMemoryInfo :: "nat \<Rightarrow> nvml_Memory \<times> bool"

record GpuInfo =
  dev_count :: nat
  gpuUid :: "string list"
  memInfo :: "string \<Rightarrow> nvml_Memory option"
  minorNumberByUUID :: "string \<Rightarrow> int option"

definition NewGpuInfo :: GpuInfo where
  "NewGpuInfo = \<lparr>dev_count = 0, gpuUid = [], memInfo = Map.empty, minorNumberByUUID = Map.empty\<rparr>"

definition probe_device :: "nvml \<Rightarrow> nat \<Rightarrow> GpuInfo \<Rightarrow> GpuInfo go_result" where
  "probe_device nv i m =
     (if \<not> DeviceGetHandleByIndex nv i then Inl Fatal
      else case GetUUID nv i of
        (_, False) \<Rightarrow> Inl Fatal
      | (uuid, True) \<Rightarrow>
          (let m1 = m\<lparr>gpuUid := gpuUid m @ [uuid],
                      minorNumberByUUID := (minorNumberByUUID m)(uuid \<mapsto> nvml_GetMinorNumber nv i)\<rparr>
           in case GetMemoryInfo nv i of
                (_, False) \<Rightarrow> Inl Fatal
              | (mem, True) \<Rightarrow> Inr (m1\<lparr>memInfo := (memInfo m1)(uuid \<mapsto> mem)\<rparr>)))"

text \<open>The deferred call of \<open>Shutdown\<close> runs when the function returns.\<close>

definition NvmlTest :: "nvml \<Rightarrow> GpuInfo \<Rightarrow> GpuInfo go_result" where
  "NvmlTest nv m =
     (if \<not> nvml_Init nv then Inl Fatal
      else case DeviceGetCount nv of
        (_, False) \<Rightarrow> Inl Fatal
      | (n, True) \<Rightarrow>
          go_bind (go_fold (probe_device nv) [0..<n] (m\<lparr>dev_count := n\<rparr>)) (\<lambda>m'.
            if \<not> nvml_Shutdown nv then Inl Fatal else Inr m'))"

definition GetInfo :: "GpuInfo \<Rightarrow> nat \<times> string list" where
  "GetInfo m = (dev_count m, gpuUid m)"

text \<open>Reading a missing key of a map gives the zero value.\<close>

definition GetMinorNumber :: "GpuInfo \<Rightarrow> string \<Rightarrow> int" where
  "GetMinorNumber m uuid = (case minorNumberByUUID m uuid of None \<Rightarrow> 0 | Some n \<Rightarrow> n)"

definition mem_total :: "GpuInfo \<Rightarrow> string \<Rightarrow> u64" where
  "mem_total m uuid = (case memInfo m uuid of None \<Rightarrow> 0 | Some mem \<Rightarrow> Total mem)"

subsection \<open>Registration of the GPUs\<close>

definition GPUCRDAPIVersion :: string where "GPUCRDAPIVersion = ''doslab.io/v1''"

definition GPUCRDNamespace :: string where "GPUCRDNamespace = ''default''"

definition MemoryBlockSize :: u64 where "MemoryBlockSize = 268435456"

definition memory_blocks :: "u64 \<Rightarrow> int" where
  "memory_blocks bs = uint (bs div MemoryBlockSize)"

definition gpu_object :: "GpuInfo \<Rightarrow> string \<Rightarrow> nat \<Rightarrow> GPU" where
  "gpu_object m hostname i =
     \<lparr>Kind = ''GPU'', APIVersion = GPUCRDAPIVersion,
      crd_name = hostname @ ''-gpu-'' @ FormatInt (int i), crd_namespace = GPUCRDNamespace,
      Spec = \<lparr>UUID = gpuUid m ! i, Model = ''ff'', Family = ''tesla'',
        Capacity = \<lparr>Core = ''100'', Memory = FormatInt (memory_blocks (mem_total m (gpuUid m ! i)))\<rparr>,
        Used = \<lparr>Core = ''0'', Memory = ''0''\<rparr>,
        Node = hostname\<rparr>\<rparr>"

text \<open>An index outside the slice panics; creation is refused unless the server says it created.\<close>

definition create_object :: "('b, 'j, 'w) kube \<Rightarrow> 'b answer \<Rightarrow> 'w \<Rightarrow> 'w go_result" where
  "create_object k marshalled w =
     (case marshalled of
        (_, Some _) \<Rightarrow> Inl Fatal
      | (jb, None) \<Rightarrow>
          (case CreateResource k jb w of
             ((_, err), w') \<Rightarrow>
               if err \<noteq> None \<and> err \<noteq> Some ''request status 201 Created'' then Inl Fatal
               else Inr w'))"

definition CreateCRD :: "('b, 'j, 'w) kube \<Rightarrow> GpuInfo \<Rightarrow> string \<Rightarrow> 'w \<Rightarrow> 'w go_result" where
  "CreateCRD k m hostname =
     go_fold (\<lambda>i w. if length (gpuUid m) \<le> i then Inl Panic
                    else create_object k (marshal_gpu k (gpu_object m hostname i)) w)
       [0..<dev_count m]"

subsection \<open>The MLUs\<close>

record MluInfo =
  mlu_count :: nat
  mluUid :: "string list"
  mlu_memInfo :: "i64 list"

record MLUSpec =
  mlu_UUID :: string
  mlu_Capacity :: R
  mlu_Used :: R
  mlu_Node :: string

record MLU =
  mlu_Kind :: string
  mlu_APIVersion :: string
  mlu_name :: string
  mlu_namespace :: string
  mlu_Spec :: MLUSpec

definition NewMluInfo :: MluInfo where
  "NewMluInfo = \<lparr>mlu_count = 0, mluUid = [], mlu_memInfo = []\<rparr>"

text \<open>The body of \<open>GetInfo\<close> is commented out in the source.\<close>

definition mlu_GetInfo :: "MluInfo \<Rightarrow> MluInfo" where
  "mlu_GetInfo m = m"

definition mlu_object :: "MluInfo \<Rightarrow> string \<Rightarrow> nat \<Rightarrow> MLU" where
  "mlu_object m hostname i =
     \<lparr>mlu_Kind = ''MLU'', mlu_APIVersion = GPUCRDAPIVersion,
      mlu_name = hostname @ ''-gpu-'' @ FormatInt (int i), mlu_namespace = GPUCRDNamespace,
      mlu_Spec = \<lparr>mlu_UUID = mluUid m ! i,
        mlu_Capacity = \<lparr>Core = ''100'', Memory = FormatInt (sint (mlu_memInfo m ! i) sdiv 268435456)\<rparr>,
        mlu_Used = \<lparr>Core = ''0'', Memory = ''0''\<rparr>, mlu_Node = hostname\<rparr>\<rparr>"

definition mlu_CreateCRD ::
    "('b, 'j, 'w) kube \<Rightarrow> (MLU \<Rightarrow> 'b answer) \<Rightarrow> MluInfo \<Rightarrow> string \<Rightarrow> 'w \<Rightarrow> 'w go_result" where
  "mlu_CreateCRD k marshal_mlu m hostname =
     go_fold (\<lambda>i w. if length (mluUid m) \<le> i \<or> length (mlu_memInfo m) \<le> i then Inl Panic
                    else create_object k (marshal_mlu (mlu_object m hostname i)) w)
       [0..<mlu_count m]"

subsection \<open>What is found is registered\<close>

definition uuid_of :: "nvml \<Rightarrow> nat \<Rightarrow> string" where
  "uuid_of nv i = fst (GetUUID nv i)"

lemma probe_deviceE:
  assumes "probe_device nv i m = Inr m'"
  shows "m' = m\<lparr>gpuUid := gpuUid m @ [uuid_of nv i],
      minorNumberByUUID := (minorNumberByUUID m)(uuid_of nv i \<mapsto> nvml_GetMinorNumber nv i),
      memInfo := (memInfo m)(uuid_of nv i \<mapsto> fst (GetMemoryInfo nv i))\<rparr>"
  using assms by (auto simp: probe_device_def uuid_of_def Let_def split: if_splits prod.splits bool.splits)

lemma probe_all:
  assumes "go_fold (probe_device nv) [0..<n] m = Inr m'" "inj_on (uuid_of nv) {..<n}"
  shows "dev_count m' = dev_count m \<and> gpuUid m' = gpuUid m @ map (uuid_of nv) [0..<n]
    \<and> (\<forall>i<n. memInfo m' (uuid_of nv i) = Some (fst (GetMemoryInfo nv i))
          \<and> minorNumberByUUID m' (uuid_of nv i) = Some (nvml_GetMinorNumber nv i))"
  using assms
proof (induction n arbitrary: m')
  case (Suc n)
  then obtain u where u: "go_fold (probe_device nv) [0..<n] m = Inr u" "probe_device nv n u = Inr m'"
    by (auto simp: go_fold_append go_bind_eq_Inr)
  have inj: "inj_on (uuid_of nv) {..<n}" "\<forall>i<n. uuid_of nv i \<noteq> uuid_of nv n"
    using Suc.prems(2) by (auto simp: inj_on_def less_Suc_eq)
  show ?case
    using Suc.IH [OF u(1) inj(1)] inj(2) probe_deviceE [OF u(2)] by (auto simp: less_Suc_eq)
qed simp

lemma NvmlTest_found:
  assumes "NvmlTest nv NewGpuInfo = Inr m" "inj_on (uuid_of nv) {..<n}" "fst (DeviceGetCount nv) = n"
  shows "dev_count m = n \<and> gpuUid m = map (uuid_of nv) [0..<n]
    \<and> (\<forall>i<n. mem_total m (uuid_of nv i) = Total (fst (GetMemoryInfo nv i))
          \<and> GetMinorNumber m (uuid_of nv i) = nvml_GetMinorNumber nv i)"
proof -
  obtain m1 where "go_fold (probe_device nv) [0..<n] (NewGpuInfo\<lparr>dev_count := n\<rparr>) = Inr m1" "m = m1"
    using assms(1,3) by (auto simp: NvmlTest_def split: if_splits prod.splits bool.splits)
  from probe_all [OF this(1) assms(2)] this(2) show ?thesis
    by (simp add: NewGpuInfo_def mem_total_def GetMinorNumber_def)
qed

text \<open>The requests a server that accepts them all has got.\<close>

lemma CreateCRD_requests:
  assumes "CreateCRD k m hostname w = Inr w'"
  shows "w' = fold (\<lambda>i w. snd (CreateResource k (fst (marshal_gpu k (gpu_object m hostname i))) w))
    [0..<dev_count m] w"
proof -
  have "go_fold (\<lambda>i w. if length (gpuUid m) \<le> i then Inl Panic
      else create_object k (marshal_gpu k (gpu_object m hostname i)) w) xs w = Inr w'
    \<Longrightarrow> w' = fold (\<lambda>i w. snd (CreateResource k (fst (marshal_gpu k (gpu_object m hostname i))) w)) xs w" for xs
    by (induction xs arbitrary: w)
      (auto simp: create_object_def go_bind_eq_Inr split: if_splits prod.splits option.splits)
  with assms show ?thesis by (simp add: CreateCRD_def)
qed

lemma div_pos_bound: "0 < c \<Longrightarrow> (a :: int) < c * k \<Longrightarrow> a div c < k"
proof (rule ccontr)
  assume c: "0 < c" and a: "a < c * k" and "\<not> a div c < k"
  then have "c * k \<le> c * (a div c)" by simp
  also have "\<dots> \<le> a"
    using c mult_div_mod_eq [of c a] pos_mod_sign [of c a] by linarith
  finally show False using a by simp
qed

lemma memory_blocks_range: "0 \<le> memory_blocks b \<and> memory_blocks b < 2 ^ 36"
proof -
  have "0 \<le> uint b" "uint b < 2 ^ 64"
    using uint_bounded [of b] by simp_all
  moreover have "memory_blocks b = uint b div 2 ^ 28"
    by (simp add: memory_blocks_def MemoryBlockSize_def uint_div)
  ultimately show ?thesis
    by (auto simp: pos_imp_zdiv_nonneg_iff intro!: div_pos_bound)
qed

lemma parse_memory_blocks: "parse_i64 (FormatInt (memory_blocks b)) = word_of_int (memory_blocks b)"
proof -
  have "in_i64 (memory_blocks b)"
    using memory_blocks_range [of b] by (simp add: in_i64_def)
  then show ?thesis
    by (simp add: parse_i64_def ParseInt_FormatInt)
qed

end
