(* ===== verification/Gpu_Choice.thy ===== *)
theory Gpu_Choice
  imports Device_Info
begin

text \<open>
  What \<open>GetGpuResource\<close> does with the GPUs that \<open>CreateCRD\<close> registers: which one it chooses, what
  it books, and what follows from reading the capacity of cores where memory is meant.
\<close>

subsection \<open>The best fit\<close>

text \<open>
  C25: As long as every matching GPU has less than 99999 units left, the loop of \<open>GetGpuResource\<close>
  over positions with a sentinel is the search for the first GPU with the least left among those
  that match; with no match the request is refused and nothing is booked.
\<close>

theorem GetGpuResource_best_fit:
  assumes "GetResource k ''GPU'' ''default'' [] w = ((bytes, None), w1)"
    and "\<forall>g \<in> set (listed k bytes). gpu_matches c m g \<longrightarrow> gpu_left g < 99999"
  shows "GetGpuResource k c m w =
    (case least_left (filter (gpu_matches c m) (listed k bytes)) of
       None \<Rightarrow> Inr (([], Some ''no gpu match''), w1)
     | Some g \<Rightarrow> Inr (update_crd k c m g w1))"
  using assms by (rule GetGpuResource_listed)

lemmas demo_gpu_defs = demo_server_def demo_gpu_def demo_listed gpu_left_def gpu_matches_def
  parse_i64_def ParseInt_def ParseUint_def UINT64_MAX_def cutoff_def is_digit_def digit_val_def

theorem GetGpuResource_best_fit_witness:
  "GetGpuResource demo_kube 30 8 demo_server =
    Inr (update_crd demo_kube 30 8 (listed demo_kube (Gpus (gpus demo_server)) ! 1) demo_server)"
  by (subst GetGpuResource_best_fit [OF demo_list]) (simp_all add: demo_gpu_defs)

subsection \<open>Documents of registered GPUs\<close>

text \<open>What the JSON names of \<open>gpu_types.go\<close> say of the document of a GPU.\<close>

definition document_of :: "('b, 'j, 'w) kube \<Rightarrow> 'j \<Rightarrow> GPU \<Rightarrow> bool" where
  "document_of k v g \<longleftrightarrow>
     (let spec = JGet k v ''spec''; capacity = JGet k spec ''capacity''; used = JGet k spec ''used'' in
      JString k (JGet k spec ''uuid'') = UUID (Spec g) \<and>
      JInt k (JGet k capacity ''core'') = parse_i64 (Core (Capacity (Spec g))) \<and>
      JInt k (JGet k capacity ''memory'') = parse_i64 (Memory (Capacity (Spec g))) \<and>
      JInt k (JGet k used ''core'') = parse_i64 (Core (Used (Spec g))) \<and>
      JInt k (JGet k used ''memory'') = parse_i64 (Memory (Used (Spec g))) \<and>
      JString k (JGet k (JGet k v ''metadata'') ''name'') = crd_name g)"

definition resource_of :: "GPU \<Rightarrow> gpuresource" where
  "resource_of g =
     \<lparr>gpu_UUID = UUID (Spec g),
      memTotal = parse_i64 (Core (Capacity (Spec g))), coreTotal = parse_i64 (Memory (Capacity (Spec g))),
      memUsed = parse_i64 (Core (Used (Spec g))), coreUsed = parse_i64 (Memory (Used (Spec g))),
      crdName = crd_name g\<rparr>"

lemma document_resource: "document_of k v g \<Longrightarrow> gpu_of_item k v = resource_of g"
  by (simp add: document_of_def gpu_of_item_def resource_of_def Let_def)

definition items :: "('b, 'j, 'w) kube \<Rightarrow> 'b \<Rightarrow> 'j list" where
  "items k bytes = JEach k (JGet k (ToJsonObject k bytes) ''items'')"

lemma listed_documents:
  "list_all2 (document_of k) (items k bytes) gs \<Longrightarrow> listed k bytes = map resource_of gs"
  unfolding listed_def items_def [symmetric]
  by (induction rule: list_all2_induct) (simp_all add: document_resource)

lemma demo_documents: "list_all2 (document_of demo_kube) (items demo_kube (Gpus gs)) gs"
  by (induction gs) (simp_all add: items_def document_of_def demo_kube_def json_get_def json_of_gpu_def)

lemma parse_small [simp]:
  "parse_i64 ''0'' = 0" "parse_i64 ''100'' = 100"
  by (simp_all add: parse_i64_def ParseInt_def ParseUint_def UINT64_MAX_def cutoff_def is_digit_def
      digit_val_def)

lemma fresh_gpu_matches:
  "gpu_matches c mm (resource_of (gpu_object m hostname i)) \<longleftrightarrow>
     sint c \<le> memory_blocks (mem_total m (gpuUid m ! i)) \<and> sint mm \<le> 100"
proof -
  have "sint (word_of_int (memory_blocks b) :: i64) = memory_blocks b" for b
    using memory_blocks_range [of b] by (intro sint_i64_of_int) (simp add: in_i64_def)
  then show ?thesis
    by (simp add: gpu_matches_def resource_of_def gpu_object_def parse_memory_blocks)
qed

lemma no_match_iff:
  assumes "GetResource k ''GPU'' ''default'' [] w = ((bytes, None), w1)"
  shows "GetGpuResource k c m w = Inr (([], Some ''no gpu match''), w1) \<longleftrightarrow>
    (\<forall>g \<in> set (listed k bytes). \<not> gpu_matches c m g)"
proof -
  have "fst (update_crd k c m g w2) \<noteq> ([], Some ''no gpu match'')" for g w2
    by (simp add: update_crd_def split: prod.split option.split)
  then have "update_crd k c m g w2 \<noteq> (([], Some ''no gpu match''), w1)" for g w2
    by (metis fst_conv)
  then have neq: "Inr (update_crd k c m g w1) \<noteq> Inr (([], Some ''no gpu match''), w1)" for g
    by simp
  obtain g where "GetGpuResource k c m w = (if statifyArr c m (listed k bytes) = []
      then Inr (([], Some ''no gpu match''), w1) else Inr (update_crd k c m g w1))"
    unfolding GetGpuResource_def assms listed_def [symmetric] Let_def prod.case option.case by blast
  then show ?thesis
    unfolding filter_empty_conv [symmetric] statifyArr_empty [symmetric]
    using neq [of g] by (cases "statifyArr c m (listed k bytes) = []") simp_all
qed

text \<open>
  C26: On a node whose GPUs are registered by \<open>CreateCRD\<close> and not in use, \<open>GetGpuResource\<close> compares
  the request for cores with the memory of the GPU and the request for memory with its 100
  cores: it refuses every request for more percent of the cores than the GPU has blocks of
  256 MiB, and every request for more than 100 blocks, and grants every other one.
\<close>

theorem registered_gpus_crossed:
  assumes "GetResource k ''GPU'' ''default'' [] w = ((bytes, None), w1)"
    and "list_all2 (document_of k) (items k bytes) (map (gpu_object m hostname) [0..<dev_count m])"
  shows "GetGpuResource k c mm w = Inr (([], Some ''no gpu match''), w1) \<longleftrightarrow>
    100 < sint mm \<or> (\<forall>i < dev_count m. memory_blocks (mem_total m (gpuUid m ! i)) < sint c)"
proof -
  have "(\<forall>g \<in> set (listed k bytes). \<not> gpu_matches c mm g) \<longleftrightarrow>
    (\<forall>i < dev_count m. \<not> gpu_matches c mm (resource_of (gpu_object m hostname i)))"
    unfolding listed_documents [OF assms(2)] by auto
  then show ?thesis
    unfolding no_match_iff [OF assms(1)] fresh_gpu_matches by (auto simp: not_le)
qed

text \<open>A T4 has 60 blocks of 256 MiB, so that 80 percent of its cores cannot be had.\<close>

definition t4_info :: GpuInfo where
  "t4_info = \<lparr>dev_count = 1, gpuUid = [''uuid-t4''],
     memInfo = [''uuid-t4'' \<mapsto> \<lparr>Total = 16106127360, Free = 16106127360, nvml_Used = 0\<rparr>],
     minorNumberByUUID = [''uuid-t4'' \<mapsto> 0]\<rparr>"

definition t4_node :: server where
  "t4_node = \<lparr>gpus = [gpu_object t4_info ''n1'' 0], pods = []\<rparr>"

lemma t4_blocks: "memory_blocks (mem_total t4_info ''uuid-t4'') = 60"
  by (simp add: memory_blocks_def mem_total_def t4_info_def MemoryBlockSize_def uint_div)

theorem registered_gpus_crossed_witness:
  "GetGpuResource demo_kube 80 8 t4_node = Inr (([], Some ''no gpu match''), t4_node)
   \<and> GetGpuResource demo_kube 50 8 t4_node \<noteq> Inr (([], Some ''no gpu match''), t4_node)"
proof -
  have docs: "list_all2 (document_of demo_kube) (items demo_kube (Gpus (gpus t4_node)))
      (map (gpu_object t4_info ''n1'') [0..<dev_count t4_info])"
    using demo_documents [of "gpus t4_node"] by (simp add: t4_node_def t4_info_def)
  show ?thesis
    unfolding registered_gpus_crossed [OF demo_list docs] using t4_blocks
    by (simp add: t4_info_def)
qed

subsection \<open>The books\<close>

text \<open>
  A server that keeps GPUs by name: a request for one by name or for all changes none, and an
  accepted update stores what it was given.
\<close>

definition serves_gpus :: "('b, 'j, 'w) kube \<Rightarrow> ('w \<Rightarrow> string \<Rightarrow> GPU option) \<Rightarrow> bool" where
  "serves_gpus k stored \<longleftrightarrow>
     (\<forall>name w. stored (snd (GetResource k ''GPU'' ''default'' name w)) = stored w) \<and>
     (\<forall>name w g. name \<noteq> [] \<and> stored w name = Some g \<longrightarrow>
        fst (unmarshal_gpu k (fst (fst (GetResource k ''GPU'' ''default'' name w)))) = g) \<and>
     (\<forall>g w. snd (fst (UpdateResource k (fst (marshal_gpu k g)) w)) = None \<longrightarrow>
        stored (snd (UpdateResource k (fst (marshal_gpu k g)) w)) = (stored w)(crd_name g \<mapsto> g))"

lemma book_keeps [simp]: "crd_name (book c m g) = crd_name g" "UUID (Spec (book c m g)) = UUID (Spec g)"
  by (simp_all add: book_def Let_def)

text \<open>A registered GPU with anything booked on it.\<close>

definition booked :: "GPU \<Rightarrow> GPU \<Rightarrow> bool" where
  "booked g h \<longleftrightarrow> (\<exists>u. h = g\<lparr>Spec := (Spec g)\<lparr>Used := u\<rparr>\<rparr>)"

lemma booked_same: "booked g h \<Longrightarrow> UUID (Spec h) = UUID (Spec g) \<and> crd_name h = crd_name g"
  by (auto simp: booked_def)

lemma booked_refl: "booked g g"
  unfolding booked_def by (rule exI [of _ "Used (Spec g)"]) simp

lemma booked_book: "booked g h \<Longrightarrow> booked g (book c m h)"
  by (auto simp: booked_def book_def Let_def)

lemma book_used:
  "parse_i64 (Core (Used (Spec (book c m g)))) = parse_i64 (Core (Used (Spec g))) + c"
  "parse_i64 (Memory (Used (Spec (book c m g)))) = parse_i64 (Memory (Used (Spec g))) + m"
  by (simp_all add: book_def Let_def)

lemma update_crd_books:
  assumes "serves_gpus k stored" "stored w (crd_name g) = Some g" "crd_name g \<noteq> []"
    and "update_crd k c m (resource_of g) w = ((uuid, None), w')"
  shows "uuid = UUID (Spec g) \<and> stored w' = (stored w)(crd_name g \<mapsto> book c m g)"
proof -
  obtain b e w1 where get: "GetResource k ''GPU'' ''default'' (crd_name g) w = ((b, e), w1)"
    by (metis surj_pair)
  then have b: "fst (unmarshal_gpu k b) = g" "stored w1 = stored w"
    using assms(1-3) by (auto simp: serves_gpus_def) (metis fst_conv snd_conv)+
  have "snd (fst (UpdateResource k (fst (marshal_gpu k (book c m g))) w1)) = None"
    "w' = snd (UpdateResource k (fst (marshal_gpu k (book c m g))) w1)" "uuid = UUID (Spec g)"
    using assms(4) get b(1)
    by (auto simp: update_crd_def resource_of_def Let_def split: prod.splits option.splits)
  then show ?thesis
    using assms(1) b(2) by (simp add: serves_gpus_def)
qed

lemma GetGpuResource_booked:
  assumes "serves_gpus k stored"
    and "GetResource k ''GPU'' ''default'' [] w = ((bytes, None), w1)"
    and "list_all2 (document_of k) (items k bytes) gs"
    and "\<forall>g \<in> set gs. stored w (crd_name g) = Some g \<and> crd_name g \<noteq> []"
    and "GetGpuResource k c m w = Inr ((uuid, None), w')"
  shows "\<exists>g \<in> set gs. uuid = UUID (Spec g)
    \<and> stored w' = (stored w)(crd_name g \<mapsto> book c m g)
    \<and> parse_i64 (Core (Used (Spec (book c m g)))) = parse_i64 (Core (Used (Spec g))) + c
    \<and> parse_i64 (Memory (Used (Spec (book c m g)))) = parse_i64 (Memory (Used (Spec g))) + m"
proof -
  let ?i = "candidata_loop (listed k bytes) (statifyArr c m (listed k bytes)) 99999 0"
  have nonempty: "statifyArr c m (listed k bytes) \<noteq> []"
    and run: "update_crd k c m (listed k bytes ! ?i) w1 = ((uuid, None), w')"
    using assms(5) by (auto simp: GetGpuResource_def assms(2) Let_def simp flip: listed_def split: if_splits)
  have "listed k bytes \<noteq> []"
    using nonempty by (auto simp: statifyArr_def)
  then have "?i < length (listed k bytes)"
    using candidata_loop_in [of "listed k bytes" "statifyArr c m (listed k bytes)" 99999 0]
    by (auto simp: statifyArr_def)
  then have g: "gs ! ?i \<in> set gs" "listed k bytes ! ?i = resource_of (gs ! ?i)"
    using listed_documents [OF assms(3)] by simp_all
  have w1: "stored w1 = stored w"
    using assms(1,2) unfolding serves_gpus_def by (metis snd_conv)
  show ?thesis
    using update_crd_books [OF assms(1), of w1 "gs ! ?i" c m uuid w'] run g assms(4) w1 book_used
    by auto
qed

text \<open>
  A grant is booked once: the answer is the UUID of a stored GPU, whose used cores and memory
  have grown by exactly the request, and every other GPU is as before.
\<close>

theorem GetGpuResource_books:
  assumes "serves_gpus k stored"
    and "GetResource k ''GPU'' ''default'' [] w = ((bytes, None), w1)"
    and "list_all2 (document_of k) (items k bytes) gs"
    and "\<forall>g \<in> set gs. stored w (crd_name g) = Some g \<and> crd_name g \<noteq> []"
    and "GetGpuResource k c m w = Inr ((uuid, None), w')"
  shows "\<exists>g \<in> set gs. uuid = UUID (Spec g)
    \<and> stored w' = (stored w)(crd_name g \<mapsto> book c m g)
    \<and> parse_i64 (Core (Used (Spec (book c m g)))) = parse_i64 (Core (Used (Spec g))) + c
    \<and> parse_i64 (Memory (Used (Spec (book c m g)))) = parse_i64 (Memory (Used (Spec g))) + m"
  using assms by (rule GetGpuResource_booked)

text \<open>The server in memory is one that keeps GPUs.\<close>

definition demo_stored :: "server \<Rightarrow> string \<Rightarrow> GPU option" where
  "demo_stored w name = find (\<lambda>g. crd_name g = name) (gpus w)"

lemma find_replaced:
  "find (\<lambda>g. crd_name g = crd_name h) gs \<noteq> None \<Longrightarrow>
   find (\<lambda>g. crd_name g = crd_name h) (map (\<lambda>g. if crd_name g = crd_name h then h else g) gs) = Some h"
  by (induction gs) auto

lemma find_other:
  "name \<noteq> crd_name h \<Longrightarrow>
   find (\<lambda>g. crd_name g = name) (map (\<lambda>g. if crd_name g = crd_name h then h else g) gs)
     = find (\<lambda>g. crd_name g = name) gs"
  by (induction gs) auto

lemma demo_serves: "serves_gpus demo_kube demo_stored"
proof -
  have "demo_stored (snd (UpdateResource demo_kube (Gpu g) w)) = (demo_stored w)(crd_name g \<mapsto> g)"
    if "snd (fst (UpdateResource demo_kube (Gpu g) w)) = None" for g w
    using that find_replaced [of g "gpus w"] find_other [of _ g "gpus w"]
    by (auto simp: demo_kube_def demo_stored_def fun_eq_iff split: if_splits)
  then show ?thesis
    by (simp add: serves_gpus_def) (auto simp: demo_kube_def server_get_def demo_stored_def)
qed

lemma demo_grant_one:
  assumes "gpus w = [g]" "gpu_matches c m (resource_of g)" "crd_name g \<noteq> []"
  shows "GetGpuResource demo_kube c m w = Inr ((UUID (Spec g), None), w\<lparr>gpus := [book c m g]\<rparr>)"
proof -
  have docs: "list_all2 (document_of demo_kube) (items demo_kube (Gpus (gpus w))) (gpus w)"
    by (rule demo_documents)
  have "candidata_loop [r] [0] n 0 = 0" for r n
    using candidata_loop_in [of "[r]" "[0]" n 0] by simp
  then have "GetGpuResource demo_kube c m w = Inr (update_crd demo_kube c m (resource_of g) w)"
    using listed_documents [OF docs] demo_list [of w] assms(1,2)
    by (simp add: GetGpuResource_def Let_def statifyArr_def flip: listed_def del: candidata_loop.simps)
  moreover have "update_crd demo_kube c m (resource_of g) w = ((UUID (Spec g), None), w\<lparr>gpus := [book c m g]\<rparr>)"
    using assms(1,3) by (simp add: update_crd_def resource_of_def demo_kube_def server_get_def Let_def)
  ultimately show ?thesis by simp
qed

lemma t4_name: "crd_name (gpu_object t4_info ''n1'' 0) = ''n1-gpu-0''"
  by (simp add: gpu_object_def FormatInt_def decimal.simps [of 0])

lemma demo_grant:
  assumes "gpus w = [gpu_object t4_info ''n1'' 0]"
  shows "GetGpuResource demo_kube 50 8 w
    = Inr ((''uuid-t4'', None), w\<lparr>gpus := [book 50 8 (gpu_object t4_info ''n1'' 0)]\<rparr>)"
proof -
  have "gpu_matches 50 8 (resource_of (gpu_object t4_info ''n1'' 0))"
    unfolding fresh_gpu_matches using t4_blocks by (simp add: t4_info_def)
  moreover have "UUID (Spec (gpu_object t4_info ''n1'' 0)) = ''uuid-t4''"
    by (simp add: gpu_object_def t4_info_def)
  ultimately show ?thesis
    using demo_grant_one [OF assms] t4_name by simp
qed

theorem GetGpuResource_books_witness:
  "\<exists>w'. GetGpuResource demo_kube 50 8 t4_node = Inr ((''uuid-t4'', None), w')
    \<and> (\<exists>g. demo_stored w' ''n1-gpu-0'' = Some g
         \<and> parse_i64 (Core (Used (Spec g))) = 50 \<and> parse_i64 (Memory (Used (Spec g))) = 8)"
proof -
  let ?g = "gpu_object t4_info ''n1'' 0"
  have docs: "list_all2 (document_of demo_kube) (items demo_kube (Gpus (gpus t4_node))) (gpus t4_node)"
    by (rule demo_documents)
  have name: "crd_name ?g = ''n1-gpu-0''"
    by (simp add: gpu_object_def FormatInt_def decimal.simps [of 0])
  have one: "gpus t4_node = [?g]"
    by (simp add: t4_node_def)
  obtain w' where run: "GetGpuResource demo_kube 50 8 t4_node = Inr ((''uuid-t4'', None), w')"
    using demo_grant [OF one] by blast
  have "demo_stored t4_node (crd_name ?g) = Some ?g"
    by (simp add: demo_stored_def one)
  then have "demo_stored w' = (demo_stored t4_node)(''n1-gpu-0'' \<mapsto> book 50 8 ?g)
      \<and> parse_i64 (Core (Used (Spec (book 50 8 ?g)))) = parse_i64 (Core (Used (Spec ?g))) + 50
      \<and> parse_i64 (Memory (Used (Spec (book 50 8 ?g)))) = parse_i64 (Memory (Used (Spec ?g))) + 8"
    using GetGpuResource_books [OF demo_serves demo_list docs _ run] name by (auto simp: one)
  then show ?thesis
    using run by (auto simp: gpu_object_def)
qed

end
