(* ===== verification/Resource_Manager.thy ===== *)
theory Resource_Manager
  imports Container_Config Device_Info
begin

text \<open>
  The manager of the containers' configuration files
  (\<open>k8sPlugins/resourceManager/manager.go\<close> and \<open>util.go\<close>): its tables, the handler of a changed
  pod, which writes a file for each container, the handler of a deleted pod, and the functions
  they call. A handler runs to its end here; the loop that starts them is in \<open>Pod_Events\<close>.
\<close>

subsection \<open>Names\<close>

definition VirtualManagerPath :: string where "VirtualManagerPath = ''/etc/unishare/vm''"

definition ConfigFileName :: string where "ConfigFileName = ''vcuda.config''"

definition BACKSLASH :: char where "BACKSLASH = CHR 0x5C"

text \<open>The path with an escaped dot, and the resource names as they are used as paths.\<close>

definition gpu_core_path :: string where "gpu_core_path = ''iscas'' @ BACKSLASH # ''.cn/gpu-core''"

definition gpu_assigned_path :: string where
  "gpu_assigned_path = ''doslab'' @ BACKSLASH # ''.io/gpu-assigned''"

definition ResourceMemory :: string where "ResourceMemory = ''iscas.cn/gpu-memory''"

definition ResourceCore :: string where "ResourceCore = ''iscas.cn/gpu-core''"

definition MluResourceMemory :: string where "MluResourceMemory = ''iscas.cn/mlu-memory''"

definition MluResourceCore :: string where "MluResourceCore = ''iscas.cn/mlu-core''"

definition AnnVCUDAReady :: string where "AnnVCUDAReady = ''doslab.io/vcuda''"

subsection \<open>State\<close>

record 'j vm_tables =
  PodByUID :: "string \<Rightarrow> 'j option"
  ContainerNameByUid :: "string \<Rightarrow> string option"
  ContainerUIDByName :: "string \<Rightarrow> string option"
  ContainerUIDInPodUID :: "string \<Rightarrow> string list option"
  PodVisitedByUID :: "string \<Rightarrow> bool option"
  PodDoByUID :: "string \<Rightarrow> bool option"
  CoreRequestByPodUID :: "string \<Rightarrow> i64 option"
  MemoryRequestByPodUID :: "string \<Rightarrow> i64 option"

text \<open>
  A node: the tables, its files and directories, and the world of the API server. A path that was removed
  and is created again names another file; \<open>incarnation\<close> counts the removals of a path, so that a file
  that is still open is told from a later one at its path.
\<close>

record ('j, 'w) node = "'j vm_tables" +
  dirs :: "string set"
  files :: "string \<Rightarrow> char list option"
  incarnation :: "string \<Rightarrow> nat"
  world :: 'w

definition NewVirtualManager :: "'w \<Rightarrow> ('j, 'w) node" where
  "NewVirtualManager w =
     \<lparr>PodByUID = Map.empty, ContainerNameByUid = Map.empty, ContainerUIDByName = Map.empty,
      ContainerUIDInPodUID = Map.empty, PodVisitedByUID = Map.empty, PodDoByUID = Map.empty,
      CoreRequestByPodUID = Map.empty, MemoryRequestByPodUID = Map.empty,
      dirs = {}, files = Map.empty, incarnation = (\<lambda>_. 0), world = w\<rparr>"

text \<open>A missing key reads as the zero value of its type.\<close>

definition map_bool :: "('k \<Rightarrow> bool option) \<Rightarrow> 'k \<Rightarrow> bool" where
  "map_bool m k = (case m k of None \<Rightarrow> False | Some b \<Rightarrow> b)"

definition map_string :: "('k \<Rightarrow> string option) \<Rightarrow> 'k \<Rightarrow> string" where
  "map_string m k = (case m k of None \<Rightarrow> [] | Some s \<Rightarrow> s)"

definition map_list :: "('k \<Rightarrow> 'a list option) \<Rightarrow> 'k \<Rightarrow> 'a list" where
  "map_list m k = (case m k of None \<Rightarrow> [] | Some xs \<Rightarrow> xs)"

definition map_i64 :: "('k \<Rightarrow> i64 option) \<Rightarrow> 'k \<Rightarrow> i64" where
  "map_i64 m k = (case m k of None \<Rightarrow> 0 | Some n \<Rightarrow> n)"

subsection \<open>The system\<close>

text \<open>
  How the system answers: \<open>MkdirAll\<close> for a path, the output of \<open>mount | grep cgroup\<close> if the
  command succeeds, and for each file whether it can be opened, what \<open>write\<close> returns and whether
  it can be removed. The four bytes of padding in a C structure are arbitrary.
\<close>

datatype mkdir_answer = Made | Is_Exist | Is_Not_Exist | Other_Error

record os =
  os_mkdir :: "string \<Rightarrow> mkdir_answer"
  os_mounts :: "string option"
  os_opens :: "string \<Rightarrow> bool"
  os_written :: "string \<Rightarrow> int"
  os_removes :: "string \<Rightarrow> bool"
  os_padding :: "char list"

definition parents :: "string \<Rightarrow> string set" where
  "parents path =
     (\<lambda>n. CHR ''/'' # join_slash (take n (split_slash (tl path)))) ` {1..length (split_slash (tl path))}"

definition MkdirAll :: "os \<Rightarrow> string \<Rightarrow> ('j, 'w) node \<Rightarrow> mkdir_answer \<times> ('j, 'w) node" where
  "MkdirAll os path s =
     (case os_mkdir os path of
        Made \<Rightarrow> (Made, s\<lparr>dirs := dirs s \<union> parents path\<rparr>)
      | answer \<Rightarrow> (answer, s))"

definition below :: "string \<Rightarrow> string \<Rightarrow> bool" where
  "below dir path \<longleftrightarrow> path = dir \<or> starts_with path (dir @ ''/'')"

definition RemoveAll :: "os \<Rightarrow> string \<Rightarrow> ('j, 'w) node \<Rightarrow> ('j, 'w) node" where
  "RemoveAll os path s =
     s\<lparr>files := (\<lambda>p. if below path p \<and> os_removes os p then None else files s p),
       incarnation := (\<lambda>p. if below path p \<and> os_removes os p then Suc (incarnation s p) else incarnation s p),
       dirs := {d \<in> dirs s. \<not> (below path d \<and> os_removes os d)}\<rparr>"

text \<open>\<open>log.Fatal\<close> ends the plugin if the command fails, also if \<open>grep\<close> finds nothing.\<close>

definition isCgroupVersionV2 :: "os \<Rightarrow> bool go_result" where
  "isCgroupVersionV2 os =
     (case os_mounts os of
        None \<Rightarrow> Inl Fatal
      | Some out \<Rightarrow>
          Inr (\<not> (\<exists>line \<in> set (Split out [NEWLINE]). Contains line ''/sys/fs/cgroup/memory'')))"

subsection \<open>Writing a configuration file\<close>

text \<open>\<open>strcpy\<close> into an array of a structure that was all zeros.\<close>

definition strcpy_field :: "nat \<Rightarrow> string \<Rightarrow> char list go_result" where
  "strcpy_field n str =
     (if length (cstr str) < n then Inr (cstr str @ replicate (n - length (cstr str)) NUL)
      else Inl (Cgo Out_Of_Bounds))"

definition vConfig_of :: "string \<Rightarrow> string \<Rightarrow> i64 \<Rightarrow> i64 \<Rightarrow> resource_data_t go_result" where
  "vConfig_of podUID containerName requestMemory requestCore =
     go_bind (strcpy_field 48 podUID) (\<lambda>uid.
     go_bind (strcpy_field FILENAME_MAX containerName) (\<lambda>name.
       Inr \<lparr>pod_uid = uid, container_name = name,
         memory = requestMemory * MemoryBlockSize, utilization = int_of_u32 (ucast requestCore)\<rparr>))"

definition createVCUDAFile ::
    "os \<Rightarrow> string \<Rightarrow> string \<Rightarrow> string \<Rightarrow> ('j, 'w) node \<Rightarrow> (bool \<times> ('j, 'w) node) go_result" where
  "createVCUDAFile os configFileName podUID containerName s =
     (let requestMemory = map_i64 (MemoryRequestByPodUID s) podUID;
          requestCore = map_i64 (CoreRequestByPodUID s) podUID
      in go_bind (vConfig_of podUID containerName requestMemory requestCore) (\<lambda>vConfig.
           case setting_to_disk (os_opens os (cstr configFileName)) (os_written os (cstr configFileName))
                  (os_padding os) (files s (cstr configFileName)) vConfig of
             (ret, contents) \<Rightarrow>
               Inr (ret = 0, s\<lparr>files := (files s)(cstr configFileName := contents)\<rparr>)))"

subsection \<open>What a pod's document says\<close>

record pod_ident =
  id_assigned :: string
  id_name :: string
  id_namespace :: string
  id_uid :: string

text \<open>
  The checks at the beginning of \<open>creatVcudaServer\<close>: annotations, a container with requests, a
  name, a namespace and a UID; \<open>None\<close> is an early return.
\<close>

definition has_requests :: "('b, 'j, 'w) kube \<Rightarrow> 'j \<Rightarrow> bool" where
  "has_requests k pod =
     (\<exists>c \<in> set (JEach k (JGet k (JGet k pod ''spec'') ''containers'')).
        JExists k (JGet k c ''resources'') \<and>
        JExists k (JGet k (JGet k c ''resources'') ''requests''))"

definition identify :: "('b, 'j, 'w) kube \<Rightarrow> 'j \<Rightarrow> pod_ident option" where
  "identify k pod =
     (let meta = JGet k pod ''metadata'' in
      if \<not> JExists k (JGet k meta ''annotations'') then None
      else if \<not> has_requests k pod then None
      else
        (let i = \<lparr>id_assigned = JString k (JGet k (JGet k meta ''annotations'') gpu_assigned_path),
                  id_name = JString k (JGet k meta ''name''),
                  id_namespace = JString k (JGet k meta ''namespace''),
                  id_uid = JString k (JGet k meta ''uid'')\<rparr>
         in if id_name i = [] \<or> id_namespace i = [] \<or> id_uid i = [] then None else Some i))"

text \<open>The sum over the containers of the limits: of an NVIDIA GPU, or else of an MLU.\<close>

definition container_request :: "('b, 'j, 'w) kube \<Rightarrow> 'j \<Rightarrow> i64 \<times> i64" where
  "container_request k c =
     (let resources = JGet k c ''resources''; limits = JGet k resources ''limits'' in
      if \<not> JExists k resources \<or> \<not> JExists k limits then (0, 0)
      else if JExists k (JGet k limits gpu_core_path) then
        (parse_i64 (JString k (JGet k limits gpu_core_path)),
         parse_i64 (JString k (JGet k limits ResourceMemory)))
      else if JExists k (JGet k limits MluResourceCore) \<and> JExists k (JGet k limits MluResourceMemory) then
        (parse_i64 (JString k (JGet k limits MluResourceCore)),
         parse_i64 (JString k (JGet k limits MluResourceMemory)))
      else (0, 0))"

fun sum_requests :: "('b, 'j, 'w) kube \<Rightarrow> 'j list \<Rightarrow> i64 \<times> i64 \<Rightarrow> i64 \<times> i64" where
  "sum_requests k [] acc = acc"
| "sum_requests k (c # cs) acc =
     sum_requests k cs (fst acc + fst (container_request k c), snd acc + snd (container_request k c))"

definition pod_request :: "('b, 'j, 'w) kube \<Rightarrow> 'j \<Rightarrow> i64 \<times> i64" where
  "pod_request k pod =
     sum_requests k (JEach k (JGet k (JGet k pod ''spec'') ''containers'')) (0, 0)"

subsection \<open>The containers of an assigned pod\<close>

text \<open>
  Up to 100 rounds wait for the statuses of the containers; a status fetched in the last round is
  not looked at. The outer option is a return because a request failed.
\<close>

fun await_statuses ::
    "('b, 'j, 'w) kube \<Rightarrow> string \<Rightarrow> string \<Rightarrow> nat \<Rightarrow> 'j \<Rightarrow> 'w \<Rightarrow> 'j option \<times> 'w" where
  "await_statuses k namespace podName 0 status w = (None, w)"
| "await_statuses k namespace podName (Suc n) status w =
     (if JExists k (JGet k status ''containerStatuses'') then (Some status, w)
      else case GetResource k ''Pod'' namespace podName w of
        ((_, Some _), w') \<Rightarrow> (None, w')
      | ((podByte, None), w') \<Rightarrow>
          await_statuses k namespace podName n (JGet k (ToJsonObject k podByte) ''status'') w')"

text \<open>
  One container status: without an id or a name it is skipped; \<open>strings.Split(id, "docker://")[1]\<close>
  panics on an id of another runtime. The flag tells whether a container was registered.
\<close>

definition register_container ::
    "('b, 'j, 'w) kube \<Rightarrow> string \<Rightarrow> 'j \<Rightarrow> bool \<times> ('j, 'w) node \<Rightarrow> (bool \<times> ('j, 'w) node) go_result" where
  "register_container k podUID value = (\<lambda>(flag, s).
     let uidStr = JString k (JGet k value ''containerID''); name = JString k (JGet k value ''name'') in
     if uidStr = [] \<or> name = [] then Inr (flag, s)
     else case Split uidStr ''docker://'' of
       _ # uid # _ \<Rightarrow>
         Inr (True, s\<lparr>ContainerNameByUid := (ContainerNameByUid s)(uid \<mapsto> name),
                      ContainerUIDByName := (ContainerUIDByName s)(name \<mapsto> uid),
                      ContainerUIDInPodUID := (ContainerUIDInPodUID s)
                        (podUID \<mapsto> map_list (ContainerUIDInPodUID s) podUID @ [uid])\<rparr>)
     | _ \<Rightarrow> Inl Panic)"

definition config_dir :: "bool \<Rightarrow> string \<Rightarrow> string \<Rightarrow> string \<Rightarrow> string" where
  "config_dir v2 podUID name uid =
     (if v2 then Join [VirtualManagerPath, podUID, name] else Join [VirtualManagerPath, podUID, uid])"

text \<open>The errors of \<open>MkdirAll\<close> and of \<open>createVCUDAFile\<close> are only logged.\<close>

definition write_config ::
    "os \<Rightarrow> string \<Rightarrow> string \<Rightarrow> ('j, 'w) node \<Rightarrow> ('j, 'w) node go_result" where
  "write_config os podUID uid s =
     go_bind (isCgroupVersionV2 os) (\<lambda>v2.
       let name = map_string (ContainerNameByUid s) uid;
           baseDir = config_dir v2 podUID name uid;
           s1 = snd (MkdirAll os baseDir s)
       in go_bind (createVCUDAFile os (Join [baseDir, ConfigFileName]) podUID name s1)
            (\<lambda>(_, s2). Inr s2))"

text \<open>The part for a pod whose containers were created; \<open>None\<close> is an early return.\<close>

definition serve_assigned ::
    "('b, 'j, 'w) kube \<Rightarrow> os \<Rightarrow> pod_ident \<Rightarrow> 'j \<Rightarrow> ('j, 'w) node
     \<Rightarrow> (('j, 'w) node \<times> bool) go_result" where
  "serve_assigned k os i pod s =
     (case await_statuses k (id_namespace i) (id_name i) 100 (JGet k pod ''status'') (world s) of
        (None, w) \<Rightarrow> Inr (s\<lparr>world := w\<rparr>, False)
      | (Some status, w) \<Rightarrow>
          go_bind (go_fold (register_container k (id_uid i)) (JEach k (JGet k status ''containerStatuses''))
             (False, s\<lparr>world := w\<rparr>)) (\<lambda>(contStatusFlag, s1).
          if \<not> contStatusFlag then Inr (s1, False)
          else go_bind (go_fold (write_config os (id_uid i))
              (map_list (ContainerUIDInPodUID s1) (id_uid i)) s1) (\<lambda>s2.
            Inr (s2\<lparr>PodDoByUID := (PodDoByUID s2)(id_uid i \<mapsto> True)\<rparr>, True))))"

subsection \<open>The first sight of a pod\<close>

text \<open>
  The pod is fetched, annotated as ready and written back; an assignment to a nil map panics. The
  errors of decoding and encoding are dropped.
\<close>

definition annotate_ready ::
    "('b, 'j, 'w) kube \<Rightarrow> pod_ident \<Rightarrow> 'w \<Rightarrow> 'w go_result" where
  "annotate_ready k i w =
     (case GetResource k ''Pod'' (id_namespace i) (id_name i) w of
        ((_, Some _), w1) \<Rightarrow> Inr w1
      | ((copyPodBytes, None), w1) \<Rightarrow>
          (let v1Pod = fst (unmarshal_pod k copyPodBytes) in
           case Annotations v1Pod of
             None \<Rightarrow> Inl Panic
           | Some ann \<Rightarrow>
               (let copyPod = v1Pod\<lparr>Annotations := Some (ann(AnnVCUDAReady \<mapsto> ''yes''))\<rparr>
                in Inr (snd (UpdateResource k (fst (marshal_pod k copyPod)) w1)))))"

definition first_visit ::
    "('b, 'j, 'w) kube \<Rightarrow> os \<Rightarrow> pod_ident \<Rightarrow> 'j \<Rightarrow> ('j, 'w) node \<Rightarrow> ('j, 'w) node go_result" where
  "first_visit k os i pod s =
     (let u = id_uid i;
          s1 = s\<lparr>PodVisitedByUID := (PodVisitedByUID s)(u \<mapsto> True), PodByUID := (PodByUID s)(u \<mapsto> pod)\<rparr>;
          (answer, s2) = MkdirAll os (Join [VirtualManagerPath, u]) s1
      in if answer = Is_Not_Exist \<or> answer = Other_Error then Inr s2
      else
        (let (requestCore, requestMemory) = pod_request k pod;
             s3 = s2\<lparr>CoreRequestByPodUID := (CoreRequestByPodUID s2)(u \<mapsto> requestCore),
                    MemoryRequestByPodUID := (MemoryRequestByPodUID s2)(u \<mapsto> requestMemory)\<rparr>
         in go_bind (annotate_ready k i (world s3)) (\<lambda>w. Inr (s3\<lparr>world := w\<rparr>))))"

definition creatVcudaServer ::
    "('b, 'j, 'w) kube \<Rightarrow> os \<Rightarrow> 'j \<Rightarrow> ('j, 'w) node \<Rightarrow> ('j, 'w) node go_result" where
  "creatVcudaServer k os pod s =
     (case identify k pod of
        None \<Rightarrow> Inr s
      | Some i \<Rightarrow>
          go_bind (if id_assigned i = ''true'' \<and> \<not> map_bool (PodDoByUID s) (id_uid i)
                   then serve_assigned k os i pod s else Inr (s, True)) (\<lambda>(s1, goes_on).
          if \<not> goes_on then Inr s1
          else if map_bool (PodVisitedByUID s1) (id_uid i) then Inr s1
          else first_visit k os i pod s1))"

subsection \<open>The end of a pod\<close>

fun forget_containers :: "string list \<Rightarrow> ('j, 'w) node \<Rightarrow> ('j, 'w) node" where
  "forget_containers [] s = s"
| "forget_containers (uid # uids) s =
     (let name = map_string (ContainerNameByUid s) uid in
      forget_containers uids
        (s\<lparr>ContainerNameByUid := (ContainerNameByUid s)(uid := None),
           ContainerUIDByName := (ContainerUIDByName s)(name := None)\<rparr>))"

definition deletePodPath ::
    "('b, 'j, 'w) kube \<Rightarrow> os \<Rightarrow> 'j \<Rightarrow> ('j, 'w) node \<Rightarrow> ('j, 'w) node" where
  "deletePodPath k os pod s =
     (let meta = JGet k pod ''metadata''; annotations = JGet k meta ''annotations'';
          podUID = JString k (JGet k meta ''uid'')
      in if \<not> JExists k annotations then s
      else if \<not> JExists k (JGet k annotations gpu_assigned_path) then s
      else if \<not> map_bool (PodVisitedByUID s) podUID then s
      else
        (let s1 = s\<lparr>PodVisitedByUID := (PodVisitedByUID s)(podUID \<mapsto> False),
                    CoreRequestByPodUID := (CoreRequestByPodUID s)(podUID := None),
                    MemoryRequestByPodUID := (MemoryRequestByPodUID s)(podUID := None),
                    PodByUID := (PodByUID s)(podUID := None),
                    PodDoByUID := (PodDoByUID s)(podUID := None)\<rparr>;
             s2 = forget_containers (map_list (ContainerUIDInPodUID s1) podUID) s1;
             s3 = s2\<lparr>ContainerUIDInPodUID := (ContainerUIDInPodUID s2)(podUID := None)\<rparr>
         in RemoveAll os (Clean (Join [VirtualManagerPath, podUID])) s3))"

subsection \<open>Functions of \<open>util.go\<close> the handlers do not use\<close>

definition getArchFamily :: "int \<Rightarrow> int \<Rightarrow> string" where
  "getArchFamily computeMajor computeMinor =
     (if computeMajor = 1 then ''Tesla''
      else if computeMajor = 2 then ''Fermi''
      else if computeMajor = 3 then ''Kepler''
      else if computeMajor = 5 then ''Maxwell''
      else if computeMajor = 6 then ''Pascal''
      else if computeMajor = 7 then (if computeMinor < 5 then ''volta'' else ''Turing'')
      else if computeMajor = 8 then ''Ampere''
      else ''Unknown'')"

definition getCgroupPath :: "('b, 'j, 'w) kube \<Rightarrow> 'j \<Rightarrow> string \<Rightarrow> string" where
  "getCgroupPath k pod containerID =
     (let podUID = JString k (JGet k (JGet k pod ''metadata'') ''uid'');
          qosClass = JString k (JGet k (JGet k pod ''status'') ''qosClass'')
      in if podUID = [] \<or> qosClass = [] then []
      else
        (let slice = Replace_char podUID (CHR ''-'') (CHR ''_'') @ ''.slice'';
             (path, pod_slice) =
               (if qosClass = ''Guaranteed''
                then (Join [''kubepods.slice'', ''kubepods-guaranteed.slice''], ''kubepods-guaranteed-pod'' @ slice)
                else if qosClass = ''Burstable''
                then (Join [''kubepods.slice'', ''kubepods-burstable.slice''], ''kubepods-burstable-pod'' @ slice)
                else if qosClass = ''BestEffort''
                then (Join [''kubepods.slice'', ''kubepods-besteffort.slice''], ''kubepods-besteffort-pod'' @ slice)
                else (''kubepods.slice'', slice))
         in Join [path, pod_slice] @ ''/docker-'' @ containerID @ ''.scope''))"

text \<open>\<open>Atoi\<close> of each line, the lines that are not numbers dropped; a file that cannot be opened has none.\<close>

definition readProcsFile :: "string list option \<Rightarrow> int list" where
  "readProcsFile file =
     (case file of
        None \<Rightarrow> []
      | Some lines \<Rightarrow> [fst (ParseInt line). line \<leftarrow> lines, snd (ParseInt line) = None])"

text \<open>
  \<open>pids_to_disk\<close>, the second C function of the preamble: \<open>flock\<close> is retried until it succeeds, and
  the list holds its results; \<open>None\<close> is a lock that is never got.
\<close>

fun lock_file :: "int list \<Rightarrow> bool" where
  "lock_file [] = False"
| "lock_file (r # rs) = (if r \<noteq> 0 then lock_file rs else True)"

definition pids_to_disk ::
    "bool \<Rightarrow> int list \<Rightarrow> int \<Rightarrow> int list \<Rightarrow> (int \<times> char list option) option" where
  "pids_to_disk opened locks wsize data =
     (if \<not> opened then Some (1, None)
      else if \<not> lock_file locks then None
      else Some (if wsize \<noteq> 4 * int (length data) then 2 else 0,
        Some (take (nat wsize) (concat (map (\<lambda>d. le_encode 4 (unat (u32_of_int d))) data)))))"

end
