(* ===== verification/Device_Plugin.thy ===== *)
theory Device_Plugin
  imports Gpu_Choice Resource_Manager
begin

text \<open>
  The device plugins of the kubelet (\<open>k8sPlugins/pluginRegister\<close>): the devices they announce, and
  \<open>Allocate\<close>, which finds the pod a request is for, waits until the manager knows it, books a GPU
  and tells the kubelet what to mount into the container.
\<close>

subsection \<open>Names\<close>

definition AnnAssignedFlag :: string where "AnnAssignedFlag = ''doslab.io/gpu-assigned''"

definition NvidiaCoreSocketName :: string where "NvidiaCoreSocketName = ''nvidiacore.sock''"

definition NvidiaMemSocketName :: string where "NvidiaMemSocketName = ''nvidiamem.sock''"

definition CambriconMemSocketName :: string where "CambriconMemSocketName = ''mlumem.sock''"

definition DevicePluginPath :: string where "DevicePluginPath = ''/var/lib/kubelet/device-plugins/''"

subsection \<open>The servers\<close>

text \<open>What a server has of its own: the socket and the resource. The factory knows two.\<close>

record ResourceServer =
  socketFile :: string
  resourceName :: string

definition NewVcoreResourceServer :: ResourceServer where
  "NewVcoreResourceServer = \<lparr>socketFile = Join [DevicePluginPath, NvidiaCoreSocketName], resourceName = ResourceCore\<rparr>"

definition NewVmemResourceServer :: ResourceServer where
  "NewVmemResourceServer = \<lparr>socketFile = Join [DevicePluginPath, NvidiaMemSocketName], resourceName = ResourceMemory\<rparr>"

definition NewMluCoreSrv :: ResourceServer where
  "NewMluCoreSrv = \<lparr>socketFile = Join [DevicePluginPath, NvidiaCoreSocketName], resourceName = ResourceCore\<rparr>"

definition NewMluMemSrv :: ResourceServer where
  "NewMluMemSrv = \<lparr>socketFile = Join [DevicePluginPath, CambriconMemSocketName], resourceName = MluResourceMemory\<rparr>"

definition CreateServer :: "string \<Rightarrow> ResourceServer option" where
  "CreateServer name =
     (if name = ''nvidiaCore'' then Some NewVcoreResourceServer
      else if name = ''nvidiaMem'' then Some NewVmemResourceServer
      else None)"

subsection \<open>Announced devices\<close>

text \<open>The devices are named by the resource and a number; every one is healthy.\<close>

definition device_ids :: "string \<Rightarrow> nat \<Rightarrow> string list" where
  "device_ids resource n = map (\<lambda>i. resource @ CHR ''-'' # FormatInt (int i)) [0..<n]"

definition getNvidiaDevice :: "GpuInfo \<Rightarrow> string list" where
  "getNvidiaDevice devInfo = device_ids ResourceCore (dev_count devInfo * 100)"

definition getMluDevice :: "ResourceServer \<Rightarrow> string list" where
  "getMluDevice vr = device_ids (resourceName vr) 1"

text \<open>
  The memory devices are counted from the sum over the map of the GPUs, in whatever order it is
  ranged over.
\<close>

definition vmem_ListAndWatch :: "GpuInfo \<Rightarrow> string list \<Rightarrow> string list" where
  "vmem_ListAndWatch devInfo keys =
     (let totalMemOnNode = sum_list (map (mem_total devInfo) keys)
      in device_ids ResourceMemory (unat (totalMemOnNode div MemoryBlockSize)))"

definition mlumem_ListAndWatch :: "MluInfo \<Rightarrow> string list" where
  "mlumem_ListAndWatch devInfo =
     (let totalMemOnNode = sum_list (mlu_memInfo (mlu_GetInfo devInfo))
      in device_ids MluResourceMemory (nat (sint totalMemOnNode sdiv 268435456)))"

subsection \<open>The pod of a request\<close>

definition wants :: "string \<Rightarrow> v1_pod \<Rightarrow> bool" where
  "wants resource pod \<longleftrightarrow> (\<exists>c \<in> set (Containers pod). Limits c resource \<noteq> None)"

text \<open>The flag of the first loop is not reset for the next pod.\<close>

fun candidatePodList :: "string \<Rightarrow> v1_pod list \<Rightarrow> bool \<Rightarrow> v1_pod list" where
  "candidatePodList resource [] flag = []"
| "candidatePodList resource (v # vs) flag =
     (let flag' = (flag \<or> wants resource v) in
      if flag' then v # candidatePodList resource vs flag' else candidatePodList resource vs flag')"

definition pod_limit :: "string \<Rightarrow> v1_pod \<Rightarrow> i64" where
  "pod_limit resource pod = sum_list (map (\<lambda>c. limit_value c resource) (Containers pod))"

text \<open>The count of the second loop runs on from pod to pod; without a match the zero pod is left.\<close>

fun confirmPod :: "string \<Rightarrow> i64 \<Rightarrow> v1_pod list \<Rightarrow> i64 \<Rightarrow> v1_pod" where
  "confirmPod resource allReqDevice [] reqDevCount = zero_pod"
| "confirmPod resource allReqDevice (v # vs) reqDevCount =
     (let reqDevCount' = reqDevCount + pod_limit resource v in
      if reqDevCount' = allReqDevice then v else confirmPod resource allReqDevice vs reqDevCount')"

definition getVCUDAReadyFromPodAnnotation :: "v1_pod \<Rightarrow> string" where
  "getVCUDAReadyFromPodAnnotation pod =
     (case Annotations pod of
        None \<Rightarrow> []
      | Some ann \<Rightarrow> (case ann AnnVCUDAReady of None \<Rightarrow> [] | Some v \<Rightarrow> v))"

fun await_ready ::
    "('b, 'j, 'w) kube \<Rightarrow> string \<Rightarrow> string \<Rightarrow> nat \<Rightarrow> 'w \<Rightarrow> v1_pod option \<times> 'w" where
  "await_ready k ns name 0 w = (None, w)"
| "await_ready k ns name (Suc n) w =
     (case GetPodOnNode k ns name w of
        (None, w') \<Rightarrow> await_ready k ns name n w'
      | (Some pod, w') \<Rightarrow>
          if getVCUDAReadyFromPodAnnotation pod \<noteq> [] then (Some pod, w')
          else await_ready k ns name n w')"

definition find_pod ::
    "('b, 'j, 'w) kube \<Rightarrow> string \<Rightarrow> string \<Rightarrow> string list \<Rightarrow> 'w \<Rightarrow> v1_pod option \<times> 'w" where
  "find_pod k nodeName resource deviceIDs w =
     (case GetPendingPodOnNode k nodeName w of
        (pendingPod, w1) \<Rightarrow>
          (let pod = confirmPod resource (of_nat (length deviceIDs)) (candidatePodList resource pendingPod False) 0
           in await_ready k (pod_namespace pod) (pod_name pod) 100 w1))"

subsection \<open>The answer to the kubelet\<close>

record Mount =
  ContainerPath :: string
  HostPath :: string
  ReadOnly :: bool

record DeviceSpec =
  dev_ContainerPath :: string
  dev_HostPath :: string
  Permissions :: string

record ContainerAllocateResponse =
  Envs :: "string \<Rightarrow> string option"
  Mounts :: "Mount list"
  Devices :: "DeviceSpec list"

definition device :: "string \<Rightarrow> DeviceSpec" where
  "device path = \<lparr>dev_ContainerPath = path, dev_HostPath = path, Permissions = ''rwm''\<rparr>"

definition vcore_response :: "string \<Rightarrow> int \<Rightarrow> ContainerAllocateResponse" where
  "vcore_response podUid minorNum =
     \<lparr>Envs = [''LD_PRELOAD'' \<mapsto> ''/usr/local/hooklib/libmylibrary.so'',
              ''LD_LIBRARY_PATH'' \<mapsto> ''/usr/local/nvidia/lib64''],
      Mounts = [\<lparr>ContainerPath = ''/usr/local/nvidia'', HostPath = ''/usr/local/nvidia'', ReadOnly = True\<rparr>,
                \<lparr>ContainerPath = ''/usr/local/hooklib'', HostPath = ''/etc/unishare/hooklib'', ReadOnly = True\<rparr>,
                \<lparr>ContainerPath = ''/etc/unishare/vm'', HostPath = ''/etc/unishare/vm/'' @ podUid, ReadOnly = True\<rparr>],
      Devices = [device ''/dev/nvidiactl'', device ''/dev/nvidia-uvm'', device ''/dev/nvidia-uvm-tools'',
                 device (''/dev/nvidia'' @ FormatInt minorNum)]\<rparr>"

definition mlucore_response :: ContainerAllocateResponse where
  "mlucore_response =
     \<lparr>Envs = [''LD_LIBRARY_PATH'' \<mapsto> ''/usr/local/cambricon/lib64''],
      Mounts = [\<lparr>ContainerPath = ''/usr/local/cambricon'', HostPath = ''/usr/local/cambricon'', ReadOnly = True\<rparr>],
      Devices = [device ''/dev/cambricon_ctl'', device ''/dev/cambricon_dev0'', device ''/dev/cambricon_ipcm0'']\<rparr>"

text \<open>The pod is marked; an assignment to a nil map panics.\<close>

definition mark_assigned ::
    "('b, 'j, 'w) kube \<Rightarrow> v1_pod \<Rightarrow> 'r \<Rightarrow> 'w \<Rightarrow> ((('r list option) answer) \<times> 'w) go_result" where
  "mark_assigned k pod resp w =
     (case Annotations pod of
        None \<Rightarrow> Inl Panic
      | Some ann \<Rightarrow>
          (case UpdatePodAnnotations k (pod\<lparr>Annotations := Some (ann(AnnAssignedFlag \<mapsto> ''true''))\<rparr>) w of
             (Some _, w') \<Rightarrow> Inr ((None, Some ''failed to update pod annotation''), w')
           | (None, w') \<Rightarrow> Inr ((Some [resp], None), w')))"

text \<open>A request is the list of the device ids of each container; only the first is looked at.\<close>

definition vcore_Allocate ::
    "('b, 'j, 'w) kube \<Rightarrow> string \<Rightarrow> GpuInfo \<Rightarrow> string list list \<Rightarrow> 'w
     \<Rightarrow> ((ContainerAllocateResponse list option) answer \<times> 'w) go_result" where
  "vcore_Allocate k nodeName devInfo reqs w =
     (if reqs = [] then Inl Panic
      else case find_pod k nodeName ResourceCore (hd reqs) w of
        (None, w1) \<Rightarrow> Inr ((None, Some ''vcuda not ready''), w1)
      | (Some pod, w1) \<Rightarrow>
          go_bind (GetGpuResource k (pod_limit ResourceCore pod) (pod_limit ResourceMemory pod) w1) (\<lambda>(answer, w2).
            case answer of
              (_, Some err) \<Rightarrow> Inr ((None, Some err), w2)
            | (uuid, None) \<Rightarrow>
                mark_assigned k pod (vcore_response (pod_UID pod) (GetMinorNumber devInfo uuid)) w2))"

definition mlucore_Allocate ::
    "('b, 'j, 'w) kube \<Rightarrow> string \<Rightarrow> string list list \<Rightarrow> 'w
     \<Rightarrow> ((ContainerAllocateResponse list option) answer \<times> 'w) go_result" where
  "mlucore_Allocate k nodeName reqs w =
     (if reqs = [] then Inl Panic
      else case find_pod k nodeName MluResourceCore (hd reqs) w of
        (None, w1) \<Rightarrow> Inr ((None, Some ''vcuda not ready''), w1)
      | (Some pod, w1) \<Rightarrow> mark_assigned k pod mlucore_response w1)"

end

