(* ===== verification/Pod_Allocation.thy ===== *)
theory Pod_Allocation
  imports Device_Plugin
begin

text \<open>
  What \<open>Allocate\<close> of the device plugin for cores does: which of the pending pods it takes a request
  for, what it answers and stores, and when it refuses a pod it should serve.
\<close>

subsection \<open>The pod that is confirmed\<close>

lemma find_map: "find P (map f xs) = map_option f (find (P \<circ> f) xs)"
  by (induction xs) auto

lemma candidates: "candidatePodList r vs flag = (if flag then vs else dropWhile (\<lambda>v. \<not> wants r v) vs)"
  by (induction vs arbitrary: flag) (simp_all add: Let_def)

text \<open>What the pods up to a position ask for together.\<close>

definition cumulated :: "string \<Rightarrow> v1_pod list \<Rightarrow> nat \<Rightarrow> i64" where
  "cumulated r vs i = sum_list (map (pod_limit r) (take (Suc i) vs))"

definition first_at :: "string \<Rightarrow> i64 \<Rightarrow> v1_pod list \<Rightarrow> v1_pod option" where
  "first_at r n vs = map_option ((!) vs) (find (\<lambda>i. cumulated r vs i = n) [0..<length vs])"

lemma first_at_Nil [simp]: "first_at r n [] = None"
  by (simp add: first_at_def)

lemma first_at_Cons:
  "first_at r n (v # vs) = (if pod_limit r v = n then Some v else first_at r (n - pod_limit r v) vs)"
proof -
  have upt: "[0..<length (v # vs)] = 0 # map Suc [0..<length vs]"
    by (simp only: length_Cons map_Suc_upt upt_conv_Cons zero_less_Suc)
  have "(\<lambda>i. cumulated r (v # vs) i = n) \<circ> Suc = (\<lambda>i. cumulated r vs i = n - pod_limit r v)"
    by (auto simp: cumulated_def fun_eq_iff algebra_simps)
  then show ?thesis
    unfolding first_at_def upt
    by (simp add: find_map cumulated_def option.map_comp comp_def)
qed

lemma confirmPod_first_at:
  "confirmPod r n vs c = (case first_at r (n - c) vs of None \<Rightarrow> zero_pod | Some v \<Rightarrow> v)"
  by (induction vs arbitrary: c) (auto simp: Let_def first_at_Cons algebra_simps)

lemma pod_limit_unwanted: "\<not> wants r v \<Longrightarrow> pod_limit r v = 0"
proof -
  have "sum_list (map (\<lambda>c. limit_value c r) cs) = 0" if "\<forall>c \<in> set cs. Limits c r = None" for cs
    using that by (induction cs) (simp_all add: limit_value_def)
  then show "\<not> wants r v \<Longrightarrow> ?thesis"
    by (simp add: wants_def pod_limit_def)
qed

lemma first_at_candidates: "n \<noteq> 0 \<Longrightarrow> first_at r n (dropWhile (\<lambda>v. \<not> wants r v) vs) = first_at r n vs"
  by (induction vs) (auto simp: first_at_Cons pod_limit_unwanted)

text \<open>Pods without a limit do not count.\<close>

lemma first_at_filter: "n \<noteq> 0 \<Longrightarrow> first_at r n (filter (\<lambda>v. pod_limit r v \<noteq> 0) vs) = first_at r n vs"
  by (induction vs arbitrary: n) (auto simp: first_at_Cons)

lemma confirmed:
  assumes "n \<noteq> 0"
  shows "confirmPod r n (candidatePodList r vs False) 0
    = (case first_at r n (filter (\<lambda>v. pod_limit r v \<noteq> 0) vs) of None \<Rightarrow> zero_pod | Some v \<Rightarrow> v)"
  using assms by (simp add: confirmPod_first_at candidates first_at_candidates first_at_filter)

text \<open>
  C28: The two loops of \<open>Allocate\<close>, with a flag and a count that are not reset from pod to pod,
  confirm the first pending pod at which the limits of all pods up to it add up to the number of
  requested devices, and not the first pod that asks for that many; if there is none they confirm
  the zero pod.
\<close>

theorem confirmPod_is_prefix_sum:
  assumes "n \<noteq> 0"
  shows "confirmPod r n (candidatePodList r vs False) 0
    = (case find (\<lambda>i. cumulated r vs i = n) [0..<length vs] of None \<Rightarrow> zero_pod | Some i \<Rightarrow> vs ! i)"
proof -
  have "confirmPod r n (candidatePodList r vs False) 0
      = (case first_at r n vs of None \<Rightarrow> zero_pod | Some v \<Rightarrow> v)"
    using assms by (simp add: confirmPod_first_at candidates first_at_candidates)
  then show ?thesis
    by (simp add: first_at_def split: option.split)
qed

definition pod_asking :: "string \<Rightarrow> i64 \<Rightarrow> v1_pod" where
  "pod_asking name n = zero_pod\<lparr>pod_name := name, Containers := [\<lparr>Limits = [ResourceCore \<mapsto> n]\<rparr>]\<rparr>"

lemma limit_asking [simp]: "pod_limit ResourceCore (pod_asking name n) = n"
  by (simp add: pod_limit_def pod_asking_def limit_value_def)

text \<open>A request of 50 devices is the third pod's, and the second is confirmed.\<close>

theorem confirmPod_is_prefix_sum_witness:
  "confirmPod ResourceCore 50 (candidatePodList ResourceCore
     [pod_asking ''a'' 20, pod_asking ''b'' 30, pod_asking ''c'' 50] False) 0 = pod_asking ''b'' 30"
  by (subst confirmPod_is_prefix_sum) (simp_all add: cumulated_def upt_rec [of 0] upt_rec [of "Suc 0"])

subsection \<open>What is answered and stored\<close>

text \<open>
  A server that keeps pods by namespace and name: requests for pods and GPUs and updates of GPUs
  change none, a pod is answered as it is stored, and an update of a stored pod with the UID it has
  stores what it was given.
\<close>

definition serves_pods ::
    "('b, 'j, 'w) kube \<Rightarrow> ('w \<Rightarrow> string \<times> string \<Rightarrow> v1_pod option) \<Rightarrow> bool" where
  "serves_pods k stored \<longleftrightarrow>
     (\<forall>ns name w. name \<noteq> [] \<longrightarrow> fst (GetPodOnNode k ns name w) = stored w (ns, name)) \<and>
     (\<forall>ns name w. stored (snd (GetPodOnNode k ns name w)) = stored w) \<and>
     (\<forall>node w. stored (snd (GetPendingPodOnNode k node w)) = stored w) \<and>
     (\<forall>name w. stored (snd (GetResource k ''GPU'' ''default'' name w)) = stored w) \<and>
     (\<forall>g w. stored (snd (UpdateResource k (fst (marshal_gpu k g)) w)) = stored w) \<and>
     (\<forall>q r w. stored w (pod_namespace q, pod_name q) = Some r \<longrightarrow> pod_UID r = pod_UID q \<longrightarrow>
        fst (UpdatePodAnnotations k q w) = None \<and>
        stored (snd (UpdatePodAnnotations k q w)) = (stored w)((pod_namespace q, pod_name q) \<mapsto> q))"

lemma GetGpuResource_keeps_pods:
  assumes "serves_pods k stored" "GetGpuResource k c m w = Inr (answer, w')"
  shows "stored w' = stored w"
proof -
  have get: "stored (snd (GetResource k ''GPU'' ''default'' name w)) = stored w"
    and upd: "stored (snd (UpdateResource k (fst (marshal_gpu k g)) w)) = stored w" for name g w
    using assms(1) by (simp_all add: serves_pods_def)
  have crd: "stored (snd (update_crd k c m g w)) = stored w" for g w
    using upd get [of "crdName g" w]
    by (auto simp: update_crd_def Let_def split: prod.splits option.splits) (metis snd_conv)+
  obtain b e w1 where b: "GetResource k ''GPU'' ''default'' [] w = ((b, e), w1)"
    by (metis surj_pair)
  then have w1: "stored w1 = stored w"
    using get [of "[]" w] by simp
  have "w' = w1 \<or> (\<exists>g. w' = snd (update_crd k c m g w1))"
    using assms(2) b by (auto simp: GetGpuResource_def Let_def split: option.splits if_splits) (metis snd_conv)
  then show ?thesis
    using w1 crd by auto
qed

lemma await_ready_now:
  assumes "GetPodOnNode k ns name w = (Some q, w')" "getVCUDAReadyFromPodAnnotation q \<noteq> []" "0 < n"
  shows "await_ready k ns name n w = (Some q, w')"
  using assms by (cases n) simp_all

lemma await_ready_never:
  assumes "\<And>w. P w \<Longrightarrow> P (snd (GetPodOnNode k ns name w))"
    and "\<And>w q. P w \<Longrightarrow> fst (GetPodOnNode k ns name w) = Some q \<Longrightarrow> getVCUDAReadyFromPodAnnotation q = []"
  shows "P w \<Longrightarrow> \<exists>w'. await_ready k ns name n w = (None, w')"
proof (induction n arbitrary: w)
  case (Suc n)
  obtain q w1 where q: "GetPodOnNode k ns name w = (q, w1)"
    by (metis surj_pair)
  moreover have "P w1"
    using assms(1) [OF Suc.prems] q by simp
  ultimately show ?case
    using Suc.IH [of w1] assms(2) [OF Suc.prems] by (auto split: option.split)
qed simp

lemma ready_annotated: "getVCUDAReadyFromPodAnnotation q \<noteq> [] \<Longrightarrow> \<exists>ann. Annotations q = Some ann"
  by (cases "Annotations q") (simp_all add: getVCUDAReadyFromPodAnnotation_def)

definition marked :: "v1_pod \<Rightarrow> v1_pod" where
  "marked q = q\<lparr>Annotations := map_option (\<lambda>ann. ann(AnnAssignedFlag \<mapsto> ''true'')) (Annotations q)\<rparr>"

lemma mark_assigned_stores:
  assumes "serves_pods k stored" "stored w (pod_namespace q, pod_name q) = Some q"
    and "getVCUDAReadyFromPodAnnotation q \<noteq> []"
  shows "\<exists>w'. mark_assigned k q resp w = Inr ((Some [resp], None), w')
    \<and> stored w' = (stored w)((pod_namespace q, pod_name q) \<mapsto> marked q)"
proof -
  obtain ann where ann: "Annotations q = Some ann"
    using ready_annotated [OF assms(3)] by blast
  let ?q = "q\<lparr>Annotations := Some (ann(AnnAssignedFlag \<mapsto> ''true''))\<rparr>"
  have "marked q = ?q"
    by (simp add: marked_def ann)
  moreover have "fst (UpdatePodAnnotations k ?q w) = None"
    "stored (snd (UpdatePodAnnotations k ?q w)) = (stored w)((pod_namespace q, pod_name q) \<mapsto> ?q)"
    using assms(1,2) by (simp_all add: serves_pods_def)
  ultimately show ?thesis
    by (cases "UpdatePodAnnotations k ?q w") (simp add: mark_assigned_def ann)
qed

text \<open>\<open>Allocate\<close> goes on only with a pod the manager marked as ready.\<close>

lemma await_ready_marked: "await_ready k ns name n w = (Some q, w') \<Longrightarrow> getVCUDAReadyFromPodAnnotation q \<noteq> []"
  by (induction k ns name n w rule: await_ready.induct) (auto split: prod.splits option.splits if_splits)

lemma find_pod_marked: "find_pod k node resource ids w = (Some q, w') \<Longrightarrow> getVCUDAReadyFromPodAnnotation q \<noteq> []"
  by (auto simp: find_pod_def Let_def split: prod.splits option.splits if_splits dest: await_ready_marked)

lemma Allocate_response:
  assumes "vcore_Allocate k node devInfo reqs w = Inr ((Some resps, None), w')"
    and "find_pod k node ResourceCore (hd reqs) w = (Some q, w1)"
  shows "\<exists>n. resps = [vcore_response (pod_UID q) n]"
  using assms by (auto simp: vcore_Allocate_def mark_assigned_def go_bind_eq_Inr split: if_splits option.splits prod.splits)

text \<open>
  C27: If exactly one pending pod of the node asks for cores, the request is for as many devices and
  the manager has made its directory, and a GPU is granted, then the container gets the hook
  library preloaded, the directory of its own pod and the device of the granted GPU, and the
  stored pod is marked as assigned, with nothing else of any pod changed.
\<close>

theorem Allocate_serves_pod:
  assumes "serves_pods k stored" "GetPendingPodOnNode k node w = (vs, w1)"
    and "filter (\<lambda>v. pod_limit ResourceCore v \<noteq> 0) vs = [p]"
    and "of_nat (length ids) = pod_limit ResourceCore p"
    and "pod_name p \<noteq> []" "stored w (pod_namespace p, pod_name p) = Some q"
    and "pod_namespace q = pod_namespace p" "pod_name q = pod_name p"
    and "getVCUDAReadyFromPodAnnotation q \<noteq> []"
    and "w2 = snd (GetPodOnNode k (pod_namespace p) (pod_name p) w1)"
    and "GetGpuResource k (pod_limit ResourceCore q) (pod_limit ResourceMemory q) w2 = Inr ((uuid, None), w3)"
  shows "\<exists>resp w4. vcore_Allocate k node devInfo (ids # more_ids) w = Inr ((Some [resp], None), w4)
    \<and> Envs resp ''LD_PRELOAD'' = Some ''/usr/local/hooklib/libmylibrary.so''
    \<and> \<lparr>ContainerPath = ''/etc/unishare/vm'', HostPath = ''/etc/unishare/vm/'' @ pod_UID q, ReadOnly = True\<rparr>
        \<in> set (Mounts resp)
    \<and> device (''/dev/nvidia'' @ FormatInt (GetMinorNumber devInfo uuid)) \<in> set (Devices resp)
    \<and> stored w4 = (stored w)((pod_namespace q, pod_name q) \<mapsto> marked q)"
proof -
  have "p \<in> set (filter (\<lambda>v. pod_limit ResourceCore v \<noteq> 0) vs)"
    by (simp add: assms(3))
  then have "pod_limit ResourceCore p \<noteq> 0"
    by simp
  then have "confirmPod ResourceCore (of_nat (length ids)) (candidatePodList ResourceCore vs False) 0 = p"
    using assms(4) by (subst confirmed) (simp_all add: assms(3) first_at_Cons)
  moreover have w1: "stored w1 = stored w"
    using assms(1,2) unfolding serves_pods_def by (metis snd_conv)
  moreover have "fst (GetPodOnNode k (pod_namespace p) (pod_name p) w1) = Some q"
    using assms(1,5,6) w1 by (simp add: serves_pods_def)
  then have get: "GetPodOnNode k (pod_namespace p) (pod_name p) w1 = (Some q, w2)"
    using assms(10) by (simp add: prod_eq_iff)
  ultimately have found: "find_pod k node ResourceCore ids w = (Some q, w2)"
    using assms(2) await_ready_now [OF get assms(9)] by (simp add: find_pod_def)
  have "stored w2 = stored w"
    using assms(1,10) w1 by (simp add: serves_pods_def)
  then have "stored w3 = stored w"
    using GetGpuResource_keeps_pods [OF assms(1,11)] by simp
  moreover from this have "stored w3 (pod_namespace q, pod_name q) = Some q"
    using assms(6-8) by simp
  from mark_assigned_stores [OF assms(1) this assms(9), of "vcore_response (pod_UID q) (GetMinorNumber devInfo uuid)"]
  obtain w4 where "mark_assigned k q (vcore_response (pod_UID q) (GetMinorNumber devInfo uuid)) w3
      = Inr ((Some [vcore_response (pod_UID q) (GetMinorNumber devInfo uuid)], None), w4)"
    "stored w4 = (stored w3)((pod_namespace q, pod_name q) \<mapsto> marked q)"
    by blast
  ultimately show ?thesis
    using found assms(11) by (simp add: vcore_Allocate_def) (simp add: vcore_response_def)
qed

text \<open>The server in memory is one that keeps pods; its node has a T4 and a pod the manager knows.\<close>

definition pod_key :: "v1_pod \<Rightarrow> string \<times> string" where
  "pod_key p = (pod_namespace p, pod_name p)"

definition demo_pods :: "server \<Rightarrow> string \<times> string \<Rightarrow> v1_pod option" where
  "demo_pods w = map_of (map (\<lambda>pj. (pod_key (fst pj), fst pj)) (pods w))"

lemma find_map_of:
  "map_option fst (find (\<lambda>(p, _). pod_namespace p = ns \<and> pod_name p = name) vs)
    = map_of (map (\<lambda>pj. (pod_key (fst pj), fst pj)) vs) (ns, name)"
proof (induction vs)
  case (Cons v vs)
  then show ?case by (cases v) (simp add: pod_key_def)
qed simp

lemma demo_get: "GetPodOnNode demo_kube ns name w = (demo_pods w (ns, name), w)"
  by (simp add: GetPodOnNode_def demo_kube_def server_get_def demo_pods_def split: option.split
      flip: find_map_of)

definition put_pod :: "v1_pod \<Rightarrow> (v1_pod \<times> json) list \<Rightarrow> (v1_pod \<times> json) list" where
  "put_pod q = map (\<lambda>(r, j). if pod_namespace r = pod_namespace q \<and> pod_name r = pod_name q \<and> pod_UID r = pod_UID q
     then (q, j) else (r, j))"

lemma put_pod_Cons:
  "put_pod q ((r, j) # vs) = (if pod_key r = pod_key q \<and> pod_UID r = pod_UID q then q else r, j) # put_pod q vs"
  by (simp add: put_pod_def pod_key_def)

abbreviation pods_by_key :: "(v1_pod \<times> json) list \<Rightarrow> string \<times> string \<Rightarrow> v1_pod option" where
  "pods_by_key vs \<equiv> map_of (map (\<lambda>pj. (pod_key (fst pj), fst pj)) vs)"

lemma put_pod_other: "key \<noteq> pod_key q \<Longrightarrow> pods_by_key (put_pod q vs) key = pods_by_key vs key"
proof (induction vs)
  case (Cons v vs)
  then show ?case by (cases v) (simp add: put_pod_Cons)
qed (simp add: put_pod_def)

lemma put_pod_same:
  "pods_by_key vs (pod_key q) = Some r \<Longrightarrow> pod_UID r = pod_UID q \<Longrightarrow> pods_by_key (put_pod q vs) (pod_key q) = Some q"
proof (induction vs)
  case (Cons v vs)
  then show ?case by (cases v) (auto simp: put_pod_Cons split: if_splits)
qed simp

lemma demo_serves_pods: "serves_pods demo_kube demo_pods"
proof -
  have "snd (GetPendingPodOnNode demo_kube node w) = w" for node w
    by (simp add: GetPendingPodOnNode_def demo_kube_def)
  moreover have "demo_pods (snd (UpdateResource demo_kube (fst (marshal_gpu demo_kube g)) w)) = demo_pods w" for g w
    by (simp add: demo_kube_def demo_pods_def)
  moreover have "snd (GetResource demo_kube ''GPU'' ''default'' name w) = w" for name w
    by (simp add: demo_kube_def server_get_def)
  moreover have "fst (UpdatePodAnnotations demo_kube q w) = None" for q w
    by (simp add: UpdatePodAnnotations_def demo_kube_def)
  moreover have upd: "demo_pods (snd (UpdatePodAnnotations demo_kube q w))
      = (demo_pods w)((pod_namespace q, pod_name q) \<mapsto> q)"
    if "demo_pods w (pod_namespace q, pod_name q) = Some r" "pod_UID r = pod_UID q" for q r w
  proof -
    have "pods (snd (UpdatePodAnnotations demo_kube q w)) = put_pod q (pods w)"
      by (simp add: UpdatePodAnnotations_def demo_kube_def put_pod_def)
    then show ?thesis
      using that put_pod_same [of "pods w" q r] put_pod_other [of _ q "pods w"]
      by (simp add: demo_pods_def fun_eq_iff flip: pod_key_def)
  qed
  ultimately show ?thesis
    unfolding serves_pods_def by (intro conjI allI impI) (simp_all add: demo_get upd del: fun_upd_apply)
qed

definition demo_pending :: v1_pod where
  "demo_pending = zero_pod\<lparr>pod_name := ''train'', pod_namespace := ''default'', pod_UID := ''u1'',
     Annotations := Some [AnnVCUDAReady \<mapsto> ''yes''], NodeName := ''n1'', Phase := ''Pending'',
     Containers := [\<lparr>Limits = [ResourceCore \<mapsto> 50, ResourceMemory \<mapsto> 8]\<rparr>]\<rparr>"

definition demo_node_server :: "v1_pod list \<Rightarrow> server" where
  "demo_node_server vs = \<lparr>gpus = [gpu_object t4_info ''n1'' 0], pods = map (\<lambda>p. (p, JMissing)) vs\<rparr>"

lemma demo_limits_of [simp]:
  "pod_limit ResourceCore demo_pending = 50" "pod_limit ResourceMemory demo_pending = 8"
  by (simp_all add: pod_limit_def demo_pending_def limit_value_def ResourceCore_def ResourceMemory_def)

lemma pod_limit_frame [simp]:
  "pod_limit r (p\<lparr>pod_api := a, pod_kind := b\<rparr>) = pod_limit r p" "pod_limit r (p\<lparr>pod_name := n\<rparr>) = pod_limit r p"
  by (simp_all add: pod_limit_def)

theorem Allocate_serves_pod_witness:
  "\<exists>resp w. vcore_Allocate demo_kube ''n1'' t4_info [replicate 50 ''iscas.cn/gpu-core-0''] (demo_node_server [demo_pending])
       = Inr ((Some [resp], None), w)
    \<and> \<lparr>ContainerPath = ''/etc/unishare/vm'', HostPath = ''/etc/unishare/vm/u1'', ReadOnly = True\<rparr> \<in> set (Mounts resp)
    \<and> demo_pods w (''default'', ''train'') = Some (marked demo_pending)"
proof -
  let ?w = "demo_node_server [demo_pending]" and ?p = "demo_pending\<lparr>pod_api := ''v1'', pod_kind := ''Pod''\<rparr>"
  have fields: "pod_name demo_pending = ''train''" "pod_namespace demo_pending = ''default''"
    "NodeName demo_pending = ''n1''" "Phase demo_pending = ''Pending''" "pod_UID demo_pending = ''u1''"
    "getVCUDAReadyFromPodAnnotation demo_pending = ''yes''"
    by (simp_all add: demo_pending_def getVCUDAReadyFromPodAnnotation_def)
  have "GetPendingPodOnNode demo_kube ''n1'' ?w = ([?p], ?w)"
    by (simp add: GetPendingPodOnNode_def demo_kube_def demo_node_server_def fields)
  moreover have "demo_pods ?w (''default'', ''train'') = Some demo_pending"
    by (simp add: demo_pods_def demo_node_server_def pod_key_def fields)
  moreover obtain w3 where "GetGpuResource demo_kube 50 8 ?w = Inr ((''uuid-t4'', None), w3)"
    using demo_grant [of ?w] by (auto simp: demo_node_server_def)
  ultimately show ?thesis
    using Allocate_serves_pod [OF demo_serves_pods, of "''n1''" ?w "[?p]" ?w ?p "replicate 50 ''iscas.cn/gpu-core-0''"
        demo_pending ?w "''uuid-t4''" w3 t4_info "[]"] fields
    by (auto simp: demo_get)
qed

text \<open>
  Of two pending pods that ask for different numbers of cores the second is refused as long as
  the first is pending: the request for its devices confirms no pod.
\<close>

theorem second_pod_refused:
  assumes "serves_pods k stored" "GetPendingPodOnNode k node w = (vs, w1)"
    and "filter (\<lambda>v. pod_limit ResourceCore v \<noteq> 0) vs = [p, q]"
    and "pod_limit ResourceCore p \<noteq> pod_limit ResourceCore q"
    and "of_nat (length ids) = pod_limit ResourceCore q"
    and "\<And>w' v. stored w' = stored w \<Longrightarrow> fst (GetPodOnNode k [] [] w') = Some v
      \<Longrightarrow> getVCUDAReadyFromPodAnnotation v = []"
  shows "\<exists>w'. vcore_Allocate k node devInfo (ids # more_ids) w = Inr ((None, Some ''vcuda not ready''), w')"
proof -
  have "p \<in> set (filter (\<lambda>v. pod_limit ResourceCore v \<noteq> 0) vs)"
    "q \<in> set (filter (\<lambda>v. pod_limit ResourceCore v \<noteq> 0) vs)"
    by (simp_all add: assms(3))
  then have "pod_limit ResourceCore p \<noteq> 0" "pod_limit ResourceCore q \<noteq> 0"
    by simp_all
  then have "confirmPod ResourceCore (of_nat (length ids)) (candidatePodList ResourceCore vs False) 0 = zero_pod"
    using assms(4,5) by (subst confirmed) (simp_all add: assms(3) first_at_Cons)
  moreover have "\<exists>w'. await_ready k [] [] 100 w1 = (None, w')"
    by (rule await_ready_never [where P = "\<lambda>w'. stored w' = stored w"])
      (use assms(1,2,6) in \<open>unfold serves_pods_def, metis snd_conv\<close>)+
  then obtain w' where "await_ready k [] [] 100 w1 = (None, w')"
    by blast
  ultimately have "find_pod k node ResourceCore ids w = (None, w')"
    using assms(2) by (simp add: find_pod_def zero_pod_def)
  then show ?thesis
    by (simp add: vcore_Allocate_def)
qed

theorem second_pod_refused_witness:
  "\<exists>w'. vcore_Allocate demo_kube ''n1'' t4_info [replicate 50 ''iscas.cn/gpu-core-0'']
     (demo_node_server [(pod_asking ''other'' 20)\<lparr>NodeName := ''n1'', Phase := ''Pending''\<rparr>, demo_pending])
   = Inr ((None, Some ''vcuda not ready''), w')"
proof -
  let ?o = "(pod_asking ''other'' 20)\<lparr>NodeName := ''n1'', Phase := ''Pending''\<rparr>"
  let ?w = "demo_node_server [?o, demo_pending]"
  let ?k = "\<lambda>p. p\<lparr>pod_api := ''v1'', pod_kind := ''Pod''\<rparr>"
  have fields: "NodeName demo_pending = ''n1''" "Phase demo_pending = ''Pending''"
    by (simp_all add: demo_pending_def)
  have lim: "pod_limit ResourceCore ?o = 20"
    by (simp add: pod_limit_def pod_asking_def limit_value_def)
  have pending: "GetPendingPodOnNode demo_kube ''n1'' ?w = ([?k ?o, ?k demo_pending], ?w)"
    by (simp add: GetPendingPodOnNode_def demo_kube_def demo_node_server_def fields)
  have "demo_pods ?w ([], []) = None"
    by (simp add: demo_pods_def demo_node_server_def pod_asking_def demo_pending_def pod_key_def)
  then show ?thesis
    using second_pod_refused [OF demo_serves_pods pending, of "?k ?o" "?k demo_pending"
        "replicate 50 ''iscas.cn/gpu-core-0''" t4_info "[]"] lim
    by (simp add: demo_get)
qed

end
