(* ===== verification/Manager_Files.thy ===== *)
theory Manager_Files
  imports Resource_Manager
begin

text \<open>
  What the manager of \<open>Resource_Manager\<close> writes: the places of the configuration files, the
  records in them and the containers they are written for.
\<close>

named_theorems node_simps \<open>effects of the manager's operations on the fields of its state\<close>

subsection \<open>Places\<close>

definition config_file_of :: "bool \<Rightarrow> string \<Rightarrow> string \<Rightarrow> string \<Rightarrow> string" where
  "config_file_of v2 podUID name uid = Join [config_dir v2 podUID name uid, ConfigFileName]"

definition pod_dir :: "string \<Rightarrow> string" where
  "pod_dir podUID = Join [VirtualManagerPath, podUID]"

lemma VirtualManagerPath_elements: "VirtualManagerPath = CHR ''/'' # join_slash [''etc'', ''unishare'', ''vm'']"
  by (simp add: VirtualManagerPath_def)

lemma vm_plain [simp]: "plain_element ''etc''" "plain_element ''unishare''" "plain_element ''vm''"
  "plain_element ConfigFileName"
  by (simp_all add: plain_element_def ConfigFileName_def)

lemma Join_rooted:
  assumes "\<forall>e \<in> set (es @ fs). plain_element e" "es \<noteq> []"
  shows "Join ((CHR ''/'' # join_slash es) # fs) = CHR ''/'' # join_slash (es @ fs)"
proof -
  have "join_slash ((CHR ''/'' # join_slash es) # fs) = CHR ''/'' # join_slash (es @ fs)"
    using assms(2) by (cases fs) (simp_all add: join_slash_append)
  then show ?thesis
    using assms Clean_plain [of "es @ fs"] by (simp add: Join_def)
qed

lemma pod_dir_plain: "plain_element u \<Longrightarrow> pod_dir u = VirtualManagerPath @ CHR ''/'' # u"
  using Join_rooted [of "[''etc'', ''unishare'', ''vm'']" "[u]"]
  by (simp add: pod_dir_def VirtualManagerPath_def)

lemma config_dir_plain:
  assumes "plain_element u" "plain_element name" "plain_element uid"
  shows "config_dir v2 u name uid = pod_dir u @ CHR ''/'' # (if v2 then name else uid)"
  using assms Join_rooted [of "[''etc'', ''unishare'', ''vm'']" "[u, name]"]
    Join_rooted [of "[''etc'', ''unishare'', ''vm'']" "[u, uid]"]
  by (simp add: config_dir_def pod_dir_plain VirtualManagerPath_def)

lemma config_file_plain:
  assumes "plain_element u" "plain_element name" "plain_element uid"
  shows "config_file_of v2 u name uid
    = pod_dir u @ CHR ''/'' # (if v2 then name else uid) @ ''/vcuda.config''"
proof -
  let ?c = "if v2 then name else uid"
  have "config_dir v2 u name uid = CHR ''/'' # join_slash [''etc'', ''unishare'', ''vm'', u, ?c]"
    using assms by (simp add: config_dir_plain pod_dir_plain VirtualManagerPath_def)
  then have "config_file_of v2 u name uid
      = CHR ''/'' # join_slash ([''etc'', ''unishare'', ''vm'', u, ?c] @ [ConfigFileName])"
    unfolding config_file_of_def using assms by (simp only:) (rule Join_rooted, auto)
  then show ?thesis
    using assms by (simp add: pod_dir_plain VirtualManagerPath_def ConfigFileName_def)
qed

lemma below_config_file:
  assumes "plain_element u" "plain_element name" "plain_element uid"
  shows "below (pod_dir u) (config_file_of v2 u name uid)"
  using assms by (simp add: config_file_plain below_def starts_with_iff)

text \<open>Directories of different pods are apart.\<close>

lemma belowE:
  assumes "below dir p"
  obtains r where "p = dir @ r" "takeWhile (\<lambda>c. c \<noteq> CHR ''/'') r = []"
  using assms by (auto simp: below_def starts_with_iff)

lemma takeWhile_name: "CHR ''/'' \<notin> set w \<Longrightarrow> takeWhile (\<lambda>c. c \<noteq> CHR ''/'') r = []
    \<Longrightarrow> takeWhile (\<lambda>c. c \<noteq> CHR ''/'') (w @ r) = w"
  by (induction w) auto

lemma below_pod_dirs:
  assumes "plain_element u" "plain_element v" "below (pod_dir u) p" "below (pod_dir v) p"
  shows "u = v"
proof -
  obtain a b where "pod_dir u @ a = pod_dir v @ b" "takeWhile (\<lambda>c. c \<noteq> CHR ''/'') a = []"
    "takeWhile (\<lambda>c. c \<noteq> CHR ''/'') b = []"
    using assms(3,4) by (metis belowE)
  moreover have "u @ a = v @ b"
    using calculation(1) assms(1,2) by (simp add: pod_dir_plain)
  moreover have "CHR ''/'' \<notin> set u" "CHR ''/'' \<notin> set v"
    using assms(1,2) by (simp_all add: plain_element_def)
  ultimately show ?thesis
    by (metis takeWhile_name)
qed

subsection \<open>Records\<close>

definition limits_record :: "string \<Rightarrow> string \<Rightarrow> i64 \<Rightarrow> i64 \<Rightarrow> resource_data_t" where
  "limits_record podUID name requestMemory requestCore =
     \<lparr>pod_uid = podUID @ replicate (48 - length podUID) NUL,
      container_name = name @ replicate (FILENAME_MAX - length name) NUL,
      memory = requestMemory * MemoryBlockSize, utilization = int_of_u32 (ucast requestCore)\<rparr>"

definition fits_field :: "nat \<Rightarrow> string \<Rightarrow> bool" where
  "fits_field n str \<longleftrightarrow> NUL \<notin> set str \<and> length str < n"

lemma vConfig_fits:
  assumes "fits_field 48 u" "fits_field FILENAME_MAX name"
  shows "vConfig_of u name m c = Inr (limits_record u name m c)"
  using assms by (simp add: vConfig_of_def strcpy_field_def fits_field_def limits_record_def cstr_self)

lemma limits_record_valid:
  assumes "fits_field 48 u" "fits_field FILENAME_MAX name"
  shows "rc_valid (limits_record u name m c)"
  using assms by (simp add: rc_valid_def limits_record_def fits_field_def in_int_of_u32)

text \<open>A core request that is a percentage arrives unchanged.\<close>

lemma utilization_small:
  assumes "0 \<le> sint (c :: i64)" "sint c < 2 ^ 31"
  shows "int_of_u32 (ucast c) = sint c"
proof -
  have "uint c = sint c"
    using assms(1) by (simp add: uint_sint take_bit_int_eq_self_iff sint_lt [of c, simplified]
        order_less_le_trans [OF assms(2)])
  moreover have "uint (ucast c :: u32) = uint c mod 2 ^ 32"
    by (simp add: unsigned_ucast_eq take_bit_eq_mod)
  moreover have "uint c mod 2 ^ 32 = uint c"
    using assms calculation(1) by (intro mod_pos_pos_trivial) simp_all
  ultimately show ?thesis
    using assms int_of_u32_small [of "ucast c"] by simp
qed

subsection \<open>One file\<close>

lemma MkdirAll_tables [node_simps]:
  "PodByUID (snd (MkdirAll os p s)) = PodByUID s"
  "ContainerNameByUid (snd (MkdirAll os p s)) = ContainerNameByUid s"
  "ContainerUIDByName (snd (MkdirAll os p s)) = ContainerUIDByName s"
  "ContainerUIDInPodUID (snd (MkdirAll os p s)) = ContainerUIDInPodUID s"
  "PodVisitedByUID (snd (MkdirAll os p s)) = PodVisitedByUID s"
  "PodDoByUID (snd (MkdirAll os p s)) = PodDoByUID s"
  "CoreRequestByPodUID (snd (MkdirAll os p s)) = CoreRequestByPodUID s"
  "MemoryRequestByPodUID (snd (MkdirAll os p s)) = MemoryRequestByPodUID s"
  "files (snd (MkdirAll os p s)) = files s"
  "world (snd (MkdirAll os p s)) = world s"
  by (simp_all add: MkdirAll_def split: mkdir_answer.split)

text \<open>States that differ in files and directories only.\<close>

definition same_tables :: "('j, 'w) node \<Rightarrow> ('j, 'w) node \<Rightarrow> bool" where
  "same_tables s t \<longleftrightarrow> PodByUID t = PodByUID s \<and> ContainerNameByUid t = ContainerNameByUid s \<and>
     ContainerUIDByName t = ContainerUIDByName s \<and> ContainerUIDInPodUID t = ContainerUIDInPodUID s \<and>
     PodVisitedByUID t = PodVisitedByUID s \<and> PodDoByUID t = PodDoByUID s \<and>
     CoreRequestByPodUID t = CoreRequestByPodUID s \<and> MemoryRequestByPodUID t = MemoryRequestByPodUID s \<and>
     world t = world s"

lemma same_tables_refl [simp]: "same_tables s s"
  by (simp add: same_tables_def)

lemma same_tables_trans: "same_tables s t \<Longrightarrow> same_tables t u \<Longrightarrow> same_tables s u"
  by (simp add: same_tables_def)

lemma same_tables_files: "same_tables s (s\<lparr>files := F\<rparr>)"
  by (simp add: same_tables_def)

lemma MkdirAll_same: "same_tables s (snd (MkdirAll os p s))"
  by (simp add: same_tables_def node_simps)

text \<open>A system that opens the files and writes them completely.\<close>

definition writes_all :: "os \<Rightarrow> bool" where
  "writes_all os \<longleftrightarrow> (\<forall>p. os_opens os p \<and> os_written os p = int sizeof_resource_data_t)
     \<and> length (os_padding os) = 4"

lemma createVCUDAFile_same:
  "createVCUDAFile os f u name s = Inr (ok, t) \<Longrightarrow> same_tables s t"
  unfolding createVCUDAFile_def Let_def
  by (erule go_bind_InrE) (auto simp: same_tables_files split: prod.split_asm)

lemma createVCUDAFile_place:
  "createVCUDAFile os f u name s = Inr (ok, t) \<Longrightarrow> files t p \<noteq> files s p \<Longrightarrow> p = cstr f"
  unfolding createVCUDAFile_def Let_def
  by (erule go_bind_InrE) (auto split: prod.split_asm if_split_asm)

lemma createVCUDAFile_writes:
  assumes "writes_all os" "fits_field 48 u" "fits_field FILENAME_MAX name" "NUL \<notin> set f"
  shows "createVCUDAFile os f u name s = Inr (True, s\<lparr>files := (files s)(f \<mapsto>
    rc_encode (limits_record u name (map_i64 (MemoryRequestByPodUID s) u)
      (map_i64 (CoreRequestByPodUID s) u)) (os_padding os))\<rparr>)"
  using assms rc_encode_length [OF limits_record_valid [OF assms(2,3)]]
  by (simp add: createVCUDAFile_def Let_def vConfig_fits setting_to_disk_def writes_all_def cstr_self)

subsection \<open>All files of a pod\<close>

lemma write_config_same: "write_config os u uid s = Inr t \<Longrightarrow> same_tables s t"
  unfolding write_config_def Let_def
  by (auto elim!: go_bind_InrE intro: same_tables_trans [OF MkdirAll_same createVCUDAFile_same])

lemma write_configs_same: "go_fold (write_config os u) uids s = Inr t \<Longrightarrow> same_tables s t"
proof (induction uids arbitrary: s)
  case (Cons uid uids)
  from Cons.prems obtain r where r: "write_config os u uid s = Inr r"
    "go_fold (write_config os u) uids r = Inr t"
    by auto
  show ?case
    by (rule same_tables_trans [OF write_config_same [OF r(1)] Cons.IH [OF r(2)]])
qed simp

text \<open>Only the files of the containers change.\<close>

lemma write_config_places:
  assumes "write_config os u uid s = Inr t" "files t p \<noteq> files s p"
  shows "\<exists>v2. p = cstr (config_file_of v2 u (map_string (ContainerNameByUid s) uid) uid)"
proof -
  obtain v2 ok where "isCgroupVersionV2 os = Inr v2"
    "createVCUDAFile os (config_file_of v2 u (map_string (ContainerNameByUid s) uid) uid) u
       (map_string (ContainerNameByUid s) uid)
       (snd (MkdirAll os (config_dir v2 u (map_string (ContainerNameByUid s) uid) uid) s)) = Inr (ok, t)"
    using assms(1) by (auto simp: write_config_def Let_def go_bind_eq_Inr config_file_of_def)
  then show ?thesis
    using createVCUDAFile_place assms(2) by (metis MkdirAll_tables(9))
qed

lemma write_configs_places:
  "go_fold (write_config os u) uids s = Inr t \<Longrightarrow> files t p \<noteq> files s p \<Longrightarrow>
   \<exists>uid \<in> set uids. \<exists>v2. p = cstr (config_file_of v2 u (map_string (ContainerNameByUid s) uid) uid)"
proof (induction uids arbitrary: s)
  case (Cons uid uids)
  from Cons.prems(1) obtain r where r: "write_config os u uid s = Inr r"
    "go_fold (write_config os u) uids r = Inr t"
    by auto
  show ?case
  proof (cases "files r p = files s p")
    case True
    then show ?thesis
      using Cons.IH [OF r(2)] Cons.prems(2) write_config_same [OF r(1)] by (simp add: same_tables_def)
  next
    case False
    then show ?thesis
      using write_config_places [OF r(1)] by simp
  qed
qed simp

text \<open>The name a container id stands for can be used in a path and fits the record.\<close>

definition good_name :: "string \<Rightarrow> bool" where
  "good_name name \<longleftrightarrow> plain_element name \<and> fits_field FILENAME_MAX name"

definition good_uid :: "string \<Rightarrow> bool" where
  "good_uid u \<longleftrightarrow> plain_element u \<and> fits_field 48 u"

definition file_bytes :: "os \<Rightarrow> string \<Rightarrow> string \<Rightarrow> ('j, 'w) node \<Rightarrow> char list" where
  "file_bytes os u uid s =
     rc_encode (limits_record u (map_string (ContainerNameByUid s) uid)
       (map_i64 (MemoryRequestByPodUID s) u) (map_i64 (CoreRequestByPodUID s) u)) (os_padding os)"

definition file_place :: "bool \<Rightarrow> string \<Rightarrow> string \<Rightarrow> ('j, 'w) node \<Rightarrow> string" where
  "file_place v2 u uid s = config_file_of v2 u (map_string (ContainerNameByUid s) uid) uid"

lemma file_frame:
  assumes "same_tables s t"
  shows "file_bytes os u uid t = file_bytes os u uid s" "file_place v2 u uid t = file_place v2 u uid s"
  using assms by (simp_all add: file_bytes_def file_place_def same_tables_def)

lemma write_config_writes:
  assumes "writes_all os" "isCgroupVersionV2 os = Inr v2" "good_uid u"
    and "good_name (map_string (ContainerNameByUid s) uid)" "good_name uid"
  shows "\<exists>t. write_config os u uid s = Inr t \<and> same_tables s t
    \<and> files t = (files s)(file_place v2 u uid s \<mapsto> file_bytes os u uid s)"
proof -
  let ?name = "map_string (ContainerNameByUid s) uid"
  let ?s = "snd (MkdirAll os (config_dir v2 u ?name uid) s)"
  have "NUL \<notin> set (file_place v2 u uid s)"
    using assms(3-5) unfolding file_place_def good_uid_def good_name_def
    by (subst config_file_plain) (simp_all add: pod_dir_plain VirtualManagerPath_def fits_field_def)
  then have "write_config os u uid s = Inr (?s\<lparr>files := (files s)(file_place v2 u uid s \<mapsto>
      file_bytes os u uid s)\<rparr>)"
    using assms createVCUDAFile_writes [OF assms(1), of u ?name "file_place v2 u uid s" ?s]
    by (simp add: write_config_def Let_def good_uid_def good_name_def node_simps file_bytes_def
        file_place_def config_file_of_def)
  then show ?thesis
    by (auto intro!: same_tables_trans [OF MkdirAll_same same_tables_files])
qed

fun updates :: "('a \<Rightarrow> 'k) \<Rightarrow> ('a \<Rightarrow> 'v) \<Rightarrow> 'a list \<Rightarrow> ('k \<Rightarrow> 'v option) \<Rightarrow> 'k \<Rightarrow> 'v option" where
  "updates F B [] f = f"
| "updates F B (y # ys) f = updates F B ys (f(F y \<mapsto> B y))"

lemma write_configs_writes:
  assumes "writes_all os" "isCgroupVersionV2 os = Inr v2" "good_uid u"
    and "\<forall>uid \<in> set uids. good_name (map_string (ContainerNameByUid s) uid) \<and> good_name uid"
  shows "\<exists>t. go_fold (write_config os u) uids s = Inr t \<and> same_tables s t
    \<and> files t = updates (\<lambda>uid. file_place v2 u uid s) (\<lambda>uid. file_bytes os u uid s) uids (files s)"
  using assms(4)
proof (induction uids arbitrary: s)
  case (Cons uid uids)
  obtain t where t: "write_config os u uid s = Inr t" "same_tables s t"
    "files t = (files s)(file_place v2 u uid s \<mapsto> file_bytes os u uid s)"
    using write_config_writes [OF assms(1-3)] Cons.prems by (metis list.set_intros(1))
  have "\<forall>uid \<in> set uids. good_name (map_string (ContainerNameByUid t) uid) \<and> good_name uid"
    using Cons.prems t(2) by (simp add: same_tables_def)
  from Cons.IH [OF this] obtain r where r: "go_fold (write_config os u) uids t = Inr r" "same_tables t r"
    "files r = updates (\<lambda>uid. file_place v2 u uid t) (\<lambda>uid. file_bytes os u uid t) uids (files t)"
    by blast
  have "files r = updates (\<lambda>uid. file_place v2 u uid s) (\<lambda>uid. file_bytes os u uid s)
      (uid # uids) (files s)"
    using r(3) unfolding file_frame [OF t(2)] t(3) by simp
  then show ?case
    using t(1) r(1) same_tables_trans [OF t(2) r(2)] by simp
qed simp

text \<open>Where two containers share a file they share its contents.\<close>

lemma updates_value:
  "\<forall>y \<in> set xs. F y = p \<longrightarrow> B y = b \<Longrightarrow>
   updates F B xs f p = (if \<exists>y \<in> set xs. F y = p then Some b else f p)"
  by (induction xs arbitrary: f) auto

lemma updates_same:
  assumes "x \<in> set xs" "\<And>y. y \<in> set xs \<Longrightarrow> F y = F x \<Longrightarrow> B y = B x"
  shows "updates F B xs f (F x) = Some (B x)"
  using assms updates_value [of xs F "F x" B "B x" f] by metis

lemma updates_other: "\<forall>y \<in> set xs. F y \<noteq> p \<Longrightarrow> updates F B xs f p = f p"
  by (induction xs arbitrary: f) auto

lemma same_place_same_bytes:
  assumes "good_uid u" "good_name (map_string (ContainerNameByUid s) a)" "good_name a"
    and "good_name (map_string (ContainerNameByUid s) b)" "good_name b"
    and "file_place v2 u a s = file_place v2 u b s"
  shows "file_bytes os u a s = file_bytes os u b s"
proof -
  have "(if v2 then map_string (ContainerNameByUid s) a else a)
      = (if v2 then map_string (ContainerNameByUid s) b else b)"
    using assms by (simp add: file_place_def config_file_plain good_name_def good_uid_def split: if_splits)
  then show ?thesis
    by (simp add: file_bytes_def split: if_splits)
qed

subsection \<open>The containers of a status\<close>

text \<open>The status of a created container of the docker runtime.\<close>

definition docker_status :: "('b, 'j, 'w) kube \<Rightarrow> 'j \<Rightarrow> string \<times> string \<Rightarrow> bool" where
  "docker_status k value c \<longleftrightarrow>
     JString k (JGet k value ''containerID'') = ''docker://'' @ fst c \<and>
     JString k (JGet k value ''name'') = snd c \<and> snd c \<noteq> [] \<and> strstr (fst c) ''docker://'' = None"

definition enter :: "string \<Rightarrow> string \<times> string \<Rightarrow> ('j, 'w) node \<Rightarrow> ('j, 'w) node" where
  "enter u c s =
     s\<lparr>ContainerNameByUid := (ContainerNameByUid s)(fst c \<mapsto> snd c),
       ContainerUIDByName := (ContainerUIDByName s)(snd c \<mapsto> fst c),
       ContainerUIDInPodUID := (ContainerUIDInPodUID s)
         (u \<mapsto> map_list (ContainerUIDInPodUID s) u @ [fst c])\<rparr>"

lemma register_docker:
  assumes "docker_status k v c"
  shows "register_container k u v (flag, s) = Inr (True, enter u c s)"
proof -
  have "Split (''docker://'' @ fst c) ''docker://'' = [[], fst c]"
    using assms Split_prefix [of "''docker://''" "fst c"] Split_absent [of "''docker://''" "fst c"]
    by (simp add: docker_status_def)
  then show ?thesis
    using assms by (simp add: register_container_def docker_status_def enter_def Let_def)
qed

lemma register_all:
  assumes "list_all2 (docker_status k) vs cs"
  shows "go_fold (register_container k u) vs (flag, s) = Inr (flag \<or> cs \<noteq> [], fold (enter u) cs s)"
  using assms by (induction arbitrary: flag s rule: list_all2_induct) (simp_all add: register_docker)

lemma map_list_upd [simp]:
  "map_list (m(k \<mapsto> xs)) k = xs" "k \<noteq> j \<Longrightarrow> map_list (m(k \<mapsto> xs)) j = map_list m j"
  by (simp_all add: map_list_def)

lemma entered:
  "map_list (ContainerUIDInPodUID (fold (enter u) cs s)) u = map_list (ContainerUIDInPodUID s) u @ map fst cs"
  "ContainerNameByUid (fold (enter u) cs s) = ContainerNameByUid s ++ map_of (rev cs)"
  "PodByUID (fold (enter u) cs s) = PodByUID s"
  "PodVisitedByUID (fold (enter u) cs s) = PodVisitedByUID s"
  "PodDoByUID (fold (enter u) cs s) = PodDoByUID s"
  "CoreRequestByPodUID (fold (enter u) cs s) = CoreRequestByPodUID s"
  "MemoryRequestByPodUID (fold (enter u) cs s) = MemoryRequestByPodUID s"
  "files (fold (enter u) cs s) = files s"
  "world (fold (enter u) cs s) = world s"
  by (induction cs arbitrary: s) (simp_all add: enter_def map_add_upd_left map_add_def fun_eq_iff
      split: option.split)

lemma entered_other: "v \<noteq> u \<Longrightarrow> ContainerUIDInPodUID (fold (enter u) cs s) v = ContainerUIDInPodUID s v"
  by (induction cs arbitrary: s) (simp_all add: enter_def)

lemma entered_some: "cs \<noteq> [] \<Longrightarrow> ContainerUIDInPodUID (fold (enter u) cs s) u \<noteq> None"
proof (induction cs arbitrary: s)
  case (Cons c cs)
  then show ?case
    by (cases "cs = []") (simp_all add: enter_def del: not_None_eq)
qed simp

end
