(* ===== verification/Pod_Events.thy ===== *)
theory Pod_Events
  imports Go_Prelude
begin

text \<open>
  The way of a pod's events from the watcher to the handlers: the two queues of
  \<open>k8sPlugins/podWatch/pod_mgr.go\<close> and the loop \<open>Run\<close> of
  \<open>k8sPlugins/resourceManager/manager.go\<close> that empties them, as steps that interleave.
\<close>

subsection \<open>The queues\<close>

record 'j PodManager =
  PodModObj :: "'j list"
  PodDelObj :: "'j list"

definition NewPodManager :: "'j PodManager" where
  "NewPodManager = \<lparr>PodModObj = [], PodDelObj = []\<rparr>"

definition DoAdded :: "'j \<Rightarrow> 'j PodManager \<Rightarrow> 'j PodManager" where
  "DoAdded obj m = m"

definition DoModified :: "'j \<Rightarrow> 'j PodManager \<Rightarrow> 'j PodManager" where
  "DoModified obj m = m\<lparr>PodModObj := PodModObj m @ [obj]\<rparr>"

definition DoDeleted :: "'j \<Rightarrow> 'j PodManager \<Rightarrow> 'j PodManager" where
  "DoDeleted obj m = m\<lparr>PodDelObj := PodDelObj m @ [obj]\<rparr>"

text \<open>\<open>q = q[1:]\<close>; on an empty slice it panics.\<close>

definition pop_mod :: "'j PodManager \<Rightarrow> 'j PodManager go_result" where
  "pop_mod m = (if PodModObj m = [] then Inl Panic else Inr (m\<lparr>PodModObj := tl (PodModObj m)\<rparr>))"

definition pop_del :: "'j PodManager \<Rightarrow> 'j PodManager go_result" where
  "pop_del m = (if PodDelObj m = [] then Inl Panic else Inr (m\<lparr>PodDelObj := tl (PodDelObj m)\<rparr>))"

text \<open>
  The contract both queues keep: first in, first out, and the head only leaves by \<open>pop\<close>. What
  was put and what was taken are balanced by what waits.
\<close>

definition balanced :: "'a list \<Rightarrow> 'a list \<Rightarrow> 'a list \<Rightarrow> bool" where
  "balanced put taken waiting \<longleftrightarrow> put = taken @ waiting"

locale event_queue =
  fixes waiting :: "'m \<Rightarrow> 'a list"
    and push :: "'a \<Rightarrow> 'm \<Rightarrow> 'm"
    and pop :: "'m \<Rightarrow> 'm go_result"
  assumes push_waiting: "waiting (push x m) = waiting m @ [x]"
    and pop_waiting: "waiting m = x # xs \<Longrightarrow> \<exists>m'. pop m = Inr m' \<and> waiting m' = xs"
    and pop_empty: "waiting m = [] \<Longrightarrow> pop m = Inl Panic"
begin

lemma push_balanced: "balanced p t (waiting m) \<Longrightarrow> balanced (p @ [x]) t (waiting (push x m))"
  by (simp add: balanced_def push_waiting)

lemma pop_balanced:
  assumes "balanced p t (waiting m)" "waiting m = x # xs" "pop m = Inr m'"
  shows "balanced p (t @ [x]) (waiting m')"
  using pop_waiting [OF assms(2)] assms by (auto simp: balanced_def)

lemma pop_defined: "waiting m \<noteq> [] \<longleftrightarrow> (\<exists>m'. pop m = Inr m')"
  using pop_waiting pop_empty by (cases "waiting m") fastforce+

text \<open>The head stays while others push.\<close>

lemma push_head: "waiting m = x # xs \<Longrightarrow> \<exists>ys. waiting (push y m) = x # ys"
  by (simp add: push_waiting)

end

interpretation modq: event_queue PodModObj DoModified pop_mod
  by unfold_locales (simp_all add: DoModified_def pop_mod_def)

interpretation delq: event_queue PodDelObj DoDeleted pop_del
  by unfold_locales (simp_all add: DoDeleted_def pop_del_def)

lemma queues_apart [simp]:
  "PodDelObj (DoModified j m) = PodDelObj m" "PodModObj (DoDeleted j m) = PodModObj m"
  by (simp_all add: DoModified_def DoDeleted_def)

lemma pops_apart:
  "pop_mod m = Inr m' \<Longrightarrow> PodDelObj m' = PodDelObj m" "pop_del m = Inr m' \<Longrightarrow> PodModObj m' = PodModObj m"
  by (auto simp: pop_mod_def pop_del_def split: if_splits)

subsection \<open>The loop\<close>

text \<open>
  Where the loop is: before a test of a queue, between reading its head and removing it, or before
  it starts the handler. A handler's start is logged; what it does is in \<open>Resource_Manager\<close>.
\<close>

datatype 'j run_pc =
    Test_Mod | Pop_Mod 'j | Start_Mod 'j
  | Test_Del | Pop_Del 'j | Start_Del 'j

datatype 'j handler = Create 'j | Delete 'j

record 'j run_state =
  queues :: "'j PodManager"
  at :: "'j run_pc"
  received :: "'j handler list"
  started :: "'j handler list"

definition run_init :: "'j run_state" where
  "run_init = \<lparr>queues = NewPodManager, at = Test_Mod, received = [], started = []\<rparr>"

inductive run_step :: "'j run_state \<Rightarrow> 'j run_state \<Rightarrow> bool" where
  modified: "run_step s (s\<lparr>queues := DoModified j (queues s), received := received s @ [Create j]\<rparr>)"
| deleted: "run_step s (s\<lparr>queues := DoDeleted j (queues s), received := received s @ [Delete j]\<rparr>)"
| no_mod: "at s = Test_Mod \<Longrightarrow> PodModObj (queues s) = [] \<Longrightarrow> run_step s (s\<lparr>at := Test_Del\<rparr>)"
| read_mod: "at s = Test_Mod \<Longrightarrow> PodModObj (queues s) = j # js \<Longrightarrow> run_step s (s\<lparr>at := Pop_Mod j\<rparr>)"
| pop_mod: "at s = Pop_Mod j \<Longrightarrow> pop_mod (queues s) = Inr q \<Longrightarrow>
    run_step s (s\<lparr>queues := q, at := Start_Mod j\<rparr>)"
| start_mod: "at s = Start_Mod j \<Longrightarrow>
    run_step s (s\<lparr>at := Test_Del, started := started s @ [Create j]\<rparr>)"
| no_del: "at s = Test_Del \<Longrightarrow> PodDelObj (queues s) = [] \<Longrightarrow> run_step s (s\<lparr>at := Test_Mod\<rparr>)"
| read_del: "at s = Test_Del \<Longrightarrow> PodDelObj (queues s) = j # js \<Longrightarrow> run_step s (s\<lparr>at := Pop_Del j\<rparr>)"
| pop_del: "at s = Pop_Del j \<Longrightarrow> pop_del (queues s) = Inr q \<Longrightarrow>
    run_step s (s\<lparr>queues := q, at := Start_Del j\<rparr>)"
| start_del: "at s = Start_Del j \<Longrightarrow>
    run_step s (s\<lparr>at := Test_Mod, started := started s @ [Delete j]\<rparr>)"

inductive runs_to :: "'j run_state \<Rightarrow> 'j run_state \<Rightarrow> bool" where
  here: "runs_to s s"
| more: "runs_to s t \<Longrightarrow> run_step t u \<Longrightarrow> runs_to s u"

fun creates :: "'j handler list \<Rightarrow> 'j list" where
  "creates [] = []"
| "creates (Create j # hs) = j # creates hs"
| "creates (Delete j # hs) = creates hs"

fun deletes :: "'j handler list \<Rightarrow> 'j list" where
  "deletes [] = []"
| "deletes (Create j # hs) = deletes hs"
| "deletes (Delete j # hs) = j # deletes hs"

lemma creates_append [simp]: "creates (xs @ ys) = creates xs @ creates ys"
  by (induction xs rule: creates.induct) simp_all

lemma deletes_append [simp]: "deletes (xs @ ys) = deletes xs @ deletes ys"
  by (induction xs rule: deletes.induct) simp_all

text \<open>What has left a queue and waits for its handler's start.\<close>

fun taken_mod :: "'j run_pc \<Rightarrow> 'j list" where
  "taken_mod (Start_Mod j) = [j]"
| "taken_mod _ = []"

fun taken_del :: "'j run_pc \<Rightarrow> 'j list" where
  "taken_del (Start_Del j) = [j]"
| "taken_del _ = []"

definition run_inv :: "'j run_state \<Rightarrow> bool" where
  "run_inv s \<longleftrightarrow>
     balanced (creates (received s)) (creates (started s) @ taken_mod (at s)) (PodModObj (queues s)) \<and>
     balanced (deletes (received s)) (deletes (started s) @ taken_del (at s)) (PodDelObj (queues s)) \<and>
     (\<forall>j. at s = Pop_Mod j \<longrightarrow> (\<exists>js. PodModObj (queues s) = j # js)) \<and>
     (\<forall>j. at s = Pop_Del j \<longrightarrow> (\<exists>js. PodDelObj (queues s) = j # js))"

lemma run_inv_init: "run_inv run_init"
  by (simp add: run_inv_def run_init_def NewPodManager_def balanced_def)

lemma run_inv_step: "run_step s t \<Longrightarrow> run_inv s \<Longrightarrow> run_inv t"
proof (induction rule: run_step.induct)
  case (pop_mod s j q)
  then obtain js where "PodModObj (queues s) = j # js"
    by (auto simp: run_inv_def)
  with pop_mod modq.pop_balanced [of _ _ "queues s" j js q] pops_apart(1) [of "queues s" q] show ?case
    by (auto simp: run_inv_def)
next
  case (pop_del s j q)
  then obtain js where "PodDelObj (queues s) = j # js"
    by (auto simp: run_inv_def)
  with pop_del delq.pop_balanced [of _ _ "queues s" j js q] pops_apart(2) [of "queues s" q] show ?case
    by (auto simp: run_inv_def)
next
  case (modified s j)
  then show ?case
    using modq.push_balanced [of "creates (received s)" _ "queues s" j] modq.push_waiting [of j "queues s"]
    by (auto simp: run_inv_def)
next
  case (deleted s j)
  then show ?case
    using delq.push_balanced [of "deletes (received s)" _ "queues s" j] delq.push_waiting [of j "queues s"]
    by (auto simp: run_inv_def)
qed (simp_all add: run_inv_def)

lemma run_inv_reachable: "runs_to run_init s \<Longrightarrow> run_inv s"
  by (induction "run_init :: 'a run_state" s rule: runs_to.induct)
    (simp_all add: run_inv_init run_inv_step)

text \<open>
  C22: However the watcher and the loop interleave, no event is lost, handled twice or handled out
  of the order of its queue: the modifications whose handlers were started are the first of those
  received, and the same holds of the deletions; and the loop never panics by removing the head
  of an empty queue.
\<close>

theorem events_handled_in_order:
  assumes "runs_to run_init s"
  shows "(\<exists>waiting. creates (received s) = creates (started s) @ waiting)
    \<and> (\<exists>waiting. deletes (received s) = deletes (started s) @ waiting)
    \<and> (\<forall>j. at s = Pop_Mod j \<longrightarrow> pop_mod (queues s) \<noteq> Inl Panic)
    \<and> (\<forall>j. at s = Pop_Del j \<longrightarrow> pop_del (queues s) \<noteq> Inl Panic)"
  using run_inv_reachable [OF assms]
  by (auto simp: run_inv_def balanced_def pop_mod_def pop_del_def)

text \<open>One modification, received and handled.\<close>

theorem events_handled_in_order_witness:
  "\<exists>s. runs_to run_init s \<and> received s = [Create ''a''] \<and> started s = [Create ''a'']
    \<and> (\<exists>waiting. creates (received s) = creates (started s) @ waiting)"
proof -
  let ?s = "\<lambda>m l r st. \<lparr>queues = \<lparr>PodModObj = m, PodDelObj = []\<rparr>, at = l, received = r, started = st\<rparr>"
  note fields = run_state.simps PodManager.simps DoModified_def pop_mod_def
  have s1: "run_step (?s [] Test_Mod [] []) (?s [''a''] Test_Mod [Create ''a''] [])"
    using modified [of "?s [] Test_Mod [] []" "''a''"] by (simp add: fields)
  have s2: "run_step (?s [''a''] Test_Mod [Create ''a''] []) (?s [''a''] (Pop_Mod ''a'') [Create ''a''] [])"
    using read_mod [of "?s [''a''] Test_Mod [Create ''a''] []"] by (simp add: fields)
  have s3: "run_step (?s [''a''] (Pop_Mod ''a'') [Create ''a''] []) (?s [] (Start_Mod ''a'') [Create ''a''] [])"
    using run_step.pop_mod [of "?s [''a''] (Pop_Mod ''a'') [Create ''a''] []" "''a''"] by (simp add: fields)
  have s4: "run_step (?s [] (Start_Mod ''a'') [Create ''a''] []) (?s [] Test_Del [Create ''a''] [Create ''a''])"
    using start_mod [of "?s [] (Start_Mod ''a'') [Create ''a''] []" "''a''"] by (simp add: fields)
  have i: "run_init = ?s [] Test_Mod [] []"
    by (simp add: run_init_def NewPodManager_def)
  have run: "runs_to run_init (?s [] Test_Del [Create ''a''] [Create ''a''])"
    unfolding i by (rule more [OF more [OF more [OF more [OF here s1] s2] s3] s4])
  show ?thesis
    by (rule exI [of _ "?s [] Test_Del [Create ''a''] [Create ''a'']"])
      (intro conjI run events_handled_in_order [OF run, THEN conjunct1], simp_all)
qed

end
