(* ===== verification/Manager_Runs.thy ===== *)
theory Manager_Runs
  imports Manager_Files Pod_Events
begin

text \<open>
  Runs of the manager's handlers, one after the other: the invariant of its tables, what a pod's
  handlers write from its first event to its deletion, and which of that goes wrong.
\<close>

subsection \<open>The tables\<close>

text \<open>
  What the handlers keep of seven of the eight tables when they run one after the other. A pod has a
  document exactly when it is visited (its flag of \<open>PodVisitedByUID\<close> is set), its two requests are recorded
  together and only if it is visited; containers are registered only for pods whose files were written
  (the flag of \<open>PodDoByUID\<close>), these are visited pods, and every container with a name is in the list of a
  pod. Of the eighth table, \<open>ContainerUIDByName\<close>, and of handlers that run at the same time, see
  \<open>Manager_Tables\<close>.
\<close>

definition tables_wf :: "('j, 'w) node \<Rightarrow> bool" where
  "tables_wf s \<longleftrightarrow>
     (\<forall>u. map_bool (PodVisitedByUID s) u \<longleftrightarrow> PodByUID s u \<noteq> None) \<and>
     (\<forall>u. CoreRequestByPodUID s u \<noteq> None \<longrightarrow> map_bool (PodVisitedByUID s) u) \<and>
     (\<forall>u. CoreRequestByPodUID s u = None \<longleftrightarrow> MemoryRequestByPodUID s u = None) \<and>
     (\<forall>u. map_bool (PodDoByUID s) u \<longrightarrow> map_bool (PodVisitedByUID s) u) \<and>
     (\<forall>u. ContainerUIDInPodUID s u \<noteq> None \<longrightarrow> map_bool (PodDoByUID s) u) \<and>
     (\<forall>uid. ContainerNameByUid s uid \<noteq> None \<longrightarrow>
        (\<exists>u. uid \<in> set (map_list (ContainerUIDInPodUID s) u)))"

lemma tables_wf_init: "tables_wf (NewVirtualManager w)"
  by (simp add: tables_wf_def NewVirtualManager_def map_bool_def)

lemma map_bool_upd [simp]:
  "map_bool (m(k \<mapsto> b)) k = b" "k \<noteq> j \<Longrightarrow> map_bool (m(k \<mapsto> b)) j = map_bool m j"
  "map_bool (m(k := None)) k = False" "k \<noteq> j \<Longrightarrow> map_bool (m(k := None)) j = map_bool m j"
  by (simp_all add: map_bool_def)

text \<open>Registering containers fills the three tables of containers and no other.\<close>

definition same_pods :: "('j, 'w) node \<Rightarrow> ('j, 'w) node \<Rightarrow> bool" where
  "same_pods s t \<longleftrightarrow> PodByUID t = PodByUID s \<and> PodVisitedByUID t = PodVisitedByUID s \<and>
     PodDoByUID t = PodDoByUID s \<and> CoreRequestByPodUID t = CoreRequestByPodUID s \<and>
     MemoryRequestByPodUID t = MemoryRequestByPodUID s \<and> files t = files s \<and> dirs t = dirs s \<and>
     world t = world s"

definition registered :: "string \<Rightarrow> ('j, 'w) node \<Rightarrow> ('j, 'w) node \<Rightarrow> bool" where
  "registered u s t \<longleftrightarrow> same_pods s t \<and>
     (\<forall>v. v \<noteq> u \<longrightarrow> ContainerUIDInPodUID t v = ContainerUIDInPodUID s v) \<and>
     set (map_list (ContainerUIDInPodUID s) u) \<subseteq> set (map_list (ContainerUIDInPodUID t) u) \<and>
     (\<forall>uid. ContainerNameByUid t uid \<noteq> None \<longrightarrow>
        ContainerNameByUid s uid \<noteq> None \<or> uid \<in> set (map_list (ContainerUIDInPodUID t) u))"

lemma registered_refl [simp]: "registered u s s"
  by (simp add: registered_def same_pods_def)

lemma registered_trans:
  assumes "registered u s t" "registered u t r"
  shows "registered u s r"
proof -
  have "same_pods s r"
    using assms by (simp add: registered_def same_pods_def)
  moreover have "ContainerNameByUid s uid \<noteq> None \<or> uid \<in> set (map_list (ContainerUIDInPodUID r) u)"
    if "ContainerNameByUid r uid \<noteq> None" for uid
    using that assms unfolding registered_def by blast
  moreover have "set (map_list (ContainerUIDInPodUID s) u) \<subseteq> set (map_list (ContainerUIDInPodUID r) u)"
    using assms unfolding registered_def by blast
  ultimately show ?thesis
    using assms by (simp add: registered_def)
qed

lemma register_container_registered:
  assumes "register_container k u v (flag, s) = Inr (flag', t)"
  shows "registered u s t"
  using assms by (auto simp: register_container_def Let_def registered_def same_pods_def
      split: if_splits list.splits)

lemma register_containers_registered:
  "go_fold (register_container k u) vs (flag, s) = Inr (flag', t) \<Longrightarrow> registered u s t"
proof (induction vs arbitrary: flag s)
  case (Cons v vs)
  then obtain g r where r: "register_container k u v (flag, s) = Inr (g, r)"
    "go_fold (register_container k u) vs (g, r) = Inr (flag', t)"
    by auto
  show ?case
    by (rule registered_trans [OF register_container_registered [OF r(1)] Cons.IH [OF r(2)]])
qed simp

lemma register_flag:
  "go_fold (register_container k u) vs (flag, s) = Inr (False, t) \<Longrightarrow> \<not> flag \<and> t = s"
proof (induction vs arbitrary: flag s)
  case (Cons v vs)
  then obtain g r where "register_container k u v (flag, s) = Inr (g, r)" "\<not> g" "t = r"
    by fastforce
  then show ?case
    by (auto simp: register_container_def Let_def split: if_splits list.splits)
qed simp

subsection \<open>What each part of a handler may do\<close>

lemma serve_assignedE:
  assumes "serve_assigned k os i pod s = Inr (t, goes_on)"
  obtains (stopped) w where "\<not> goes_on" "t = s\<lparr>world := w\<rparr>"
  | (served) w s1 s2 where "goes_on" "registered (id_uid i) (s\<lparr>world := w\<rparr>) s1" "same_tables s1 s2"
      "t = s2\<lparr>PodDoByUID := (PodDoByUID s2)(id_uid i \<mapsto> True)\<rparr>"
      "\<And>p. files t p \<noteq> files s p \<Longrightarrow> \<exists>uid \<in> set (map_list (ContainerUIDInPodUID t) (id_uid i)).
         \<exists>v2. p = cstr (config_file_of v2 (id_uid i) (map_string (ContainerNameByUid t) uid) uid)"
proof -
  obtain st w where await: "await_statuses k (id_namespace i) (id_name i) 100 (JGet k pod ''status'') (world s)
      = (st, w)"
    by (metis surj_pair)
  show ?thesis
  proof (cases st)
    case None
    then show ?thesis
      using assms await by (intro stopped [of w]) (simp_all add: serve_assigned_def)
  next
    case (Some status)
    obtain flag s1 where reg: "go_fold (register_container k (id_uid i))
        (JEach k (JGet k status ''containerStatuses'')) (False, s\<lparr>world := w\<rparr>) = Inr (flag, s1)"
      using assms await Some by (auto simp: serve_assigned_def go_bind_eq_Inr)
    show ?thesis
    proof (cases flag)
      case False
      then show ?thesis
        using assms await Some reg register_flag [of k "id_uid i" _ False "s\<lparr>world := w\<rparr>" s1]
        by (intro stopped [of w]) (simp_all add: serve_assigned_def)
    next
      case True
      then obtain s2 where s2: "go_fold (write_config os (id_uid i))
          (map_list (ContainerUIDInPodUID s1) (id_uid i)) s1 = Inr s2"
        and t: "t = s2\<lparr>PodDoByUID := (PodDoByUID s2)(id_uid i \<mapsto> True)\<rparr>" "goes_on"
        using assms await Some reg by (auto simp: serve_assigned_def go_bind_eq_Inr)
      note r = register_containers_registered [OF reg] and same = write_configs_same [OF s2]
      have "\<exists>uid \<in> set (map_list (ContainerUIDInPodUID t) (id_uid i)).
          \<exists>v2. p = cstr (config_file_of v2 (id_uid i) (map_string (ContainerNameByUid t) uid) uid)"
        if "files t p \<noteq> files s p" for p
        using that write_configs_places [OF s2, of p] r same t(1)
        by (simp add: registered_def same_pods_def same_tables_def)
      then show ?thesis
        by (rule served [OF t(2) r same t(1)])
    qed
  qed
qed

definition requests_kept_or_set :: "string \<Rightarrow> i64 \<times> i64 \<Rightarrow> ('j, 'w) node \<Rightarrow> ('j, 'w) node \<Rightarrow> bool" where
  "requests_kept_or_set u r s t \<longleftrightarrow>
     (CoreRequestByPodUID t = CoreRequestByPodUID s \<and> MemoryRequestByPodUID t = MemoryRequestByPodUID s) \<or>
     (CoreRequestByPodUID t = (CoreRequestByPodUID s)(u \<mapsto> fst r) \<and>
      MemoryRequestByPodUID t = (MemoryRequestByPodUID s)(u \<mapsto> snd r))"

lemma first_visit_effect:
  assumes "first_visit k os i pod s = Inr t"
  shows "PodVisitedByUID t = (PodVisitedByUID s)(id_uid i \<mapsto> True)
    \<and> PodByUID t = (PodByUID s)(id_uid i \<mapsto> pod) \<and> PodDoByUID t = PodDoByUID s
    \<and> ContainerNameByUid t = ContainerNameByUid s \<and> ContainerUIDInPodUID t = ContainerUIDInPodUID s
    \<and> files t = files s \<and> requests_kept_or_set (id_uid i) (pod_request k pod) s t"
proof -
  let ?s1 = "s\<lparr>PodVisitedByUID := (PodVisitedByUID s)(id_uid i \<mapsto> True),
    PodByUID := (PodByUID s)(id_uid i \<mapsto> pod)\<rparr>"
  obtain a s2 where m: "MkdirAll os (Join [VirtualManagerPath, id_uid i]) ?s1 = (a, s2)"
    by (metis surj_pair)
  obtain c r where r: "pod_request k pod = (c, r)"
    by (metis surj_pair)
  show ?thesis
    using assms MkdirAll_tables [of os "Join [VirtualManagerPath, id_uid i]" ?s1] unfolding m
    by (auto simp: first_visit_def Let_def m r requests_kept_or_set_def go_bind_eq_Inr split: if_splits)
qed

lemma identify_uid: "identify k pod = Some i \<Longrightarrow> id_uid i \<noteq> []"
  by (auto simp: identify_def Let_def split: if_splits)

text \<open>What holds of the tables while the pod \<open>u\<close> may be served and not yet visited.\<close>

definition wf_but :: "string \<Rightarrow> ('j, 'w) node \<Rightarrow> bool" where
  "wf_but u s \<longleftrightarrow>
     (\<forall>v. map_bool (PodVisitedByUID s) v \<longleftrightarrow> PodByUID s v \<noteq> None) \<and>
     (\<forall>v. CoreRequestByPodUID s v \<noteq> None \<longrightarrow> map_bool (PodVisitedByUID s) v) \<and>
     (\<forall>v. CoreRequestByPodUID s v = None \<longleftrightarrow> MemoryRequestByPodUID s v = None) \<and>
     (\<forall>v. v \<noteq> u \<longrightarrow> map_bool (PodDoByUID s) v \<longrightarrow> map_bool (PodVisitedByUID s) v) \<and>
     (\<forall>v. ContainerUIDInPodUID s v \<noteq> None \<longrightarrow> map_bool (PodDoByUID s) v) \<and>
     (\<forall>uid. ContainerNameByUid s uid \<noteq> None \<longrightarrow>
        (\<exists>v. uid \<in> set (map_list (ContainerUIDInPodUID s) v)))"

lemma wf_but_iff: "tables_wf s \<longleftrightarrow> wf_but u s \<and>
    (map_bool (PodDoByUID s) u \<longrightarrow> map_bool (PodVisitedByUID s) u)"
proof -
  have "(\<forall>v. map_bool (PodDoByUID s) v \<longrightarrow> map_bool (PodVisitedByUID s) v) \<longleftrightarrow>
    (\<forall>v. v \<noteq> u \<longrightarrow> map_bool (PodDoByUID s) v \<longrightarrow> map_bool (PodVisitedByUID s) v) \<and>
    (map_bool (PodDoByUID s) u \<longrightarrow> map_bool (PodVisitedByUID s) u)"
    by metis
  then show ?thesis
    unfolding tables_wf_def wf_but_def by argo
qed

lemma wf_but_weaker: "tables_wf s \<Longrightarrow> wf_but u s"
  by (simp add: wf_but_iff [of s u])

lemma wf_but_visited: "wf_but u s \<Longrightarrow> map_bool (PodVisitedByUID s) u \<Longrightarrow> tables_wf s"
  by (simp add: wf_but_iff [of s u])

lemma wf_same_tables: "same_tables s t \<Longrightarrow> tables_wf t = tables_wf s"
  by (simp add: tables_wf_def same_tables_def)

lemma wf_world [simp]: "tables_wf (s\<lparr>world := w\<rparr>) = tables_wf s"
  by (simp add: tables_wf_def)

lemma wf_served:
  assumes "tables_wf s" "registered u s s1" "same_tables s1 s2"
  shows "wf_but u (s2\<lparr>PodDoByUID := (PodDoByUID s2)(u \<mapsto> True)\<rparr>)"
proof -
  have lists: "\<exists>v. uid \<in> set (map_list (ContainerUIDInPodUID s1) v)" if "ContainerNameByUid s1 uid \<noteq> None" for uid
  proof (cases "uid \<in> set (map_list (ContainerUIDInPodUID s1) u)")
    case False
    with that assms(2) have "ContainerNameByUid s uid \<noteq> None"
      unfolding registered_def by blast
    with assms(1) obtain v where v: "uid \<in> set (map_list (ContainerUIDInPodUID s) v)"
      unfolding tables_wf_def by blast
    then have "v \<noteq> u"
      using assms(2) False unfolding registered_def by blast
    then have "map_list (ContainerUIDInPodUID s1) v = map_list (ContainerUIDInPodUID s) v"
      using assms(2) by (simp add: registered_def map_list_def)
    with v show ?thesis by metis
  qed blast
  have do1: "map_bool ((PodDoByUID s)(u \<mapsto> True)) v" if "ContainerUIDInPodUID s1 v \<noteq> None" for v
    using that assms(1,2) unfolding registered_def tables_wf_def by (cases "v = u") auto
  have do2: "map_bool (PodVisitedByUID s) v" if "v \<noteq> u" "map_bool ((PodDoByUID s)(u \<mapsto> True)) v" for v
    using that assms(1) unfolding tables_wf_def by auto
  let ?t = "s2\<lparr>PodDoByUID := (PodDoByUID s2)(u \<mapsto> True)\<rparr>"
  have fields: "PodByUID ?t = PodByUID s" "PodVisitedByUID ?t = PodVisitedByUID s"
    "CoreRequestByPodUID ?t = CoreRequestByPodUID s" "MemoryRequestByPodUID ?t = MemoryRequestByPodUID s"
    "PodDoByUID ?t = (PodDoByUID s)(u \<mapsto> True)" "ContainerUIDInPodUID ?t = ContainerUIDInPodUID s1"
    "ContainerNameByUid ?t = ContainerNameByUid s1"
    using assms(2,3) by (simp_all add: registered_def same_pods_def same_tables_def)
  show ?thesis
    using assms(1) unfolding wf_but_def fields tables_wf_def
    by (elim conjE, intro conjI allI impI) (assumption | erule spec | erule (1) do2 | erule lists | erule do1 | blast)+
qed

lemma wf_first_visit:
  assumes "wf_but (id_uid i) s" "first_visit k os i pod s = Inr t"
  shows "tables_wf t"
proof -
  note e = first_visit_effect [OF assms(2)]
  have vis: "map_bool (PodVisitedByUID t) v \<longleftrightarrow> v = id_uid i \<or> map_bool (PodVisitedByUID s) v" for v
    using e by (cases "v = id_uid i") simp_all
  have doc: "PodByUID t v \<noteq> None \<longleftrightarrow> v = id_uid i \<or> PodByUID s v \<noteq> None" for v
    using e by simp
  have req: "CoreRequestByPodUID t v \<noteq> None \<Longrightarrow> v = id_uid i \<or> CoreRequestByPodUID s v \<noteq> None" for v
    using e by (auto simp: requests_kept_or_set_def split: if_splits)
  have both: "(CoreRequestByPodUID t v = None) = (MemoryRequestByPodUID t v = None)" for v
    using e assms(1) by (auto simp: requests_kept_or_set_def wf_but_def)
  have rest: "PodDoByUID t = PodDoByUID s" "ContainerNameByUid t = ContainerNameByUid s"
    "ContainerUIDInPodUID t = ContainerUIDInPodUID s"
    using e by simp_all
  show ?thesis
    using assms(1) req both unfolding tables_wf_def wf_but_def vis doc rest by blast
qed

text \<open>The three ways in which \<open>creatVcudaServer\<close> returns.\<close>

lemma creatVcudaServerE:
  assumes "creatVcudaServer k os pod s = Inr t"
  obtains (stopped) w where "t = s\<lparr>world := w\<rparr>"
  | (known) i where "identify k pod = Some i" "map_bool (PodVisitedByUID t) (id_uid i)"
      "serve_assigned k os i pod s = Inr (t, True)"
  | (first) i s1 where "identify k pod = Some i" "\<not> map_bool (PodVisitedByUID s1) (id_uid i)"
      "s1 = s \<or> serve_assigned k os i pod s = Inr (s1, True)" "first_visit k os i pod s1 = Inr t"
proof (cases "identify k pod")
  case None
  then show ?thesis
    using assms by (intro stopped [of "world s"]) (simp add: creatVcudaServer_def)
next
  case (Some i)
  then obtain s1 g where g: "(if id_assigned i = ''true'' \<and> \<not> map_bool (PodDoByUID s) (id_uid i)
      then serve_assigned k os i pod s else Inr (s, True)) = Inr (s1, g)"
    and t: "(if \<not> g then Inr s1 else if map_bool (PodVisitedByUID s1) (id_uid i) then Inr s1
      else first_visit k os i pod s1) = Inr t"
    using assms by (auto simp: creatVcudaServer_def go_bind_eq_Inr)
  have s1: "s1 = s \<and> g \<or> serve_assigned k os i pod s = Inr (s1, g)"
    using g by (auto split: if_splits)
  show ?thesis
  proof (cases g)
    case False
    with s1 obtain w where "s1 = s\<lparr>world := w\<rparr>"
      by (auto elim: serve_assignedE)
    with t False show ?thesis by (intro stopped [of w]) simp
  next
    case True
    show ?thesis
    proof (cases "map_bool (PodVisitedByUID s1) (id_uid i)")
      case visited: True
      show ?thesis
      proof (cases "s1 = s")
        case True
        with t visited \<open>g\<close> show ?thesis by (intro stopped [of "world s"]) simp
      next
        case False
        with t visited s1 \<open>g\<close> Some show ?thesis by (intro known) auto
      qed
    next
      case False
      with t s1 True Some show ?thesis by (intro first [of i s1]) auto
    qed
  qed
qed

lemma wf_creatVcudaServer:
  assumes "tables_wf s" "creatVcudaServer k os pod s = Inr t"
  shows "tables_wf t"
  using assms(2)
proof (cases rule: creatVcudaServerE)
  case (stopped w)
  then show ?thesis using assms(1) by simp
next
  case (known i)
  from known(3) show ?thesis
  proof (cases rule: serve_assignedE)
    case (served w s1 s2)
    then show ?thesis
      using wf_but_visited [of "id_uid i" t] wf_served [of "s\<lparr>world := w\<rparr>" "id_uid i" s1 s2]
        assms(1) known(2) by simp
  qed simp
next
  case (first i s1)
  from first(3) have "wf_but (id_uid i) s1"
  proof
    assume "serve_assigned k os i pod s = Inr (s1, True)"
    then show ?thesis
    proof (cases rule: serve_assignedE)
      case (served w r1 r2)
      then show ?thesis
        using wf_served [of "s\<lparr>world := w\<rparr>" "id_uid i" r1 r2] assms(1) by simp
    qed simp
  qed (use assms(1) wf_but_weaker in simp)
  with first(4) show ?thesis by (rule wf_first_visit [rotated])
qed

subsection \<open>Deletion\<close>

lemma forgotten:
  "ContainerNameByUid (forget_containers uids s) =
     (\<lambda>uid. if uid \<in> set uids then None else ContainerNameByUid s uid)"
  "ContainerUIDInPodUID (forget_containers uids s) = ContainerUIDInPodUID s"
  "PodByUID (forget_containers uids s) = PodByUID s"
  "PodVisitedByUID (forget_containers uids s) = PodVisitedByUID s"
  "PodDoByUID (forget_containers uids s) = PodDoByUID s"
  "CoreRequestByPodUID (forget_containers uids s) = CoreRequestByPodUID s"
  "MemoryRequestByPodUID (forget_containers uids s) = MemoryRequestByPodUID s"
  "files (forget_containers uids s) = files s"
  "world (forget_containers uids s) = world s"
  by (induction uids arbitrary: s) (simp_all add: Let_def fun_eq_iff)

text \<open>
  The table by name loses every entry of a name that one of the containers has, whichever container the
  entry is for.
\<close>

lemma name_left:
  "ContainerUIDByName (forget_containers uids s) n = Some c \<Longrightarrow>
     ContainerUIDByName s n = Some c \<and> (\<forall>uid \<in> set uids. map_string (ContainerNameByUid s) uid \<noteq> n)"
proof (induction uids arbitrary: s)
  case (Cons x xs)
  let ?name = "map_string (ContainerNameByUid s) x"
  let ?s = "s\<lparr>ContainerNameByUid := (ContainerNameByUid s)(x := None),
     ContainerUIDByName := (ContainerUIDByName s)(?name := None)\<rparr>"
  have "ContainerUIDByName (forget_containers xs ?s) n = Some c"
    using Cons.prems by (simp add: Let_def)
  note left = Cons.IH [OF this]
  then have x: "?name \<noteq> n" "ContainerUIDByName s n = Some c"
    by (auto split: if_splits)
  have "map_string (ContainerNameByUid s) uid \<noteq> n" if "uid \<in> set xs" for uid
  proof (cases "uid = x")
    case False
    then have "map_string (ContainerNameByUid ?s) uid = map_string (ContainerNameByUid s) uid"
      by (simp add: map_string_def)
    then show ?thesis
      using left that by metis
  qed (use x in simp)
  with x show ?case by simp
qed simp

lemma name_kept_of_others:
  "n \<noteq> [] \<Longrightarrow> \<forall>uid \<in> set uids. map_string (ContainerNameByUid s) uid \<noteq> n \<Longrightarrow>
     ContainerUIDByName (forget_containers uids s) n = ContainerUIDByName s n"
proof (induction uids arbitrary: s)
  case (Cons x xs)
  let ?s = "s\<lparr>ContainerNameByUid := (ContainerNameByUid s)(x := None),
     ContainerUIDByName := (ContainerUIDByName s)(map_string (ContainerNameByUid s) x := None)\<rparr>"
  have "map_string (ContainerNameByUid ?s) uid \<noteq> n" if "uid \<in> set xs" for uid
    using that Cons.prems by (cases "uid = x") (simp_all add: map_string_def)
  then have "ContainerUIDByName (forget_containers xs ?s) n = ContainerUIDByName ?s n"
    using Cons.IH [of ?s] Cons.prems(1) by blast
  moreover have "ContainerUIDByName ?s n = ContainerUIDByName s n"
    using Cons.prems(2) by auto
  ultimately show ?case
    by (simp add: Let_def)
qed simp

lemma RemoveAll_tables [node_simps]:
  "PodByUID (RemoveAll os p s) = PodByUID s"
  "ContainerNameByUid (RemoveAll os p s) = ContainerNameByUid s"
  "ContainerUIDByName (RemoveAll os p s) = ContainerUIDByName s"
  "ContainerUIDInPodUID (RemoveAll os p s) = ContainerUIDInPodUID s"
  "PodVisitedByUID (RemoveAll os p s) = PodVisitedByUID s"
  "PodDoByUID (RemoveAll os p s) = PodDoByUID s"
  "CoreRequestByPodUID (RemoveAll os p s) = CoreRequestByPodUID s"
  "MemoryRequestByPodUID (RemoveAll os p s) = MemoryRequestByPodUID s"
  "world (RemoveAll os p s) = world s"
  by (simp_all add: RemoveAll_def)

definition pod_uid_of :: "('b, 'j, 'w) kube \<Rightarrow> 'j \<Rightarrow> string" where
  "pod_uid_of k pod = JString k (JGet k (JGet k pod ''metadata'') ''uid'')"

lemma identify_pod_uid: "identify k pod = Some i \<Longrightarrow> id_uid i = pod_uid_of k pod"
  by (auto simp: identify_def pod_uid_of_def Let_def split: if_splits)

text \<open>A deletion event the manager reacts to: the pod was assigned a device.\<close>

definition was_assigned :: "('b, 'j, 'w) kube \<Rightarrow> 'j \<Rightarrow> bool" where
  "was_assigned k pod \<longleftrightarrow>
     (let annotations = JGet k (JGet k pod ''metadata'') ''annotations'' in
      JExists k annotations \<and> JExists k (JGet k annotations gpu_assigned_path))"

definition forget_pod :: "string \<Rightarrow> ('j, 'w) node \<Rightarrow> ('j, 'w) node" where
  "forget_pod u s =
     (let s1 = forget_containers (map_list (ContainerUIDInPodUID s) u)
        (s\<lparr>PodVisitedByUID := (PodVisitedByUID s)(u \<mapsto> False),
           CoreRequestByPodUID := (CoreRequestByPodUID s)(u := None),
           MemoryRequestByPodUID := (MemoryRequestByPodUID s)(u := None),
           PodByUID := (PodByUID s)(u := None), PodDoByUID := (PodDoByUID s)(u := None)\<rparr>)
      in s1\<lparr>ContainerUIDInPodUID := (ContainerUIDInPodUID s1)(u := None)\<rparr>)"

lemma deletePodPath_cases:
  "deletePodPath k os pod s =
     (if was_assigned k pod \<and> map_bool (PodVisitedByUID s) (pod_uid_of k pod)
      then RemoveAll os (Clean (pod_dir (pod_uid_of k pod))) (forget_pod (pod_uid_of k pod) s)
      else s)"
  by (simp add: deletePodPath_def was_assigned_def pod_uid_of_def forget_pod_def pod_dir_def Let_def)

lemma forget_pod_fields:
  "PodVisitedByUID (forget_pod u s) = (PodVisitedByUID s)(u \<mapsto> False)"
  "CoreRequestByPodUID (forget_pod u s) = (CoreRequestByPodUID s)(u := None)"
  "MemoryRequestByPodUID (forget_pod u s) = (MemoryRequestByPodUID s)(u := None)"
  "PodByUID (forget_pod u s) = (PodByUID s)(u := None)"
  "PodDoByUID (forget_pod u s) = (PodDoByUID s)(u := None)"
  "ContainerUIDInPodUID (forget_pod u s) = (ContainerUIDInPodUID s)(u := None)"
  "ContainerNameByUid (forget_pod u s) =
     (\<lambda>uid. if uid \<in> set (map_list (ContainerUIDInPodUID s) u) then None else ContainerNameByUid s uid)"
  "files (forget_pod u s) = files s" "world (forget_pod u s) = world s"
  by (simp_all add: forget_pod_def Let_def forgotten cong: if_cong)

lemma forget_pod_names:
  "ContainerUIDByName (forget_pod u s) n = Some c \<Longrightarrow> ContainerUIDByName s n = Some c \<and>
     (\<forall>uid \<in> set (map_list (ContainerUIDInPodUID s) u). map_string (ContainerNameByUid s) uid \<noteq> n)"
  "n \<noteq> [] \<Longrightarrow> \<forall>uid \<in> set (map_list (ContainerUIDInPodUID s) u). map_string (ContainerNameByUid s) uid \<noteq> n \<Longrightarrow>
     ContainerUIDByName (forget_pod u s) n = ContainerUIDByName s n"
proof -
  show "ContainerUIDByName (forget_pod u s) n = Some c \<Longrightarrow> ContainerUIDByName s n = Some c \<and>
      (\<forall>uid \<in> set (map_list (ContainerUIDInPodUID s) u). map_string (ContainerNameByUid s) uid \<noteq> n)"
    by (simp add: forget_pod_def Let_def) (drule name_left, simp)
qed (simp add: forget_pod_def Let_def name_kept_of_others)

lemma wf_forget_pod:
  assumes "tables_wf s"
  shows "tables_wf (forget_pod u s)"
proof -
  have lists: "\<exists>v. uid \<in> set (map_list ((ContainerUIDInPodUID s)(u := None)) v)"
    if name: "ContainerNameByUid s uid \<noteq> None" and other: "uid \<notin> set (map_list (ContainerUIDInPodUID s) u)" for uid
  proof -
    obtain v where v: "uid \<in> set (map_list (ContainerUIDInPodUID s) v)"
      using name assms unfolding tables_wf_def by blast
    with other have "v \<noteq> u" by metis
    then have "map_list ((ContainerUIDInPodUID s)(u := None)) v = map_list (ContainerUIDInPodUID s) v"
      by (simp add: map_list_def)
    with v show ?thesis by metis
  qed
  have vis: "map_bool ((PodVisitedByUID s)(u \<mapsto> False)) v \<longleftrightarrow> v \<noteq> u \<and> map_bool (PodVisitedByUID s) v" for v
    by (cases "v = u") simp_all
  have done_upd: "map_bool ((PodDoByUID s)(u := None)) v \<longleftrightarrow> v \<noteq> u \<and> map_bool (PodDoByUID s) v" for v
    by (cases "v = u") simp_all
  show ?thesis
    using assms lists unfolding tables_wf_def forget_pod_fields vis done_upd
    by (auto split: if_splits)
qed

lemma wf_RemoveAll: "tables_wf (RemoveAll os p t) = tables_wf t"
  by (simp add: tables_wf_def node_simps)

lemma wf_deletePodPath:
  assumes "tables_wf s"
  shows "tables_wf (deletePodPath k os pod s)"
  using wf_forget_pod [OF assms] assms by (simp add: deletePodPath_cases wf_RemoveAll)

subsection \<open>Runs\<close>

text \<open>The handlers the loop of \<open>Pod_Events\<close> starts, each with the system's answers to it.\<close>

fun run_handler :: "('b, 'j, 'w) kube \<Rightarrow> os \<times> 'j handler \<Rightarrow> ('j, 'w) node \<Rightarrow> ('j, 'w) node go_result" where
  "run_handler k (os, Create pod) s = creatVcudaServer k os pod s"
| "run_handler k (os, Delete pod) s = Inr (deletePodPath k os pod s)"

abbreviation run_handlers :: "('b, 'j, 'w) kube \<Rightarrow> (os \<times> 'j handler) list \<Rightarrow> ('j, 'w) node
    \<Rightarrow> ('j, 'w) node go_result" where
  "run_handlers k \<equiv> go_fold (run_handler k)"

lemma wf_run_handler: "tables_wf s \<Longrightarrow> run_handler k h s = Inr t \<Longrightarrow> tables_wf t"
  by (induction k h s rule: run_handler.induct) (auto intro: wf_creatVcudaServer wf_deletePodPath)

lemma wf_run_handlers: "run_handlers k hs s = Inr t \<Longrightarrow> tables_wf s \<Longrightarrow> tables_wf t"
  by (rule go_fold_invariant) (auto intro: wf_run_handler)

end
