(* ===== verification/Manager_Demo.thy ===== *)
theory Manager_Demo
  imports Manager_Runs
begin

text \<open>
  A node with one pod of one container, on the API server of \<open>Kube_Demo\<close>: the documents of the
  pod's events and a system that answers every request, for the witnesses of the manager's
  properties.
\<close>

definition demo_limits :: json where
  "demo_limits = JObj [(''iscas.cn/gpu-core'', JStr ''30''), (''iscas.cn/gpu-memory'', JStr ''8'')]"

definition pod_doc :: "string \<Rightarrow> json \<Rightarrow> json" where
  "pod_doc assigned status =
     JObj [(''metadata'', JObj [(''annotations'', JObj [(''doslab.io/gpu-assigned'', JStr assigned)]),
              (''name'', JStr ''train''), (''namespace'', JStr ''default''), (''uid'', JStr ''u1'')]),
           (''spec'', JObj [(''containers'', JArr [JObj [(''resources'',
              JObj [(''requests'', demo_limits), (''limits'', demo_limits)])]])]),
           (''status'', status)]"

definition demo_status :: "string \<Rightarrow> json" where
  "demo_status cid = JObj [(''containerStatuses'', JArr [JObj [(''containerID'', JStr cid),
     (''name'', JStr ''main'')]])]"

definition demo_new :: json where "demo_new = pod_doc ''false'' (JObj [])"

definition demo_ready_pod :: json where "demo_ready_pod = pod_doc ''true'' (demo_status ''docker://c1'')"

definition demo_containerd :: json where
  "demo_containerd = pod_doc ''true'' (demo_status ''containerd://c1'')"

definition demo_world :: server where
  "demo_world = demo_server\<lparr>pods := [(zero_pod\<lparr>pod_name := ''train'', pod_namespace := ''default'',
     pod_UID := ''u1'', Annotations := Some [''doslab.io/gpu-assigned'' \<mapsto> ''false'']\<rparr>, JMissing)]\<rparr>"

definition demo_os :: os where
  "demo_os = \<lparr>os_mkdir = (\<lambda>_. Made), os_mounts = Some ''cgroup2 on /sys/fs/cgroup'',
     os_opens = (\<lambda>_. True), os_written = (\<lambda>_. int sizeof_resource_data_t), os_removes = (\<lambda>_. True),
     os_padding = replicate 4 NUL\<rparr>"

abbreviation demo_node :: "(json, server) node" where
  "demo_node \<equiv> NewVirtualManager demo_world"

lemmas demo_json = demo_kube_def json_get_def gpu_assigned_path_def gpu_core_path_def BACKSLASH_def
  pod_doc_def demo_limits_def demo_status_def

definition demo_ident :: "string \<Rightarrow> pod_ident" where
  "demo_ident assigned = \<lparr>id_assigned = assigned, id_name = ''train'', id_namespace = ''default'', id_uid = ''u1''\<rparr>"

lemma demo_identified: "identify demo_kube (pod_doc assigned status) = Some (demo_ident assigned)"
  by (simp add: identify_def has_requests_def demo_json demo_ident_def)

lemma demo_uid: "pod_uid_of demo_kube (pod_doc assigned status) = ''u1''"
  by (simp add: pod_uid_of_def demo_json)

lemma demo_was_assigned: "was_assigned demo_kube (pod_doc assigned status)"
  by (simp add: was_assigned_def demo_json)

lemma demo_request: "pod_request demo_kube (pod_doc assigned status) = (30, 0)"
proof -
  have "parse_i64 ''30'' = 30"
    by (simp add: parse_i64_def ParseInt_def ParseUint_def UINT64_MAX_def cutoff_def is_digit_def
        digit_val_def)
  then show ?thesis
    by (simp add: pod_request_def container_request_def demo_json ResourceMemory_def Let_def)
qed

lemma demo_writes: "writes_all demo_os" "isCgroupVersionV2 demo_os = Inr True"
  "os_mkdir demo_os p = Made"
  by (simp_all add: writes_all_def demo_os_def isCgroupVersionV2_def Split.simps Contains_def)

lemma demo_first: "\<exists>s. creatVcudaServer demo_kube demo_os demo_new demo_node = Inr s"
proof -
  have "\<exists>w. annotate_ready demo_kube (demo_ident ''false'') demo_world = Inr w"
    by (simp add: annotate_ready_def demo_kube_def server_get_def demo_world_def demo_ident_def zero_pod_def)
  then show ?thesis
    unfolding demo_new_def creatVcudaServer_def demo_identified
    by (auto simp: demo_ident_def NewVirtualManager_def map_bool_def first_visit_def demo_request
        MkdirAll_def demo_writes Let_def)
qed

lemma await_now:
  "JExists k (JGet k status ''containerStatuses'') \<Longrightarrow> await_statuses k a b 100 status w = (Some status, w)"
  by (simp add: numeral_eq_Suc)

definition demo_containers :: "(string \<times> string) list" where
  "demo_containers = [(''c1'', ''main'')]"

end

