(* ===== verification/Manager_Life.thy ===== *)
theory Manager_Life
  imports Manager_Demo
begin

text \<open>
  The life of a pod in the manager: its first event records what it requests, the event after its
  containers were created writes their files, its deletion removes them; and the ways in which
  that fails.
\<close>

subsection \<open>Events of other pods\<close>

fun handler_uid :: "('b, 'j, 'w) kube \<Rightarrow> 'j handler \<Rightarrow> string" where
  "handler_uid k (Create pod) = pod_uid_of k pod"
| "handler_uid k (Delete pod) = pod_uid_of k pod"

definition pod_kept :: "string \<Rightarrow> ('j, 'w) node \<Rightarrow> ('j, 'w) node \<Rightarrow> bool" where
  "pod_kept u s t \<longleftrightarrow> map_bool (PodVisitedByUID t) u = map_bool (PodVisitedByUID s) u \<and>
     map_bool (PodDoByUID t) u = map_bool (PodDoByUID s) u \<and>
     CoreRequestByPodUID t u = CoreRequestByPodUID s u \<and>
     MemoryRequestByPodUID t u = MemoryRequestByPodUID s u"

lemma pod_kept_refl [simp]: "pod_kept u s s" "pod_kept u s (s\<lparr>world := w\<rparr>)"
  by (simp_all add: pod_kept_def)

lemma pod_kept_trans: "pod_kept u s t \<Longrightarrow> pod_kept u t r \<Longrightarrow> pod_kept u s r"
  by (simp add: pod_kept_def)

lemma served_keeps:
  assumes "serve_assigned k os i pod s = Inr (t, g)" "id_uid i \<noteq> u"
  shows "pod_kept u s t"
  using assms(1)
proof (cases rule: serve_assignedE)
  case (served w s1 s2)
  then show ?thesis
    using assms(2) by (simp add: pod_kept_def registered_def same_pods_def same_tables_def)
qed simp

lemma visit_keeps: "first_visit k os i pod s = Inr t \<Longrightarrow> id_uid i \<noteq> u \<Longrightarrow> pod_kept u s t"
  using first_visit_effect [of k os i pod s t] by (auto simp: pod_kept_def requests_kept_or_set_def)

lemma handler_keeps:
  assumes "run_handler k h s = Inr t" "handler_uid k (snd h) \<noteq> u"
  shows "pod_kept u s t"
proof (cases h)
  case (Pair os e)
  show ?thesis
  proof (cases e)
    case (Create pod)
    with Pair assms have c: "creatVcudaServer k os pod s = Inr t" "pod_uid_of k pod \<noteq> u"
      by simp_all
    from c(1) show ?thesis
    proof (cases rule: creatVcudaServerE)
      case (known i)
      then show ?thesis
        using served_keeps identify_pod_uid c(2) by metis
    next
      case (first i s1)
      then show ?thesis
        using served_keeps visit_keeps pod_kept_trans identify_pod_uid c(2) pod_kept_refl(1) by metis
    qed simp
  next
    case (Delete pod)
    with Pair assms show ?thesis
      by (auto simp: deletePodPath_cases pod_kept_def node_simps forget_pod_fields split: if_split_asm)
  qed
qed

lemma handlers_keep:
  "run_handlers k hs s = Inr t \<Longrightarrow> \<forall>h \<in> set hs. handler_uid k (snd h) \<noteq> u \<Longrightarrow> pod_kept u s t"
proof (induction hs arbitrary: s)
  case (Cons h hs)
  then obtain r where r: "run_handler k h s = Inr r" "run_handlers k hs r = Inr t" by auto
  with Cons show ?case
    using pod_kept_trans [OF handler_keeps [OF r(1)] Cons.IH [OF r(2)]] by simp
qed simp

subsection \<open>From the first event to the files\<close>

lemma first_event_records:
  assumes "creatVcudaServer k os pod s = Inr t" "identify k pod = Some i" "id_assigned i \<noteq> ''true''"
    and "\<not> map_bool (PodVisitedByUID s) (id_uid i)"
    and "os_mkdir os (pod_dir (id_uid i)) = Made \<or> os_mkdir os (pod_dir (id_uid i)) = Is_Exist"
  shows "map_bool (PodVisitedByUID t) (id_uid i)
    \<and> CoreRequestByPodUID t (id_uid i) = Some (fst (pod_request k pod))
    \<and> MemoryRequestByPodUID t (id_uid i) = Some (snd (pod_request k pod))
    \<and> PodDoByUID t = PodDoByUID s \<and> files t = files s"
proof -
  have v: "first_visit k os i pod s = Inr t"
    using assms(1-4) by (simp add: creatVcudaServer_def)
  obtain c m where r: "pod_request k pod = (c, m)"
    by (metis surj_pair)
  have "CoreRequestByPodUID t (id_uid i) = Some c \<and> MemoryRequestByPodUID t (id_uid i) = Some m"
    using v assms(5) by (auto simp: first_visit_def Let_def r MkdirAll_def pod_dir_def go_bind_eq_Inr)
  then show ?thesis
    using first_visit_effect [OF v] r by simp
qed

text \<open>The statuses of the containers, and what makes their files writable.\<close>

definition statuses_seen ::
    "('b, 'j, 'w) kube \<Rightarrow> pod_ident \<Rightarrow> 'j \<Rightarrow> 'w \<Rightarrow> (string \<times> string) list \<Rightarrow> 'w \<Rightarrow> bool" where
  "statuses_seen k i pod w cs w' \<longleftrightarrow>
     (\<exists>status. await_statuses k (id_namespace i) (id_name i) 100 (JGet k pod ''status'') w = (Some status, w')
        \<and> list_all2 (docker_status k) (JEach k (JGet k status ''containerStatuses'')) cs)"

definition good_containers :: "(string \<times> string) list \<Rightarrow> bool" where
  "good_containers cs \<longleftrightarrow> cs \<noteq> [] \<and> distinct (map fst cs) \<and>
     (\<forall>c \<in> set cs. good_name (fst c) \<and> good_name (snd c))"

lemma names_entered:
  assumes "distinct (map fst cs)" "c \<in> set cs"
  shows "map_string (ContainerNameByUid (fold (enter u) cs s)) (fst c) = snd c"
proof -
  have "map_of (rev cs) (fst c) = Some (snd c)"
    using assms by (intro map_of_is_SomeI) (simp_all add: rev_map [symmetric])
  then show ?thesis
    by (simp add: entered map_string_def map_add_def)
qed

lemma serve_assigned_writes:
  assumes "tables_wf s" "\<not> map_bool (PodDoByUID s) (id_uid i)" "good_uid (id_uid i)"
    and "statuses_seen k i pod (world s) cs w" "good_containers cs"
    and "writes_all os" "isCgroupVersionV2 os = Inr v2"
  shows "\<exists>t. serve_assigned k os i pod s = Inr (t, True)
    \<and> PodVisitedByUID t = PodVisitedByUID s \<and> map_bool (PodDoByUID t) (id_uid i) \<and> world t = w
    \<and> ContainerUIDInPodUID t = (ContainerUIDInPodUID s)(id_uid i \<mapsto> map fst cs)
    \<and> (\<forall>c \<in> set cs. map_string (ContainerNameByUid t) (fst c) = snd c)
    \<and> (\<forall>c \<in> set cs. files t (config_file_of v2 (id_uid i) (snd c) (fst c)) =
         Some (rc_encode (limits_record (id_uid i) (snd c) (map_i64 (MemoryRequestByPodUID s) (id_uid i))
           (map_i64 (CoreRequestByPodUID s) (id_uid i))) (os_padding os)))"
proof -
  let ?u = "id_uid i" and ?s0 = "s\<lparr>world := w\<rparr>"
  obtain status where st: "await_statuses k (id_namespace i) (id_name i) 100 (JGet k pod ''status'') (world s)
      = (Some status, w)" "list_all2 (docker_status k) (JEach k (JGet k status ''containerStatuses'')) cs"
    using assms(4) unfolding statuses_seen_def by blast
  define s1 where "s1 = fold (enter ?u) cs ?s0"
  have "ContainerUIDInPodUID s ?u = None"
    using assms(1,2) unfolding tables_wf_def by blast
  then have uids: "map_list (ContainerUIDInPodUID s1) ?u = map fst cs"
    by (simp add: s1_def entered) (simp add: map_list_def)
  moreover have "v \<noteq> ?u \<Longrightarrow> ContainerUIDInPodUID s1 v = ContainerUIDInPodUID s v" for v
    unfolding s1_def entered_other by simp
  moreover have "ContainerUIDInPodUID s1 ?u \<noteq> None"
    using assms(5) by (simp add: s1_def entered_some good_containers_def)
  ultimately have lists: "ContainerUIDInPodUID s1 = (ContainerUIDInPodUID s)(?u \<mapsto> map fst cs)"
    by (auto simp: fun_eq_iff map_list_def split: option.splits)
  have names: "map_string (ContainerNameByUid s1) (fst c) = snd c" if "c \<in> set cs" for c
    using names_entered [of cs c] assms(5) that by (simp add: s1_def good_containers_def)
  have good: "good_name (map_string (ContainerNameByUid s1) uid) \<and> good_name uid" if "uid \<in> set (map fst cs)" for uid
    using that names assms(5) by (auto simp: good_containers_def)
  then obtain t where t: "go_fold (write_config os ?u) (map fst cs) s1 = Inr t" "same_tables s1 t"
    "files t = updates (\<lambda>uid. file_place v2 ?u uid s1) (\<lambda>uid. file_bytes os ?u uid s1) (map fst cs) (files s1)"
    using write_configs_writes [OF assms(6,7,3), of "map fst cs" s1] by blast
  have "serve_assigned k os i pod s = Inr (t\<lparr>PodDoByUID := (PodDoByUID t)(?u \<mapsto> True)\<rparr>, True)"
    using st(1) register_all [OF st(2), of ?u False ?s0] t(1) uids assms(5)
    by (simp add: serve_assigned_def good_containers_def flip: s1_def)
  moreover have "files t (config_file_of v2 ?u (snd c) (fst c)) = Some (rc_encode (limits_record ?u (snd c)
      (map_i64 (MemoryRequestByPodUID s) ?u) (map_i64 (CoreRequestByPodUID s) ?u)) (os_padding os))"
    if "c \<in> set cs" for c
  proof -
    have "files t (file_place v2 ?u (fst c) s1) = Some (file_bytes os ?u (fst c) s1)"
      unfolding t(3) using that good
      by (intro updates_same) (auto intro!: same_place_same_bytes [OF assms(3)])
    then show ?thesis
      using names [OF that] by (simp add: file_place_def file_bytes_def s1_def entered)
  qed
  ultimately show ?thesis
    using t(2) lists names by (auto simp: same_tables_def s1_def entered)
qed

lemma assigned_event_writes:
  assumes "tables_wf s" "identify k pod = Some i" "id_assigned i = ''true''"
    and "\<not> map_bool (PodDoByUID s) (id_uid i)" "map_bool (PodVisitedByUID s) (id_uid i)"
    and "good_uid (id_uid i)" "statuses_seen k i pod (world s) cs w" "good_containers cs"
    and "writes_all os" "isCgroupVersionV2 os = Inr v2"
  shows "\<exists>t. creatVcudaServer k os pod s = Inr t \<and> map_bool (PodDoByUID t) (id_uid i)
    \<and> (\<forall>c \<in> set cs. files t (config_file_of v2 (id_uid i) (snd c) (fst c)) =
         Some (rc_encode (limits_record (id_uid i) (snd c) (map_i64 (MemoryRequestByPodUID s) (id_uid i))
           (map_i64 (CoreRequestByPodUID s) (id_uid i))) (os_padding os)))"
proof -
  obtain t where "serve_assigned k os i pod s = Inr (t, True)" "PodVisitedByUID t = PodVisitedByUID s"
    "map_bool (PodDoByUID t) (id_uid i)"
    "\<forall>c \<in> set cs. files t (config_file_of v2 (id_uid i) (snd c) (fst c)) =
         Some (rc_encode (limits_record (id_uid i) (snd c) (map_i64 (MemoryRequestByPodUID s) (id_uid i))
           (map_i64 (CoreRequestByPodUID s) (id_uid i))) (os_padding os))"
    using serve_assigned_writes [OF assms(1,4,6-10)] by blast
  then show ?thesis
    using assms(2-5) by (intro exI [of _ t]) (simp add: creatVcudaServer_def)
qed

lemma handled_pod_kept:
  assumes "identify k pod = Some i" "map_bool (PodDoByUID s) (id_uid i)"
    and "map_bool (PodVisitedByUID s) (id_uid i)"
  shows "creatVcudaServer k os pod s = Inr s"
  using assms by (simp add: creatVcudaServer_def)

text \<open>
  C18: From the first event to the files: an event of a pod that has no device yet records the sum
  of what its containers may use; whatever happens to other pods in between, the event after the
  device was assigned writes, for each of its containers and to the place where the container
  looks for it, a complete record with the pod's UID, the container's name and those limits.
\<close>

theorem limits_written:
  assumes "run_handlers k before (NewVirtualManager w0) = Inr s0"
    and "identify k pod0 = Some i0" "id_assigned i0 \<noteq> ''true''"
    and "\<not> map_bool (PodVisitedByUID s0) (id_uid i0)"
    and "os_mkdir os0 (pod_dir (id_uid i0)) = Made \<or> os_mkdir os0 (pod_dir (id_uid i0)) = Is_Exist"
    and "run_handlers k ((os0, Create pod0) # others) s0 = Inr s"
    and "\<forall>h \<in> set others. handler_uid k (snd h) \<noteq> id_uid i0"
    and "identify k pod = Some i" "id_uid i = id_uid i0" "id_assigned i = ''true''"
    and "good_uid (id_uid i)" "statuses_seen k i pod (world s) cs w" "good_containers cs"
    and "writes_all os" "isCgroupVersionV2 os = Inr v2"
  shows "\<exists>t. creatVcudaServer k os pod s = Inr t
    \<and> (\<forall>c \<in> set cs. files t (config_file_of v2 (id_uid i) (snd c) (fst c)) =
         Some (rc_encode (limits_record (id_uid i) (snd c) (snd (pod_request k pod0))
           (fst (pod_request k pod0))) (os_padding os)))"
proof -
  let ?u = "id_uid i0"
  obtain s1 where s1: "creatVcudaServer k os0 pod0 s0 = Inr s1" "run_handlers k others s1 = Inr s"
    using assms(6) by auto
  note wf0 = wf_run_handlers [OF assms(1) tables_wf_init]
  note rec = first_event_records [OF s1(1) assms(2-5)]
  have "\<not> map_bool (PodDoByUID s0) ?u"
    using wf0 assms(4) unfolding tables_wf_def by blast
  with rec handlers_keep [OF s1(2) assms(7)] have "map_bool (PodVisitedByUID s) ?u"
    "\<not> map_bool (PodDoByUID s) ?u" "map_i64 (CoreRequestByPodUID s) ?u = fst (pod_request k pod0)"
    "map_i64 (MemoryRequestByPodUID s) ?u = snd (pod_request k pod0)"
    by (simp_all add: pod_kept_def map_i64_def)
  moreover have wf: "tables_wf s"
    using wf_run_handlers [OF s1(2) wf_creatVcudaServer [OF wf0 s1(1)]] .
  ultimately show ?thesis
    using assigned_event_writes [OF wf assms(8,10) _ _ assms(11-15)] assms(9) by auto
qed

lemma demo_seen: "statuses_seen demo_kube i demo_ready_pod w demo_containers w"
proof -
  have status: "JGet demo_kube demo_ready_pod ''status'' = demo_status ''docker://c1''"
    by (simp add: demo_ready_pod_def demo_json)
  have "JExists demo_kube (JGet demo_kube (demo_status ''docker://c1'') ''containerStatuses'')"
    by (simp add: demo_json)
  moreover have "list_all2 (docker_status demo_kube)
      (JEach demo_kube (JGet demo_kube (demo_status ''docker://c1'') ''containerStatuses'')) demo_containers"
    by (simp add: demo_json docker_status_def demo_containers_def)
  ultimately show ?thesis
    unfolding statuses_seen_def status
    by (intro exI [of _ "demo_status ''docker://c1''"] conjI await_now)
qed

lemma demo_good: "good_containers demo_containers" "good_uid ''u1''"
  by (simp_all add: good_containers_def demo_containers_def good_name_def good_uid_def plain_element_def
      fits_field_def FILENAME_MAX_def)

lemma demo_place: "config_file_of True ''u1'' ''main'' ''c1'' = ''/etc/unishare/vm/u1/main/vcuda.config''"
  by (subst config_file_plain) (simp_all add: plain_element_def pod_dir_plain VirtualManagerPath_def)

theorem limits_written_witness:
  "\<exists>s t. creatVcudaServer demo_kube demo_os demo_new demo_node = Inr s
    \<and> creatVcudaServer demo_kube demo_os demo_ready_pod s = Inr t
    \<and> files t ''/etc/unishare/vm/u1/main/vcuda.config'' =
        Some (rc_encode (limits_record ''u1'' ''main'' 0 30) (replicate 4 NUL))"
proof -
  obtain s where s: "creatVcudaServer demo_kube demo_os demo_new demo_node = Inr s"
    using demo_first by blast
  have "\<exists>t. creatVcudaServer demo_kube demo_os demo_ready_pod s = Inr t
    \<and> (\<forall>c \<in> set demo_containers. files t (config_file_of True (id_uid (demo_ident ''true'')) (snd c) (fst c)) =
         Some (rc_encode (limits_record (id_uid (demo_ident ''true'')) (snd c)
           (snd (pod_request demo_kube demo_new)) (fst (pod_request demo_kube demo_new))) (os_padding demo_os)))"
    by (rule limits_written [where before = "[]" and others = "[]" and s = s and ?i0.0 = "demo_ident ''false''"
          and ?s0.0 = demo_node and ?w0.0 = demo_world and w = "world s" and ?os0.0 = demo_os])
      (use s demo_seen demo_good demo_writes demo_identified in \<open>simp_all add: demo_new_def demo_ready_pod_def
        demo_ident_def NewVirtualManager_def map_bool_def\<close>)
  then show ?thesis
    using s demo_place by (auto simp: demo_containers_def demo_ident_def demo_new_def demo_request demo_os_def)
qed

text \<open>
  C33: If the first event the manager sees of a pod is one after the device was assigned, as it is
  for every running pod when the plugin restarts, the files of its containers are written before
  the requests are summed up: they hold the limits 0, and no later event of the pod changes them.
\<close>

theorem late_manager_writes_zero:
  assumes "run_handlers k before (NewVirtualManager w0) = Inr s"
    and "identify k pod = Some i" "id_assigned i = ''true''"
    and "\<not> map_bool (PodVisitedByUID s) (id_uid i)"
    and "good_uid (id_uid i)" "statuses_seen k i pod (world s) cs w" "good_containers cs"
    and "writes_all os" "isCgroupVersionV2 os = Inr v2"
    and "creatVcudaServer k os pod s = Inr t"
  shows "(\<forall>c \<in> set cs. files t (config_file_of v2 (id_uid i) (snd c) (fst c)) =
         Some (rc_encode (limits_record (id_uid i) (snd c) 0 0) (os_padding os)))
    \<and> (\<forall>os' pod' i'. identify k pod' = Some i' \<and> id_uid i' = id_uid i \<longrightarrow>
         creatVcudaServer k os' pod' t = Inr t)"
proof -
  note wf = wf_run_handlers [OF assms(1) tables_wf_init]
  have undone: "\<not> map_bool (PodDoByUID s) (id_uid i)" "CoreRequestByPodUID s (id_uid i) = None"
    "MemoryRequestByPodUID s (id_uid i) = None"
    using wf assms(4) unfolding tables_wf_def by blast+
  then have zero: "map_i64 (CoreRequestByPodUID s) (id_uid i) = 0"
    "map_i64 (MemoryRequestByPodUID s) (id_uid i) = 0"
    by (simp_all add: map_i64_def)
  obtain s1 where s1: "serve_assigned k os i pod s = Inr (s1, True)"
    "PodVisitedByUID s1 = PodVisitedByUID s" "map_bool (PodDoByUID s1) (id_uid i)"
    "\<forall>c \<in> set cs. files s1 (config_file_of v2 (id_uid i) (snd c) (fst c)) =
         Some (rc_encode (limits_record (id_uid i) (snd c) 0 0) (os_padding os))"
    using serve_assigned_writes [OF wf undone(1) assms(5-9)] zero by auto
  then have v: "first_visit k os i pod s1 = Inr t"
    using assms(2-4,10) undone(1) by (simp add: creatVcudaServer_def)
  have "map_bool (PodDoByUID t) (id_uid i)" "map_bool (PodVisitedByUID t) (id_uid i)" "files t = files s1"
    using first_visit_effect [OF v] s1(3) by simp_all
  then show ?thesis
    using s1(4) handled_pod_kept [of k _ _ t] by auto
qed

lemma demo_late_run:
  "\<exists>s1 t. serve_assigned demo_kube demo_os (demo_ident ''true'') demo_ready_pod demo_node = Inr (s1, True)
    \<and> first_visit demo_kube demo_os (demo_ident ''true'') demo_ready_pod s1 = Inr t
    \<and> creatVcudaServer demo_kube demo_os demo_ready_pod demo_node = Inr t
    \<and> files t ''/etc/unishare/vm/u1/main/vcuda.config''
        = Some (rc_encode (limits_record ''u1'' ''main'' 0 0) (replicate 4 NUL))
    \<and> ContainerUIDInPodUID t = [''u1'' \<mapsto> [''c1'']] \<and> map_string (ContainerNameByUid t) ''c1'' = ''main''"
proof -
  let ?i = "demo_ident ''true''"
  have fresh: "\<not> map_bool (PodDoByUID demo_node) (id_uid ?i)" "world demo_node = demo_world"
    "PodVisitedByUID demo_node = Map.empty" "map_i64 (MemoryRequestByPodUID demo_node) (id_uid ?i) = 0"
    "map_i64 (CoreRequestByPodUID demo_node) (id_uid ?i) = 0" "ContainerUIDInPodUID demo_node = Map.empty"
    by (simp_all add: NewVirtualManager_def map_bool_def map_i64_def)
  obtain s1 where s1: "serve_assigned demo_kube demo_os ?i demo_ready_pod demo_node = Inr (s1, True)"
    "PodVisitedByUID s1 = PodVisitedByUID demo_node" "world s1 = demo_world"
    "files s1 (config_file_of True ''u1'' ''main'' ''c1'')
        = Some (rc_encode (limits_record ''u1'' ''main'' 0 0) (replicate 4 NUL))"
    "ContainerUIDInPodUID s1 = (ContainerUIDInPodUID demo_node)(id_uid ?i \<mapsto> map fst demo_containers)"
    "\<forall>c \<in> set demo_containers. map_string (ContainerNameByUid s1) (fst c) = snd c"
    using serve_assigned_writes [OF tables_wf_init fresh(1) _ demo_seen demo_good(1) demo_writes(1,2)]
      demo_good(2) fresh by (auto simp: demo_ident_def demo_containers_def demo_os_def)
  have "\<exists>w. annotate_ready demo_kube ?i demo_world = Inr w"
    by (simp add: annotate_ready_def demo_kube_def server_get_def demo_world_def demo_ident_def zero_pod_def)
  then obtain t where v: "first_visit demo_kube demo_os ?i demo_ready_pod s1 = Inr t"
    using s1(3) by (auto simp: first_visit_def demo_ready_pod_def demo_request MkdirAll_def demo_writes Let_def)
  have "creatVcudaServer demo_kube demo_os demo_ready_pod demo_node = Inr t"
    using s1(1,2) v fresh(1,3) demo_identified [of "''true''"]
    by (simp add: creatVcudaServer_def demo_ready_pod_def demo_ident_def map_bool_def)
  with s1 v first_visit_effect [OF v] show ?thesis
    by (intro exI [of _ s1] exI [of _ t])
      (simp add: demo_place demo_containers_def demo_ident_def fresh)
qed

theorem late_manager_writes_zero_witness:
  "\<exists>t. creatVcudaServer demo_kube demo_os demo_ready_pod demo_node = Inr t
    \<and> files t ''/etc/unishare/vm/u1/main/vcuda.config'' =
        Some (rc_encode (limits_record ''u1'' ''main'' 0 0) (replicate 4 NUL))
    \<and> creatVcudaServer demo_kube demo_os demo_ready_pod t = Inr t"
proof -
  let ?i = "demo_ident ''true''"
  obtain t where t: "creatVcudaServer demo_kube demo_os demo_ready_pod demo_node = Inr t"
    using demo_late_run by blast
  have i: "identify demo_kube demo_ready_pod = Some ?i"
    by (simp add: demo_ready_pod_def demo_identified)
  have "(\<forall>c \<in> set demo_containers. files t (config_file_of True (id_uid ?i) (snd c) (fst c)) =
         Some (rc_encode (limits_record (id_uid ?i) (snd c) 0 0) (os_padding demo_os)))
    \<and> (\<forall>os' pod' i'. identify demo_kube pod' = Some i' \<and> id_uid i' = id_uid ?i \<longrightarrow>
         creatVcudaServer demo_kube os' pod' t = Inr t)"
    by (rule late_manager_writes_zero [where before = "[]" and s = demo_node and w = "world demo_node" and
          ?w0.0 = demo_world, OF _ i])
      (use t demo_seen demo_good demo_writes in \<open>simp_all add: demo_ident_def NewVirtualManager_def map_bool_def\<close>)
  then show ?thesis
    using t i demo_place by (auto simp: demo_containers_def demo_ident_def demo_os_def)
qed

subsection \<open>Limits that are not found\<close>

text \<open>
  What the JSON library documents of its paths: a dot that is not escaped separates keys, what is
  below a missing value is missing, and a missing value reads as the empty string.
\<close>

definition plain_key :: "string \<Rightarrow> bool" where
  "plain_key a \<longleftrightarrow> a \<noteq> [] \<and> (\<forall>c \<in> set a. 97 \<le> (of_char c :: nat) \<and> (of_char c :: nat) \<le> 122)"

definition documented_paths :: "('b, 'j, 'w) kube \<Rightarrow> bool" where
  "documented_paths k \<longleftrightarrow>
     (\<forall>j a b. plain_key a \<longrightarrow> JGet k j (a @ CHR ''.'' # b) = JGet k (JGet k j a) b) \<and>
     (\<forall>j p. \<not> JExists k j \<longrightarrow> \<not> JExists k (JGet k j p)) \<and>
     (\<forall>j. \<not> JExists k j \<longrightarrow> JString k j = [])"

definition limits_of :: "('b, 'j, 'w) kube \<Rightarrow> 'j \<Rightarrow> 'j" where
  "limits_of k c = JGet k (JGet k c ''resources'') ''limits''"

lemma dotted_missing:
  assumes "documented_paths k" "\<not> JExists k (JGet k j ''iscas'')"
  shows "\<not> JExists k (JGet k j (''iscas'' @ CHR ''.'' # p))" "JString k (JGet k j (''iscas'' @ CHR ''.'' # p)) = []"
proof -
  have "plain_key ''iscas''"
    by (simp add: plain_key_def)
  then have "JGet k j (''iscas'' @ CHR ''.'' # p) = JGet k (JGet k j ''iscas'') p"
    using assms(1) unfolding documented_paths_def by blast
  then show "\<not> JExists k (JGet k j (''iscas'' @ CHR ''.'' # p))"
    "JString k (JGet k j (''iscas'' @ CHR ''.'' # p)) = []"
    using assms unfolding documented_paths_def by metis+
qed

lemma container_request_dotted:
  assumes "documented_paths k" "\<not> JExists k (JGet k (limits_of k c) ''iscas'')"
  shows "snd (container_request k c) = 0"
    "\<not> JExists k (JGet k (limits_of k c) gpu_core_path) \<Longrightarrow> container_request k c = (0, 0)"
proof -
  have names: "ResourceMemory = ''iscas'' @ CHR ''.'' # ''cn/gpu-memory''"
    "MluResourceCore = ''iscas'' @ CHR ''.'' # ''cn/mlu-core''"
    by (simp_all add: ResourceMemory_def MluResourceCore_def)
  note missing = dotted_missing [OF assms]
  have m: "JString k (JGet k (limits_of k c) ResourceMemory) = []"
    "\<not> JExists k (JGet k (limits_of k c) MluResourceCore)"
    unfolding names by (rule missing)+
  show "snd (container_request k c) = 0"
    using m by (simp add: container_request_def Let_def limits_of_def)
  show "container_request k c = (0, 0)" if "\<not> JExists k (JGet k (limits_of k c) gpu_core_path)"
    using m that by (simp add: container_request_def Let_def limits_of_def)
qed

lemma sum_requests_zero:
  "\<forall>c \<in> set cs. snd (container_request k c) = 0 \<Longrightarrow> snd (sum_requests k cs acc) = snd acc"
  "\<forall>c \<in> set cs. fst (container_request k c) = 0 \<Longrightarrow> fst (sum_requests k cs acc) = fst acc"
  by (induction cs arbitrary: acc) simp_all

text \<open>
  C34: The limits of memory and of MLUs are never found: the resource names are used as paths with
  their dot unescaped, so that, unless the limits have a key \<open>iscas\<close>, the memory a pod requests is
  recorded as 0, and the cores too if its containers use an MLU and no GPU.
\<close>

theorem dotted_limits_lost:
  assumes "documented_paths k"
    and "\<forall>c \<in> set (JEach k (JGet k (JGet k pod ''spec'') ''containers'')).
      \<not> JExists k (JGet k (limits_of k c) ''iscas'')"
  shows "snd (pod_request k pod) = 0
    \<and> ((\<forall>c \<in> set (JEach k (JGet k (JGet k pod ''spec'') ''containers'')).
          \<not> JExists k (JGet k (limits_of k c) gpu_core_path)) \<longrightarrow> pod_request k pod = (0, 0))"
proof -
  have "snd (pod_request k pod) = 0"
    unfolding pod_request_def using assms container_request_dotted(1) [OF assms(1)]
    by (subst sum_requests_zero(1)) simp_all
  moreover have "fst (pod_request k pod) = 0"
    if "\<forall>c \<in> set (JEach k (JGet k (JGet k pod ''spec'') ''containers'')).
      \<not> JExists k (JGet k (limits_of k c) gpu_core_path)"
    unfolding pod_request_def using assms that container_request_dotted(2) [OF assms(1)]
    by (subst sum_requests_zero(2)) simp_all
  ultimately show ?thesis
    by (auto simp: prod_eq_iff)
qed

lemma path_keys_dot: "plain_key a \<Longrightarrow> path_keys (a @ CHR ''.'' # b) key = (key @ a) # path_keys b []"
proof -
  have "path_keys (a @ CHR ''.'' # b) key = (key @ a) # path_keys b []"
    if "\<forall>c \<in> set a. 97 \<le> (of_char c :: nat) \<and> (of_char c :: nat) \<le> 122" for a key
    using that by (induction a arbitrary: key) auto
  then show "plain_key a \<Longrightarrow> ?thesis"
    by (simp add: plain_key_def)
qed

lemma path_keys_plain: "plain_key a \<Longrightarrow> path_keys a key = [key @ a]"
proof -
  have "path_keys a key = [key @ a]"
    if "\<forall>c \<in> set a. 97 \<le> (of_char c :: nat) \<and> (of_char c :: nat) \<le> 122" for a key
    using that by (induction a arbitrary: key) auto
  then show "plain_key a \<Longrightarrow> ?thesis"
    by (simp add: plain_key_def)
qed

lemma foldl_missing: "foldl member JMissing ks = JMissing"
  by (induction ks) simp_all

lemma demo_documented: "documented_paths demo_kube"
proof -
  have "json_get j (a @ CHR ''.'' # b) = json_get (json_get j a) b" if "plain_key a" for j a b
    using path_keys_dot [OF that] path_keys_plain [OF that] by (simp add: json_get_def)
  moreover have "json_get JMissing p = JMissing" for p
    by (simp add: json_get_def foldl_missing)
  ultimately show ?thesis
    by (simp add: documented_paths_def demo_kube_def)
qed

theorem dotted_limits_lost_witness:
  "snd (pod_request demo_kube demo_new) = 0"
  by (rule dotted_limits_lost [OF demo_documented, THEN conjunct1])
    (simp add: demo_new_def limits_of_def demo_json)

subsection \<open>Another container runtime\<close>

text \<open>
  On a node whose container runtime is not docker, the first created container ends the whole
  plugin: its id has no \<open>docker://\<close>, and the handler indexes the split id out of range.
\<close>

theorem other_runtime_panics:
  assumes "identify k pod = Some i" "id_assigned i = ''true''" "\<not> map_bool (PodDoByUID s) (id_uid i)"
    and "await_statuses k (id_namespace i) (id_name i) 100 (JGet k pod ''status'') (world s) = (Some status, w)"
    and "JEach k (JGet k status ''containerStatuses'') = before @ v # after"
    and "list_all2 (docker_status k) before cs"
    and "JString k (JGet k v ''containerID'') \<noteq> []" "JString k (JGet k v ''name'') \<noteq> []"
    and "strstr (JString k (JGet k v ''containerID'')) ''docker://'' = None"
  shows "creatVcudaServer k os pod s = Inl Panic"
proof -
  have "register_container k (id_uid i) v (flag, r) = Inl Panic" for flag r
    using assms(7-9) by (simp add: register_container_def Let_def Split_absent)
  then have "go_fold (register_container k (id_uid i)) (before @ v # after) (False, s\<lparr>world := w\<rparr>)
      = Inl Panic"
    using register_all [OF assms(6)] by (simp add: go_fold_append)
  then have "serve_assigned k os i pod s = Inl Panic"
    using assms(4,5) by (simp add: serve_assigned_def)
  then show ?thesis
    using assms(1-3) by (simp add: creatVcudaServer_def)
qed

theorem other_runtime_panics_witness:
  "creatVcudaServer demo_kube demo_os demo_containerd demo_node = Inl Panic"
proof -
  have status: "JGet demo_kube demo_containerd ''status'' = demo_status ''containerd://c1''"
    by (simp add: demo_containerd_def demo_json)
  have i: "identify demo_kube demo_containerd = Some (demo_ident ''true'')"
    by (simp add: demo_containerd_def demo_identified)
  have now: "await_statuses demo_kube a b 100 (demo_status ''containerd://c1'') w
      = (Some (demo_status ''containerd://c1''), w)" for a b w
    by (rule await_now) (simp add: demo_json)
  show ?thesis
    by (rule other_runtime_panics [OF i, where before = "[]" and cs = "[]" and after = "[]" and
          status = "demo_status ''containerd://c1''" and w = demo_world and
          v = "JObj [(''containerID'', JStr ''containerd://c1''), (''name'', JStr ''main'')]"])
      (use now status in \<open>simp_all add: demo_ident_def demo_json NewVirtualManager_def map_bool_def\<close>)
qed

subsection \<open>The end of a pod\<close>



end
