(* ===== verification/Manager_Order.thy ===== *)
theory Manager_Order
  imports Manager_Life
begin

text \<open>
  What is left of the pods that were deleted: nothing, if the handlers run in the order of the
  events, and the directory and the tables of a pod, if a deletion overtakes an earlier
  modification, which the two queues of \<open>Pod_Events\<close> allow.
\<close>

subsection \<open>Files and pods\<close>

text \<open>
  Names as they occur in a cluster, and a system that removes files: no name is empty, a relative
  element or has a slash or a NUL.
\<close>

definition path_name :: "string \<Rightarrow> bool" where
  "path_name e \<longleftrightarrow> plain_element e \<and> NUL \<notin> set e"

definition named_containers :: "('j, 'w) node \<Rightarrow> bool" where
  "named_containers s \<longleftrightarrow> (\<forall>u. \<forall>uid \<in> set (map_list (ContainerUIDInPodUID s) u).
     path_name uid \<and> path_name (map_string (ContainerNameByUid s) uid))"

fun tidy_handler :: "('b, 'j, 'w) kube \<Rightarrow> os \<times> 'j handler \<Rightarrow> ('j, 'w) node \<Rightarrow> bool" where
  "tidy_handler k (os, Create pod) t \<longleftrightarrow> path_name (pod_uid_of k pod) \<and> named_containers t"
| "tidy_handler k (os, Delete pod) t \<longleftrightarrow> (\<forall>p. os_removes os p)"

fun tidy_run :: "('b, 'j, 'w) kube \<Rightarrow> (os \<times> 'j handler) list \<Rightarrow> ('j, 'w) node \<Rightarrow> bool" where
  "tidy_run k [] s = True"
| "tidy_run k (h # hs) s =
     (case run_handler k h s of Inl _ \<Rightarrow> False | Inr t \<Rightarrow> tidy_handler k h t \<and> tidy_run k hs t)"

definition files_owned :: "('j, 'w) node \<Rightarrow> bool" where
  "files_owned s \<longleftrightarrow>
     (\<forall>u. map_bool (PodVisitedByUID s) u \<longrightarrow> path_name u) \<and>
     (\<forall>p. files s p \<noteq> None \<longrightarrow> (\<exists>u. map_bool (PodVisitedByUID s) u \<and> below (pod_dir u) p))"

lemma below_cstr_file:
  assumes "path_name u" "path_name name" "path_name uid"
  shows "below (pod_dir u) (cstr (config_file_of v2 u name uid))"
proof -
  have "NUL \<notin> set (config_file_of v2 u name uid)"
    using assms unfolding path_name_def
    by (subst config_file_plain) (simp_all add: pod_dir_plain VirtualManagerPath_def)
  then show ?thesis
    using assms below_config_file by (simp add: cstr_self path_name_def)
qed

lemma owned_served:
  assumes "files_owned s" "serve_assigned k os i pod s = Inr (t, True)"
    and "path_name (id_uid i)" "named_containers t"
  shows "PodVisitedByUID t = PodVisitedByUID s
    \<and> (\<forall>p. files t p \<noteq> None \<longrightarrow> below (pod_dir (id_uid i)) p \<or> files s p \<noteq> None)"
  using assms(2)
proof (cases rule: serve_assignedE)
  case (served w s1 s2)
  have "below (pod_dir (id_uid i)) p" if "files t p \<noteq> files s p" for p
    using served(5) [OF that] assms(3,4) below_cstr_file by (auto simp: named_containers_def)
  then show ?thesis
    using served(2-4) by (auto simp: registered_def same_pods_def same_tables_def)
qed simp

lemma owned_create:
  assumes "files_owned s" "creatVcudaServer k os pod s = Inr t"
    and "path_name (pod_uid_of k pod)" "named_containers t"
  shows "files_owned t"
  using assms(2)
proof (cases rule: creatVcudaServerE)
  case (stopped w)
  then show ?thesis using assms(1) by (simp add: files_owned_def)
next
  case (known i)
  have u: "path_name (id_uid i)"
    using assms(3) identify_pod_uid [OF known(1)] by simp
  show ?thesis
    using owned_served [OF assms(1) known(3) u assms(4)] assms(1) known(2) unfolding files_owned_def by metis
next
  case (first i s1)
  have u: "path_name (id_uid i)"
    using assms(3) identify_pod_uid [OF first(1)] by simp
  note e = first_visit_effect [OF first(4)]
  have "named_containers s1"
    using assms(4) e by (simp add: named_containers_def)
  then have "PodVisitedByUID s1 = PodVisitedByUID s
    \<and> (\<forall>p. files s1 p \<noteq> None \<longrightarrow> below (pod_dir (id_uid i)) p \<or> files s p \<noteq> None)"
    using first(3) owned_served [OF assms(1) _ u] by blast
  moreover have vis: "map_bool (PodVisitedByUID t) v \<longleftrightarrow> v = id_uid i \<or> map_bool (PodVisitedByUID s1) v" for v
    using e by (cases "v = id_uid i") simp_all
  ultimately show ?thesis
    using assms(1) u e unfolding files_owned_def vis by metis
qed

lemma owned_delete:
  assumes "files_owned s" "\<And>p. os_removes os p"
  shows "files_owned (deletePodPath k os pod s)"
proof (cases "was_assigned k pod \<and> map_bool (PodVisitedByUID s) (pod_uid_of k pod)")
  case True
  let ?u = "pod_uid_of k pod" and ?t = "deletePodPath k os pod s"
  have plain: "plain_element ?u"
    using True assms(1) by (auto simp: files_owned_def path_name_def)
  have "Clean (pod_dir ?u) = pod_dir ?u"
    using plain Clean_plain [of "[''etc'', ''unishare'', ''vm'', ?u]"]
    by (simp add: pod_dir_plain VirtualManagerPath_def)
  then have t: "?t = RemoveAll os (pod_dir ?u) (forget_pod ?u s)"
    using True by (simp add: deletePodPath_cases)
  have vis: "map_bool (PodVisitedByUID ?t) v \<longleftrightarrow> v \<noteq> ?u \<and> map_bool (PodVisitedByUID s) v" for v
    unfolding t node_simps forget_pod_fields by (cases "v = ?u") simp_all
  have files: "files ?t p \<noteq> None \<longleftrightarrow> \<not> below (pod_dir ?u) p \<and> files s p \<noteq> None" for p
    using assms(2) by (simp add: t RemoveAll_def forget_pod_fields)
  show ?thesis
    using assms(1) unfolding files_owned_def vis files by metis
qed (use assms in \<open>auto simp: deletePodPath_cases\<close>)

lemma owned_run:
  "tidy_run k hs s \<Longrightarrow> run_handlers k hs s = Inr t \<Longrightarrow> files_owned s \<Longrightarrow> files_owned t"
proof (induction hs arbitrary: s)
  case (Cons h hs)
  then obtain r where r: "run_handler k h s = Inr r" "run_handlers k hs r = Inr t"
    "tidy_handler k h r" "tidy_run k hs r"
    by (auto split: sum.splits)
  obtain os e where h: "h = (os, e)"
    by (cases h)
  have "files_owned r"
  proof (cases e)
    case (Create pod)
    with r(1,3) Cons.prems(3) h show ?thesis
      by (intro owned_create [of s k os pod r]) simp_all
  next
    case (Delete pod)
    with r(1,3) Cons.prems(3) h owned_delete [of s os k pod] show ?thesis
      by simp
  qed
  with Cons.IH r show ?case by blast
qed simp



subsection \<open>A deletion that overtakes\<close>

text \<open>
  The loop takes one modification and one deletion in turn, so that of two modifications and a
  later deletion that wait together the deletion is handled before the second modification.
\<close>

lemma overtaking_run:
  "\<exists>r. runs_to run_init r \<and> received r = [Create a, Create b, Delete c]
     \<and> started r = [Create a, Delete c, Create b]"
proof -
  let ?q = "\<lambda>m d. \<lparr>PodModObj = m, PodDelObj = d\<rparr>"
  let ?s = "\<lambda>q l st. \<lparr>queues = q, at = l, received = [Create a, Create b, Delete c], started = st\<rparr>"
  note fields = run_state.simps PodManager.simps DoModified_def DoDeleted_def pop_mod_def pop_del_def
  let ?i = "\<lparr>queues = ?q [] [], at = Test_Mod, received = [], started = []\<rparr>"
  have i: "run_init = ?i"
    by (simp add: run_init_def NewPodManager_def)
  have "run_step ?i (?i\<lparr>queues := ?q [a] [], received := [Create a]\<rparr>)"
    using modified [of ?i a] by (simp add: fields)
  moreover have "run_step (?i\<lparr>queues := ?q [a] [], received := [Create a]\<rparr>)
      (?i\<lparr>queues := ?q [a, b] [], received := [Create a, Create b]\<rparr>)"
    using modified [of "?i\<lparr>queues := ?q [a] [], received := [Create a]\<rparr>" b] by (simp add: fields)
  moreover have "run_step (?i\<lparr>queues := ?q [a, b] [], received := [Create a, Create b]\<rparr>)
      (?s (?q [a, b] [c]) Test_Mod [])"
    using deleted [of "?i\<lparr>queues := ?q [a, b] [], received := [Create a, Create b]\<rparr>" c]
    by (simp add: fields)
  moreover have "run_step (?s (?q [a, b] [c]) Test_Mod []) (?s (?q [a, b] [c]) (Pop_Mod a) [])"
    using read_mod [of "?s (?q [a, b] [c]) Test_Mod []"] by (simp add: fields)
  moreover have "run_step (?s (?q [a, b] [c]) (Pop_Mod a) []) (?s (?q [b] [c]) (Start_Mod a) [])"
    using run_step.pop_mod [of "?s (?q [a, b] [c]) (Pop_Mod a) []" a] by (simp add: fields)
  moreover have "run_step (?s (?q [b] [c]) (Start_Mod a) []) (?s (?q [b] [c]) Test_Del [Create a])"
    using start_mod [of "?s (?q [b] [c]) (Start_Mod a) []" a] by (simp add: fields)
  moreover have "run_step (?s (?q [b] [c]) Test_Del [Create a]) (?s (?q [b] [c]) (Pop_Del c) [Create a])"
    using read_del [of "?s (?q [b] [c]) Test_Del [Create a]"] by (simp add: fields)
  moreover have "run_step (?s (?q [b] [c]) (Pop_Del c) [Create a]) (?s (?q [b] []) (Start_Del c) [Create a])"
    using run_step.pop_del [of "?s (?q [b] [c]) (Pop_Del c) [Create a]" c] by (simp add: fields)
  moreover have "run_step (?s (?q [b] []) (Start_Del c) [Create a]) (?s (?q [b] []) Test_Mod [Create a, Delete c])"
    using start_del [of "?s (?q [b] []) (Start_Del c) [Create a]" c] by (simp add: fields)
  moreover have "run_step (?s (?q [b] []) Test_Mod [Create a, Delete c])
      (?s (?q [b] []) (Pop_Mod b) [Create a, Delete c])"
    using read_mod [of "?s (?q [b] []) Test_Mod [Create a, Delete c]"] by (simp add: fields)
  moreover have "run_step (?s (?q [b] []) (Pop_Mod b) [Create a, Delete c])
      (?s (?q [] []) (Start_Mod b) [Create a, Delete c])"
    using run_step.pop_mod [of "?s (?q [b] []) (Pop_Mod b) [Create a, Delete c]" b] by (simp add: fields)
  moreover have "run_step (?s (?q [] []) (Start_Mod b) [Create a, Delete c])
      (?s (?q [] []) Test_Del [Create a, Delete c, Create b])"
    using start_mod [of "?s (?q [] []) (Start_Mod b) [Create a, Delete c]" b] by (simp add: fields)
  ultimately have "runs_to ?i (?s (?q [] []) Test_Del [Create a, Delete c, Create b])"
    by (meson here more)
  then show ?thesis
    unfolding i by (intro exI conjI) (assumption, simp_all)
qed

lemma event_visits:
  assumes "identify k pod = Some i" "id_assigned i \<noteq> ''true''" "creatVcudaServer k os pod s = Inr t"
  shows "map_bool (PodVisitedByUID t) (id_uid i)"
proof (cases "map_bool (PodVisitedByUID s) (id_uid i)")
  case True
  then show ?thesis
    using assms by (simp add: creatVcudaServer_def)
next
  case False
  then have "first_visit k os i pod s = Inr t"
    using assms by (simp add: creatVcudaServer_def)
  then show ?thesis
    using first_visit_effect by fastforce
qed

lemma deletion_forgets:
  assumes "was_assigned k pod"
  shows "\<not> map_bool (PodVisitedByUID (deletePodPath k os pod s)) (pod_uid_of k pod)"
  using assms by (simp add: deletePodPath_cases node_simps forget_pod_fields)

text \<open>
  C23: A deletion can overtake a modification that was received before it. In the order of the
  events the deleted pod is forgotten; in an order the loop allows it is known again afterwards,
  with its directory and its requests, and no event will remove it.
\<close>

theorem deletion_overtakes:
  assumes "identify k b = Some i" "id_assigned i \<noteq> ''true''"
    and "was_assigned k c" "pod_uid_of k c = id_uid i"
    and "run_handlers k [(os, Create a), (os, Create b), (os, Delete c)] s = Inr in_order"
    and "run_handlers k [(os, Create a), (os, Delete c), (os, Create b)] s = Inr overtaken"
  shows "(\<exists>r. runs_to run_init r \<and> received r = [Create a, Create b, Delete c]
       \<and> started r = [Create a, Delete c, Create b])
    \<and> \<not> map_bool (PodVisitedByUID in_order) (id_uid i)
    \<and> map_bool (PodVisitedByUID overtaken) (id_uid i)"
proof -
  obtain r where "in_order = deletePodPath k os c r"
    using assms(5) by (auto simp: go_bind_eq_Inr)
  then have "\<not> map_bool (PodVisitedByUID in_order) (id_uid i)"
    using deletion_forgets [OF assms(3), of os r] assms(4) by simp
  moreover have "map_bool (PodVisitedByUID overtaken) (id_uid i)"
    using assms(6) event_visits [OF assms(1,2)] by (auto simp: go_bind_eq_Inr)
  ultimately show ?thesis
    by (intro conjI overtaking_run)
qed

text \<open>The server in memory goes on answering for the pod.\<close>

definition serves_pod :: "server \<Rightarrow> bool" where
  "serves_pod w \<longleftrightarrow> (\<exists>p j ann. pods w = [(p, j)] \<and> pod_name p = ''train'' \<and>
     pod_namespace p = ''default'' \<and> Annotations p = Some ann)"

lemma demo_visit:
  assumes "serves_pod (world s)" "\<not> map_bool (PodVisitedByUID s) ''u1''"
  shows "\<exists>t. creatVcudaServer demo_kube demo_os demo_new s = Inr t \<and> serves_pod (world t)
    \<and> map_bool (PodVisitedByUID t) ''u1''"
proof -
  have "\<exists>w. annotate_ready demo_kube (demo_ident ''false'') (world s) = Inr w \<and> serves_pod w"
    using assms(1) by (auto simp: serves_pod_def annotate_ready_def demo_kube_def server_get_def demo_ident_def)
  then have "\<exists>t. first_visit demo_kube demo_os (demo_ident ''false'') demo_new s = Inr t \<and> serves_pod (world t)"
    unfolding demo_new_def
    by (auto simp: first_visit_def demo_request MkdirAll_def demo_writes Let_def)
  then obtain t where t: "first_visit demo_kube demo_os (demo_ident ''false'') demo_new s = Inr t"
    "serves_pod (world t)"
    by blast
  then have "creatVcudaServer demo_kube demo_os demo_new s = Inr t"
    using assms(2) unfolding demo_new_def by (simp add: creatVcudaServer_def demo_identified) (simp add: demo_ident_def)
  with t(2) first_visit_effect [OF t(1)] show ?thesis
    by (auto simp: demo_ident_def)
qed

theorem deletion_overtakes_witness:
  "\<exists>s t. run_handlers demo_kube [(demo_os, Create demo_new), (demo_os, Create demo_new), (demo_os, Delete demo_new)]
       demo_node = Inr s
     \<and> run_handlers demo_kube [(demo_os, Create demo_new), (demo_os, Delete demo_new), (demo_os, Create demo_new)]
       demo_node = Inr t
     \<and> \<not> map_bool (PodVisitedByUID s) ''u1'' \<and> map_bool (PodVisitedByUID t) ''u1''"
proof -
  have i: "identify demo_kube demo_new = Some (demo_ident ''false'')" "was_assigned demo_kube demo_new"
    "pod_uid_of demo_kube demo_new = id_uid (demo_ident ''false'')" "id_uid (demo_ident ''false'') = ''u1''"
    "id_assigned (demo_ident ''false'') \<noteq> ''true''"
    by (simp_all add: demo_new_def demo_identified demo_was_assigned demo_uid demo_ident_def)
  have "serves_pod (world demo_node)" "\<not> map_bool (PodVisitedByUID demo_node) ''u1''"
    by (simp_all add: NewVirtualManager_def demo_world_def serves_pod_def map_bool_def)
  then obtain s1 where s1: "creatVcudaServer demo_kube demo_os demo_new demo_node = Inr s1"
    "serves_pod (world s1)" "map_bool (PodVisitedByUID s1) ''u1''"
    using demo_visit by blast
  let ?d = "deletePodPath demo_kube demo_os demo_new s1"
  have again: "creatVcudaServer demo_kube demo_os demo_new s1 = Inr s1"
    using i s1(3) by (simp add: creatVcudaServer_def)
  have "serves_pod (world ?d)" "\<not> map_bool (PodVisitedByUID ?d) ''u1''"
    using i(2-4) s1(2,3) deletion_forgets [OF i(2), of demo_os s1]
    by (simp_all add: deletePodPath_cases node_simps forget_pod_fields)
  then obtain t where "creatVcudaServer demo_kube demo_os demo_new ?d = Inr t"
    using demo_visit by blast
  with s1(1) again have runs: "run_handlers demo_kube [(demo_os, Create demo_new), (demo_os, Create demo_new),
        (demo_os, Delete demo_new)] demo_node = Inr ?d"
    "run_handlers demo_kube [(demo_os, Create demo_new), (demo_os, Delete demo_new), (demo_os, Create demo_new)]
       demo_node = Inr t"
    by simp_all
  then show ?thesis
    using deletion_overtakes [OF i(1,5,2,3) runs] i(4) by auto
qed

end
