(* ===== verification/Gpu_Accounts.thy ===== *)
theory Gpu_Accounts
  imports Pod_Allocation Manager_Order
begin

text \<open>
  What is booked on the GPUs over the whole plugin: \<open>Allocate\<close> books, and neither a refused answer
  nor any handler of the manager, the deletion of the pod included, gives anything back.
\<close>

subsection \<open>The requests of the manager\<close>

text \<open>Requests that fetch a pod or write one back leave a part of the server's state alone.\<close>

definition pod_requests_keep :: "('b, 'j, 'w) kube \<Rightarrow> ('w \<Rightarrow> 'g) \<Rightarrow> bool" where
  "pod_requests_keep k stored \<longleftrightarrow>
     (\<forall>ns name w. stored (snd (GetResource k ''Pod'' ns name w)) = stored w) \<and>
     (\<forall>p w. stored (snd (UpdateResource k (fst (marshal_pod k p)) w)) = stored w)"

lemma await_statuses_keeps:
  "pod_requests_keep k stored \<Longrightarrow> stored (snd (await_statuses k ns name n status w)) = stored w"
proof (induction n arbitrary: status w)
  case (Suc n)
  then have "stored (snd (GetResource k ''Pod'' ns name w)) = stored w"
    by (simp add: pod_requests_keep_def)
  then show ?case
    using Suc.IH [OF Suc.prems] by (auto split: prod.split option.split)
qed simp

lemma annotate_ready_keeps:
  assumes "pod_requests_keep k stored" "annotate_ready k i w = Inr w'"
  shows "stored w' = stored w"
proof -
  obtain b e w1 where g: "GetResource k ''Pod'' (id_namespace i) (id_name i) w = ((b, e), w1)"
    by (metis surj_pair)
  then have "stored w1 = stored w"
    using assms(1) unfolding pod_requests_keep_def by (metis snd_conv)
  moreover have "stored (snd (UpdateResource k (fst (marshal_pod k p)) w1)) = stored w1" for p
    using assms(1) by (simp add: pod_requests_keep_def)
  ultimately show ?thesis
    using assms(2) g by (auto simp: annotate_ready_def Let_def split: option.splits)
qed

lemma serve_assigned_keeps:
  assumes "pod_requests_keep k stored" "serve_assigned k os i pod s = Inr (t, g)"
  shows "stored (world t) = stored (world s)"
proof -
  obtain st w where a: "await_statuses k (id_namespace i) (id_name i) 100 (JGet k pod ''status'') (world s) = (st, w)"
    by (metis surj_pair)
  then have w: "stored w = stored (world s)"
    using await_statuses_keeps [OF assms(1)] by (metis snd_conv)
  show ?thesis
  proof (cases st)
    case None
    then show ?thesis
      using assms(2) a w by (auto simp: serve_assigned_def)
  next
    case (Some status)
    obtain flag s1 where r: "go_fold (register_container k (id_uid i))
        (JEach k (JGet k status ''containerStatuses'')) (False, s\<lparr>world := w\<rparr>) = Inr (flag, s1)"
      "(if \<not> flag then Inr (s1, False)
        else go_bind (go_fold (write_config os (id_uid i)) (map_list (ContainerUIDInPodUID s1) (id_uid i)) s1)
          (\<lambda>s2. Inr (s2\<lparr>PodDoByUID := (PodDoByUID s2)(id_uid i \<mapsto> True)\<rparr>, True))) = Inr (t, g)"
      using assms(2) a Some by (auto simp: serve_assigned_def go_bind_eq_Inr)
    have s1: "stored (world s1) = stored (world s)"
      using register_containers_registered [OF r(1)] w by (simp add: registered_def same_pods_def)
    show ?thesis
    proof (cases flag)
      case True
      then obtain s2 where s2: "go_fold (write_config os (id_uid i)) (map_list (ContainerUIDInPodUID s1) (id_uid i)) s1
          = Inr s2" "world t = world s2"
        using r(2) by (auto simp: go_bind_eq_Inr)
      then show ?thesis
        using write_configs_same [OF s2(1)] s1 by (simp add: same_tables_def)
    qed (use r(2) s1 in simp)
  qed
qed

lemma first_visit_keeps:
  assumes "pod_requests_keep k stored" "first_visit k os i pod s = Inr t"
  shows "stored (world t) = stored (world s)"
proof -
  let ?s1 = "s\<lparr>PodVisitedByUID := (PodVisitedByUID s)(id_uid i \<mapsto> True),
    PodByUID := (PodByUID s)(id_uid i \<mapsto> pod)\<rparr>"
  obtain a s2 where m: "MkdirAll os (Join [VirtualManagerPath, id_uid i]) ?s1 = (a, s2)"
    by (metis surj_pair)
  obtain c r where r: "pod_request k pod = (c, r)"
    by (metis surj_pair)
  have "world s2 = world s"
    using MkdirAll_same [of ?s1 os "Join [VirtualManagerPath, id_uid i]"] m by (simp add: same_tables_def)
  then show ?thesis
    using assms(2) annotate_ready_keeps [OF assms(1)]
    by (auto simp: first_visit_def Let_def m r go_bind_eq_Inr split: if_splits)
qed

lemma handler_keeps_stored:
  assumes "pod_requests_keep k stored" "run_handler k h s = Inr t"
  shows "stored (world t) = stored (world s)"
proof (cases h)
  case (Pair os e)
  show ?thesis
  proof (cases e)
    case (Create pod)
    have served: "stored (world s1) = stored (world s)" if "serve_assigned k os i pod s = Inr (s1, g)" for i s1 g
      using that by (rule serve_assigned_keeps [OF assms(1)])
    have visited: "stored (world r) = stored (world s1)" if "first_visit k os i pod s1 = Inr r" for i s1 r
      using that by (rule first_visit_keeps [OF assms(1)])
    have "creatVcudaServer k os pod s = Inr t"
      using assms(2) Pair Create by simp
    then show ?thesis
      by (auto simp: creatVcudaServer_def go_bind_eq_Inr served split: option.splits if_splits dest!: served visited)
  next
    case (Delete pod)
    then show ?thesis
      using assms(2) Pair by (auto simp: deletePodPath_cases node_simps forget_pod_fields)
  qed
qed

lemma handlers_keep_stored:
  assumes "pod_requests_keep k stored" "run_handlers k hs s = Inr t"
  shows "stored (world t) = stored (world s)"
  by (rule go_fold_invariant [OF assms(2), where P = "\<lambda>r. stored (world r) = stored (world s)"])
    (use handler_keeps_stored [OF assms(1)] in auto)

subsection \<open>The accounts\<close>

lemma mark_assigned_keeps:
  assumes "pod_requests_keep k stored" "mark_assigned k q resp w = Inr (answer, w')"
  shows "stored w' = stored w"
proof -
  have "stored (snd (UpdatePodAnnotations k p w)) = stored w" for p
  proof -
    have "stored (snd (UpdateResource k (fst (marshal_pod k p)) w)) = stored w"
      using assms(1) by (simp add: pod_requests_keep_def)
    then show ?thesis
      by (auto simp: UpdatePodAnnotations_def split: prod.split option.split)
  qed
  then show ?thesis
    using assms(2) by (auto simp: mark_assigned_def split: option.splits prod.splits) (metis snd_conv)+
qed

text \<open>
  C29: Once \<open>GetGpuResource\<close> has granted a GPU to a request, its cores and memory stay booked for
  ever: they are booked even if \<open>Allocate\<close> refuses the request afterwards because the pod could
  not be marked, and no later event of the manager, the deletion of the pod included, takes
  anything back.
\<close>

theorem granted_gpu_never_freed:
  assumes "serves_gpus k stored" "pod_requests_keep k stored"
    and "reqs \<noteq> []" "find_pod k node ResourceCore (hd reqs) w = (Some q, w1)"
    and "GetResource k ''GPU'' ''default'' [] w1 = ((bytes, None), w2)"
    and "list_all2 (document_of k) (items k bytes) gs"
    and "\<forall>g \<in> set gs. stored w1 (crd_name g) = Some g \<and> crd_name g \<noteq> []"
    and "GetGpuResource k (pod_limit ResourceCore q) (pod_limit ResourceMemory q) w1 = Inr ((uuid, None), w3)"
    and "vcore_Allocate k node devInfo reqs w = Inr (answer, w')"
    and "world s = w'" "run_handlers k hs s = Inr t"
  shows "\<exists>g \<in> set gs. uuid = UUID (Spec g) \<and> stored (world t) = (stored w1)(crd_name g \<mapsto>
    book (pod_limit ResourceCore q) (pod_limit ResourceMemory q) g)"
proof -
  have "mark_assigned k q (vcore_response (pod_UID q) (GetMinorNumber devInfo uuid)) w3 = Inr (answer, w')"
    using assms(3,4,8,9) by (simp add: vcore_Allocate_def)
  then have "stored w' = stored w3"
    by (rule mark_assigned_keeps [OF assms(2)])
  then have "stored (world t) = stored w3"
    using handlers_keep_stored [OF assms(2,11)] assms(10) by simp
  then show ?thesis
    using GetGpuResource_booked [OF assms(1,5-8)] by auto
qed

lemma demo_pod_requests: "pod_requests_keep demo_kube demo_stored"
  by (simp add: pod_requests_keep_def demo_kube_def server_get_def demo_stored_def fun_eq_iff)

lemma demo_found:
  "find_pod demo_kube ''n1'' ResourceCore (replicate 50 x) (demo_node_server [demo_pending])
    = (Some demo_pending, demo_node_server [demo_pending])"
proof -
  let ?w = "demo_node_server [demo_pending]" and ?p = "demo_pending\<lparr>pod_api := ''v1'', pod_kind := ''Pod''\<rparr>"
  have pending: "GetPendingPodOnNode demo_kube ''n1'' ?w = ([?p], ?w)"
    by (simp add: GetPendingPodOnNode_def demo_kube_def demo_node_server_def demo_pending_def)
  have "confirmPod ResourceCore (of_nat (length (replicate 50 x))) (candidatePodList ResourceCore [?p] False) 0 = ?p"
    by (subst confirmed) (simp_all add: first_at_Cons)
  moreover have "GetPodOnNode demo_kube (pod_namespace ?p) (pod_name ?p) ?w = (Some demo_pending, ?w)"
    by (simp add: demo_get demo_pods_def demo_node_server_def pod_key_def)
  moreover have "getVCUDAReadyFromPodAnnotation demo_pending \<noteq> []"
    by (simp add: demo_pending_def getVCUDAReadyFromPodAnnotation_def)
  ultimately show ?thesis
    using await_ready_now [of demo_kube "pod_namespace ?p" "pod_name ?p" ?w demo_pending ?w 100]
    by (simp add: find_pod_def pending del: length_replicate)
qed

lemma demo_allocated:
  "\<exists>w'. vcore_Allocate demo_kube ''n1'' t4_info [replicate 50 ''iscas.cn/gpu-core-0''] (demo_node_server [demo_pending])
    = Inr ((Some [vcore_response ''u1'' 0], None), w')"
proof -
  have gpus: "gpus (demo_node_server [demo_pending]) = [gpu_object t4_info ''n1'' 0]"
    by (simp add: demo_node_server_def)
  obtain w3 where grant: "GetGpuResource demo_kube (pod_limit ResourceCore demo_pending)
      (pod_limit ResourceMemory demo_pending) (demo_node_server [demo_pending]) = Inr ((''uuid-t4'', None), w3)"
    using demo_grant [OF gpus] by auto
  obtain ann where ann: "Annotations demo_pending = Some ann"
    by (simp add: demo_pending_def)
  have "\<exists>w'. UpdatePodAnnotations demo_kube p w3 = (None, w')" for p
    by (simp add: UpdatePodAnnotations_def demo_kube_def)
  then obtain w0 where "UpdatePodAnnotations demo_kube
      (demo_pending\<lparr>Annotations := Some (ann(AnnAssignedFlag \<mapsto> ''true''))\<rparr>) w3 = (None, w0)"
    by blast
  moreover have "pod_UID demo_pending = ''u1''" "GetMinorNumber t4_info ''uuid-t4'' = 0"
    by (simp_all add: demo_pending_def GetMinorNumber_def t4_info_def)
  ultimately show ?thesis
    using grant ann by (simp add: vcore_Allocate_def demo_found mark_assigned_def)
qed

text \<open>The pod was served and is deleted: its 50 percent of the cores remain booked.\<close>

theorem granted_gpu_never_freed_witness:
  "\<exists>answer w t. vcore_Allocate demo_kube ''n1'' t4_info [replicate 50 ''iscas.cn/gpu-core-0'']
       (demo_node_server [demo_pending]) = Inr (answer, w)
    \<and> run_handlers demo_kube [(demo_os, Delete demo_new)]
        (NewVirtualManager w\<lparr>PodVisitedByUID := [''u1'' \<mapsto> True]\<rparr>) = Inr t
    \<and> (\<exists>g. demo_stored (world t) ''n1-gpu-0'' = Some g \<and> parse_i64 (Core (Used (Spec g))) = 50)"
proof -
  let ?w = "demo_node_server [demo_pending]" and ?g = "gpu_object t4_info ''n1'' 0"
  have gpus: "gpus ?w = [?g]"
    by (simp add: demo_node_server_def)
  have name: "crd_name ?g = ''n1-gpu-0''"
    by (simp add: gpu_object_def FormatInt_def decimal.simps [of 0])
  obtain w3 where grant: "GetGpuResource demo_kube (pod_limit ResourceCore demo_pending)
      (pod_limit ResourceMemory demo_pending) ?w = Inr ((''uuid-t4'', None), w3)"
    using demo_grant [OF gpus] by auto
  obtain answer w' where run: "vcore_Allocate demo_kube ''n1'' t4_info [replicate 50 ''iscas.cn/gpu-core-0''] ?w
      = Inr (answer, w')"
    using demo_allocated by blast
  let ?s = "NewVirtualManager w'\<lparr>PodVisitedByUID := [''u1'' \<mapsto> True]\<rparr>"
  have docs: "list_all2 (document_of demo_kube) (items demo_kube (Gpus (gpus ?w))) [?g]"
    using demo_documents [of "gpus ?w"] by (simp add: gpus)
  have stored: "\<forall>g \<in> set [?g]. demo_stored ?w (crd_name g) = Some g \<and> crd_name g \<noteq> []"
    using name by (simp add: demo_stored_def gpus)
  have hs: "run_handlers demo_kube [(demo_os, Delete demo_new)] ?s = Inr (deletePodPath demo_kube demo_os demo_new ?s)"
    by simp
  have world: "world ?s = w'"
    by (simp add: NewVirtualManager_def)
  have "demo_stored (world (deletePodPath demo_kube demo_os demo_new ?s)) = (demo_stored ?w)(''n1-gpu-0'' \<mapsto> book 50 8 ?g)"
    using granted_gpu_never_freed [OF demo_serves demo_pod_requests _ _ demo_list docs stored grant run world hs]
      name by (simp add: demo_found)
  then show ?thesis
    using run hs book_used(1) [of 50 8 ?g] by (auto simp: gpu_object_def)
qed

end
