(* ===== verification/Limit_Delivery.thy ===== *)
theory Limit_Delivery
  imports Hook_Runs Gpu_Accounts
begin

text \<open>
  The whole way of a limit, from the pod's document to the control thread in its container: the
  manager writes the record, the device plugin has the pod's directory mounted, the hook library
  finds the record in its container and starts the control thread with its limit.
\<close>

subsection \<open>What a container sees of the node's files\<close>

text \<open>
  Bind mounts: a path below the container's side of a mount is the path below the host's side; any
  other path is one of the container's own.
\<close>

fun mounted :: "(string \<Rightarrow> char list option) \<Rightarrow> Mount list \<Rightarrow> (string \<Rightarrow> char list option) \<Rightarrow> string \<Rightarrow> char list option" where
  "mounted own [] host p = own p"
| "mounted own (m # ms) host p =
     (if below (ContainerPath m) p then host (HostPath m @ drop (length (ContainerPath m)) p)
      else mounted own ms host p)"

lemma mounted_config_file:
  assumes "plain_element u" "plain_element cname" "plain_element cid"
  shows "mounted own (Mounts (vcore_response u n)) host (config_file (if v2 then cname else cid))
    = host (config_file_of v2 u cname cid)"
proof -
  let ?c = "if v2 then cname else cid"
  have place: "config_file ?c = ''/etc/unishare/vm'' @ CHR ''/'' # ?c @ ''/vcuda.config''"
    by (simp add: config_file_def VMLU_CONFIG_PATH_def CONTROLLER_CONFIG_NAME_def SLASH_def)
  then have "mounted own (Mounts (vcore_response u n)) host (config_file ?c)
      = host (''/etc/unishare/vm/'' @ u @ CHR ''/'' # ?c @ ''/vcuda.config'')"
    by (simp add: vcore_response_def below_def starts_with_iff)
  then show ?thesis
    using assms by (simp add: config_file_plain pod_dir_plain VirtualManagerPath_def)
qed

text \<open>
  The mount table of a container on a node with cgroup version 2: its first entry that names a
  container is the one of the pod's UID and the container's name.
\<close>

definition mount_table_names :: "container_env \<Rightarrow> string \<Rightarrow> string \<Rightarrow> bool" where
  "mount_table_names e uid cname \<longleftrightarrow>
     (\<exists>info ls l ms t a tail. checkCgroupVersion (mount_pipe e) = Inr (1, info) \<and>
        text_file e info = Some (file_of (ls @ l # ms) t) \<and> (\<forall>m \<in> set ls. no_container m) \<and>
        SLASH \<notin> set a \<and> l = a @ prefix_pod @ uid @ end_pod @ cname @ SLASH # tail \<and>
        NUL \<notin> set l \<and> NEWLINE \<notin> set l \<and> length l < BUF_SIZE - 1)"

text \<open>
  The cgroups of a process on a node with cgroup version 1 under systemd: its memory cgroup is the
  scope \<open><runtime>-<cid>.scope\<close> in the slice of a pod, in which each marker occurs once.
\<close>

definition memory_scope :: "string \<Rightarrow> string \<Rightarrow> bool" where
  "memory_scope path cid \<longleftrightarrow>
     (\<exists>dir pod scope parent uid runtime. path = dir @ SLASH # pod @ SLASH # scope \<and>
        pod = parent @ ''-pod'' @ uid @ ''.slice'' \<and> scope = runtime @ CHR ''-'' # cid @ ''.scope'' \<and>
        SLASH \<notin> set pod \<and> SLASH \<notin> set scope \<and> CHR ''-'' \<notin> set cid \<and>
        strstr scope ''.scope'' = Some (length scope - 6) \<and>
        strstr (SLASH # pod) ''.slice'' = Some (length pod - 5) \<and>
        strstr (SLASH # parent @ ''-pod'' @ uid) ''-pod'' = Some (Suc (length parent)))"

definition memory_cgroup_names :: "container_env \<Rightarrow> string \<Rightarrow> bool" where
  "memory_cgroup_names e cid \<longleftrightarrow>
     (\<exists>info ls l ms t hierarchy path. checkCgroupVersion (mount_pipe e) = Inr (0, info) \<and>
        text_file e info = Some (file_of (ls @ l # ms) t) \<and> (\<forall>m \<in> set ls. other_controller m) \<and>
        l = hierarchy @ '':memory:'' @ path \<and> NEWLINE \<notin> set l \<and> NUL \<notin> set l \<and> 2 * length l \<le> BUF_SIZE \<and>
        CHR '':'' \<notin> set hierarchy \<and> hierarchy \<noteq> [] \<and> hierarchy \<noteq> ''memory'' \<and> CHR '':'' \<notin> set path \<and>
        memory_scope path cid)"

definition process_recognised :: "container_env \<Rightarrow> bool \<Rightarrow> string \<Rightarrow> string \<Rightarrow> string \<Rightarrow> bool" where
  "process_recognised e v2 uid cname cid \<longleftrightarrow>
     (if v2 then uid \<noteq> ''containers'' \<and> mount_table_names e uid cname else memory_cgroup_names e cid)"

definition buffers :: "char list \<times> char list \<times> char list \<Rightarrow> bool" where
  "buffers g \<longleftrightarrow> (case g of (pod0, cid0, name0) \<Rightarrow>
     length pod0 = BUF_SIZE \<and> length cid0 = BUF_SIZE \<and> length name0 = BUF_SIZE)"

lemma read_recognised_v2:
  assumes "mount_table_names e u cname" "u \<noteq> ''containers''" "buffers g"
    and "data_file e (config_file cname) = Some (rc_encode d pad @ [])" "rc_valid d" "length pad = 4"
    and "plain_element u" "plain_element cname" "length (config_file cname) < PATH_LENGTH"
  shows "\<exists>s'. read_controller_configuration e g s = Inr s' \<and> config_data s' = d"
proof -
  obtain info ls l ms t a tail where m: "checkCgroupVersion (mount_pipe e) = Inr (1, info)"
    "text_file e info = Some (file_of (ls @ l # ms) t)" "\<forall>m \<in> set ls. no_container m" "SLASH \<notin> set a"
    "l = a @ prefix_pod @ u @ end_pod @ cname @ SLASH # tail" "NUL \<notin> set l" "NEWLINE \<notin> set l"
    "length l < BUF_SIZE - 1"
    using assms(1) unfolding mount_table_names_def by blast
  obtain pod0 cid0 name0 where g: "g = (pod0, cid0, name0)" "length pod0 = BUF_SIZE" "length name0 = BUF_SIZE"
    using assms(3) by (auto simp: buffers_def)
  have "SLASH \<notin> set u" "SLASH \<notin> set cname"
    using assms(7,8) by (simp_all add: plain_element_def SLASH_def)
  then show ?thesis
    using configuration_v2_found [OF m(1-4) _ assms(2) _ m(5-8) g(2,3) assms(4-6,9)] g(1) by blast
qed

lemma read_recognised_v1:
  assumes "memory_cgroup_names e cid" "buffers g"
    and "data_file e (config_file cid) = Some (rc_encode d pad @ [])" "rc_valid d" "length pad = 4"
    and "length (config_file cid) < PATH_LENGTH"
  shows "\<exists>s'. read_controller_configuration e g s = Inr s' \<and> config_data s' = d"
proof -
  obtain info ls l ms t hierarchy path where l: "checkCgroupVersion (mount_pipe e) = Inr (0, info)"
    "text_file e info = Some (file_of (ls @ l # ms) t)" "\<forall>m \<in> set ls. other_controller m"
    "l = hierarchy @ '':memory:'' @ path" "NEWLINE \<notin> set l" "NUL \<notin> set l" "2 * length l \<le> BUF_SIZE"
    "CHR '':'' \<notin> set hierarchy" "hierarchy \<noteq> []" "hierarchy \<noteq> ''memory''" "CHR '':'' \<notin> set path"
    "memory_scope path cid"
    using assms(1) unfolding memory_cgroup_names_def by blast
  obtain dir pod scope parent uid runtime where p: "path = dir @ SLASH # pod @ SLASH # scope"
    "pod = parent @ ''-pod'' @ uid @ ''.slice''" "scope = runtime @ CHR ''-'' # cid @ ''.scope''"
    "SLASH \<notin> set pod" "SLASH \<notin> set scope" "CHR ''-'' \<notin> set cid"
    "strstr scope ''.scope'' = Some (length scope - 6)"
    "strstr (SLASH # pod) ''.slice'' = Some (length pod - 5)"
    "strstr (SLASH # parent @ ''-pod'' @ uid) ''-pod'' = Some (Suc (length parent))"
    using l(12) unfolding memory_scope_def by blast
  obtain pod0 cid0 name0 where g: "g = (pod0, cid0, name0)" "length pod0 = BUF_SIZE" "length cid0 = BUF_SIZE"
    "length name0 = BUF_SIZE"
    using assms(2) by (auto simp: buffers_def)
  then have "name0 \<noteq> []"
    by (auto simp: BUF_SIZE_def)
  show ?thesis
    using configuration_systemd_found [OF l(1-11) p g(2,3) \<open>name0 \<noteq> []\<close> assms(3-6)] g(1) by blast
qed

lemma delivered:
  assumes "process_recognised e v2 u cname cid" "buffers g"
    and "data_file e = mounted own (Mounts (vcore_response u n)) host"
    and "host (config_file_of v2 u cname cid) = Some (rc_encode d pad)" "rc_valid d" "length pad = 4"
    and "plain_element u" "plain_element cname" "plain_element cid"
    and "length (config_file (if v2 then cname else cid)) < PATH_LENGTH"
  shows "\<exists>s'. read_controller_configuration e g s = Inr s' \<and> config_data s' = d"
proof -
  have d: "data_file e (config_file (if v2 then cname else cid)) = Some (rc_encode d pad @ [])"
    using assms(3,4) mounted_config_file [OF assms(7-9)] by simp
  show ?thesis
  proof (cases v2)
    case True
    with assms d show ?thesis
      by (intro read_recognised_v2 [of e u cname g d pad]) (simp_all add: process_recognised_def)
  next
    case False
    with assms d show ?thesis
      by (intro read_recognised_v1 [of e cid g d pad]) (simp_all add: process_recognised_def)
  qed
qed

subsection \<open>From the pod's document to the control thread\<close>

text \<open>
  C2: End to end on a node with cgroup version 2, or with version 1 under systemd: if the manager
  recorded \<open>c\<close> percent of the cores for a pod and handles the event after its device was assigned, and \<open>Allocate\<close> answered for this
  pod, then in a container of the pod whose first call is \<open>cuInit\<close> the hook library holds exactly
  the record the manager wrote for it, and its control thread works with the limit \<open>c\<close>, whatever
  is called afterwards.
\<close>

theorem limit_reaches_control_thread:
  assumes "run_handlers k before (NewVirtualManager w0) = Inr s"
    and "identify k pod = Some i" "id_assigned i = ''true''"
    and "\<not> map_bool (PodDoByUID s) (id_uid i)" "map_bool (PodVisitedByUID s) (id_uid i)"
    and "CoreRequestByPodUID s (id_uid i) = Some c" "0 \<le> sint c" "sint c < 2 ^ 31"
    and "good_uid (id_uid i)"
    and "statuses_seen k i pod (world s) cs w" "good_containers cs" "(cid, cname) \<in> set cs"
    and "writes_all os" "isCgroupVersionV2 os = Inr unified" "creatVcudaServer k os pod s = Inr t"
    and "find_pod k' node ResourceCore (hd reqs) v = (Some q, v1)" "pod_UID q = id_uid i"
    and "vcore_Allocate k' node devInfo reqs v = Inr ((Some [resp], None), v2)"
    and "process_recognised (container_files env) unified (id_uid i) cname cid" "buffers (stack_garbage env)"
    and "data_file (container_files env) = mounted own (Mounts resp) (files t)"
    and "length (config_file (if unified then cname else cid)) < PATH_LENGTH"
    and "hook_good env f" "cuInit env flag (hook_init h) = Inr (ret, a)" "hook_runs env a b"
  shows "config_data (container b) =
      limits_record (id_uid i) cname (map_i64 (MemoryRequestByPodUID s) (id_uid i)) c
    \<and> (\<forall>y. Running ''gpu'' y \<in> set (threads b) \<longrightarrow> y = sint c)"
proof -
  let ?u = "id_uid i"
  let ?d = "limits_record ?u cname (map_i64 (MemoryRequestByPodUID s) ?u) c"
  have c: "map_i64 (CoreRequestByPodUID s) ?u = c"
    using assms(6) by (simp add: map_i64_def)
  have place: "files t (config_file_of unified ?u cname cid) = Some (rc_encode ?d (os_padding os))"
    using assigned_event_writes [OF wf_run_handlers [OF assms(1) tables_wf_init] assms(2-5,9,10,11,13,14)]
      assms(12,15) c by auto
  have names: "good_name cid" "good_name cname"
    using assms(11,12) by (auto simp: good_containers_def)
  then have plain: "plain_element ?u" "plain_element cname" "plain_element cid" "rc_valid ?d"
    using assms(9) limits_record_valid by (simp_all add: good_name_def good_uid_def)
  have pad: "length (os_padding os) = 4"
    using assms(13) by (simp add: writes_all_def)
  obtain n where "resp = vcore_response ?u n"
    using Allocate_response [OF assms(18,16)] assms(17) by auto
  then have "data_file (container_files env) = mounted own (Mounts (vcore_response ?u n)) (files t)"
    using assms(21) by simp
  from delivered [OF assms(19,20) this place plain(4) pad plain(1-3) assms(22)]
  have d: "configured env ?d"
    by (simp add: configured_def)
  note start = first_cuInit [OF assms(23) d assms(24)]
  have "gpu_limit_inv ?d b"
    using start(2) gpu_limit_effect [OF d] by (rule runs_invariant [OF assms(25) start(1) assms(23)])
  moreover have "utilization ?d = sint c"
    using utilization_small [OF assms(7,8)] by (simp add: limits_record_def)
  ultimately show ?thesis
    by (simp add: gpu_limit_inv_def)
qed

text \<open>The pod of \<open>Manager_Demo\<close>, and its container on the node's files.\<close>

definition demo_container :: "(string \<Rightarrow> char list option) \<Rightarrow> container_env" where
  "demo_container host = \<lparr>mount_pipe = Some (file_of [''cgroup2 on /sys/fs/cgroup''] []),
     text_file = (\<lambda>_. Some (file_of ([] @ (''1 2 8:1 '' @ prefix_pod @ ''u1'' @ end_pod @ ''main'' @ SLASH # ''0a1b /dev/x'') # []) [])),
     data_file = mounted (\<lambda>_. None) (Mounts (vcore_response ''u1'' 0)) host\<rparr>"

definition demo_process :: "(string \<Rightarrow> char list option) \<Rightarrow> (string, string \<times> string) hook_env" where
  "demo_process host = demo_hook_env\<lparr>container_files := demo_container host\<rparr>"

lemma demo_mount_table: "mount_table_names (demo_container host) ''u1'' ''main''"
proof -
  have "checkCgroupVersion (mount_pipe (demo_container host)) = Inr (1, ''/proc/self/mountinfo'')"
    using checkCgroupVersion_lines [of "[''cgroup2 on /sys/fs/cgroup'']"]
    by (simp add: demo_container_def BUF_SIZE_def)
  then show ?thesis
    unfolding mount_table_names_def
    by (intro exI [of _ "''/proc/self/mountinfo''"] exI [of _ "[] :: string list"]
        exI [of _ "''1 2 8:1 '' @ prefix_pod @ ''u1'' @ end_pod @ ''main'' @ SLASH # ''0a1b /dev/x''"]
        exI [of _ "[] :: string"] exI [of _ "''1 2 8:1 ''"] exI [of _ "''0a1b /dev/x''"])
      (simp add: demo_container_def SLASH_def prefix_pod_def end_pod_def BUF_SIZE_def)
qed

text \<open>A process on a node with cgroup version 1: the one of \<open>Container_Config\<close> is recognised.\<close>

lemma systemd_recognised: "process_recognised systemd_env False u cname ''9e07''"
proof -
  let ?path = "''/kubepods.slice'' @ SLASH # ''kubepods-pod019c_0d92.slice'' @ SLASH # ''docker-9e07.scope''"
  have scope: "memory_scope ?path ''9e07''"
    unfolding memory_scope_def
    by (rule exI [of _ "''/kubepods.slice''"], rule exI [of _ "''kubepods-pod019c_0d92.slice''"],
        rule exI [of _ "''docker-9e07.scope''"], rule exI [of _ "''kubepods''"],
        rule exI [of _ "''019c_0d92''"], rule exI [of _ "''docker''"]) (simp add: SLASH_def)
  have "memory_cgroup_names systemd_env ''9e07''"
    unfolding memory_cgroup_names_def
    by (rule exI [of _ "''/proc/self/cgroup''"], rule exI [of _ "[''12:cpu:/'']"],
        rule exI [of _ "''8'' @ '':memory:'' @ ?path"], rule exI [of _ "[] :: string list"], rule exI [of _ "[] :: string"],
        rule exI [of _ "''8''"], rule exI [of _ ?path], intro conjI systemd_version scope)
      (simp_all add: systemd_env_def SLASH_def BUF_SIZE_def cpu_line)
  then show ?thesis
    by (simp add: process_recognised_def)
qed

lemma demo_recorded:
  "\<exists>s. creatVcudaServer demo_kube demo_os demo_new demo_node = Inr s
    \<and> \<not> map_bool (PodDoByUID s) ''u1'' \<and> map_bool (PodVisitedByUID s) ''u1''
    \<and> CoreRequestByPodUID s ''u1'' = Some 30"
proof -
  obtain s where s: "creatVcudaServer demo_kube demo_os demo_new demo_node = Inr s"
    using demo_first by blast
  have i: "identify demo_kube demo_new = Some (demo_ident ''false'')"
    by (simp add: demo_new_def demo_identified)
  show ?thesis
    using s first_event_records [OF s i] demo_writes(3)
    by (auto simp: demo_ident_def NewVirtualManager_def map_bool_def demo_new_def demo_request)
qed

theorem limit_reaches_control_thread_witness:
  "\<exists>s t a. run_handlers demo_kube [(demo_os, Create demo_new)] demo_node = Inr s
    \<and> creatVcudaServer demo_kube demo_os demo_ready_pod s = Inr t
    \<and> cuInit (demo_process (files t)) 0 (hook_init demo_heap) = Inr (0, a)
    \<and> threads (thread_begin 0 a) = [Running ''gpu'' 30]"
proof -
  let ?i = "demo_ident ''true''"
  have u: "id_uid ?i = ''u1''" "id_assigned ?i = ''true''"
    by (simp_all add: demo_ident_def)
  have i: "identify demo_kube demo_ready_pod = Some ?i"
    by (simp add: demo_ready_pod_def demo_identified)
  obtain s where s: "creatVcudaServer demo_kube demo_os demo_new demo_node = Inr s"
    "\<not> map_bool (PodDoByUID s) (id_uid ?i)" "map_bool (PodVisitedByUID s) (id_uid ?i)"
    "CoreRequestByPodUID s (id_uid ?i) = Some 30"
    using demo_recorded u by auto
  then have run: "run_handlers demo_kube [(demo_os, Create demo_new)] demo_node = Inr s"
    by simp
  have good: "good_uid (id_uid ?i)"
    using demo_good(2) u by simp
  obtain t where t: "creatVcudaServer demo_kube demo_os demo_ready_pod s = Inr t"
    "files t (config_file_of True ''u1'' ''main'' ''c1'') =
       Some (rc_encode (limits_record ''u1'' ''main'' (map_i64 (MemoryRequestByPodUID s) ''u1'') 30) (replicate 4 NUL))"
    using assigned_event_writes [OF wf_run_handlers [OF run tables_wf_init] i u(2) s(2,3) good demo_seen
        demo_good(1) demo_writes(1,2)] u s(4)
    by (auto simp: demo_containers_def map_i64_def demo_os_def)
  let ?env = "demo_process (files t)"
  have env: "hook_good ?env exports" "headers_match ?env" "pthread_create_result ?env = 0"
    using demo_hook_good by (simp_all add: hook_good_def demo_process_def headers_match_def)
  have linked: "linked ?env exports (hook_init demo_heap)"
    using env(1) by (rule linked_start)
  have garbage: "buffers (stack_garbage ?env)"
    by (simp add: buffers_def demo_process_def demo_hook_env_def blank_buffer_def)
  have "length (config_file ''main'') < PATH_LENGTH"
    by (simp add: demo_facts)
  note len = this
  have files: "container_files ?env = demo_container (files t)"
    "data_file (demo_container (files t)) = mounted (\<lambda>_. None) (Mounts (vcore_response ''u1'' 0)) (files t)"
    by (simp_all add: demo_process_def demo_container_def)
  have recognised: "process_recognised (demo_container (files t)) True ''u1'' ''main'' ''c1''"
    using demo_mount_table by (simp add: process_recognised_def)
  have "rc_valid (limits_record ''u1'' ''main'' m 30)" for m
    by (rule limits_record_valid) (simp_all add: fits_field_def FILENAME_MAX_def)
  then have "\<exists>c. read_controller_configuration (container_files ?env) (stack_garbage ?env) container_init = Inr c
      \<and> config_data c = limits_record ''u1'' ''main'' (map_i64 (MemoryRequestByPodUID s) ''u1'') 30"
    unfolding files(1)
    using len
    by (intro delivered [OF recognised garbage files(2) t(2)]) (simp_all add: plain_element_def)
  then obtain c where "read_configuration ?env (hook_init demo_heap) = Inr (hook_init demo_heap\<lparr>container := c\<rparr>)"
    by (auto simp: read_configuration_def hook_init_def)
  then have c: "pthread_once read_config read_config_update (read_configuration ?env)
      (hook_init demo_heap) = Inr (hook_init demo_heap\<lparr>container := c, read_config := True\<rparr>)"
    by (simp add: pthread_once_def hook_init_def)
  let ?a = "gpu_started ?env exports (hook_init demo_heap\<lparr>container := c, read_config := True\<rparr>)"
  have f: "exports lib ''cuInit'' = Some (lib, ''cuInit'')" for lib
    by (simp add: exports_def)
  have init: "cuInit ?env 0 (hook_init demo_heap) = Inr (0, ?a)"
    using cuInit_result [OF linked env(2,3) c, of 0] f same_heap [of ?a] by (simp add: demo_process_def)
  obtain y where y: "threads (thread_begin 0 ?a) = [Running ''gpu'' y]"
    by (simp add: hook_init_def)
  have runs: "hook_runs ?env ?a (thread_begin 0 ?a)"
    using hook_runs.step [OF hook_runs.here, of ?env "Thread_Begins 0" ?a 0 "thread_begin 0 ?a"]
    by (simp del: thread_begin.simps)
  obtain v2 where alloc: "vcore_Allocate demo_kube ''n1'' t4_info [replicate 50 ''iscas.cn/gpu-core-0'']
      (demo_node_server [demo_pending]) = Inr ((Some [vcore_response ''u1'' 0], None), v2)"
    using demo_allocated by blast
  have "y = sint (30 :: i64)"
    using limit_reaches_control_thread [OF run i u(2) s(2,3,4) _ _ good demo_seen demo_good(1) _
        demo_writes(1,2) t(1) _ _ alloc _ garbage _ _ env(1) init runs, of "''c1''" "''main''" demo_pending
        "demo_node_server [demo_pending]" "\<lambda>_. None"]
      y u demo_found recognised len
    by (auto simp: demo_containers_def demo_process_def demo_container_def demo_pending_def)
  with run t(1) init y show ?thesis
    by (auto simp del: thread_begin.simps)
qed

end
