(* ===== verification/Handler_Steps.thy ===== *)
theory Handler_Steps
  imports Manager_Order
begin

text \<open>
  The handlers of \<open>k8sPlugins/resourceManager/manager.go\<close> as what they are, goroutines: each is a
  sequence of steps between which others run. A step is a section under the lock \<open>mu\<close>, one access
  without it, one request to the API server, or one operation on the file system.
\<close>

subsection \<open>Tasks\<close>

text \<open>Where a handler is, with its local variables.\<close>

datatype 'j task =
    Enter 'j
  | Await pod_ident 'j nat 'j
  | Register pod_ident 'j 'j
  | List_Containers pod_ident 'j
  | Write pod_ident 'j "string list"
  | Make_Base pod_ident 'j string string "string list"
  | Take_Name pod_ident 'j string string "string list"
  | Configure pod_ident 'j string string "string list"
  | Open pod_ident 'j string resource_data_t "string list"
  | Store pod_ident 'j string nat resource_data_t "string list"
  | Mark_Done pod_ident 'j
  | Look pod_ident 'j
  | Visit pod_ident 'j
  | Make_Dir pod_ident 'j
  | Record pod_ident 'j
  | Fetch pod_ident
  | Update v1_pod
  | Remove 'j
  | Finished

text \<open>
  The two operations of \<open>setting_to_disk\<close>: \<open>open\<close> cuts the file off, \<open>write\<close> writes from the start of the
  file that was opened, wherever that is by then. A file that was removed in between is not at its path
  any more, and a new one there is another file.
\<close>

definition open_file :: "os \<Rightarrow> string \<Rightarrow> ('j, 'w) node \<Rightarrow> ('j, 'w) node option" where
  "open_file os path s =
     (if os_opens os (cstr path) then Some (s\<lparr>files := (files s)(cstr path \<mapsto> [])\<rparr>) else None)"

definition store_file :: "os \<Rightarrow> string \<Rightarrow> nat \<Rightarrow> resource_data_t \<Rightarrow> ('j, 'w) node \<Rightarrow> ('j, 'w) node" where
  "store_file os path fd vConfig s =
     (if incarnation s (cstr path) \<noteq> fd then s
      else s\<lparr>files := (files s)(cstr path := map_option
        (write_at_start (os_written os (cstr path)) (rc_encode vConfig (os_padding os))) (files s (cstr path)))\<rparr>)"

fun task_step ::
    "('b, 'j, 'w) kube \<Rightarrow> os \<Rightarrow> 'j task \<Rightarrow> ('j, 'w) node \<Rightarrow> ('j task \<times> ('j, 'w) node) go_result" where
  "task_step k os (Enter pod) s =
     (case identify k pod of
        None \<Rightarrow> Inr (Finished, s)
      | Some i \<Rightarrow>
          if id_assigned i = ''true'' \<and> \<not> map_bool (PodDoByUID s) (id_uid i)
          then Inr (Await i pod 100 (JGet k pod ''status''), s) else Inr (Look i pod, s))"
| "task_step k os (Await i pod n status) s =
     (if n = 0 then Inr (Finished, s)
      else if JExists k (JGet k status ''containerStatuses'') then Inr (Register i pod status, s)
      else case GetResource k ''Pod'' (id_namespace i) (id_name i) (world s) of
        ((_, Some _), w) \<Rightarrow> Inr (Finished, s\<lparr>world := w\<rparr>)
      | ((podByte, None), w) \<Rightarrow>
          Inr (Await i pod (n - 1) (JGet k (ToJsonObject k podByte) ''status''), s\<lparr>world := w\<rparr>))"
| "task_step k os (Register i pod status) s =
     go_bind (go_fold (register_container k (id_uid i)) (JEach k (JGet k status ''containerStatuses''))
       (False, s)) (\<lambda>(contStatusFlag, s1).
         Inr (if contStatusFlag then List_Containers i pod else Finished, s1))"
| "task_step k os (List_Containers i pod) s =
     Inr (Write i pod (map_list (ContainerUIDInPodUID s) (id_uid i)), s)"
| "task_step k os (Write i pod []) s = Inr (Mark_Done i pod, s)"
| "task_step k os (Write i pod (uid # uids)) s =
     go_bind (isCgroupVersionV2 os) (\<lambda>v2.
       Inr (Make_Base i pod (config_dir v2 (id_uid i) (map_string (ContainerNameByUid s) uid) uid) uid uids, s))"
| "task_step k os (Make_Base i pod baseDir uid uids) s =
     Inr (Take_Name i pod (Join [baseDir, ConfigFileName]) uid uids, snd (MkdirAll os baseDir s))"
| "task_step k os (Take_Name i pod path uid uids) s =
     Inr (Configure i pod path (map_string (ContainerNameByUid s) uid) uids, s)"
| "task_step k os (Configure i pod path cname uids) s =
     go_bind (vConfig_of (id_uid i) cname
         (map_i64 (MemoryRequestByPodUID s) (id_uid i)) (map_i64 (CoreRequestByPodUID s) (id_uid i)))
       (\<lambda>vConfig. Inr (Open i pod path vConfig uids, s))"
| "task_step k os (Open i pod path vConfig uids) s =
     (case open_file os path s of
        None \<Rightarrow> Inr (Write i pod uids, s)
      | Some s1 \<Rightarrow> Inr (Store i pod path (incarnation s1 (cstr path)) vConfig uids, s1))"
| "task_step k os (Store i pod path fd vConfig uids) s =
     Inr (Write i pod uids, store_file os path fd vConfig s)"
| "task_step k os (Mark_Done i pod) s =
     Inr (Look i pod, s\<lparr>PodDoByUID := (PodDoByUID s)(id_uid i \<mapsto> True)\<rparr>)"
| "task_step k os (Look i pod) s =
     Inr (if map_bool (PodVisitedByUID s) (id_uid i) then Finished else Visit i pod, s)"
| "task_step k os (Visit i pod) s =
     Inr (Make_Dir i pod, s\<lparr>PodVisitedByUID := (PodVisitedByUID s)(id_uid i \<mapsto> True),
       PodByUID := (PodByUID s)(id_uid i \<mapsto> pod)\<rparr>)"
| "task_step k os (Make_Dir i pod) s =
     (case MkdirAll os (Join [VirtualManagerPath, id_uid i]) s of
        (answer, s1) \<Rightarrow>
          Inr (if answer = Is_Not_Exist \<or> answer = Other_Error then Finished else Record i pod, s1))"
| "task_step k os (Record i pod) s =
     Inr (Fetch i, s\<lparr>CoreRequestByPodUID := (CoreRequestByPodUID s)(id_uid i \<mapsto> fst (pod_request k pod)),
       MemoryRequestByPodUID := (MemoryRequestByPodUID s)(id_uid i \<mapsto> snd (pod_request k pod))\<rparr>)"
| "task_step k os (Fetch i) s =
     (case GetResource k ''Pod'' (id_namespace i) (id_name i) (world s) of
        ((_, Some _), w) \<Rightarrow> Inr (Finished, s\<lparr>world := w\<rparr>)
      | ((copyPodBytes, None), w) \<Rightarrow>
          (let v1Pod = fst (unmarshal_pod k copyPodBytes) in
           case Annotations v1Pod of
             None \<Rightarrow> Inl Panic
           | Some ann \<Rightarrow>
               Inr (Update (v1Pod\<lparr>Annotations := Some (ann(AnnVCUDAReady \<mapsto> ''yes''))\<rparr>), s\<lparr>world := w\<rparr>)))"
| "task_step k os (Update copyPod) s =
     Inr (Finished, s\<lparr>world := snd (UpdateResource k (fst (marshal_pod k copyPod)) (world s))\<rparr>)"
| "task_step k os (Remove pod) s = Inr (Finished, deletePodPath k os pod s)"
| "task_step k os Finished s = Inr (Finished, s)"

fun task_of :: "'j handler \<Rightarrow> 'j task" where
  "task_of (Create pod) = Enter pod"
| "task_of (Delete pod) = Remove pod"

subsection \<open>A task that is not interrupted\<close>

inductive completes ::
    "('b, 'j, 'w) kube \<Rightarrow> os \<Rightarrow> 'j task \<Rightarrow> ('j, 'w) node \<Rightarrow> ('j, 'w) node go_result \<Rightarrow> bool"
  for k :: "('b, 'j, 'w) kube" and os :: os where
  finished: "completes k os Finished s (Inr s)"
| stopped: "t \<noteq> Finished \<Longrightarrow> task_step k os t s = Inl e \<Longrightarrow> completes k os t s (Inl e)"
| goes_on: "t \<noteq> Finished \<Longrightarrow> task_step k os t s = Inr (t', s') \<Longrightarrow> completes k os t' s' r \<Longrightarrow>
    completes k os t s r"

text \<open>What is left of the handler at each place.\<close>

definition rest_look ::
    "('b, 'j, 'w) kube \<Rightarrow> os \<Rightarrow> pod_ident \<Rightarrow> 'j \<Rightarrow> ('j, 'w) node \<Rightarrow> ('j, 'w) node go_result" where
  "rest_look k os i pod s =
     (if map_bool (PodVisitedByUID s) (id_uid i) then Inr s else first_visit k os i pod s)"

definition rest_write ::
    "('b, 'j, 'w) kube \<Rightarrow> os \<Rightarrow> pod_ident \<Rightarrow> 'j \<Rightarrow> string list \<Rightarrow> ('j, 'w) node \<Rightarrow> ('j, 'w) node go_result" where
  "rest_write k os i pod uids s =
     go_bind (go_fold (write_config os (id_uid i)) uids s) (\<lambda>s1.
       rest_look k os i pod (s1\<lparr>PodDoByUID := (PodDoByUID s1)(id_uid i \<mapsto> True)\<rparr>))"

definition rest_register ::
    "('b, 'j, 'w) kube \<Rightarrow> os \<Rightarrow> pod_ident \<Rightarrow> 'j \<Rightarrow> 'j \<Rightarrow> ('j, 'w) node \<Rightarrow> ('j, 'w) node go_result" where
  "rest_register k os i pod status s =
     go_bind (go_fold (register_container k (id_uid i)) (JEach k (JGet k status ''containerStatuses''))
       (False, s)) (\<lambda>(flag, s1).
         if flag then rest_write k os i pod (map_list (ContainerUIDInPodUID s1) (id_uid i)) s1 else Inr s1)"

definition rest_record ::
    "('b, 'j, 'w) kube \<Rightarrow> pod_ident \<Rightarrow> 'j \<Rightarrow> ('j, 'w) node \<Rightarrow> ('j, 'w) node go_result" where
  "rest_record k i pod s =
     (let s1 = s\<lparr>CoreRequestByPodUID := (CoreRequestByPodUID s)(id_uid i \<mapsto> fst (pod_request k pod)),
        MemoryRequestByPodUID := (MemoryRequestByPodUID s)(id_uid i \<mapsto> snd (pod_request k pod))\<rparr>
      in go_bind (annotate_ready k i (world s1)) (\<lambda>w. Inr (s1\<lparr>world := w\<rparr>)))"

definition rest_dir ::
    "('b, 'j, 'w) kube \<Rightarrow> os \<Rightarrow> pod_ident \<Rightarrow> 'j \<Rightarrow> ('j, 'w) node \<Rightarrow> ('j, 'w) node go_result" where
  "rest_dir k os i pod s =
     (case MkdirAll os (Join [VirtualManagerPath, id_uid i]) s of
        (answer, s1) \<Rightarrow> if answer = Is_Not_Exist \<or> answer = Other_Error then Inr s1 else rest_record k i pod s1)"

definition new_file :: "os \<Rightarrow> string \<Rightarrow> resource_data_t \<Rightarrow> ('j, 'w) node \<Rightarrow> ('j, 'w) node" where
  "new_file os path vConfig s = s\<lparr>files := (files s)(cstr path := snd (setting_to_disk (os_opens os (cstr path))
     (os_written os (cstr path)) (os_padding os) (files s (cstr path)) vConfig))\<rparr>"

fun finish ::
    "('b, 'j, 'w) kube \<Rightarrow> os \<Rightarrow> 'j task \<Rightarrow> ('j, 'w) node \<Rightarrow> ('j, 'w) node go_result" where
  "finish k os (Enter pod) s = creatVcudaServer k os pod s"
| "finish k os (Await i pod n status) s =
     (case await_statuses k (id_namespace i) (id_name i) n status (world s) of
        (None, w) \<Rightarrow> Inr (s\<lparr>world := w\<rparr>)
      | (Some st, w) \<Rightarrow> rest_register k os i pod st (s\<lparr>world := w\<rparr>))"
| "finish k os (Register i pod status) s = rest_register k os i pod status s"
| "finish k os (List_Containers i pod) s = rest_write k os i pod (map_list (ContainerUIDInPodUID s) (id_uid i)) s"
| "finish k os (Write i pod uids) s = rest_write k os i pod uids s"
| "finish k os (Make_Base i pod baseDir uid uids) s =
     (let s1 = snd (MkdirAll os baseDir s) in
      go_bind (createVCUDAFile os (Join [baseDir, ConfigFileName]) (id_uid i) (map_string (ContainerNameByUid s1) uid) s1)
        (\<lambda>(_, s2). rest_write k os i pod uids s2))"
| "finish k os (Take_Name i pod path uid uids) s =
     go_bind (createVCUDAFile os path (id_uid i) (map_string (ContainerNameByUid s) uid) s)
       (\<lambda>(_, s1). rest_write k os i pod uids s1)"
| "finish k os (Configure i pod path cname uids) s =
     go_bind (createVCUDAFile os path (id_uid i) cname s) (\<lambda>(_, s1). rest_write k os i pod uids s1)"
| "finish k os (Open i pod path vConfig uids) s = rest_write k os i pod uids (new_file os path vConfig s)"
| "finish k os (Store i pod path fd vConfig uids) s =
     rest_write k os i pod uids (store_file os path fd vConfig s)"
| "finish k os (Mark_Done i pod) s = rest_write k os i pod [] s"
| "finish k os (Look i pod) s = rest_look k os i pod s"
| "finish k os (Visit i pod) s = first_visit k os i pod s"
| "finish k os (Make_Dir i pod) s = rest_dir k os i pod s"
| "finish k os (Record i pod) s = rest_record k i pod s"
| "finish k os (Fetch i) s = go_bind (annotate_ready k i (world s)) (\<lambda>w. Inr (s\<lparr>world := w\<rparr>))"
| "finish k os (Update p) s = Inr (s\<lparr>world := snd (UpdateResource k (fst (marshal_pod k p)) (world s))\<rparr>)"
| "finish k os (Remove pod) s = Inr (deletePodPath k os pod s)"
| "finish k os Finished s = Inr s"

lemma first_visit_rest:
  "first_visit k os i pod s = rest_dir k os i pod (s\<lparr>PodVisitedByUID := (PodVisitedByUID s)(id_uid i \<mapsto> True),
     PodByUID := (PodByUID s)(id_uid i \<mapsto> pod)\<rparr>)"
  by (simp add: first_visit_def rest_dir_def rest_record_def Let_def split: prod.split)

lemma creatVcudaServer_rest:
  "creatVcudaServer k os pod s =
     (case identify k pod of
        None \<Rightarrow> Inr s
      | Some i \<Rightarrow>
          if id_assigned i = ''true'' \<and> \<not> map_bool (PodDoByUID s) (id_uid i)
          then finish k os (Await i pod 100 (JGet k pod ''status'')) s else rest_look k os i pod s)"
proof (cases "identify k pod")
  case (Some i)
  have "go_bind (serve_assigned k os i pod s) (\<lambda>(s1, goes_on).
      if \<not> goes_on then Inr s1 else rest_look k os i pod s1)
    = finish k os (Await i pod 100 (JGet k pod ''status'')) s"
    by (auto simp: serve_assigned_def rest_register_def rest_write_def go_bind_def split: prod.split option.split sum.split)
  moreover have "creatVcudaServer k os pod s =
      go_bind (if id_assigned i = ''true'' \<and> \<not> map_bool (PodDoByUID s) (id_uid i)
        then serve_assigned k os i pod s else Inr (s, True))
      (\<lambda>(s1, goes_on). if \<not> goes_on then Inr s1 else rest_look k os i pod s1)"
    unfolding creatVcudaServer_def rest_look_def Some option.case by (rule refl)
  ultimately show ?thesis
    by (simp add: Some)
qed (simp add: creatVcudaServer_def)

lemma createVCUDAFile_steps:
  "createVCUDAFile os path u name s =
     go_bind (vConfig_of u name (map_i64 (MemoryRequestByPodUID s) u) (map_i64 (CoreRequestByPodUID s) u)) (\<lambda>vConfig.
       Inr (fst (setting_to_disk (os_opens os (cstr path)) (os_written os (cstr path)) (os_padding os)
           (files s (cstr path)) vConfig) = 0,
         new_file os path vConfig s))"
  by (simp add: createVCUDAFile_def new_file_def go_bind_def split: sum.split prod.split)

text \<open>Opening and writing, with nothing in between, is the function of the preamble.\<close>

lemma new_file_steps:
  "new_file os path vConfig s =
     (case open_file os path s of
        None \<Rightarrow> s
      | Some s1 \<Rightarrow> store_file os path (incarnation s1 (cstr path)) vConfig s1)"
  by (simp add: new_file_def open_file_def store_file_def setting_to_disk_def)

lemma write_config_steps:
  "write_config os u uid s =
     go_bind (isCgroupVersionV2 os) (\<lambda>v2.
       let baseDir = config_dir v2 u (map_string (ContainerNameByUid s) uid) uid;
           s1 = snd (MkdirAll os baseDir s)
       in go_bind (createVCUDAFile os (Join [baseDir, ConfigFileName]) u (map_string (ContainerNameByUid s1) uid) s1)
            (\<lambda>(_, s2). Inr s2))"
  by (simp add: write_config_def node_simps Let_def)

subsection \<open>One step changes nothing of what is to come\<close>

lemma finish_step:
  "task_step k os t s = Inr (t', s') \<Longrightarrow> finish k os t s = finish k os t' s'"
proof (induction k os t s rule: task_step.induct)
  case (1 k os pod s)
  then show ?case
    by (auto simp: creatVcudaServer_rest simp del: finish.simps(2) split: option.splits if_splits)
next
  case (2 k os i pod n status s)
  then show ?case
    by (cases n) (auto split: prod.splits option.splits if_splits)
next
  case (6 k os i pod uid uids s)
  then show ?case
    by (auto simp: rest_write_def write_config_steps Let_def go_bind_def split: sum.splits prod.splits)
next
  case (9 k os i pod path cname uids s)
  then show ?case
    by (auto simp: createVCUDAFile_steps go_bind_eq_Inr)
next
  case (10 k os i pod path v uids s)
  then show ?case
    by (auto simp: new_file_steps split: option.splits)
next
  case (15 k os i pod s)
  then show ?case
    by (auto simp: rest_dir_def split: prod.splits if_splits)
qed (auto simp: rest_register_def rest_write_def rest_look_def first_visit_rest rest_record_def annotate_ready_def
    Let_def go_bind_eq_Inr split: prod.splits option.splits if_splits)

lemma finish_stops:
  "task_step k os t s = Inl e \<Longrightarrow> finish k os t s = Inl e"
  by (induction k os t s rule: task_step.induct)
    (auto simp: rest_register_def rest_write_def write_config_steps createVCUDAFile_steps annotate_ready_def
      Let_def go_bind_def split: prod.splits option.splits if_splits sum.splits)


text \<open>Every step comes nearer to the end, whatever state it finds.\<close>

fun distance :: "'j task \<Rightarrow> nat \<times> nat" where
  "distance (Enter pod) = (12, 0)"
| "distance (Await i pod n status) = (11, n)"
| "distance (Register i pod status) = (10, 0)"
| "distance (List_Containers i pod) = (9, 0)"
| "distance (Write i pod uids) = (8, 6 * length uids)"
| "distance (Make_Base i pod baseDir uid uids) = (8, 6 * length uids + 5)"
| "distance (Take_Name i pod path uid uids) = (8, 6 * length uids + 4)"
| "distance (Configure i pod path cname uids) = (8, 6 * length uids + 3)"
| "distance (Open i pod path vConfig uids) = (8, 6 * length uids + 2)"
| "distance (Store i pod path fd vConfig uids) = (8, 6 * length uids + 1)"
| "distance (Mark_Done i pod) = (7, 0)"
| "distance (Look i pod) = (6, 0)"
| "distance (Visit i pod) = (5, 0)"
| "distance (Make_Dir i pod) = (4, 0)"
| "distance (Record i pod) = (3, 0)"
| "distance (Fetch i) = (2, 0)"
| "distance (Update p) = (1, 0)"
| "distance (Remove pod) = (1, 0)"
| "distance Finished = (0, 0)"

lemma nearer:
  "task_step k os t s = Inr (t', s') \<Longrightarrow> t \<noteq> Finished \<Longrightarrow>
     (distance t', distance t) \<in> less_than <*lex*> less_than"
  by (induction k os t s rule: task_step.induct)
    (auto simp: Let_def go_bind_eq_Inr split: prod.splits option.splits if_splits)

lemma completes_finish: "completes k os t s (finish k os t s)"
proof (induction "distance t" arbitrary: t s rule: wf_induct_rule [OF wf_lex_prod [OF wf_less_than wf_less_than]])
  case (1 t)
  show ?case
  proof (cases "t = Finished")
    case False
    show ?thesis
    proof (cases "task_step k os t s")
      case (Inl e)
      with False show ?thesis by (simp add: finish_stops completes.stopped)
    next
      case (Inr r)
      obtain t' s' where r: "r = (t', s')" by (cases r)
      then have "completes k os t' s' (finish k os t' s')"
        using 1 nearer Inr False by blast
      with Inr r False show ?thesis
        using finish_step completes.goes_on by metis
    qed
  qed (simp add: completes.finished)
qed

lemma completes_only: "completes k os t s r \<Longrightarrow> r = finish k os t s"
  by (induction rule: completes.induct) (simp_all add: finish_stops finish_step)

lemma finish_handler: "finish k os (task_of h) s = run_handler k (os, h) s"
  by (cases h) simp_all

text \<open>
  C20: A handler that no other interrupts is the function of \<open>Resource_Manager\<close>: its steps, taken one
  after the other with the same answers of the system, end, and they end with the result of
  \<open>creatVcudaServer\<close> or \<open>deletePodPath\<close>, a stop of the process included.
\<close>

theorem uninterrupted_handler: "completes k os (task_of h) s r \<longleftrightarrow> r = run_handler k (os, h) s"
  using completes_finish completes_only finish_handler by metis

end
