(* ===== verification/Handler_Pool.thy ===== *)
theory Handler_Pool
  imports Handler_Steps Manager_Demo
begin

text \<open>
  The handlers of \<open>Handler_Steps\<close> at the same time, as \<open>Run\<close> starts them with \<open>go\<close>: any of them may
  do its next step, and the API server may change between the steps. The invariant is the protocol
  of the annotations: a pod is marked as ready only after its limits are recorded.
\<close>

subsection \<open>The pool\<close>

record ('j, 'w) pool =
  shared :: "('j, 'w) node"
  tasks :: "'j task list"

text \<open>
  \<open>allowed\<close> says which handlers the events of the API server may start in a world, and \<open>env\<close> what
  others may change in it.
\<close>

inductive pool_step ::
    "('b, 'j, 'w) kube \<Rightarrow> ('w \<Rightarrow> 'j handler \<Rightarrow> bool) \<Rightarrow> ('w \<Rightarrow> 'w \<Rightarrow> bool) \<Rightarrow> ('j, 'w) pool \<Rightarrow> ('j, 'w) pool \<Rightarrow> bool"
  for k :: "('b, 'j, 'w) kube" and allowed :: "'w \<Rightarrow> 'j handler \<Rightarrow> bool" and env :: "'w \<Rightarrow> 'w \<Rightarrow> bool" where
  spawned: "allowed (world (shared p)) h \<Longrightarrow> pool_step k allowed env p (p\<lparr>tasks := tasks p @ [task_of h]\<rparr>)"
| stepped: "n < length (tasks p) \<Longrightarrow> task_step k os (tasks p ! n) (shared p) = Inr (t, s) \<Longrightarrow>
    pool_step k allowed env p \<lparr>shared = s, tasks = (tasks p)[n := t]\<rparr>"
| changed: "env (world (shared p)) w \<Longrightarrow> pool_step k allowed env p (p\<lparr>shared := (shared p)\<lparr>world := w\<rparr>\<rparr>)"

inductive pool_runs ::
    "('b, 'j, 'w) kube \<Rightarrow> ('w \<Rightarrow> 'j handler \<Rightarrow> bool) \<Rightarrow> ('w \<Rightarrow> 'w \<Rightarrow> bool) \<Rightarrow> ('j, 'w) pool \<Rightarrow> ('j, 'w) pool \<Rightarrow> bool"
  for k :: "('b, 'j, 'w) kube" and allowed :: "'w \<Rightarrow> 'j handler \<Rightarrow> bool" and env :: "'w \<Rightarrow> 'w \<Rightarrow> bool" where
  pool_here: "pool_runs k allowed env p p"
| pool_more: "pool_runs k allowed env p q \<Longrightarrow> pool_step k allowed env q r \<Longrightarrow> pool_runs k allowed env p r"

text \<open>\<open>Run\<close> starts with the directory of all pods; a missing parent is not an error to it.\<close>

definition Run_prepares :: "os \<Rightarrow> ('j, 'w) node \<Rightarrow> ('j, 'w) node go_result" where
  "Run_prepares os s =
     (case MkdirAll os VirtualManagerPath s of
        (answer, s1) \<Rightarrow> if answer = Is_Exist \<or> answer = Other_Error then Inl Fatal else Inr s1)"

definition new_pool :: "os \<Rightarrow> 'w \<Rightarrow> ('j, 'w) pool go_result" where
  "new_pool os w = go_bind (Run_prepares os (NewVirtualManager w)) (\<lambda>s. Inr \<lparr>shared = s, tasks = []\<rparr>)"

text \<open>Whatever directories there are, the tables are empty.\<close>

abbreviation new_node :: "'w \<Rightarrow> string set \<Rightarrow> ('j, 'w) node" where
  "new_node w D \<equiv> (NewVirtualManager w)\<lparr>dirs := D\<rparr>"

lemma new_poolE:
  fixes p :: "('j, 'w) pool"
  assumes "new_pool os w = Inr p"
  obtains D where "p = \<lparr>shared = new_node w D, tasks = []\<rparr>"
proof -
  obtain answer and s :: "('j, 'w) node" where m: "MkdirAll os VirtualManagerPath (NewVirtualManager w) = (answer, s)"
    by (metis surj_pair)
  then have "\<exists>D. s = new_node w D"
    by (auto simp: MkdirAll_def NewVirtualManager_def split: mkdir_answer.splits)
  then show ?thesis
    using assms m that by (auto simp: new_pool_def Run_prepares_def split: if_splits)
qed

lemma pool_runs_trans:
  assumes "pool_runs k allowed env q r" "pool_runs k allowed env p q"
  shows "pool_runs k allowed env p r"
  using assms by (induction rule: pool_runs.induct) (auto intro: pool_more)

subsection \<open>The protocol of the annotations\<close>

text \<open>
  \<open>W\<close> is what is known of every world, \<open>ready\<close> says that the pod with the UID \<open>u\<close> carries the
  annotation \<open>doslab.io/vcuda\<close>. Reading changes neither; an update keeps \<open>W\<close> and marks only the pod
  with the UID it carries.
\<close>

definition server_contract :: "('b, 'j, 'w) kube \<Rightarrow> ('w \<Rightarrow> bool) \<Rightarrow> ('w \<Rightarrow> bool) \<Rightarrow> string \<Rightarrow> bool" where
  "server_contract k W ready u \<longleftrightarrow>
     (\<forall>kind ns name w. W w \<longrightarrow> W (snd (GetResource k kind ns name w)) \<and>
        (ready (snd (GetResource k kind ns name w)) \<longrightarrow> ready w)) \<and>
     (\<forall>p w. W w \<longrightarrow> W (snd (UpdateResource k (fst (marshal_pod k p)) w)) \<and>
        (ready (snd (UpdateResource k (fst (marshal_pod k p)) w)) \<longrightarrow> ready w \<or> pod_UID p = u))"

text \<open>The name in an event leads to the pod of the event: no other pod uses it, now or later.\<close>

definition names_pod :: "('b, 'j, 'w) kube \<Rightarrow> ('w \<Rightarrow> bool) \<Rightarrow> pod_ident \<Rightarrow> bool" where
  "names_pod k W i \<longleftrightarrow> (\<forall>w b w'. W w \<longrightarrow>
     GetResource k ''Pod'' (id_namespace i) (id_name i) w = ((b, None), w') \<longrightarrow>
     pod_UID (fst (unmarshal_pod k b)) = id_uid i)"

definition name_kept :: "('b, 'j, 'w) kube \<Rightarrow> ('w \<Rightarrow> bool) \<Rightarrow> 'j \<Rightarrow> bool" where
  "name_kept k W pod \<longleftrightarrow> (\<forall>i. identify k pod = Some i \<longrightarrow> names_pod k W i)"

text \<open>
  The documents of the pod \<open>u\<close>: all ask for \<open>r\<close>, and one says that the pod is assigned only after it was
  marked as ready (\<open>Allocate\<close> of the device plugin waits for that).
\<close>

definition update_contract ::
    "('b, 'j, 'w) kube \<Rightarrow> ('w \<Rightarrow> bool) \<Rightarrow> string \<Rightarrow> i64 \<times> i64 \<Rightarrow> 'w \<Rightarrow> 'j \<Rightarrow> bool" where
  "update_contract k ready u r w pod \<longleftrightarrow> (\<forall>i. identify k pod = Some i \<longrightarrow> id_uid i = u \<longrightarrow>
     pod_request k pod = r \<and> (id_assigned i = ''true'' \<longrightarrow> ready w))"

text \<open>With them, the events of a time at which the pod \<open>u\<close> is not deleted.\<close>

fun event_contract ::
    "('b, 'j, 'w) kube \<Rightarrow> ('w \<Rightarrow> bool) \<Rightarrow> ('w \<Rightarrow> bool) \<Rightarrow> string \<Rightarrow> i64 \<times> i64 \<Rightarrow> 'w \<Rightarrow> 'j handler \<Rightarrow> bool" where
  "event_contract k W ready u r w (Create pod) \<longleftrightarrow> name_kept k W pod \<and> update_contract k ready u r w pod"
| "event_contract k W ready u r w (Delete pod) \<longleftrightarrow> pod_uid_of k pod \<noteq> u"

lemma contract_of_events:
  assumes "\<And>pod. h = Create pod \<Longrightarrow> update_contract k ready u r w pod" "\<And>pod. h = Create pod \<Longrightarrow> name_kept k W pod"
    and "\<And>pod. h = Delete pod \<Longrightarrow> pod_uid_of k pod \<noteq> u"
  shows "event_contract k W ready u r w h"
  using assms by (cases h) simp_all

subsection \<open>The invariant\<close>

definition recorded :: "string \<Rightarrow> i64 \<times> i64 \<Rightarrow> ('j, 'w) node \<Rightarrow> bool" where
  "recorded u r s \<longleftrightarrow> CoreRequestByPodUID s u = Some (fst r) \<and> MemoryRequestByPodUID s u = Some (snd r)"

text \<open>The record of a container of a pod that asks for \<open>r\<close>.\<close>

definition carries :: "i64 \<times> i64 \<Rightarrow> resource_data_t \<Rightarrow> bool" where
  "carries r v \<longleftrightarrow> utilization v = int_of_u32 (ucast (fst r)) \<and> memory v = snd r * MemoryBlockSize"

lemma vConfig_carries: "vConfig_of u name m c = Inr v \<Longrightarrow> carries (c, m) v"
  by (auto simp: vConfig_of_def carries_def go_bind_eq_Inr)

text \<open>What holds of a task, if \<open>rec\<close> says that the limits of \<open>u\<close> are recorded.\<close>

fun task_ok :: "('b, 'j, 'w) kube \<Rightarrow> ('w \<Rightarrow> bool) \<Rightarrow> string \<Rightarrow> i64 \<times> i64 \<Rightarrow> bool \<Rightarrow> 'j task \<Rightarrow> bool" where
  "task_ok k W u r rec (Enter pod) \<longleftrightarrow>
     (\<forall>i. identify k pod = Some i \<longrightarrow> names_pod k W i \<and>
        (id_uid i = u \<longrightarrow> pod_request k pod = r \<and> (id_assigned i = ''true'' \<longrightarrow> rec)))"
| "task_ok k W u r rec (Await i pod n status) \<longleftrightarrow> names_pod k W i \<and> (id_uid i = u \<longrightarrow> pod_request k pod = r \<and> rec)"
| "task_ok k W u r rec (Register i pod status) \<longleftrightarrow> names_pod k W i \<and> (id_uid i = u \<longrightarrow> pod_request k pod = r \<and> rec)"
| "task_ok k W u r rec (List_Containers i pod) \<longleftrightarrow> names_pod k W i \<and> (id_uid i = u \<longrightarrow> pod_request k pod = r \<and> rec)"
| "task_ok k W u r rec (Write i pod uids) \<longleftrightarrow> names_pod k W i \<and> (id_uid i = u \<longrightarrow> pod_request k pod = r \<and> rec)"
| "task_ok k W u r rec (Make_Base i pod baseDir uid uids) \<longleftrightarrow> names_pod k W i \<and> (id_uid i = u \<longrightarrow> pod_request k pod = r \<and> rec)"
| "task_ok k W u r rec (Take_Name i pod path uid uids) \<longleftrightarrow> names_pod k W i \<and> (id_uid i = u \<longrightarrow> pod_request k pod = r \<and> rec)"
| "task_ok k W u r rec (Configure i pod path cname uids) \<longleftrightarrow> names_pod k W i \<and> (id_uid i = u \<longrightarrow> pod_request k pod = r \<and> rec)"
| "task_ok k W u r rec (Open i pod path v uids) \<longleftrightarrow> names_pod k W i \<and>
     (id_uid i = u \<longrightarrow> pod_request k pod = r \<and> rec \<and> carries r v)"
| "task_ok k W u r rec (Store i pod path fd v uids) \<longleftrightarrow> names_pod k W i \<and>
     (id_uid i = u \<longrightarrow> pod_request k pod = r \<and> rec \<and> carries r v)"
| "task_ok k W u r rec (Mark_Done i pod) \<longleftrightarrow> names_pod k W i \<and> (id_uid i = u \<longrightarrow> pod_request k pod = r \<and> rec)"
| "task_ok k W u r rec (Look i pod) \<longleftrightarrow> names_pod k W i \<and> (id_uid i = u \<longrightarrow> pod_request k pod = r)"
| "task_ok k W u r rec (Visit i pod) \<longleftrightarrow> names_pod k W i \<and> (id_uid i = u \<longrightarrow> pod_request k pod = r)"
| "task_ok k W u r rec (Make_Dir i pod) \<longleftrightarrow> names_pod k W i \<and> (id_uid i = u \<longrightarrow> pod_request k pod = r)"
| "task_ok k W u r rec (Record i pod) \<longleftrightarrow> names_pod k W i \<and> (id_uid i = u \<longrightarrow> pod_request k pod = r)"
| "task_ok k W u r rec (Fetch i) \<longleftrightarrow> names_pod k W i \<and> (id_uid i = u \<longrightarrow> rec)"
| "task_ok k W u r rec (Update p) \<longleftrightarrow> (pod_UID p = u \<longrightarrow> rec)"
| "task_ok k W u r rec (Remove pod) \<longleftrightarrow> pod_uid_of k pod \<noteq> u"
| "task_ok k W u r rec Finished \<longleftrightarrow> True"

definition node_ok :: "('w \<Rightarrow> bool) \<Rightarrow> ('w \<Rightarrow> bool) \<Rightarrow> string \<Rightarrow> i64 \<times> i64 \<Rightarrow> ('j, 'w) node \<Rightarrow> bool" where
  "node_ok W ready u r s \<longleftrightarrow> W (world s) \<and> (ready (world s) \<longrightarrow> recorded u r s)"

lemma task_ok_mono: "task_ok k W u r rec t \<Longrightarrow> (rec \<Longrightarrow> rec') \<Longrightarrow> task_ok k W u r rec' t"
  by (cases t) auto

lemma event_task_ok:
  "event_contract k W ready u r w h \<Longrightarrow> (ready w \<Longrightarrow> rec) \<Longrightarrow> task_ok k W u r rec (task_of h)"
  by (cases h) (auto simp: name_kept_def update_contract_def)

text \<open>A step that leaves the requests alone and does not mark \<open>u\<close>.\<close>

definition quiet :: "('w \<Rightarrow> bool) \<Rightarrow> ('w \<Rightarrow> bool) \<Rightarrow> ('j, 'w) node \<Rightarrow> ('j, 'w) node \<Rightarrow> bool" where
  "quiet W ready s s' \<longleftrightarrow> CoreRequestByPodUID s' = CoreRequestByPodUID s \<and>
     MemoryRequestByPodUID s' = MemoryRequestByPodUID s \<and>
     (W (world s) \<longrightarrow> W (world s')) \<and> (W (world s) \<longrightarrow> ready (world s') \<longrightarrow> ready (world s))"

lemma quiet_ok:
  assumes "quiet W ready s s'" "node_ok W ready u r s"
  shows "node_ok W ready u r s'" "recorded u r s' = recorded u r s"
  using assms by (auto simp: quiet_def node_ok_def recorded_def)

lemma quiet_register:
  assumes "go_fold (register_container k v) vs (flag, s) = Inr (flag', s')"
  shows "quiet W ready s s'"
  using register_containers_registered [OF assms] by (simp add: quiet_def registered_def same_pods_def)

lemma quiet_store: "quiet W ready s (store_file os path fd v s)"
  by (simp add: quiet_def store_file_def)

lemma quiet_open: "open_file os path s = Some s' \<Longrightarrow> quiet W ready s s'"
  by (auto simp: quiet_def open_file_def split: if_splits)

lemma quiet_mkdir: "quiet W ready s (snd (MkdirAll os path s))"
  by (simp add: quiet_def node_simps)

lemma quiet_get:
  assumes "server_contract k W ready u" "GetResource k kind ns name (world s) = (b, w)"
  shows "quiet W ready s (s\<lparr>world := w\<rparr>)"
proof -
  have "w = snd (GetResource k kind ns name (world s))"
    by (simp add: assms(2))
  then show ?thesis
    using assms(1) by (simp add: server_contract_def quiet_def)
qed

lemma removed_ok:
  assumes "pod_uid_of k pod \<noteq> u" "node_ok W ready u r s"
  shows "node_ok W ready u r (deletePodPath k os pod s)"
    "recorded u r (deletePodPath k os pod s) = recorded u r s"
  using assms by (auto simp: node_ok_def recorded_def deletePodPath_cases node_simps forget_pod_fields)

text \<open>The handler at the places where it serves an assigned pod, or visits one.\<close>

lemma step_ok:
  assumes server: "server_contract k W ready u"
  shows "task_step k os t s = Inr (t', s') \<Longrightarrow> node_ok W ready u r s \<Longrightarrow> task_ok k W u r (recorded u r s) t \<Longrightarrow>
    node_ok W ready u r s' \<and> (recorded u r s \<longrightarrow> recorded u r s') \<and> task_ok k W u r (recorded u r s') t'"
  using server
proof (induction k os t s rule: task_step.induct)
  case (2 k os i pod n status s)
  show ?case
  proof (cases "n = 0 \<or> JExists k (JGet k status ''containerStatuses'')")
    case False
    obtain b e w where g: "GetResource k ''Pod'' (id_namespace i) (id_name i) (world s) = ((b, e), w)"
      by (metis surj_pair)
    have s': "s' = s\<lparr>world := w\<rparr>" and "t' = Finished \<or> (\<exists>m st. t' = Await i pod m st)"
      using 2 False g by (auto split: option.splits)
    with 2 quiet_ok [OF quiet_get [OF 2(4) g] 2(2)] show ?thesis
      by auto
  qed (use 2 in \<open>auto split: if_splits\<close>)
next
  case (3 k os i pod status s)
  then obtain flag where g: "go_fold (register_container k (id_uid i))
      (JEach k (JGet k status ''containerStatuses'')) (False, s) = Inr (flag, s')"
    and "t' = (if flag then List_Containers i pod else Finished)"
    by (auto simp: go_bind_eq_Inr)
  with 3 quiet_ok [OF quiet_register [OF g] 3(2)] show ?case
    by (simp split: if_splits)
next
  case (6 k os i pod uid uids s)
  then show ?case
    by (auto simp: go_bind_eq_Inr)
next
  case (7 k os i pod baseDir uid uids s)
  then have "s' = snd (MkdirAll os baseDir s)" "t' = Take_Name i pod (Join [baseDir, ConfigFileName]) uid uids"
    by simp_all
  with 7 quiet_ok [OF quiet_mkdir 7(2)] show ?case
    by simp
next
  case (9 k os i pod path cname uids s)
  then obtain v where v: "vConfig_of (id_uid i) cname
      (map_i64 (MemoryRequestByPodUID s) (id_uid i)) (map_i64 (CoreRequestByPodUID s) (id_uid i)) = Inr v"
    and t: "t' = Open i pod path v uids" "s' = s"
    by (auto simp: go_bind_eq_Inr)
  have "carries r v" if "recorded (id_uid i) r s"
    using that vConfig_carries [OF v] by (simp add: recorded_def map_i64_def)
  with 9 t show ?case
    by auto
next
  case (10 k os i pod path v uids s)
  show ?case
  proof (cases "open_file os path s")
    case (Some s1)
    then have "s' = s1" "t' = Store i pod path (incarnation s1 (cstr path)) v uids"
      using 10(1) by auto
    with 10 quiet_ok [OF quiet_open [OF Some] 10(2)] show ?thesis
      by simp
  qed (use 10 in auto)
next
  case (11 k os i pod path fd v uids s)
  then have "s' = store_file os path fd v s" "t' = Write i pod uids"
    by simp_all
  with 11 quiet_ok [OF quiet_store 11(2)] show ?case
    by simp
next
  case (15 k os i pod s)
  then have "s' = snd (MkdirAll os (Join [VirtualManagerPath, id_uid i]) s)"
    and "t' = Finished \<or> t' = Record i pod"
    by (auto split: prod.splits if_splits)
  with 15 quiet_ok [OF quiet_mkdir 15(2)] show ?case
    by auto
next
  case (16 k os i pod s)
  then show ?case
    by (auto simp: node_ok_def recorded_def)
next
  case (17 k os i s)
  obtain b e w where g: "GetResource k ''Pod'' (id_namespace i) (id_name i) (world s) = ((b, e), w)"
    by (metis surj_pair)
  have W: "W (world s)"
    using 17 by (simp add: node_ok_def)
  show ?case
  proof (cases e)
    case None
    then have "pod_UID (fst (unmarshal_pod k b)) = id_uid i"
      using 17(3) W g unfolding task_ok.simps names_pod_def by blast
    then show ?thesis
      using 17 None g quiet_ok [OF quiet_get [OF 17(4) g] 17(2)] by (auto simp: Let_def split: option.splits)
  next
    case (Some err)
    then show ?thesis
      using 17 g quiet_ok [OF quiet_get [OF 17(4) g] 17(2)] by auto
  qed
next
  case (18 k os p s)
  let ?w = "snd (UpdateResource k (fst (marshal_pod k p)) (world s))"
  have s': "s' = s\<lparr>world := ?w\<rparr>" "t' = Finished"
    using 18(1) by simp_all
  have "W ?w \<and> (ready ?w \<longrightarrow> ready (world s) \<or> pod_UID p = u)"
    using 18(2,4) by (simp add: server_contract_def node_ok_def)
  then have "W ?w \<and> (ready ?w \<longrightarrow> recorded u r s)"
    using 18(2,3) by (auto simp: node_ok_def)
  then show ?case
    by (simp add: s' node_ok_def recorded_def)
next
  case (19 k os pod s)
  then show ?case
    using removed_ok [of k pod u W ready r s os] by auto
qed (auto simp: node_ok_def recorded_def split: option.splits if_splits)

definition pool_ok ::
    "('b, 'j, 'w) kube \<Rightarrow> ('w \<Rightarrow> bool) \<Rightarrow> ('w \<Rightarrow> bool) \<Rightarrow> string \<Rightarrow> i64 \<times> i64 \<Rightarrow> ('j, 'w) pool \<Rightarrow> bool" where
  "pool_ok k W ready u r p \<longleftrightarrow>
     node_ok W ready u r (shared p) \<and> (\<forall>t \<in> set (tasks p). task_ok k W u r (recorded u r (shared p)) t)"

lemma pool_ok_step:
  assumes "pool_step k allowed env p q" "pool_ok k W ready u r p" "server_contract k W ready u"
    and "\<And>w h. W w \<Longrightarrow> allowed w h \<Longrightarrow> event_contract k W ready u r w h"
    and "\<And>w w'. W w \<Longrightarrow> env w w' \<Longrightarrow> W w' \<and> (ready w' \<longrightarrow> ready w)"
  shows "pool_ok k W ready u r q \<and> (recorded u r (shared p) \<longrightarrow> recorded u r (shared q))"
  using assms
proof (induction rule: pool_step.induct)
  case (spawned p h)
  then have "task_ok k W u r (recorded u r (shared p)) (task_of h)"
    by (intro event_task_ok [of k W ready u r "world (shared p)"]) (auto simp: pool_ok_def node_ok_def)
  with spawned show ?case by (simp add: pool_ok_def)
next
  case (stepped n p os t s)
  let ?old = "tasks p ! n"
  have "task_ok k W u r (recorded u r (shared p)) ?old"
    using stepped by (simp add: pool_ok_def)
  with stepped have ok: "node_ok W ready u r s \<and> (recorded u r (shared p) \<longrightarrow> recorded u r s)
      \<and> task_ok k W u r (recorded u r s) t"
    by (intro step_ok [of k W ready u os ?old "shared p"]) (simp_all add: pool_ok_def)
  have "task_ok k W u r (recorded u r s) x" if "x \<in> set ((tasks p)[n := t])" for x
  proof -
    have "x = t \<or> x \<in> set (tasks p)"
      using that set_update_subset_insert by fastforce
    then show ?thesis
    proof
      assume "x \<in> set (tasks p)"
      then have "task_ok k W u r (recorded u r (shared p)) x"
        using stepped(3) by (simp add: pool_ok_def)
      then show ?thesis
        by (rule task_ok_mono) (use ok in blast)
    next
      assume "x = t"
      with ok show ?thesis by blast
    qed
  qed
  with ok show ?case unfolding pool_ok_def pool.select_convs by blast
next
  case (changed p w)
  then show ?case
    by (auto simp: pool_ok_def node_ok_def recorded_def)
qed

lemma pool_ok_new: "new_pool os w = Inr p \<Longrightarrow> W w \<Longrightarrow> \<not> ready w \<Longrightarrow> pool_ok k W ready u r p"
  by (erule new_poolE) (simp add: pool_ok_def node_ok_def NewVirtualManager_def)


subsection \<open>Building runs\<close>

text \<open>The task that was started last goes on, alone.\<close>

lemma last_steps:
  assumes "task_step k os t s = Inr (t', s')"
  shows "pool_step k allowed env \<lparr>shared = s, tasks = ts @ [t]\<rparr> \<lparr>shared = s', tasks = ts @ [t']\<rparr>"
  using pool_step.stepped [of "length ts" "\<lparr>shared = s, tasks = ts @ [t]\<rparr>" k os t' s'] assms by simp

lemma last_completes:
  assumes "completes k os t s r"
  shows "r = Inr s' \<Longrightarrow>
    pool_runs k allowed env \<lparr>shared = s, tasks = ts @ [t]\<rparr> \<lparr>shared = s', tasks = ts @ [Finished]\<rparr>"
  using assms
proof (induction rule: completes.induct)
  case (finished s)
  then show ?case by (simp add: pool_here)
next
  case (goes_on t s t' s1 r)
  from last_steps [OF goes_on(2)] have "pool_runs k allowed env \<lparr>shared = s, tasks = ts @ [t]\<rparr> \<lparr>shared = s1, tasks = ts @ [t']\<rparr>"
    by (rule pool_more [OF pool_here])
  with goes_on show ?case
    using pool_runs_trans by blast
qed simp

lemma handler_runs:
  assumes "allowed (world s) h" "run_handler k (os, h) s = Inr s'"
  shows "pool_runs k allowed env \<lparr>shared = s, tasks = ts\<rparr> \<lparr>shared = s', tasks = ts @ [Finished]\<rparr>"
proof -
  have "completes k os (task_of h) s (Inr s')"
    using completes_finish [of k os "task_of h" s] assms(2) by (simp add: finish_handler)
  moreover have "pool_runs k allowed env \<lparr>shared = s, tasks = ts\<rparr> \<lparr>shared = s, tasks = ts @ [task_of h]\<rparr>"
    using pool_step.spawned [of allowed "\<lparr>shared = s, tasks = ts\<rparr>" h k env] assms(1)
    by (auto intro: pool_more [OF pool_here])
  ultimately show ?thesis
    using last_completes pool_runs_trans by blast
qed

subsection \<open>An instance\<close>

definition demo_named :: "server \<Rightarrow> bool" where
  "demo_named w \<longleftrightarrow> (\<forall>(p, _) \<in> set (pods w).
     pod_namespace p = ''default'' \<and> pod_name p = ''train'' \<longrightarrow> pod_UID p = ''u1'')"

definition marked_ready :: "v1_pod \<Rightarrow> bool" where
  "marked_ready p \<longleftrightarrow> (case Annotations p of None \<Rightarrow> False | Some ann \<Rightarrow> ann AnnVCUDAReady \<noteq> None)"

definition demo_announced :: "server \<Rightarrow> bool" where
  "demo_announced w \<longleftrightarrow> (\<exists>(p, _) \<in> set (pods w). pod_UID p = ''u1'' \<and> marked_ready p)"

definition demo_allowed :: "server \<Rightarrow> json handler \<Rightarrow> bool" where
  "demo_allowed w h \<longleftrightarrow> h = Create demo_new \<or> h = Create demo_ready_pod \<and> demo_announced w"

definition demo_changes :: "server \<Rightarrow> server \<Rightarrow> bool" where
  "demo_changes w w' \<longleftrightarrow> demo_named w' \<and> (demo_announced w' \<longrightarrow> demo_announced w)"

lemma demo_server_contract: "server_contract demo_kube demo_named demo_announced ''u1''"
proof -
  have "snd (GetResource demo_kube kind ns name w) = w" for kind ns name w
    by (simp add: demo_kube_def server_get_def)
  moreover have "demo_named (snd (server_update (Pod p JMissing) w))" if "demo_named w" for p w
    using that by (auto simp: demo_named_def split: if_splits)
  moreover have "demo_announced w \<or> pod_UID p = ''u1''" if "demo_announced (snd (server_update (Pod p JMissing) w))" for p w
    using that by (auto simp: demo_announced_def split: if_splits)
  ultimately show ?thesis
    by (simp add: server_contract_def) (simp add: demo_kube_def)
qed

lemma find_Some_in: "find P xs = Some x \<Longrightarrow> x \<in> set xs \<and> P x"
  by (induction xs) (auto split: if_splits)

lemma demo_names_pod: "names_pod demo_kube demo_named (demo_ident a)"
  by (auto simp: names_pod_def demo_named_def demo_kube_def server_get_def demo_ident_def
      dest!: find_Some_in split: option.splits)

lemma demo_events: "demo_allowed w h \<Longrightarrow> event_contract demo_kube demo_named demo_announced ''u1'' (30, 0) w h"
  using demo_names_pod [of "''true''"] demo_names_pod [of "''false''"]
  by (auto simp: name_kept_def update_contract_def demo_allowed_def demo_new_def demo_ready_pod_def demo_identified demo_request
      demo_ident_def)

lemma demo_marked:
  "\<exists>s. creatVcudaServer demo_kube demo_os demo_new (new_node demo_world D) = Inr s \<and> demo_announced (world s)
     \<and> PodDoByUID s = Map.empty \<and> ContainerUIDInPodUID s = Map.empty"
proof -
  have "\<exists>w. annotate_ready demo_kube (demo_ident ''false'') demo_world = Inr w \<and> demo_announced w"
    by (simp add: annotate_ready_def demo_kube_def server_get_def demo_world_def demo_ident_def zero_pod_def
        demo_announced_def marked_ready_def)
  then show ?thesis
    unfolding demo_new_def creatVcudaServer_def demo_identified
    by (auto simp: demo_ident_def NewVirtualManager_def map_bool_def first_visit_def demo_request
        MkdirAll_def demo_writes Let_def)
qed

lemma demo_writing:
  assumes "PodDoByUID s = Map.empty" "ContainerUIDInPodUID s = Map.empty"
  shows "\<exists>s' path fd v. pool_runs demo_kube allowed env \<lparr>shared = s, tasks = ts @ [Enter demo_ready_pod]\<rparr>
    \<lparr>shared = s', tasks = ts @ [Store (demo_ident ''true'') demo_ready_pod path fd v []]\<rparr>"
proof -
  let ?i = "demo_ident ''true''" and ?st = "demo_status ''docker://c1''" and ?p = demo_ready_pod
  have status: "JGet demo_kube ?p ''status'' = ?st"
    by (simp add: demo_ready_pod_def demo_json)
  have e: "JExists demo_kube (JGet demo_kube ?st ''containerStatuses'')"
    by (simp add: demo_json)
  have "list_all2 (docker_status demo_kube) (JEach demo_kube (JGet demo_kube ?st ''containerStatuses'')) [(''c1'', ''main'')]"
    by (simp add: demo_json docker_status_def)
  note reg = register_all [OF this, of "''u1''" False s]
  let ?s = "fold (enter ''u1'') [(''c1'', ''main'')] s"
  have 1: "task_step demo_kube demo_os (Enter ?p) s = Inr (Await ?i ?p 100 ?st, s)"
    using assms(1) status by (simp add: demo_ready_pod_def demo_identified) (simp add: demo_ident_def map_bool_def)
  have 2: "task_step demo_kube demo_os (Await ?i ?p 100 ?st) s = Inr (Register ?i ?p ?st, s)"
    using e by simp
  have 3: "task_step demo_kube demo_os (Register ?i ?p ?st) s = Inr (List_Containers ?i ?p, ?s)"
    using reg by (simp add: demo_ident_def)
  have 4: "task_step demo_kube demo_os (List_Containers ?i ?p) ?s = Inr (Write ?i ?p [''c1''], ?s)"
    using assms(2) by (simp add: demo_ident_def entered) (simp add: map_list_def enter_def)
  obtain dir where 5: "task_step demo_kube demo_os (Write ?i ?p [''c1'']) ?s = Inr (Make_Base ?i ?p dir ''c1'' [], ?s)"
    by (simp add: demo_writes)
  let ?path = "Join [dir, ConfigFileName]" and ?s6 = "snd (MkdirAll demo_os dir ?s)"
  have 6: "task_step demo_kube demo_os (Make_Base ?i ?p dir ''c1'' []) ?s = Inr (Take_Name ?i ?p ?path ''c1'' [], ?s6)"
    by simp
  have "map_string (ContainerNameByUid ?s6) ''c1'' = ''main''"
    by (simp add: node_simps) (simp add: enter_def map_string_def)
  then have 7: "task_step demo_kube demo_os (Take_Name ?i ?p ?path ''c1'' []) ?s6 = Inr (Configure ?i ?p ?path ''main'' [], ?s6)"
    by simp
  have "fits_field 48 ''u1''" "fits_field FILENAME_MAX ''main''"
    by (simp_all add: fits_field_def FILENAME_MAX_def)
  then obtain v where 8: "task_step demo_kube demo_os (Configure ?i ?p ?path ''main'' []) ?s6 = Inr (Open ?i ?p ?path v [], ?s6)"
    by (simp add: vConfig_fits demo_ident_def)
  obtain fd s9 where 9: "task_step demo_kube demo_os (Open ?i ?p ?path v []) ?s6 = Inr (Store ?i ?p ?path fd v [], s9)"
    by (simp add: open_file_def demo_os_def)
  note start = pool_more [OF pool_more [OF pool_more [OF pool_more [OF pool_here last_steps [OF 1]] last_steps [OF 2]]
        last_steps [OF 3]] last_steps [OF 4]]
  from pool_more [OF pool_more [OF pool_more [OF pool_more [OF pool_more [OF start last_steps [OF 5]] last_steps [OF 6]]
          last_steps [OF 7]] last_steps [OF 8]] last_steps [OF 9]]
  show ?thesis by blast
qed

end
