(* ===== verification/Manager_System.thy ===== *)
theory Manager_System
  imports Handler_Pool
begin

text \<open>
  The manager as one process: the watcher fills the queues, the loop \<open>Run\<close> of \<open>Pod_Events\<close> empties
  them and starts a handler for each event with \<open>go\<close>, and the handlers of \<open>Handler_Pool\<close> run, all of
  them interleaved.
\<close>

record ('j, 'w) manager =
  event_loop :: "'j run_state"
  handlers :: "('j, 'w) pool"

definition manager_start :: "os \<Rightarrow> 'w \<Rightarrow> ('j, 'w) manager go_result" where
  "manager_start os w = go_bind (new_pool os w) (\<lambda>p. Inr \<lparr>event_loop = run_init, handlers = p\<rparr>)"

text \<open>
  \<open>arrives\<close> says which events the API server sends in a world; what the loop starts in a step becomes
  a task of its own.
\<close>

inductive manager_step ::
    "('b, 'j, 'w) kube \<Rightarrow> ('w \<Rightarrow> 'j handler \<Rightarrow> bool) \<Rightarrow> ('w \<Rightarrow> 'w \<Rightarrow> bool)
     \<Rightarrow> ('j, 'w) manager \<Rightarrow> ('j, 'w) manager \<Rightarrow> bool"
  for k :: "('b, 'j, 'w) kube" and arrives :: "'w \<Rightarrow> 'j handler \<Rightarrow> bool" and env :: "'w \<Rightarrow> 'w \<Rightarrow> bool" where
  event: "arrives (world (shared (handlers m))) h \<Longrightarrow> run_step (event_loop m) l \<Longrightarrow>
    received l = received (event_loop m) @ [h] \<Longrightarrow> manager_step k arrives env m (m\<lparr>event_loop := l\<rparr>)"
| looped: "run_step (event_loop m) l \<Longrightarrow> received l = received (event_loop m) \<Longrightarrow>
    started l = started (event_loop m) @ hs \<Longrightarrow>
    manager_step k arrives env m
      \<lparr>event_loop = l, handlers = (handlers m)\<lparr>tasks := tasks (handlers m) @ map task_of hs\<rparr>\<rparr>"
| handled: "pool_step k (\<lambda>_ _. False) env (handlers m) p \<Longrightarrow>
    manager_step k arrives env m (m\<lparr>handlers := p\<rparr>)"

inductive manager_runs ::
    "('b, 'j, 'w) kube \<Rightarrow> ('w \<Rightarrow> 'j handler \<Rightarrow> bool) \<Rightarrow> ('w \<Rightarrow> 'w \<Rightarrow> bool)
     \<Rightarrow> ('j, 'w) manager \<Rightarrow> ('j, 'w) manager \<Rightarrow> bool"
  for k :: "('b, 'j, 'w) kube" and arrives :: "'w \<Rightarrow> 'j handler \<Rightarrow> bool" and env :: "'w \<Rightarrow> 'w \<Rightarrow> bool" where
  manager_here: "manager_runs k arrives env m m"
| manager_more: "manager_runs k arrives env m n \<Longrightarrow> manager_step k arrives env n r \<Longrightarrow> manager_runs k arrives env m r"

lemma manager_runs_trans:
  assumes "manager_runs k arrives env n r" "manager_runs k arrives env m n"
  shows "manager_runs k arrives env m r"
  using assms by (induction rule: manager_runs.induct) (auto intro: manager_more)

subsection \<open>The parts\<close>

text \<open>The loop of the manager is a run of \<open>Pod_Events\<close>, and every handler it started is a task.\<close>

lemma loop_of_manager: "manager_runs k arrives env m n \<Longrightarrow> runs_to (event_loop m) (event_loop n)"
proof (induction rule: manager_runs.induct)
  case (manager_more m n r)
  from manager_more(2) have "event_loop r = event_loop n \<or> run_step (event_loop n) (event_loop r)"
    by (cases rule: manager_step.cases) simp_all
  with manager_more(3) show ?case
    by (auto intro: runs_to.more)
qed (rule runs_to.here)

lemma tasks_of_pool_step: "pool_step k (\<lambda>_ _. False) env p q \<Longrightarrow> length (tasks q) = length (tasks p)"
  by (induction rule: pool_step.induct) simp_all

lemma task_for_each:
  "manager_runs k arrives env m n \<Longrightarrow> length (tasks (handlers m)) = length (started (event_loop m)) \<Longrightarrow>
     length (tasks (handlers n)) = length (started (event_loop n))"
proof (induction rule: manager_runs.induct)
  case (manager_more m n r)
  from manager_more(2) show ?case
  proof (cases rule: manager_step.cases)
    case (event h l)
    have "started l = started (event_loop n)"
      using event(3,4) by (cases rule: run_step.cases) simp_all
    with event(1) manager_more(3,4) show ?thesis by simp
  next
    case (looped l hs)
    with manager_more(3,4) show ?thesis by simp
  next
    case (handled p)
    with manager_more(3,4) tasks_of_pool_step [OF handled(2)] show ?thesis by simp
  qed
qed simp

subsection \<open>Events that wait for their handler\<close>

fun pc_handlers :: "'j run_pc \<Rightarrow> 'j handler list" where
  "pc_handlers (Pop_Mod j) = [Create j]"
| "pc_handlers (Start_Mod j) = [Create j]"
| "pc_handlers (Pop_Del j) = [Delete j]"
| "pc_handlers (Start_Del j) = [Delete j]"
| "pc_handlers _ = []"

definition pending :: "'j run_state \<Rightarrow> 'j handler set" where
  "pending l = Create ` set (PodModObj (queues l)) \<union> Delete ` set (PodDelObj (queues l)) \<union> set (pc_handlers (at l))"

lemma popped:
  "pop_mod q = Inr q' \<Longrightarrow> set (PodModObj q') \<subseteq> set (PodModObj q) \<and> PodDelObj q' = PodDelObj q"
  "pop_del q = Inr q' \<Longrightarrow> set (PodDelObj q') \<subseteq> set (PodDelObj q) \<and> PodModObj q' = PodModObj q"
  by (auto simp: pop_mod_def pop_del_def split: if_splits dest: list.set_sel(2))

lemma pending_event:
  assumes "run_step l l'" "received l' = received l @ [h]"
  shows "pending l' \<subseteq> insert h (pending l)"
  using assms by (cases rule: run_step.cases) (auto simp: pending_def DoModified_def DoDeleted_def)

lemma pending_loop:
  assumes "run_step l l'" "received l' = received l" "started l' = started l @ hs"
  shows "pending l' \<subseteq> pending l \<and> set hs \<subseteq> pending l"
  using assms by (cases rule: run_step.cases) (auto simp: pending_def dest!: popped)

lemma pending_start: "pending run_init = {}"
  by (simp add: pending_def run_init_def NewPodManager_def)

subsection \<open>The invariant\<close>

definition manager_ok ::
    "('b, 'j, 'w) kube \<Rightarrow> ('w \<Rightarrow> bool) \<Rightarrow> ('w \<Rightarrow> bool) \<Rightarrow> string \<Rightarrow> i64 \<times> i64 \<Rightarrow> ('j, 'w) manager \<Rightarrow> bool" where
  "manager_ok k W ready u r m \<longleftrightarrow> pool_ok k W ready u r (handlers m) \<and>
     (\<forall>h \<in> pending (event_loop m). task_ok k W u r (recorded u r (shared (handlers m))) (task_of h))"

lemma manager_ok_step:
  assumes "manager_step k arrives env m n" "manager_ok k W ready u r m" "server_contract k W ready u"
    and "\<And>w h. W w \<Longrightarrow> arrives w h \<Longrightarrow> event_contract k W ready u r w h"
    and "\<And>w w'. W w \<Longrightarrow> env w w' \<Longrightarrow> W w' \<and> (ready w' \<longrightarrow> ready w)"
  shows "manager_ok k W ready u r n"
  using assms(1)
proof (cases rule: manager_step.cases)
  case (event h l)
  have "task_ok k W u r (recorded u r (shared (handlers m))) (task_of h)"
    using event(2) assms(2,4) by (intro event_task_ok [of k W ready u r "world (shared (handlers m))"])
      (auto simp: manager_ok_def pool_ok_def node_ok_def)
  then show ?thesis
    using event(1) assms(2) pending_event [OF event(3,4)] unfolding manager_ok_def by auto
next
  case (looped l hs)
  have "task_ok k W u r (recorded u r (shared (handlers m))) t" if "t \<in> set (tasks (handlers m) @ map task_of hs)" for t
    using that assms(2) pending_loop [OF looped(2-4)] unfolding manager_ok_def pool_ok_def by auto
  then show ?thesis
    using looped(1) assms(2) pending_loop [OF looped(2-4)] unfolding manager_ok_def pool_ok_def by auto
next
  case (handled p)
  have p: "pool_ok k W ready u r p \<and> (recorded u r (shared (handlers m)) \<longrightarrow> recorded u r (shared p))"
    using assms(2) by (intro pool_ok_step [OF handled(2) _ assms(3) _ assms(5)]) (simp_all add: manager_ok_def)
  have "task_ok k W u r (recorded u r (shared p)) (task_of h)" if "h \<in> pending (event_loop m)" for h
  proof (rule task_ok_mono)
    show "task_ok k W u r (recorded u r (shared (handlers m))) (task_of h)"
      using that assms(2) unfolding manager_ok_def by blast
  qed (use p in blast)
  with p handled(1) show ?thesis
    by (simp add: manager_ok_def)
qed

lemma manager_ok_runs:
  assumes "manager_runs k arrives env m n" "manager_ok k W ready u r m" "server_contract k W ready u"
    and "\<And>w h. W w \<Longrightarrow> arrives w h \<Longrightarrow> event_contract k W ready u r w h"
    and "\<And>w w'. W w \<Longrightarrow> env w w' \<Longrightarrow> W w' \<and> (ready w' \<longrightarrow> ready w)"
  shows "manager_ok k W ready u r n"
  using assms(1,2)
  by (induction rule: manager_runs.induct) (auto intro: manager_ok_step [OF _ _ assms(3-5)])

lemma manager_ok_start:
  "manager_start os w = Inr m \<Longrightarrow> W w \<Longrightarrow> \<not> ready w \<Longrightarrow> manager_ok k W ready u r m"
  by (auto simp: manager_ok_def manager_start_def pending_start pool_ok_new)

subsection \<open>Building runs\<close>

lemma pool_in_manager:
  assumes "pool_runs k (\<lambda>_ _. False) env p q"
  shows "manager_runs k arrives env \<lparr>event_loop = l, handlers = p\<rparr> \<lparr>event_loop = l, handlers = q\<rparr>"
  using assms
proof (induction rule: pool_runs.induct)
  case (pool_more p q r)
  then show ?case
    using manager_step.handled [of k env "\<lparr>event_loop = l, handlers = q\<rparr>" r arrives] by (auto intro: manager_more)
qed (rule manager_here)

lemma loop_alone:
  assumes "run_step l l'" "received l' = received l" "started l' = started l"
  shows "manager_step k arrives env \<lparr>event_loop = l, handlers = p\<rparr> \<lparr>event_loop = l', handlers = p\<rparr>"
  using manager_step.looped [of "\<lparr>event_loop = l, handlers = p\<rparr>" l' "[]" k arrives env] assms by simp

text \<open>An event that comes when the queues are empty is taken and its handler started.\<close>

lemma event_starts:
  assumes "at l = Test_Mod" "queues l = NewPodManager" "arrives (world (shared p)) (Create j)"
  shows "\<exists>l'. manager_runs k arrives env \<lparr>event_loop = l, handlers = p\<rparr>
      \<lparr>event_loop = l', handlers = p\<lparr>tasks := tasks p @ [Enter j]\<rparr>\<rparr> \<and> at l' = Test_Mod \<and> queues l' = NewPodManager"
proof -
  let ?q = "p\<lparr>tasks := tasks p @ [Enter j]\<rparr>"
  define l1 where "l1 = l\<lparr>queues := DoModified j NewPodManager, received := received l @ [Create j]\<rparr>"
  define l2 where "l2 = l1\<lparr>at := Pop_Mod j\<rparr>"
  define l3 where "l3 = l2\<lparr>queues := NewPodManager, at := Start_Mod j\<rparr>"
  define l4 where "l4 = l3\<lparr>at := Test_Del, started := started l @ [Create j]\<rparr>"
  define l5 where "l5 = l4\<lparr>at := Test_Mod\<rparr>"
  have 1: "run_step l l1" "received l1 = received l @ [Create j]"
    using run_step.modified [of l j] assms(2) by (simp_all add: l1_def)
  have 2: "run_step l1 l2" "received l2 = received l1" "started l2 = started l1"
    using run_step.read_mod [of l1 j "[]"] assms(1) by (simp_all add: l1_def l2_def DoModified_def NewPodManager_def)
  have 3: "run_step l2 l3" "received l3 = received l2" "started l3 = started l2"
    using run_step.pop_mod [of l2 j NewPodManager]
    by (simp_all add: l1_def l2_def l3_def DoModified_def NewPodManager_def pop_mod_def)
  have 4: "run_step l3 l4" "received l4 = received l3" "started l4 = started l3 @ [Create j]"
    using run_step.start_mod [of l3 j] by (simp_all add: l1_def l2_def l3_def l4_def)
  have 5: "run_step l4 l5" "received l5 = received l4" "started l5 = started l4"
    using run_step.no_del [of l4] by (simp_all add: l3_def l4_def l5_def NewPodManager_def)
  have a: "manager_step k arrives env \<lparr>event_loop = l, handlers = p\<rparr> \<lparr>event_loop = l1, handlers = p\<rparr>"
    using manager_step.event [of arrives "\<lparr>event_loop = l, handlers = p\<rparr>" "Create j" l1 k env] assms(3) 1 by simp
  have d: "manager_step k arrives env \<lparr>event_loop = l3, handlers = p\<rparr> \<lparr>event_loop = l4, handlers = ?q\<rparr>"
    using manager_step.looped [of "\<lparr>event_loop = l3, handlers = p\<rparr>" l4 "[Create j]" k arrives env] 4 by simp
  from manager_more [OF manager_more [OF manager_more [OF manager_more [OF manager_more [OF manager_here a]
        loop_alone [OF 2]] loop_alone [OF 3]] d] loop_alone [OF 5]]
  show ?thesis
    by (intro exI [of _ l5] conjI) (simp_all add: l3_def l4_def l5_def)
qed

lemma deletion_starts:
  assumes "at l = Test_Mod" "queues l = NewPodManager" "arrives (world (shared p)) (Delete j)"
  shows "\<exists>l'. manager_runs k arrives env \<lparr>event_loop = l, handlers = p\<rparr>
      \<lparr>event_loop = l', handlers = p\<lparr>tasks := tasks p @ [Remove j]\<rparr>\<rparr> \<and> at l' = Test_Mod \<and> queues l' = NewPodManager"
proof -
  let ?q = "p\<lparr>tasks := tasks p @ [Remove j]\<rparr>"
  define l1 where "l1 = l\<lparr>queues := DoDeleted j NewPodManager, received := received l @ [Delete j]\<rparr>"
  define l2 where "l2 = l1\<lparr>at := Test_Del\<rparr>"
  define l3 where "l3 = l2\<lparr>at := Pop_Del j\<rparr>"
  define l4 where "l4 = l3\<lparr>queues := NewPodManager, at := Start_Del j\<rparr>"
  define l5 where "l5 = l4\<lparr>at := Test_Mod, started := started l @ [Delete j]\<rparr>"
  have 1: "run_step l l1" "received l1 = received l @ [Delete j]"
    using run_step.deleted [of l j] assms(2) by (simp_all add: l1_def)
  have 2: "run_step l1 l2" "received l2 = received l1" "started l2 = started l1"
    using run_step.no_mod [of l1] assms(1) by (simp_all add: l1_def l2_def DoDeleted_def NewPodManager_def)
  have 3: "run_step l2 l3" "received l3 = received l2" "started l3 = started l2"
    using run_step.read_del [of l2 j "[]"] by (simp_all add: l1_def l2_def l3_def DoDeleted_def NewPodManager_def)
  have 4: "run_step l3 l4" "received l4 = received l3" "started l4 = started l3"
    using run_step.pop_del [of l3 j NewPodManager]
    by (simp_all add: l1_def l2_def l3_def l4_def DoDeleted_def NewPodManager_def pop_del_def)
  have 5: "run_step l4 l5" "received l5 = received l4" "started l5 = started l4 @ [Delete j]"
    using run_step.start_del [of l4 j] by (simp_all add: l1_def l2_def l3_def l4_def l5_def)
  have a: "manager_step k arrives env \<lparr>event_loop = l, handlers = p\<rparr> \<lparr>event_loop = l1, handlers = p\<rparr>"
    using manager_step.event [of arrives "\<lparr>event_loop = l, handlers = p\<rparr>" "Delete j" l1 k env] assms(3) 1 by simp
  have e: "manager_step k arrives env \<lparr>event_loop = l4, handlers = p\<rparr> \<lparr>event_loop = l5, handlers = ?q\<rparr>"
    using manager_step.looped [of "\<lparr>event_loop = l4, handlers = p\<rparr>" l5 "[Delete j]" k arrives env] 5 by simp
  from manager_more [OF manager_more [OF manager_more [OF manager_more [OF manager_more [OF manager_here a]
        loop_alone [OF 2]] loop_alone [OF 3]] loop_alone [OF 4]] e]
  show ?thesis
    by (intro exI [of _ l5] conjI) (simp_all add: l4_def l5_def)
qed

text \<open>
  C12: For a pod \<open>u\<close> that the manager knows from its beginning (it is not marked as ready when the
  manager starts), as long as its deletion is not reported, and if no pod takes the name of another:
  however the watcher, the loop and the handlers interleave, the limits are recorded before the first of
  its files is written. The record that a handler is about to write for a container of the pod carries
  the requests \<open>r\<close> of the pod, and they are in the tables. It rests on the annotations: the manager marks
  the pod as ready after it recorded the requests, and an event says that the pod is assigned only if it
  was marked when the event was sent. The first two conditions cannot be left out: a manager that starts
  after the pod was assigned writes the limits 0 (\<open>late_manager_writes_zero\<close>), and after a deletion the
  requests are gone and read as 0.
\<close>

theorem limits_recorded_before_files:
  assumes "server_contract k W ready u"
    and "\<And>w pod. W w \<Longrightarrow> arrives w (Create pod) \<Longrightarrow> update_contract k ready u r w pod"
    and "\<And>w pod. W w \<Longrightarrow> arrives w (Create pod) \<Longrightarrow> name_kept k W pod"
    and "\<And>w pod. W w \<Longrightarrow> arrives w (Delete pod) \<Longrightarrow> pod_uid_of k pod \<noteq> u"
    and "\<And>w w'. W w \<Longrightarrow> env w w' \<Longrightarrow> W w' \<and> (ready w' \<longrightarrow> ready w)"
    and "manager_start os w = Inr m0" "W w" "\<not> ready w" "manager_runs k arrives env m0 m"
    and "Store i pod path fd v uids \<in> set (tasks (handlers m))" "id_uid i = u"
  shows "utilization v = int_of_u32 (ucast (fst r)) \<and> memory v = snd r * MemoryBlockSize
    \<and> CoreRequestByPodUID (shared (handlers m)) u = Some (fst r)
    \<and> MemoryRequestByPodUID (shared (handlers m)) u = Some (snd r)"
proof -
  have events: "event_contract k W ready u r w h" if "W w" "arrives w h" for w h
    using that assms(2-4) by (intro contract_of_events) auto
  have "manager_ok k W ready u r m"
    by (rule manager_ok_runs [OF assms(9) manager_ok_start [of os w m0 W ready k u r, OF assms(6-8)] assms(1) events assms(5)])
  then have "task_ok k W u r (recorded u r (shared (handlers m))) (Store i pod path fd v uids)"
    using assms(10) unfolding manager_ok_def pool_ok_def by blast
  then show ?thesis
    using assms(11) by (simp add: recorded_def carries_def)
qed

lemma demo_manager:
  "\<exists>D. manager_start demo_os w = Inr \<lparr>event_loop = run_init, handlers = \<lparr>shared = new_node w D, tasks = []\<rparr>\<rparr>"
  by (auto simp: manager_start_def new_pool_def Run_prepares_def MkdirAll_def demo_writes NewVirtualManager_def)

theorem limits_recorded_before_files_witness:
  "\<exists>m0 m path fd v. manager_start demo_os demo_world = Inr m0 \<and> manager_runs demo_kube demo_allowed demo_changes m0 m
     \<and> Store (demo_ident ''true'') demo_ready_pod path fd v [] \<in> set (tasks (handlers m)) \<and> utilization v = 30"
proof -
  let ?runs = "manager_runs demo_kube demo_allowed demo_changes"
  obtain D where m0: "manager_start demo_os demo_world = Inr (\<lparr>event_loop = run_init,
      handlers = \<lparr>shared = new_node demo_world D, tasks = []\<rparr>\<rparr> :: (json, server) manager)" (is "_ = Inr ?m0")
    by (rule exE [OF demo_manager [of demo_world]])
  let ?node = "new_node demo_world D :: (json, server) node"
  obtain s where s: "creatVcudaServer demo_kube demo_os demo_new ?node = Inr s" "demo_announced (world s)"
    "PodDoByUID s = Map.empty" "ContainerUIDInPodUID s = Map.empty"
    using demo_marked by blast
  obtain l where l: "?runs ?m0 \<lparr>event_loop = l, handlers = \<lparr>shared = ?node, tasks = [] @ [Enter demo_new]\<rparr>\<rparr>"
    "at l = Test_Mod" "queues l = NewPodManager"
    using event_starts [of run_init demo_allowed "\<lparr>shared = ?node, tasks = []\<rparr>" demo_new demo_kube demo_changes]
    by (auto simp: run_init_def demo_allowed_def)
  have "completes demo_kube demo_os (Enter demo_new) ?node (Inr s)"
    using completes_finish [of demo_kube demo_os "Enter demo_new" ?node] s(1) by simp
  note a = last_completes [OF this refl, of "\<lambda>_ _. False" demo_changes "[]"]
  have b: "?runs \<lparr>event_loop = l, handlers = \<lparr>shared = ?node, tasks = [] @ [Enter demo_new]\<rparr>\<rparr>
      \<lparr>event_loop = l, handlers = \<lparr>shared = s, tasks = [Finished]\<rparr>\<rparr>"
    using pool_in_manager [OF a] by simp
  obtain l' where c: "?runs \<lparr>event_loop = l, handlers = \<lparr>shared = s, tasks = [Finished]\<rparr>\<rparr>
      \<lparr>event_loop = l', handlers = \<lparr>shared = s, tasks = [Finished] @ [Enter demo_ready_pod]\<rparr>\<rparr>"
    using event_starts [of l demo_allowed "\<lparr>shared = s, tasks = [Finished]\<rparr>" demo_ready_pod demo_kube demo_changes] l(2,3) s(2)
    by (auto simp: demo_allowed_def)
  obtain s' path fd v where d: "pool_runs demo_kube (\<lambda>_ _. False) demo_changes \<lparr>shared = s, tasks = [Finished] @ [Enter demo_ready_pod]\<rparr>
      \<lparr>shared = s', tasks = [Finished] @ [Store (demo_ident ''true'') demo_ready_pod path fd v []]\<rparr>"
    using demo_writing [OF s(3,4)] by blast
  have r: "?runs ?m0 \<lparr>event_loop = l',
      handlers = \<lparr>shared = s', tasks = [Finished] @ [Store (demo_ident ''true'') demo_ready_pod path fd v []]\<rparr>\<rparr>"
    by (rule manager_runs_trans [OF manager_runs_trans [OF manager_runs_trans [OF pool_in_manager [OF d] c] b] l(1)])
  have start: "demo_named demo_world" "\<not> demo_announced demo_world"
    by (simp_all add: demo_named_def demo_announced_def demo_world_def marked_ready_def AnnVCUDAReady_def)
  have events: "demo_allowed w (Create pod) \<Longrightarrow> update_contract demo_kube demo_announced ''u1'' (30, 0) w pod"
    "demo_allowed w (Create pod) \<Longrightarrow> name_kept demo_kube demo_named pod"
    "demo_allowed w (Delete pod) \<Longrightarrow> pod_uid_of demo_kube pod \<noteq> ''u1''" for w pod
    using demo_events [of w "Create pod"] demo_events [of w "Delete pod"] by simp_all
  have env: "demo_named w' \<and> (demo_announced w' \<longrightarrow> demo_announced w)" if "demo_changes w w'" for w w'
    using that by (simp add: demo_changes_def)
  have "int_of_u32 (ucast (30 :: i64)) = 30"
    by (simp add: int_of_u32_def)
  then have "utilization v = 30"
    using limits_recorded_before_files [OF demo_server_contract events env m0 start r,
        where i = "demo_ident ''true''" and pod = demo_ready_pod and path = path and fd = fd and v = v and uids = "[]"] by (simp add: demo_ident_def)
  with r m0 show ?thesis
    by (intro exI conjI) (assumption | simp)+
qed

end
