(* ===== verification/Stored_Limits.thy ===== *)
theory Stored_Limits
  imports Manager_System
begin

text \<open>
  What is in the files of the pods while the handlers of \<open>Manager_System\<close> interleave: each handler
  stays in the directory of its own pod, and every complete record in the directory of a pod carries
  its requests.
\<close>

subsection \<open>Names\<close>

text \<open>
  The statuses of containers, as far as their names and ids end up in paths: Kubernetes names are
  labels, ids of containers are hexadecimal.
\<close>

definition status_plain :: "('b, 'j, 'w) kube \<Rightarrow> 'j \<Rightarrow> bool" where
  "status_plain k status \<longleftrightarrow> (\<forall>v \<in> set (JEach k (JGet k status ''containerStatuses'')).
     (JString k (JGet k v ''name'') = [] \<or> path_name (JString k (JGet k v ''name''))) \<and>
     (\<forall>x uid rest. Split (JString k (JGet k v ''containerID'')) ''docker://'' = x # uid # rest \<longrightarrow> path_name uid))"

definition document_contract :: "('b, 'j, 'w) kube \<Rightarrow> ('w \<Rightarrow> bool) \<Rightarrow> bool" where
  "document_contract k W \<longleftrightarrow> (\<forall>ns name w b w'. W w \<longrightarrow> GetResource k ''Pod'' ns name w = ((b, None), w') \<longrightarrow>
     status_plain k (JGet k (ToJsonObject k b) ''status''))"

fun event_plain :: "('b, 'j, 'w) kube \<Rightarrow> 'j handler \<Rightarrow> bool" where
  "event_plain k (Create pod) \<longleftrightarrow> status_plain k (JGet k pod ''status'') \<and>
     (\<forall>i. identify k pod = Some i \<longrightarrow> path_name (id_uid i))"
| "event_plain k (Delete pod) \<longleftrightarrow> True"

definition names_plain :: "('j, 'w) node \<Rightarrow> bool" where
  "names_plain s \<longleftrightarrow> (\<forall>v. \<forall>uid \<in> set (map_list (ContainerUIDInPodUID s) v). path_name uid) \<and>
     (\<forall>uid name. ContainerNameByUid s uid = Some name \<longrightarrow> path_name name)"

subsection \<open>Every handler stays with its pod\<close>

fun task_plain :: "('b, 'j, 'w) kube \<Rightarrow> 'j task \<Rightarrow> bool" where
  "task_plain k (Enter pod) \<longleftrightarrow> event_plain k (Create pod)"
| "task_plain k (Await i pod n status) \<longleftrightarrow> path_name (id_uid i) \<and> status_plain k status"
| "task_plain k (Register i pod status) \<longleftrightarrow> path_name (id_uid i) \<and> status_plain k status"
| "task_plain k (List_Containers i pod) \<longleftrightarrow> path_name (id_uid i)"
| "task_plain k (Write i pod uids) \<longleftrightarrow> path_name (id_uid i) \<and> (\<forall>uid \<in> set uids. path_name uid)"
| "task_plain k (Make_Base i pod baseDir uid uids) \<longleftrightarrow> path_name (id_uid i) \<and> (\<forall>uid \<in> set uids. path_name uid) \<and>
     below (pod_dir (id_uid i)) (cstr (Join [baseDir, ConfigFileName]))"
| "task_plain k (Take_Name i pod path uid uids) \<longleftrightarrow> path_name (id_uid i) \<and> (\<forall>uid \<in> set uids. path_name uid) \<and>
     below (pod_dir (id_uid i)) (cstr path)"
| "task_plain k (Configure i pod path cname uids) \<longleftrightarrow> path_name (id_uid i) \<and> (\<forall>uid \<in> set uids. path_name uid) \<and>
     below (pod_dir (id_uid i)) (cstr path)"
| "task_plain k (Open i pod path v uids) \<longleftrightarrow> path_name (id_uid i) \<and> (\<forall>uid \<in> set uids. path_name uid) \<and>
     below (pod_dir (id_uid i)) (cstr path) \<and> rc_valid v"
| "task_plain k (Store i pod path fd v uids) \<longleftrightarrow> path_name (id_uid i) \<and> (\<forall>uid \<in> set uids. path_name uid) \<and>
     below (pod_dir (id_uid i)) (cstr path) \<and> rc_valid v"
| "task_plain k t \<longleftrightarrow> True"

lemma Join_trailing:
  "path_name u \<Longrightarrow> config_file_of True u [] uid = pod_dir u @ ''/vcuda.config''"
proof -
  assume u: "path_name u"
  then have plain: "plain_element u"
    by (simp add: path_name_def)
  have "split_slash (''etc/unishare/vm/'' @ u @ ''/'') = [''etc'', ''unishare'', ''vm'', u, []]"
    using plain by (simp add: split_slash_append plain_element_def)
  moreover have "config_dir True u [] uid = Clean (CHR ''/'' # ''etc/unishare/vm/'' @ u @ ''/'')"
    by (simp add: config_dir_def Join_def VirtualManagerPath_def)
  ultimately have "config_dir True u [] uid = CHR ''/'' # join_slash [''etc'', ''unishare'', ''vm'', u]"
    using plain by (simp add: Clean_def) (simp add: plain_element_def)
  moreover have "Join ((CHR ''/'' # join_slash [''etc'', ''unishare'', ''vm'', u]) # [ConfigFileName])
      = CHR ''/'' # join_slash ([''etc'', ''unishare'', ''vm'', u] @ [ConfigFileName])"
    using plain by (intro Join_rooted) auto
  ultimately have "config_file_of True u [] uid = CHR ''/'' # join_slash ([''etc'', ''unishare'', ''vm'', u] @ [ConfigFileName])"
    by (simp only: config_file_of_def)
  then show ?thesis
    using plain by (simp add: pod_dir_plain VirtualManagerPath_def ConfigFileName_def)
qed

lemma own_place:
  assumes "path_name u" "path_name uid" "name = [] \<or> path_name name"
  shows "below (pod_dir u) (cstr (config_file_of v2 u name uid))"
proof (cases v2)
  case False
  then have "config_file_of v2 u name uid = config_file_of v2 u uid uid"
    by (simp add: config_file_of_def config_dir_def)
  then show ?thesis
    using below_cstr_file [of u uid uid] assms by simp
next
  case v2: True
  show ?thesis
  proof (cases "name = []")
    case True
    then have p: "config_file_of v2 u name uid = pod_dir u @ ''/vcuda.config''"
      using v2 Join_trailing assms(1) by simp
    then have "NUL \<notin> set (config_file_of v2 u name uid)"
      using assms(1) by (simp add: path_name_def pod_dir_plain VirtualManagerPath_def)
    then show ?thesis
      using p by (simp add: cstr_self below_def starts_with_iff)
  next
    case False
    then show ?thesis
      using below_cstr_file assms by simp
  qed
qed

lemma register_plain:
  assumes "register_container k u v (flag, s) = Inr (flag', s')" "names_plain s"
    and "JString k (JGet k v ''name'') = [] \<or> path_name (JString k (JGet k v ''name''))"
    and "\<And>x uid rest. Split (JString k (JGet k v ''containerID'')) ''docker://'' = x # uid # rest \<Longrightarrow> path_name uid"
  shows "names_plain s'"
proof (cases "s' = s")
  case False
  then obtain x uid rest where uid: "Split (JString k (JGet k v ''containerID'')) ''docker://'' = x # uid # rest"
    and name: "JString k (JGet k v ''name'') \<noteq> []"
    and s': "s' = s\<lparr>ContainerNameByUid := (ContainerNameByUid s)(uid \<mapsto> JString k (JGet k v ''name'')),
       ContainerUIDByName := (ContainerUIDByName s)(JString k (JGet k v ''name'') \<mapsto> uid),
       ContainerUIDInPodUID := (ContainerUIDInPodUID s)(u \<mapsto> map_list (ContainerUIDInPodUID s) u @ [uid])\<rparr>"
    using assms(1) by (auto simp: register_container_def Let_def split: if_splits list.splits)
  have "path_name x" if "x \<in> set (map_list ((ContainerUIDInPodUID s)
      (u \<mapsto> map_list (ContainerUIDInPodUID s) u @ [uid])) v)" for x v
    using that assms(2) assms(4) [OF uid] unfolding names_plain_def by (cases "v = u") auto
  then show ?thesis
    using assms(2,3) name unfolding names_plain_def s' by auto
qed (use assms(2) in simp)

lemma register_all_plain:
  "go_fold (register_container k u) vs (flag, s) = Inr (flag', s') \<Longrightarrow> names_plain s \<Longrightarrow>
    (\<forall>v \<in> set vs. (JString k (JGet k v ''name'') = [] \<or> path_name (JString k (JGet k v ''name''))) \<and>
     (\<forall>x uid rest. Split (JString k (JGet k v ''containerID'')) ''docker://'' = x # uid # rest \<longrightarrow> path_name uid)) \<Longrightarrow>
    names_plain s'"
proof (induction vs arbitrary: flag s)
  case (Cons v vs)
  then obtain g s1 where r: "register_container k u v (flag, s) = Inr (g, s1)"
    "go_fold (register_container k u) vs (g, s1) = Inr (flag', s')"
    by auto
  have "names_plain s1"
    using Cons.prems(3) by (intro register_plain [OF r(1) Cons.prems(2)]) auto
  with Cons.IH [OF r(2)] Cons.prems(3) show ?case by simp
qed simp

lemma names_plain_delete:
  assumes "names_plain s"
  shows "names_plain (deletePodPath k os pod s)"
proof -
  have lists: "set (map_list ((ContainerUIDInPodUID s)(u := None)) v) \<subseteq> set (map_list (ContainerUIDInPodUID s) v)" for u v
    by (simp add: map_list_def)
  show ?thesis
    using assms unfolding names_plain_def deletePodPath_cases
    by (auto simp: node_simps forget_pod_fields split: if_splits dest!: subsetD [OF lists])
qed

lemma names_plain_same:
  "ContainerUIDInPodUID s' = ContainerUIDInPodUID s \<Longrightarrow> ContainerNameByUid s' = ContainerNameByUid s \<Longrightarrow>
     names_plain s' = names_plain s"
  by (simp add: names_plain_def)

lemma store_file_tables [node_simps]:
  "ContainerUIDInPodUID (store_file os path fd v s) = ContainerUIDInPodUID s"
  "ContainerNameByUid (store_file os path fd v s) = ContainerNameByUid s"
  by (simp_all add: store_file_def)

lemma open_file_tables:
  assumes "open_file os path s = Some s'"
  shows "ContainerUIDInPodUID s' = ContainerUIDInPodUID s" "ContainerNameByUid s' = ContainerNameByUid s"
  using assms by (auto simp: open_file_def split: if_splits)

lemma vConfig_valid: "vConfig_of u name m c = Inr v \<Longrightarrow> rc_valid v"
  by (auto simp: vConfig_of_def strcpy_field_def rc_valid_def in_int_of_u32 go_bind_eq_Inr split: if_splits)

lemma task_plain_step:
  "task_step k os t s = Inr (t', s') \<Longrightarrow> task_plain k t \<Longrightarrow> names_plain s \<Longrightarrow> W (world s) \<Longrightarrow>
    document_contract k W \<Longrightarrow> names_plain s' \<and> task_plain k t'"
proof (induction k os t s rule: task_step.induct)
  case (1 k os pod s)
  then show ?case
    by (auto split: option.splits if_splits)
next
  case (2 k os i pod n status s)
  show ?case
  proof (cases "n = 0 \<or> JExists k (JGet k status ''containerStatuses'')")
    case False
    obtain b e w where g: "GetResource k ''Pod'' (id_namespace i) (id_name i) (world s) = ((b, e), w)"
      by (metis surj_pair)
    have "status_plain k (JGet k (ToJsonObject k b) ''status'')" if "e = None"
      using 2(4,5) g that unfolding document_contract_def by blast
    then show ?thesis
      using 2 False g names_plain_same [of "s\<lparr>world := w\<rparr>" s] by (auto split: option.splits)
  qed (use 2 in \<open>auto split: if_splits\<close>)
next
  case (3 k os i pod status s)
  then obtain flag where g: "go_fold (register_container k (id_uid i))
      (JEach k (JGet k status ''containerStatuses'')) (False, s) = Inr (flag, s')"
    and "t' = (if flag then List_Containers i pod else Finished)"
    by (auto simp: go_bind_eq_Inr)
  then show ?case
    using 3(2,3) register_all_plain [OF g] by (simp add: status_plain_def)
next
  case (4 k os i pod s)
  then show ?case
    by (auto simp: names_plain_def)
next
  case (6 k os i pod uid uids s)
  then obtain v2 where v2: "t' = Make_Base i pod (config_dir v2 (id_uid i) (map_string (ContainerNameByUid s) uid) uid) uid uids"
    "s' = s"
    by (auto simp: go_bind_eq_Inr)
  have "map_string (ContainerNameByUid s) uid = [] \<or> path_name (map_string (ContainerNameByUid s) uid)"
    using 6(3) by (simp add: names_plain_def map_string_def split: option.split)
  then have "below (pod_dir (id_uid i)) (cstr (config_file_of v2 (id_uid i) (map_string (ContainerNameByUid s) uid) uid))"
    using 6(2) by (intro own_place) simp_all
  then show ?case
    using 6(2,3) v2 by (simp add: config_file_of_def)
next
  case (7 k os i pod baseDir uid uids s)
  then show ?case
    using names_plain_same [of "snd (MkdirAll os baseDir s)" s] by (auto simp: node_simps)
next
  case (9 k os i pod path cname uids s)
  then obtain v where "vConfig_of (id_uid i) cname
      (map_i64 (MemoryRequestByPodUID s) (id_uid i)) (map_i64 (CoreRequestByPodUID s) (id_uid i)) = Inr v"
    and "t' = Open i pod path v uids" "s' = s"
    by (auto simp: go_bind_eq_Inr)
  with 9(2,3) vConfig_valid show ?case
    by auto
next
  case (10 k os i pod path v uids s)
  show ?case
  proof (cases "open_file os path s")
    case (Some s1)
    then have "s' = s1" "t' = Store i pod path (incarnation s1 (cstr path)) v uids"
      using 10(1) by auto
    then show ?thesis
      using 10(2,3) names_plain_same [OF open_file_tables [OF Some]] by simp
  qed (use 10 in auto)
next
  case (11 k os i pod path fd v uids s)
  then show ?case
    using names_plain_same [of "store_file os path fd v s" s] by (auto simp: node_simps)
next
  case (15 k os i pod s)
  then show ?case
    using names_plain_same [of "snd (MkdirAll os (Join [VirtualManagerPath, id_uid i]) s)" s]
    by (auto simp: node_simps split: prod.splits if_splits)
next
  case (19 k os pod s)
  then show ?case
    using names_plain_delete by auto
qed (auto simp: go_bind_eq_Inr names_plain_def Let_def split: prod.splits option.splits if_splits)


subsection \<open>The files of one pod\<close>

text \<open>
  While handlers write at the same time, a file may be empty, cut off, or begin with one record and go
  on with another. What is kept of all these is where the limits are: the twelve bytes of the two
  numbers, as far as the file goes.
\<close>

abbreviation limits_at :: nat where
  "limits_at \<equiv> 48 + FILENAME_MAX"

definition limit_bytes :: "i64 \<times> i64 \<Rightarrow> char list" where
  "limit_bytes r = le_encode 8 (unat (snd r * MemoryBlockSize))
     @ le_encode 4 (unat (u32_of_int (int_of_u32 (ucast (fst r)))))"

definition limits_in :: "i64 \<times> i64 \<Rightarrow> char list \<Rightarrow> bool" where
  "limits_in r bytes \<longleftrightarrow> (\<forall>j < 12. limits_at + j < length bytes \<longrightarrow> bytes ! (limits_at + j) = limit_bytes r ! j)"

lemma limits_in_Nil [simp]: "limits_in r []"
  by (simp add: limits_in_def)

lemma limits_in_overwrite:
  assumes "limits_in r xs" "limits_in r ys"
  shows "limits_in r (write_at_start n xs ys)"
proof -
  have "(take m xs @ drop (length (take m xs)) ys) ! p = (if p < length (take m xs) then xs ! p else ys ! p)"
    if "p < length (take m xs @ drop (length (take m xs)) ys)" for m p
    using that by (auto simp: nth_append)
  then show ?thesis
    using assms by (auto simp: limits_in_def write_at_start_def)
qed

lemma limits_in_encode:
  assumes "carries r v" "rc_valid v"
  shows "limits_in r (rc_encode v pad)"
proof -
  have "rc_encode v pad = (pod_uid v @ container_name v) @ limit_bytes r @ pad"
    using assms(1) by (simp add: rc_encode_def limit_bytes_def carries_def)
  moreover have "length (pod_uid v @ container_name v) = limits_at" "length (limit_bytes r) = 12"
    using assms(2) by (simp_all add: rc_valid_def limit_bytes_def)
  moreover have "(xs @ ys @ zs) ! (length xs + j) = ys ! j" if "j < length ys" for xs ys zs :: "char list" and j
    using that by (simp add: nth_append)
  ultimately show ?thesis
    unfolding limits_in_def by metis
qed

lemma limits_in_decode:
  assumes "limits_in r bytes" "sizeof_resource_data_t \<le> length bytes"
  shows "carries r (rc_decode (take sizeof_resource_data_t bytes))"
proof -
  define b where "b = take sizeof_resource_data_t bytes"
  have len: "length b = limits_at + 16" and at_b: "b ! j = bytes ! j" if "j < limits_at + 16" for j
    using assms(2) that by (simp_all add: b_def sizeof_resource_data_t_def)
  have bytes: "take 12 (drop limits_at b) = limit_bytes r"
  proof (rule nth_equalityI)
    show "length (take 12 (drop limits_at b)) = length (limit_bytes r)"
      using len [of 0] by (simp add: limit_bytes_def)
    show "take 12 (drop limits_at b) ! j = limit_bytes r ! j" if "j < length (take 12 (drop limits_at b))" for j
      using that assms len [of 0] at_b [of "limits_at + j"]
      by (simp add: limits_in_def sizeof_resource_data_t_def)
  qed
  have parts: "take 8 (drop m b) = take 8 (take 12 (drop m b))" "take 4 (drop (m + 8) b) = drop 8 (take 12 (drop m b))" for m
    by (simp_all add: min_def drop_take add.commute)
  have "take 8 (drop limits_at b) = le_encode 8 (unat (snd r * MemoryBlockSize))"
    "take 4 (drop (limits_at + 8) b) = le_encode 4 (unat (u32_of_int (int_of_u32 (ucast (fst r)))))"
    unfolding parts [of limits_at] bytes by (simp_all add: limit_bytes_def)
  moreover have "unat (snd r * MemoryBlockSize) < 256 ^ 8" "unat (u32_of_int (int_of_u32 (ucast (fst r)))) < 256 ^ 4"
    using unsigned_less [of "snd r * MemoryBlockSize", where 'a = nat]
      unsigned_less [of "u32_of_int (int_of_u32 (ucast (fst r)))", where 'a = nat]
    by simp_all
  ultimately show ?thesis
    unfolding b_def [symmetric] by (simp add: carries_def rc_decode_def le_decode_encode int_of_u32_of_int in_int_of_u32)
qed

definition file_ok :: "string \<Rightarrow> i64 \<times> i64 \<Rightarrow> ('j, 'w) node \<Rightarrow> bool" where
  "file_ok u r s \<longleftrightarrow> (\<forall>p bytes. below (pod_dir u) p \<longrightarrow> files s p = Some bytes \<longrightarrow> limits_in r bytes)"

text \<open>The four ways in which a step changes files.\<close>

lemma files_of_step:
  "task_step k os t s = Inr (t', s') \<Longrightarrow> files s' = files s
     \<or> (\<exists>i pod path v uids. t = Open i pod path v uids \<and> open_file os path s = Some s')
     \<or> (\<exists>i pod path fd v uids. t = Store i pod path fd v uids \<and> s' = store_file os path fd v s)
     \<or> (\<exists>pod. t = Remove pod \<and> s' = deletePodPath k os pod s)"
proof (induction k os t s rule: task_step.induct)
  case (3 k os i pod status s)
  then obtain flag where "go_fold (register_container k (id_uid i))
      (JEach k (JGet k status ''containerStatuses'')) (False, s) = Inr (flag, s')"
    by (auto simp: go_bind_eq_Inr)
  from register_containers_registered [OF this] show ?case
    by (simp add: registered_def same_pods_def)
next
  case (2 k os i pod n status s)
  then show ?case
    by (auto split: prod.splits option.splits if_splits)
next
  case (7 k os i pod baseDir uid uids s)
  then show ?case
    by (auto simp: node_simps)
next
  case (10 k os i pod path v uids s)
  then show ?case
    by (auto split: option.splits)
next
  case (15 k os i pod s)
  then have "s' = snd (MkdirAll os (Join [VirtualManagerPath, id_uid i]) s)"
    by (auto split: prod.splits)
  then show ?case
    by (simp add: node_simps)
next
  case (17 k os i s)
  then show ?case
    by (auto simp: Let_def split: prod.splits option.splits)
next
  case (11 k os i pod path fd v uids s)
  then show ?case by simp
next
  case (19 k os pod s)
  then show ?case by simp
qed (auto simp: go_bind_eq_Inr split: option.splits if_splits)

lemma own_record:
  assumes "task_plain k t" "task_ok k W u r rec t" "path_name u" "below (pod_dir u) (cstr path)"
    and "t = Store i pod path fd v uids"
  shows "limits_in r (rc_encode v pad)"
proof -
  have "id_uid i = u"
    using below_pod_dirs [of "id_uid i" u "cstr path"] assms by (simp add: path_name_def)
  then show ?thesis
    using assms(1,2,5) limits_in_encode by simp
qed

lemma file_ok_step:
  assumes "task_step k os t s = Inr (t', s')" "task_plain k t" "task_ok k W u r rec t" "path_name u" "file_ok u r s"
  shows "file_ok u r s'"
  using files_of_step [OF assms(1)]
proof (elim disjE exE conjE)
  assume "files s' = files s"
  then show ?thesis
    using assms(5) by (simp add: file_ok_def)
next
  fix pod
  assume "s' = deletePodPath k os pod s"
  moreover have "files (deletePodPath k os pod s) p = Some bytes \<Longrightarrow> files s p = Some bytes" for p bytes
    by (auto simp: deletePodPath_cases RemoveAll_def forget_pod_fields split: if_splits)
  ultimately show ?thesis
    using assms(5) unfolding file_ok_def by blast
next
  fix path
  assume "open_file os path s = Some s'"
  then have "files s' = (files s)(cstr path \<mapsto> [])"
    by (auto simp: open_file_def split: if_splits)
  then show ?thesis
    using assms(5) by (simp add: file_ok_def)
next
  fix i pod path fd v uids
  assume t: "t = Store i pod path fd v uids" "s' = store_file os path fd v s"
  have "limits_in r bytes" if p: "below (pod_dir u) p" "files s' p = Some bytes" for p bytes
  proof (cases "files s p = Some bytes")
    case True
    with p(1) assms(5) show ?thesis unfolding file_ok_def by blast
  next
    case False
    then obtain old where old: "p = cstr path" "files s p = Some old"
      "bytes = write_at_start (os_written os p) (rc_encode v (os_padding os)) old"
      using p(2) by (auto simp: t(2) store_file_def split: if_splits)
    moreover have "limits_in r old"
      using old(2) p(1) assms(5) unfolding file_ok_def by blast
    ultimately show ?thesis
      using own_record [OF assms(2-4) _ t(1)] p(1) limits_in_overwrite by simp
  qed
  then show ?thesis
    unfolding file_ok_def by blast
qed

subsection \<open>The manager\<close>

definition manager_plain :: "('b, 'j, 'w) kube \<Rightarrow> ('j, 'w) manager \<Rightarrow> bool" where
  "manager_plain k m \<longleftrightarrow> names_plain (shared (handlers m)) \<and> (\<forall>t \<in> set (tasks (handlers m)). task_plain k t) \<and>
     (\<forall>h \<in> pending (event_loop m). event_plain k h)"

lemma task_of_plain: "event_plain k h \<Longrightarrow> task_plain k (task_of h)"
  by (cases h) simp_all

lemma pool_plain_step:
  assumes "pool_step k (\<lambda>_ _. False) env p q" "pool_ok k W ready u r p" "document_contract k W" "path_name u"
    and "names_plain (shared p)" "\<forall>t \<in> set (tasks p). task_plain k t" "file_ok u r (shared p)"
  shows "names_plain (shared q) \<and> (\<forall>t \<in> set (tasks q). task_plain k t) \<and> file_ok u r (shared q)"
  using assms(1)
proof (cases rule: pool_step.cases)
  case (stepped n os t s)
  let ?old = "tasks p ! n"
  have old: "task_plain k ?old" "task_ok k W u r (recorded u r (shared p)) ?old" "W (world (shared p))"
    using stepped(2) assms(2,6) unfolding pool_ok_def node_ok_def by auto
  have "names_plain s \<and> task_plain k t"
    by (rule task_plain_step [OF stepped(3) old(1) assms(5) old(3) assms(3)])
  moreover have "file_ok u r s"
    by (rule file_ok_step [OF stepped(3) old(1,2) assms(4,7)])
  moreover have "set ((tasks p)[n := t]) \<subseteq> insert t (set (tasks p))"
    by (rule set_update_subset_insert)
  ultimately show ?thesis
    using stepped(1) assms(6) by auto
next
  case (changed w)
  then show ?thesis
    using assms(5-7) by (simp add: names_plain_def file_ok_def)
qed simp

lemma manager_plain_step:
  assumes "manager_step k arrives env m n" "manager_ok k W ready u r m" "document_contract k W" "path_name u"
    and "\<And>w h. W w \<Longrightarrow> arrives w h \<Longrightarrow> event_plain k h"
    and "manager_plain k m" "file_ok u r (shared (handlers m))"
  shows "manager_plain k n \<and> file_ok u r (shared (handlers n))"
  using assms(1)
proof (cases rule: manager_step.cases)
  case (event h l)
  have "event_plain k h"
    using event(2) assms(2,5) by (auto simp: manager_ok_def pool_ok_def node_ok_def)
  then show ?thesis
    using event(1) pending_event [OF event(3,4)] assms(6,7) unfolding manager_plain_def by auto
next
  case (looped l hs)
  then show ?thesis
    using pending_loop [OF looped(2-4)] assms(6,7) task_of_plain [of k] unfolding manager_plain_def by auto
next
  case (handled p)
  have "names_plain (shared p) \<and> (\<forall>t \<in> set (tasks p). task_plain k t) \<and> file_ok u r (shared p)"
    using assms(2,6,7) unfolding manager_ok_def manager_plain_def
    by (intro pool_plain_step [OF handled(2) _ assms(3,4), of ready r]) blast+
  then show ?thesis
    using handled(1) assms(6) by (simp add: manager_plain_def)
qed

lemma stored_in_runs:
  assumes "manager_runs k arrives env m n" "server_contract k W ready u" "document_contract k W" "path_name u"
    and "\<And>w h. W w \<Longrightarrow> arrives w h \<Longrightarrow> event_contract k W ready u r w h \<and> event_plain k h"
    and "\<And>w w'. W w \<Longrightarrow> env w w' \<Longrightarrow> W w' \<and> (ready w' \<longrightarrow> ready w)"
    and "manager_ok k W ready u r m" "manager_plain k m" "file_ok u r (shared (handlers m))"
  shows "manager_ok k W ready u r n \<and> manager_plain k n \<and> file_ok u r (shared (handlers n))"
  using assms(1,7-9)
proof (induction rule: manager_runs.induct)
  case (manager_more m n q)
  then have ok: "manager_ok k W ready u r n" "manager_plain k n" "file_ok u r (shared (handlers n))"
    by simp_all
  have "manager_ok k W ready u r q"
    by (rule manager_ok_step [OF manager_more(2) ok(1) assms(2)]) (use assms(5,6) in blast)+
  moreover have "manager_plain k q \<and> file_ok u r (shared (handlers q))"
    by (rule manager_plain_step [OF manager_more(2) ok(1) assms(3,4) _ ok(2,3)]) (use assms(5) in blast)
  ultimately show ?case by simp
qed simp

lemma stored_at_start:
  assumes "manager_start os w = Inr m"
  shows "manager_plain k m" "file_ok u r (shared (handlers m))"
proof -
  obtain D where m: "m = \<lparr>event_loop = run_init, handlers = \<lparr>shared = new_node w D, tasks = []\<rparr>\<rparr>"
    using assms by (auto simp: manager_start_def elim!: new_poolE)
  show "manager_plain k m" "file_ok u r (shared (handlers m))"
    by (simp_all add: m manager_plain_def pending_start names_plain_def file_ok_def NewVirtualManager_def map_list_def)
qed

end
