(* ===== verification/Concurrent_Delivery.thy ===== *)
theory Concurrent_Delivery
  imports Limit_Delivery Stored_Limits
begin

text \<open>
  The limits of a pod under every interleaving of the manager's parts: what a process in one of its
  containers reads, if it reads a configuration at all.
\<close>

text \<open>The reader looks below \<open>/etc/unishare/vm\<close>, also if a path was cut off.\<close>

lemma set_paths_place: "\<exists>q. config_path (set_paths c s) = ''/etc/unishare/vm/'' @ q"
proof -
  have "\<exists>q. take 511 (take 511 (''/etc/unishare/vm/'' @ c) @ x) = ''/etc/unishare/vm/'' @ q" for x
    by (simp add: take_Cons')
  then show ?thesis
    by (simp add: set_paths_def Let_def snprintf_def PATH_LENGTH_def VMLU_CONFIG_PATH_def)
qed

lemma read_place:
  assumes "read_controller_configuration e g c = Inr c'"
  shows "\<exists>q. config_path c' = ''/etc/unishare/vm/'' @ q"
proof -
  obtain v c0 c1 where "get_path_by_cgroup e g v c0 = Inr (0, c1)" "config_path c' = config_path c1"
    using assms by (auto simp: read_controller_configuration_def c_bind_eq_Inr Let_def split: if_splits option.splits)
  moreover from this(1) obtain n where "c1 = set_paths n c0"
    by (auto simp: get_path_by_cgroup_def c_bind_eq_Inr split: prod.splits if_splits)
  ultimately show ?thesis
    using set_paths_place by metis
qed

lemma mounted_below:
  assumes "plain_element u"
  shows "\<exists>p. below (pod_dir u) p \<and> mounted own (Mounts (vcore_response u n)) host (''/etc/unishare/vm/'' @ q) = host p"
proof (intro exI conjI)
  show "below (pod_dir u) (pod_dir u @ CHR ''/'' # q)"
    by (simp add: below_def starts_with_iff)
  show "mounted own (Mounts (vcore_response u n)) host (''/etc/unishare/vm/'' @ q) = host (pod_dir u @ CHR ''/'' # q)"
    using assms by (simp add: vcore_response_def below_def starts_with_iff pod_dir_plain VirtualManagerPath_def)
qed

subsection \<open>An instance\<close>

definition demo_known :: "server \<Rightarrow> bool" where
  "demo_known w \<longleftrightarrow> demo_named w \<and>
     (\<forall>(_, j) \<in> set (pods w). status_plain demo_kube (JGet demo_kube j ''status''))"

lemma demo_contracts:
  "server_contract demo_kube demo_known demo_announced ''u1''" "document_contract demo_kube demo_known"
proof -
  have docs: "\<forall>(_, j) \<in> set (pods (snd (UpdateResource demo_kube (fst (marshal_pod demo_kube p)) w))).
      status_plain demo_kube (JGet demo_kube j ''status'')" if "demo_known w" for p w
    using that by (auto simp: demo_known_def demo_kube_def split: if_splits)
  show "server_contract demo_kube demo_known demo_announced ''u1''"
    using demo_server_contract docs unfolding server_contract_def demo_known_def
    by (auto simp: demo_kube_def server_get_def)
  show "document_contract demo_kube demo_known"
    by (auto simp: document_contract_def demo_known_def demo_kube_def server_get_def dest!: find_Some_in split: option.splits)
qed

lemma demo_events_plain:
  assumes "demo_allowed w h"
  shows "event_plain demo_kube h"
proof -
  have "status_plain demo_kube (JObj [])"
    by (simp add: status_plain_def demo_json)
  moreover have "Split ''docker://c1'' ''docker://'' = [[], ''c1'']"
    using Split_prefix [of "''docker://''" "''c1''"] Split_absent [of "''docker://''" "''c1''"] by simp
  then have "status_plain demo_kube (demo_status ''docker://c1'')"
    by (simp add: status_plain_def demo_json path_name_def plain_element_def)
  moreover have "JGet demo_kube (pod_doc a j) ''status'' = j" for a j
    by (simp add: demo_json)
  moreover have "path_name (id_uid (demo_ident a))" for a
    by (simp add: demo_ident_def path_name_def plain_element_def)
  ultimately show ?thesis
    using assms by (auto simp: demo_allowed_def demo_new_def demo_ready_pod_def demo_identified)
qed

lemma demo_names_kept: "name_kept demo_kube demo_named pod \<Longrightarrow> name_kept demo_kube demo_known pod"
  unfolding name_kept_def names_pod_def demo_known_def by blast

text \<open>
  C3: For a pod \<open>u\<close> that the manager knows from its beginning: it is not marked as ready, and the
  directory of the pods is empty, when the manager starts. As long as the deletion of \<open>u\<close> is not reported,
  and if no pod takes the name of another: however the watcher, the loop and the handlers interleave, no
  process in a container of the pod works with wrong limits. At any moment, also while the file is being
  created or written, what the hook library reads from the pod's directory, mounted as \<open>Allocate\<close> asked
  for, carries the requests \<open>r\<close> of the pod, or the library ends the process. The conditions are the
  hypotheses on the events and on the start; without them it does not hold. A manager that starts after
  the pod was assigned writes the limits 0 (\<open>late_manager_writes_zero\<close>), and a handler that configures a
  container after the deletion was handled reads the forgotten requests as 0.
\<close>

theorem configuration_never_wrong:
  assumes "server_contract k W ready u" "document_contract k W" "path_name u"
    and "\<And>w pod. W w \<Longrightarrow> arrives w (Create pod) \<Longrightarrow> update_contract k ready u r w pod"
    and "\<And>w pod. W w \<Longrightarrow> arrives w (Create pod) \<Longrightarrow> name_kept k W pod"
    and "\<And>w h. W w \<Longrightarrow> arrives w h \<Longrightarrow> event_plain k h"
    and "\<And>w pod. W w \<Longrightarrow> arrives w (Delete pod) \<Longrightarrow> pod_uid_of k pod \<noteq> u"
    and "\<And>w w'. W w \<Longrightarrow> env w w' \<Longrightarrow> W w' \<and> (ready w' \<longrightarrow> ready w)"
    and "manager_start os w = Inr m0" "W w" "\<not> ready w" "manager_runs k arrives env m0 m"
    and "data_file e = mounted own (Mounts (vcore_response u n)) (files (shared (handlers m)))"
    and "read_controller_configuration e g c = Inr c'"
  shows "utilization (config_data c') = int_of_u32 (ucast (fst r))
    \<and> memory (config_data c') = snd r * MemoryBlockSize"
proof -
  have events: "event_contract k W ready u r w h \<and> event_plain k h" if "W w" "arrives w h" for w h
    using that assms(4-7) by (intro conjI contract_of_events) auto
  have "manager_ok k W ready u r m \<and> manager_plain k m \<and> file_ok u r (shared (handlers m))"
    by (rule stored_in_runs [OF assms(12,1-3) events assms(8)
          manager_ok_start [of os w m0 W ready k u r, OF assms(9-11)] stored_at_start [OF assms(9)]])
  then have ok: "file_ok u r (shared (handlers m))"
    by simp
  obtain contents where contents: "data_file e (config_path c') = Some contents"
    "sizeof_resource_data_t \<le> length contents"
    "config_data c' = rc_decode (take sizeof_resource_data_t contents)"
    using read_controller_configuration_complete [OF assms(14)] by blast
  obtain q where q: "config_path c' = ''/etc/unishare/vm/'' @ q"
    using read_place [OF assms(14)] by blast
  have "plain_element u"
    using assms(3) by (simp add: path_name_def)
  then obtain p where "below (pod_dir u) p" "files (shared (handlers m)) p = Some contents"
    using mounted_below [of u own n "files (shared (handlers m))" q] contents(1) q assms(13) by auto
  then have "limits_in r contents"
    using ok unfolding file_ok_def by blast
  then show ?thesis
    using limits_in_decode [OF _ contents(2)] contents(3) by (simp add: carries_def)
qed

lemma demo_process_runs:
  "\<exists>m0 m. manager_start demo_os demo_world = Inr m0
    \<and> manager_runs demo_kube demo_allowed (\<lambda>_ _. False) m0 m
    \<and> files (shared (handlers m)) (config_file_of True ''u1'' ''main'' ''c1'') =
        Some (rc_encode (limits_record ''u1'' ''main'' 0 30) (replicate 4 NUL))"
proof -
  let ?runs = "manager_runs demo_kube demo_allowed (\<lambda>_ _. False)" and ?i = "demo_ident ''true''"
  obtain D where m0: "manager_start demo_os demo_world = Inr (\<lparr>event_loop = run_init,
      handlers = \<lparr>shared = new_node demo_world D, tasks = []\<rparr>\<rparr> :: (json, server) manager)" (is "_ = Inr ?m0")
    by (rule exE [OF demo_manager [of demo_world]])
  let ?node = "new_node demo_world D :: (json, server) node"
  have u: "id_uid ?i = ''u1''" "id_assigned ?i = ''true''"
    by (simp_all add: demo_ident_def)
  obtain s where s: "creatVcudaServer demo_kube demo_os demo_new ?node = Inr s" "demo_announced (world s)"
    "PodDoByUID s = Map.empty"
    using demo_marked by blast
  have new: "identify demo_kube demo_new = Some (demo_ident ''false'')" "identify demo_kube demo_ready_pod = Some ?i"
    by (simp_all add: demo_new_def demo_ready_pod_def demo_identified)
  have rec: "map_bool (PodVisitedByUID s) ''u1''" "CoreRequestByPodUID s ''u1'' = Some 30"
    "MemoryRequestByPodUID s ''u1'' = Some 0"
    using first_event_records [OF s(1) new(1)] demo_writes(3)
    by (auto simp: demo_ident_def NewVirtualManager_def map_bool_def demo_new_def demo_request)
  have "tables_wf ?node"
    by (simp add: tables_wf_def NewVirtualManager_def map_bool_def)
  then have wf: "tables_wf s"
    using s(1) by (rule wf_creatVcudaServer)
  have due: "\<not> map_bool (PodDoByUID s) (id_uid ?i)" "map_bool (PodVisitedByUID s) (id_uid ?i)" "good_uid (id_uid ?i)"
    using s(3) rec(1) demo_good(2) u by (simp_all add: map_bool_def)
  have limits: "map_i64 (MemoryRequestByPodUID s) (id_uid ?i) = 0" "map_i64 (CoreRequestByPodUID s) (id_uid ?i) = 30"
    using rec(2,3) u(1) by (simp_all add: map_i64_def)
  have padding: "os_padding demo_os = replicate 4 NUL"
    by (simp add: demo_os_def)
  obtain t where t: "creatVcudaServer demo_kube demo_os demo_ready_pod s = Inr t"
    "files t (config_file_of True ''u1'' ''main'' ''c1'') =
       Some (rc_encode (limits_record ''u1'' ''main'' 0 30) (replicate 4 NUL))"
    using assigned_event_writes [OF wf new(2) u(2) due demo_seen demo_good(1) demo_writes(1,2)]
    using limits padding unfolding u(1) by (auto simp: demo_containers_def)
  obtain l where l: "?runs ?m0 \<lparr>event_loop = l, handlers = \<lparr>shared = ?node, tasks = [] @ [Enter demo_new]\<rparr>\<rparr>"
    "at l = Test_Mod" "queues l = NewPodManager"
    using event_starts [of run_init demo_allowed "\<lparr>shared = ?node, tasks = []\<rparr>" demo_new demo_kube "\<lambda>_ _. False"]
    by (auto simp: run_init_def demo_allowed_def)
  have 1: "completes demo_kube demo_os (Enter demo_new) ?node (Inr s)"
    using completes_finish [of demo_kube demo_os "Enter demo_new" ?node] s(1) by simp
  note a = last_completes [OF 1 refl, of "\<lambda>_ _. False" "\<lambda>_ _. False" "[]"]
  obtain l' where b: "?runs \<lparr>event_loop = l, handlers = \<lparr>shared = s, tasks = [] @ [Finished]\<rparr>\<rparr>
      \<lparr>event_loop = l', handlers = \<lparr>shared = s, tasks = ([] @ [Finished]) @ [Enter demo_ready_pod]\<rparr>\<rparr>"
    using event_starts [of l demo_allowed "\<lparr>shared = s, tasks = [] @ [Finished]\<rparr>" demo_ready_pod demo_kube "\<lambda>_ _. False"]
      l(2,3) s(2) by (auto simp: demo_allowed_def)
  have 2: "completes demo_kube demo_os (Enter demo_ready_pod) s (Inr t)"
    using completes_finish [of demo_kube demo_os "Enter demo_ready_pod" s] t(1) by simp
  note c = last_completes [OF 2 refl, of "\<lambda>_ _. False" "\<lambda>_ _. False" "[] @ [Finished]"]
  have "?runs ?m0 \<lparr>event_loop = l', handlers = \<lparr>shared = t, tasks = ([] @ [Finished]) @ [Finished]\<rparr>\<rparr>"
    by (rule manager_runs_trans [OF manager_runs_trans [OF manager_runs_trans [OF pool_in_manager [OF c] b]
            pool_in_manager [OF a]] l(1)])
  with m0 t(2) show ?thesis
    by (intro exI conjI) (assumption | simp)+
qed

theorem configuration_never_wrong_witness:
  "\<exists>m0 m c. manager_start demo_os demo_world = Inr m0
    \<and> manager_runs demo_kube demo_allowed (\<lambda>_ _. False) m0 m
    \<and> read_controller_configuration (demo_container (files (shared (handlers m))))
        (blank_buffer, blank_buffer, blank_buffer) container_init = Inr c
    \<and> utilization (config_data c) = 30"
proof -
  obtain m0 m where m: "manager_start demo_os demo_world = Inr m0"
    "manager_runs demo_kube demo_allowed (\<lambda>_ _. False) m0 m"
    "files (shared (handlers m)) (config_file_of True ''u1'' ''main'' ''c1'') =
        Some (rc_encode (limits_record ''u1'' ''main'' 0 30) (replicate 4 NUL))"
    using demo_process_runs by blast
  let ?e = "demo_container (files (shared (handlers m)))"
  have d: "data_file ?e = mounted (\<lambda>_. None) (Mounts (vcore_response ''u1'' 0)) (files (shared (handlers m)))"
    by (simp add: demo_container_def)
  have "process_recognised ?e True ''u1'' ''main'' ''c1''"
    using demo_mount_table by (simp add: process_recognised_def)
  moreover have "buffers (blank_buffer, blank_buffer, blank_buffer)"
    by (simp add: buffers_def blank_buffer_def)
  moreover have "rc_valid (limits_record ''u1'' ''main'' 0 30)"
    by (rule limits_record_valid) (simp_all add: fits_field_def FILENAME_MAX_def)
  moreover have "length (config_file ''main'') < PATH_LENGTH"
    by (simp add: demo_facts)
  ultimately have "\<exists>c. read_controller_configuration ?e (blank_buffer, blank_buffer, blank_buffer) container_init = Inr c
      \<and> config_data c = limits_record ''u1'' ''main'' 0 30"
    by (intro delivered [OF _ _ d m(3)]) (simp_all add: plain_element_def)
  then obtain c where c: "read_controller_configuration ?e (blank_buffer, blank_buffer, blank_buffer) container_init = Inr c"
    by blast
  have start: "path_name ''u1''" "demo_known demo_world" "\<not> demo_announced demo_world"
    by (simp_all add: path_name_def plain_element_def demo_known_def demo_named_def demo_announced_def demo_world_def
        marked_ready_def AnnVCUDAReady_def status_plain_def demo_kube_def json_get_def)
  have events: "demo_allowed w (Create pod) \<Longrightarrow> update_contract demo_kube demo_announced ''u1'' (30, 0) w pod"
    "demo_allowed w (Create pod) \<Longrightarrow> name_kept demo_kube demo_known pod"
    "demo_allowed w h \<Longrightarrow> event_plain demo_kube h"
    "demo_allowed w (Delete pod) \<Longrightarrow> pod_uid_of demo_kube pod \<noteq> ''u1''" for w pod h
    using demo_events [of w "Create pod"] demo_events [of w "Delete pod"] demo_events_plain [of w h] demo_names_kept
    by simp_all
  have "utilization (config_data c) = int_of_u32 (ucast (fst (30 :: i64, 0 :: i64)))"
    using configuration_never_wrong [OF demo_contracts start(1) events _ m(1) start(2,3) m(2) d c] by simp
  moreover have "int_of_u32 (ucast (30 :: i64)) = 30"
    by (simp add: int_of_u32_def)
  ultimately show ?thesis
    using m(1,2) c by auto
qed

end
