(* ===== verification/Handler_Races.thy ===== *)
theory Handler_Races
  imports Manager_System
begin

text \<open>
  What the order of the handlers' steps does not guarantee: \<open>creatVcudaServer\<close> marks a pod as visited in
  one section under the lock and records its requests in another, and a deletion may run between them.
\<close>

lemma split_slash_nonempty [simp]: "split_slash s \<noteq> []"
  by (induction s) (simp_all split: list.split)

lemma join_split: "join_slash (split_slash s) = s"
proof (induction s)
  case (Cons c s)
  obtain x xs where x: "split_slash s = x # xs"
    by (cases "split_slash s") simp_all
  with Cons show ?case
    by (cases xs) (simp_all add: split: list.splits)
qed simp

lemma path_in_parents: "CHR ''/'' # path \<in> parents (CHR ''/'' # path)"
proof -
  have "length (split_slash path) \<in> {1..length (split_slash path)}"
    by (simp add: Suc_leI)
  then show ?thesis
    unfolding parents_def list.sel by (rule rev_image_eqI) (simp add: join_split)
qed

lemma pod_dir_made:
  assumes "plain_element u"
  shows "pod_dir u \<in> dirs (snd (MkdirAll demo_os (pod_dir u) s))"
  using path_in_parents assms by (simp add: MkdirAll_def demo_writes pod_dir_plain VirtualManagerPath_def)

subsection \<open>A deletion in the middle of a first event\<close>

definition visited_first :: "'j \<Rightarrow> string \<Rightarrow> ('j, 'w) node \<Rightarrow> ('j, 'w) node" where
  "visited_first pod u s = s\<lparr>PodVisitedByUID := [u \<mapsto> True], PodByUID := [u \<mapsto> pod]\<rparr>"

lemma step_first:
  assumes "task_step k os t s = Inr (t', s')"
  shows "pool_step k allowed env \<lparr>shared = s, tasks = t # ts\<rparr> \<lparr>shared = s', tasks = t' # ts\<rparr>"
  using pool_step.stepped [of 0 "\<lparr>shared = s, tasks = t # ts\<rparr>" k os t' s'] assms by simp

lemma first_steps:
  assumes "identify k pod = Some i" "id_assigned i \<noteq> ''true''"
  shows "pool_runs k allowed env \<lparr>shared = new_node w D, tasks = [Enter pod]\<rparr>
    \<lparr>shared = visited_first pod (id_uid i) (new_node w D), tasks = [Make_Dir i pod]\<rparr>"
proof -
  let ?s = "new_node w D"
  have 1: "task_step k demo_os (Enter pod) ?s = Inr (Look i pod, ?s)"
    using assms by simp
  have 2: "task_step k demo_os (Look i pod) ?s = Inr (Visit i pod, ?s)"
    by (simp add: NewVirtualManager_def map_bool_def)
  have 3: "task_step k demo_os (Visit i pod) ?s = Inr (Make_Dir i pod, visited_first pod (id_uid i) ?s)"
    by (simp add: visited_first_def NewVirtualManager_def)
  show ?thesis
    by (rule pool_more [OF pool_more [OF pool_more [OF pool_here step_first [OF 1]] step_first [OF 2]] step_first [OF 3]])
qed

text \<open>
  C24: A deletion that runs while the handler of the pod's first event creates the directory leaves
  entries behind for good: when both handlers are finished, the pod is not known, its requests and
  its directory are there (so the tables do not fit together), and any further deletion of the pod
  does nothing.
\<close>

theorem record_after_deletion:
  assumes "identify k pod = Some i" "id_assigned i \<noteq> ''true''" "was_assigned k pod"
    and "\<And>w. arrives w (Create pod)" "\<And>w. arrives w (Delete pod)"
    and "GetResource k ''Pod'' (id_namespace i) (id_name i) w = ((b, Some err), w')"
    and "plain_element (id_uid i)" "manager_start os w = Inr m0"
  shows "\<exists>m. manager_runs k arrives env m0 m \<and> tasks (handlers m) = [Finished, Finished]
    \<and> \<not> map_bool (PodVisitedByUID (shared (handlers m))) (id_uid i)
    \<and> CoreRequestByPodUID (shared (handlers m)) (id_uid i) = Some (fst (pod_request k pod))
    \<and> pod_dir (id_uid i) \<in> dirs (shared (handlers m)) \<and> \<not> tables_wf (shared (handlers m))
    \<and> (\<forall>os. deletePodPath k os pod (shared (handlers m)) = shared (handlers m))"
proof -
  obtain D where m0: "m0 = \<lparr>event_loop = run_init, handlers = \<lparr>shared = new_node w D, tasks = []\<rparr>\<rparr>"
    using assms(8) by (auto simp: manager_start_def elim!: new_poolE)
  let ?u = "id_uid i" and ?r = "pod_request k pod"
  let ?s1 = "visited_first pod ?u (new_node w D)"
  let ?s2 = "deletePodPath k demo_os pod ?s1"
  let ?s3 = "snd (MkdirAll demo_os (pod_dir ?u) ?s2)"
  let ?s4 = "?s3\<lparr>CoreRequestByPodUID := (CoreRequestByPodUID ?s3)(?u \<mapsto> fst ?r),
       MemoryRequestByPodUID := (MemoryRequestByPodUID ?s3)(?u \<mapsto> snd ?r)\<rparr>"
  let ?s5 = "?s4\<lparr>world := w'\<rparr>"
  have u: "pod_uid_of k pod = ?u"
    using identify_pod_uid [OF assms(1)] by simp
  have gone: "\<not> map_bool (PodVisitedByUID ?s2) ?u" "world ?s2 = w"
    using assms(3) u by (simp_all add: deletePodPath_cases node_simps forget_pod_fields visited_first_def
        NewVirtualManager_def)
  have 1: "task_step k demo_os (Remove pod) ?s1 = Inr (Finished, ?s2)"
    by simp
  have 2: "task_step k demo_os (Make_Dir i pod) ?s2 = Inr (Record i pod, ?s3)"
    by (simp add: MkdirAll_def demo_writes flip: pod_dir_def)
  have 3: "task_step k demo_os (Record i pod) ?s3 = Inr (Fetch i, ?s4)"
    by simp
  have 4: "task_step k demo_os (Fetch i) ?s4 = Inr (Finished, ?s5)"
    using assms(6) gone(2) by (simp add: node_simps)
  obtain l where l: "manager_runs k arrives env m0
      \<lparr>event_loop = l, handlers = \<lparr>shared = new_node w D, tasks = [Enter pod]\<rparr>\<rparr>" "at l = Test_Mod"
      "queues l = NewPodManager"
    using event_starts [of run_init arrives "\<lparr>shared = new_node w D, tasks = []\<rparr>" pod k env] assms(4)
    by (auto simp: run_init_def m0)
  have f: "pool_runs k (\<lambda>_ _. False) env \<lparr>shared = new_node w D, tasks = [Enter pod]\<rparr>
      \<lparr>shared = ?s1, tasks = [Make_Dir i pod]\<rparr>"
    by (rule first_steps [OF assms(1,2)])
  obtain l' where d: "manager_runs k arrives env \<lparr>event_loop = l, handlers = \<lparr>shared = ?s1, tasks = [Make_Dir i pod]\<rparr>\<rparr>
      \<lparr>event_loop = l', handlers = \<lparr>shared = ?s1, tasks = [Make_Dir i pod] @ [Remove pod]\<rparr>\<rparr>"
    using deletion_starts [of l arrives "\<lparr>shared = ?s1, tasks = [Make_Dir i pod]\<rparr>" pod k env] l(2,3) assms(5) by auto
  have "pool_runs k (\<lambda>_ _. False) env \<lparr>shared = ?s1, tasks = [Make_Dir i pod] @ [Remove pod]\<rparr>
      \<lparr>shared = ?s2, tasks = [Make_Dir i pod] @ [Finished]\<rparr>"
    by (rule pool_more [OF pool_here last_steps [OF 1]])
  then have del: "pool_runs k (\<lambda>_ _. False) env \<lparr>shared = ?s1, tasks = [Make_Dir i pod] @ [Remove pod]\<rparr>
      \<lparr>shared = ?s2, tasks = [Make_Dir i pod, Finished]\<rparr>"
    by (simp only: append.simps)
  from pool_more [OF pool_more [OF pool_more [OF del step_first [OF 2]] step_first [OF 3]] step_first [OF 4]]
  have rest: "pool_runs k (\<lambda>_ _. False) env \<lparr>shared = ?s1, tasks = [Make_Dir i pod] @ [Remove pod]\<rparr>
      \<lparr>shared = ?s5, tasks = [Finished, Finished]\<rparr>" .
  have run: "manager_runs k arrives env m0
      \<lparr>event_loop = l', handlers = \<lparr>shared = ?s5, tasks = [Finished, Finished]\<rparr>\<rparr>"
    by (rule manager_runs_trans [OF manager_runs_trans [OF manager_runs_trans [OF pool_in_manager [OF rest] d]
            pool_in_manager [OF f]] l(1)])
  have vis: "\<not> map_bool (PodVisitedByUID ?s5) ?u"
    using gone by (simp add: node_simps)
  have core: "CoreRequestByPodUID ?s5 ?u = Some (fst ?r)"
    by simp
  have dir: "pod_dir ?u \<in> dirs ?s5"
    using pod_dir_made [OF assms(7)] by simp
  have "\<not> tables_wf ?s5"
    using vis core unfolding tables_wf_def by blast
  moreover have "\<forall>os. deletePodPath k os pod ?s5 = ?s5"
    using vis u by (simp add: deletePodPath_cases)
  ultimately show ?thesis
    using run vis core dir
    by (intro exI [of _ "\<lparr>event_loop = l', handlers = \<lparr>shared = ?s5, tasks = [Finished, Finished]\<rparr>\<rparr>"]) simp
qed

theorem record_after_deletion_witness:
  "\<exists>m0 m. manager_start demo_os demo_server = Inr m0
    \<and> manager_runs demo_kube (\<lambda>_ _. True) (\<lambda>_ _. False) m0 m \<and> tasks (handlers m) = [Finished, Finished] \<and> \<not> map_bool (PodVisitedByUID (shared (handlers m))) ''u1''
    \<and> CoreRequestByPodUID (shared (handlers m)) ''u1'' = Some 30
    \<and> ''/etc/unishare/vm/u1'' \<in> dirs (shared (handlers m)) \<and> \<not> tables_wf (shared (handlers m))"
proof -
  let ?i = "demo_ident ''false''"
  have i: "identify demo_kube demo_new = Some ?i" "id_assigned ?i \<noteq> ''true''" "was_assigned demo_kube demo_new"
    by (simp_all add: demo_new_def demo_identified demo_was_assigned) (simp add: demo_ident_def)
  have gone: "GetResource demo_kube ''Pod'' (id_namespace ?i) (id_name ?i) demo_server
      = ((No_Bytes, Some ''not found''), demo_server)"
    by (simp add: demo_kube_def server_get_def demo_server_def demo_ident_def)
  have u: "plain_element (id_uid ?i)" "id_uid ?i = ''u1''" "pod_dir ''u1'' = ''/etc/unishare/vm/u1''"
    by (simp_all add: demo_ident_def plain_element_def pod_dir_plain VirtualManagerPath_def)
  obtain m0 :: "(json, server) manager" where m0: "manager_start demo_os demo_server = Inr m0"
    by (rule exE [OF demo_manager [of demo_server]])
  have "\<exists>m. manager_runs demo_kube (\<lambda>_ _. True) (\<lambda>_ _. False) m0 m \<and> tasks (handlers m) = [Finished, Finished]
      \<and> \<not> map_bool (PodVisitedByUID (shared (handlers m))) ''u1''
      \<and> CoreRequestByPodUID (shared (handlers m)) ''u1'' = Some 30
      \<and> ''/etc/unishare/vm/u1'' \<in> dirs (shared (handlers m)) \<and> \<not> tables_wf (shared (handlers m))"
    using record_after_deletion [OF i _ _ gone u(1) m0, of "\<lambda>_ _. True" "\<lambda>_ _. False"] u(2,3)
    by (auto simp: demo_new_def demo_request)
  with m0 show ?thesis by blast
qed

end
