(* ===== verification/Manager_Tables.thy ===== *)
theory Manager_Tables
  imports Manager_System
begin

text \<open>
  The tables of the manager while its handlers interleave: what every section under the lock keeps of
  them, the table of the containers by name included.
\<close>

subsection \<open>Invariants of the whole manager\<close>

text \<open>
  A property of the node and one of tasks that every step of a handler keeps, and that events and the
  world bring with them, hold in every state of the manager.
\<close>

lemma manager_invariant:
  assumes "manager_runs k arrives env m n"
    and task: "\<And>os t s t' s'. task_step k os t s = Inr (t', s') \<Longrightarrow> N s \<Longrightarrow> T t \<Longrightarrow> N s' \<and> T t'"
    and event: "\<And>s h. N s \<Longrightarrow> arrives (world s) h \<Longrightarrow> T (task_of h)"
    and world: "\<And>s w. N s \<Longrightarrow> env (world s) w \<Longrightarrow> N (s\<lparr>world := w\<rparr>)"
    and "N (shared (handlers m))" "tasks (handlers m) = []" "pending (event_loop m) = {}"
  shows "N (shared (handlers n))"
proof -
  have "N (shared (handlers n)) \<and> (\<forall>t \<in> set (tasks (handlers n)). T t) \<and> (\<forall>h \<in> pending (event_loop n). T (task_of h))"
    using assms(1,5-7)
  proof (induction rule: manager_runs.induct)
    case (manager_more m n q)
    then have ok: "N (shared (handlers n))" "\<forall>t \<in> set (tasks (handlers n)). T t" "\<forall>h \<in> pending (event_loop n). T (task_of h)"
      by simp_all
    from manager_more(2) show ?case
    proof (cases rule: manager_step.cases)
      case (event h l)
      then show ?thesis
        using ok assms(3) [OF ok(1) event(2)] pending_event [OF event(3,4)] by auto
    next
      case (looped l hs)
      then show ?thesis
        using ok pending_loop [OF looped(2-4)] by auto
    next
      case (handled p)
      from handled(2) show ?thesis
      proof (cases rule: pool_step.cases)
        case (stepped i os t s)
        have "N s \<and> T t"
          using stepped(2) ok by (intro task [OF stepped(3)]) simp_all
        moreover have "set ((tasks (handlers n))[i := t]) \<subseteq> insert t (set (tasks (handlers n)))"
          by (rule set_update_subset_insert)
        ultimately show ?thesis
          using handled(1) stepped(1) ok by auto
      next
        case (changed w)
        then show ?thesis
          using handled(1) ok world by simp
      qed simp
    qed
  qed simp
  then show ?thesis by blast
qed

subsection \<open>The tables under the lock\<close>

text \<open>
  What holds after every section: the document and the flag of a visited pod come and go together, the two
  requests do, a container with a name is in the list of a pod, and the table of containers by name says
  nothing that the table of names does not say.
\<close>

definition names_wf :: "('j, 'w) node \<Rightarrow> bool" where
  "names_wf s \<longleftrightarrow> (\<forall>n uid. ContainerUIDByName s n = Some uid \<longrightarrow> ContainerNameByUid s uid = Some n)"

definition locked_wf :: "('j, 'w) node \<Rightarrow> bool" where
  "locked_wf s \<longleftrightarrow>
     (\<forall>u. map_bool (PodVisitedByUID s) u \<longleftrightarrow> PodByUID s u \<noteq> None) \<and>
     (\<forall>u. CoreRequestByPodUID s u = None \<longleftrightarrow> MemoryRequestByPodUID s u = None) \<and>
     (\<forall>uid. ContainerNameByUid s uid \<noteq> None \<longrightarrow> (\<exists>u. uid \<in> set (map_list (ContainerUIDInPodUID s) u))) \<and>
     names_wf s"

text \<open>An id of a container stands for one container, and a container has one name: \<open>nm\<close> gives it.\<close>

definition status_named :: "('b, 'j, 'w) kube \<Rightarrow> (string \<Rightarrow> string) \<Rightarrow> 'j \<Rightarrow> bool" where
  "status_named k nm status \<longleftrightarrow> (\<forall>v \<in> set (JEach k (JGet k status ''containerStatuses'')). \<forall>x uid rest.
     Split (JString k (JGet k v ''containerID'')) ''docker://'' = x # uid # rest \<longrightarrow>
     JString k (JGet k v ''name'') \<noteq> [] \<longrightarrow> JString k (JGet k v ''name'') = nm uid)"

definition answers_named :: "('b, 'j, 'w) kube \<Rightarrow> ('w \<Rightarrow> bool) \<Rightarrow> (string \<Rightarrow> string) \<Rightarrow> bool" where
  "answers_named k W nm \<longleftrightarrow>
     (\<forall>kind ns name w. W w \<longrightarrow> W (snd (GetResource k kind ns name w))) \<and>
     (\<forall>p w. W w \<longrightarrow> W (snd (UpdateResource k (fst (marshal_pod k p)) w))) \<and>
     (\<forall>ns name w b w'. W w \<longrightarrow> GetResource k ''Pod'' ns name w = ((b, None), w') \<longrightarrow>
        status_named k nm (JGet k (ToJsonObject k b) ''status''))"

definition tables_ok :: "('w \<Rightarrow> bool) \<Rightarrow> (string \<Rightarrow> string) \<Rightarrow> ('j, 'w) node \<Rightarrow> bool" where
  "tables_ok W nm s \<longleftrightarrow> W (world s) \<and> locked_wf s \<and>
     (\<forall>uid n. ContainerNameByUid s uid = Some n \<longrightarrow> n = nm uid)"

fun task_named :: "('b, 'j, 'w) kube \<Rightarrow> (string \<Rightarrow> string) \<Rightarrow> 'j task \<Rightarrow> bool" where
  "task_named k nm (Enter pod) \<longleftrightarrow> status_named k nm (JGet k pod ''status'')"
| "task_named k nm (Await i pod n status) \<longleftrightarrow> status_named k nm status"
| "task_named k nm (Register i pod status) \<longleftrightarrow> status_named k nm status"
| "task_named k nm t \<longleftrightarrow> True"

lemma tables_ok_same:
  "same_tables s s' \<Longrightarrow> tables_ok W nm s' = tables_ok W nm s"
  by (simp add: same_tables_def tables_ok_def locked_wf_def names_wf_def)

lemma tables_ok_world: "tables_ok W nm s \<Longrightarrow> W w \<Longrightarrow> tables_ok W nm (s\<lparr>world := w\<rparr>)"
  by (simp add: tables_ok_def locked_wf_def names_wf_def)

lemma register_named:
  assumes "register_container k u v (flag, s) = Inr (flag', s')" "tables_ok W nm s"
    and "\<And>x uid rest. Split (JString k (JGet k v ''containerID'')) ''docker://'' = x # uid # rest \<Longrightarrow>
       JString k (JGet k v ''name'') \<noteq> [] \<Longrightarrow> JString k (JGet k v ''name'') = nm uid"
  shows "tables_ok W nm s'"
proof (cases "s' = s")
  case False
  then obtain x uid rest where split: "Split (JString k (JGet k v ''containerID'')) ''docker://'' = x # uid # rest"
    and name: "JString k (JGet k v ''name'') \<noteq> []"
    and "s' = s\<lparr>ContainerNameByUid := (ContainerNameByUid s)(uid \<mapsto> JString k (JGet k v ''name'')),
       ContainerUIDByName := (ContainerUIDByName s)(JString k (JGet k v ''name'') \<mapsto> uid),
       ContainerUIDInPodUID := (ContainerUIDInPodUID s)(u \<mapsto> map_list (ContainerUIDInPodUID s) u @ [uid])\<rparr>"
    using assms(1) by (auto simp: register_container_def Let_def split: if_splits list.splits)
  then have s': "s' = enter u (uid, nm uid) s"
    using assms(3) [OF split name] by (simp add: enter_def)
  have names: "ContainerNameByUid s c = Some n \<Longrightarrow> n = nm c" for c n
    using assms(2) by (simp add: tables_ok_def)
  have "\<exists>v. c \<in> set (map_list (ContainerUIDInPodUID s') v)" if "ContainerNameByUid s' c \<noteq> None" for c
  proof (cases "c = uid")
    case True
    then show ?thesis by (intro exI [of _ u]) (simp add: s' enter_def)
  next
    case False
    then have "ContainerNameByUid s c \<noteq> None"
      using that by (simp add: s' enter_def)
    then obtain v where v: "c \<in> set (map_list (ContainerUIDInPodUID s) v)"
      using assms(2) unfolding tables_ok_def locked_wf_def by blast
    then show ?thesis by (intro exI [of _ v]) (cases "v = u"; simp add: s' enter_def)
  qed
  moreover have "names_wf s'"
    using assms(2) names by (auto simp: s' enter_def names_wf_def tables_ok_def locked_wf_def)
  ultimately show ?thesis
    using assms(2) names by (auto simp: tables_ok_def locked_wf_def s' enter_def)
qed (use assms(2) in simp)

lemma register_all_named:
  "go_fold (register_container k u) vs (flag, s) = Inr (flag', s') \<Longrightarrow> tables_ok W nm s \<Longrightarrow>
    (\<forall>v \<in> set vs. \<forall>x uid rest. Split (JString k (JGet k v ''containerID'')) ''docker://'' = x # uid # rest \<longrightarrow>
       JString k (JGet k v ''name'') \<noteq> [] \<longrightarrow> JString k (JGet k v ''name'') = nm uid) \<Longrightarrow> tables_ok W nm s'"
proof (induction vs arbitrary: flag s)
  case (Cons v vs)
  then obtain g r where r: "register_container k u v (flag, s) = Inr (g, r)"
    "go_fold (register_container k u) vs (g, r) = Inr (flag', s')"
    by auto
  have "tables_ok W nm r"
    by (rule register_named [OF r(1) Cons.prems(2)]) (use Cons.prems(3) in auto)
  then show ?case
    using Cons.IH [OF r(2)] Cons.prems(3) by simp
qed simp

lemma tables_ok_forget:
  assumes "tables_ok W nm s"
  shows "tables_ok W nm (forget_pod u s)"
proof -
  let ?t = "forget_pod u s" and ?uids = "map_list (ContainerUIDInPodUID s) u"
  have vis: "map_bool (PodVisitedByUID ?t) v \<longleftrightarrow> v \<noteq> u \<and> map_bool (PodVisitedByUID s) v" for v
    by (cases "v = u") (simp_all add: forget_pod_fields)
  have lists: "\<exists>v. c \<in> set (map_list (ContainerUIDInPodUID ?t) v)" if "ContainerNameByUid ?t c \<noteq> None" for c
  proof -
    have "c \<notin> set ?uids" "ContainerNameByUid s c \<noteq> None"
      using that by (auto simp: forget_pod_fields split: if_splits)
    then obtain v where v: "c \<in> set (map_list (ContainerUIDInPodUID s) v)" "v \<noteq> u"
      using assms unfolding tables_ok_def locked_wf_def by blast
    then show ?thesis
      by (intro exI [of _ v]) (simp add: forget_pod_fields map_list_def)
  qed
  have "ContainerNameByUid ?t c = Some n" if n: "ContainerUIDByName ?t n = Some c" for n c
  proof -
    note left = forget_pod_names(1) [OF n]
    then have "ContainerNameByUid s c = Some n"
      using assms by (auto simp: tables_ok_def locked_wf_def names_wf_def)
    moreover from this have "c \<notin> set ?uids"
      using left by (auto simp: map_string_def)
    ultimately show ?thesis
      by (simp add: forget_pod_fields)
  qed
  then show ?thesis
    using assms vis lists
    by (auto simp: tables_ok_def locked_wf_def names_wf_def forget_pod_fields split: if_splits)
qed

lemma RemoveAll_same_tables: "same_tables s (RemoveAll os p s)"
  by (simp add: same_tables_def node_simps)

lemma tables_ok_delete: "tables_ok W nm s \<Longrightarrow> tables_ok W nm (deletePodPath k os pod s)"
  using tables_ok_forget tables_ok_same [OF RemoveAll_same_tables] by (metis deletePodPath_cases)

lemma store_file_same: "same_tables s (store_file os path fd v s)"
  by (simp add: store_file_def same_tables_def)

lemma open_file_same: "open_file os path s = Some s' \<Longrightarrow> same_tables s s'"
  by (auto simp: open_file_def same_tables_def split: if_splits)

lemma answers_named_get:
  assumes "answers_named k W nm" "W w" "GetResource k kind ns name w = (a, w')"
  shows "W w'"
proof -
  have "W (snd (GetResource k kind ns name w))"
    using assms(1,2) by (simp add: answers_named_def)
  then show ?thesis
    by (simp add: assms(3))
qed

text \<open>Every step of a handler keeps them.\<close>

lemma tables_ok_step:
  "task_step k os t s = Inr (t', s') \<Longrightarrow> tables_ok W nm s \<Longrightarrow> task_named k nm t \<Longrightarrow> answers_named k W nm \<Longrightarrow>
    tables_ok W nm s' \<and> task_named k nm t'"
proof (induction k os t s rule: task_step.induct)
  case (2 k os i pod n status s)
  then show ?case
  proof (cases "n = 0 \<or> JExists k (JGet k status ''containerStatuses'')")
    case False
    obtain b e w where g: "GetResource k ''Pod'' (id_namespace i) (id_name i) (world s) = ((b, e), w)"
      by (metis surj_pair)
    have "W w"
      using 2(2) answers_named_get [OF 2(4) _ g] by (simp add: tables_ok_def)
    then have ok: "tables_ok W nm (s\<lparr>world := w\<rparr>)"
      using 2(2) by (rule tables_ok_world [rotated])
    show ?thesis
    proof (cases e)
      case None
      have "W (world s)"
        using 2(2) by (simp add: tables_ok_def)
      then have "status_named k nm (JGet k (ToJsonObject k b) ''status'')"
        using 2(4) g None unfolding answers_named_def by blast
      then show ?thesis
        using 2(1) False g None ok by auto
    next
      case (Some x)
      then show ?thesis
        using 2(1) False g ok by auto
    qed
  qed (auto split: if_splits)
next
  case (3 k os i pod status s)
  then obtain flag where "go_fold (register_container k (id_uid i))
      (JEach k (JGet k status ''containerStatuses'')) (False, s) = Inr (flag, s')"
    by (auto simp: go_bind_eq_Inr)
  from register_all_named [OF this 3(2)] 3(1,3) show ?case
    by (auto simp: go_bind_eq_Inr status_named_def split: if_splits)
next
  case (7 k os i pod baseDir uid uids s)
  then show ?case
    using tables_ok_same [OF MkdirAll_same [of s os baseDir]] by auto
next
  case (10 k os i pod path v uids s)
  then show ?case
    using tables_ok_same [OF open_file_same [of os path s]] by (auto split: option.splits)
next
  case (11 k os i pod path fd v uids s)
  then show ?case
    using tables_ok_same [OF store_file_same [of s os path fd v]] by auto
next
  case (14 k os i pod s)
  have "map_bool ((PodVisitedByUID s)(id_uid i \<mapsto> True)) u \<longleftrightarrow> u = id_uid i \<or> map_bool (PodVisitedByUID s) u" for u
    by (cases "u = id_uid i") simp_all
  with 14 show ?case
    by (auto simp: tables_ok_def locked_wf_def names_wf_def split: if_splits)
next
  case (15 k os i pod s)
  then show ?case
    using tables_ok_same [OF MkdirAll_same [of s os "Join [VirtualManagerPath, id_uid i]"]]
    by (auto split: prod.splits if_splits)
next
  case (17 k os i s)
  obtain b e w where g: "GetResource k ''Pod'' (id_namespace i) (id_name i) (world s) = ((b, e), w)"
    by (metis surj_pair)
  have "W w"
    using 17(2) answers_named_get [OF 17(4) _ g] by (simp add: tables_ok_def)
  then have ok: "tables_ok W nm (s\<lparr>world := w\<rparr>)"
    by (rule tables_ok_world [OF 17(2)])
  have "s' = s\<lparr>world := w\<rparr> \<and> (t' = Finished \<or> (\<exists>p. t' = Update p))"
  proof (cases e)
    case None
    then show ?thesis
      using 17(1) g by (auto simp: Let_def split: option.splits)
  next
    case (Some x)
    then show ?thesis
      using 17(1) g by auto
  qed
  with ok show ?case by auto
next
  case (18 k os p s)
  then have "W (snd (UpdateResource k (fst (marshal_pod k p)) (world s)))"
    using 18(2,4) by (simp add: answers_named_def tables_ok_def)
  then show ?case
    using 18 tables_ok_world [OF 18(2)] by auto
next
  case (19 k os pod s)
  then show ?case
    using tables_ok_delete by auto
qed (auto simp: tables_ok_def locked_wf_def names_wf_def go_bind_eq_Inr split: option.splits if_splits)

text \<open>
  C17: In every state the manager reaches, however the watcher, the loop, the handlers and changes of the
  world interleave: a pod has a document exactly if it is visited, its two requests are recorded together,
  every container with a name is in the list of a pod, and every entry of the table of containers by name
  is for a container that the table of names gives this name. It is assumed that the documents give one
  container id one name. The other relations of the tables hold when the handlers run one after the other,
  whatever the events and the answers of the system: requests are recorded only for a visited pod, its files
  are marked as written only if it is visited, and its containers are registered only if they are written.
  They do not hold in general (\<open>record_after_deletion\<close>).
\<close>

theorem manager_tables_consistent:
  assumes "answers_named k W nm"
    and "\<And>w pod. W w \<Longrightarrow> arrives w (Create pod) \<Longrightarrow> status_named k nm (JGet k pod ''status'')"
    and "\<And>w w'. W w \<Longrightarrow> env w w' \<Longrightarrow> W w'"
    and "manager_start os w = Inr m0" "W w" "manager_runs k arrives env m0 m"
  shows "locked_wf (shared (handlers m))
    \<and> (\<forall>hs s. run_handlers k hs (NewVirtualManager w) = Inr s \<longrightarrow> tables_wf s)"
proof -
  obtain D where m0: "m0 = \<lparr>event_loop = run_init, handlers = \<lparr>shared = new_node w D, tasks = []\<rparr>\<rparr>"
    using assms(4) by (auto simp: manager_start_def elim!: new_poolE)
  have event: "task_named k nm (task_of h)" if "tables_ok W nm s" "arrives (world s) h"
    for h and s :: "('b, 'c) node"
    using that assms(2) by (cases h) (auto simp: tables_ok_def)
  have "tables_ok W nm (shared (handlers m))"
  proof (rule manager_invariant [OF assms(6), where T = "task_named k nm"])
    show "tables_ok W nm s' \<and> task_named k nm t'"
      if "task_step k os t s = Inr (t', s')" "tables_ok W nm s" "task_named k nm t" for os t s t' s'
      using that assms(1) by (rule tables_ok_step)
    show "tables_ok W nm (s\<lparr>world := w'\<rparr>)" if "tables_ok W nm s" "env (world s) w'" for s w'
      using that assms(3) [of "world s" w'] tables_ok_world [of W nm s w'] by (simp add: tables_ok_def [of W nm s])
    show "tables_ok W nm (shared (handlers m0))"
      using assms(5) by (simp add: m0 tables_ok_def locked_wf_def names_wf_def NewVirtualManager_def map_bool_def)
  qed (use event in \<open>simp_all add: m0 pending_start\<close>)
  then show ?thesis
    using wf_run_handlers [OF _ tables_wf_init] by (auto simp: tables_ok_def)
qed

subsection \<open>An instance\<close>

definition demo_answers :: "server \<Rightarrow> bool" where
  "demo_answers w \<longleftrightarrow> (\<forall>(_, j) \<in> set (pods w). status_named demo_kube (\<lambda>_. ''main'') (JGet demo_kube j ''status''))"

lemma demo_answers_named: "answers_named demo_kube demo_answers (\<lambda>_. ''main'')"
proof -
  have none: "status_named demo_kube nm (JGet demo_kube JMissing p)" for nm p
    by (simp add: status_named_def demo_kube_def json_get_def foldl_missing)
  show ?thesis
    using none
    by (auto simp: answers_named_def demo_answers_def demo_kube_def server_get_def dest!: find_Some_in
        split: option.splits if_splits)
qed

lemma demo_registering:
  "\<exists>m0 m. manager_start demo_os demo_world = Inr m0
    \<and> manager_runs demo_kube (\<lambda>_ h. h = Create demo_ready_pod) (\<lambda>_ _. False) m0 m
    \<and> ContainerUIDByName (shared (handlers m)) ''main'' = Some ''c1''
    \<and> map_list (ContainerUIDInPodUID (shared (handlers m))) ''u1'' = [''c1'']"
proof -
  let ?i = "demo_ident ''true''" and ?st = "demo_status ''docker://c1''" and ?p = demo_ready_pod
    and ?runs = "manager_runs demo_kube (\<lambda>_ h. h = Create demo_ready_pod) (\<lambda>_ _. False)"
  obtain D where m0: "manager_start demo_os demo_world = Inr (\<lparr>event_loop = run_init,
      handlers = \<lparr>shared = new_node demo_world D, tasks = []\<rparr>\<rparr> :: (json, server) manager)"
    by (rule exE [OF demo_manager [of demo_world]])
  let ?s = "new_node demo_world D :: (json, server) node"
  let ?t = "enter ''u1'' (''c1'', ''main'') ?s"
  have status: "JGet demo_kube ?p ''status'' = ?st"
    by (simp add: demo_ready_pod_def demo_json)
  have e: "JExists demo_kube (JGet demo_kube ?st ''containerStatuses'')"
    by (simp add: demo_json)
  have "list_all2 (docker_status demo_kube) (JEach demo_kube (JGet demo_kube ?st ''containerStatuses'')) [(''c1'', ''main'')]"
    by (simp add: demo_json docker_status_def)
  note reg = register_all [OF this, of "''u1''" False ?s]
  have 1: "task_step demo_kube demo_os (Enter ?p) ?s = Inr (Await ?i ?p 100 ?st, ?s)"
    using status by (simp add: demo_ready_pod_def demo_identified) (simp add: demo_ident_def map_bool_def NewVirtualManager_def)
  have 2: "task_step demo_kube demo_os (Await ?i ?p 100 ?st) ?s = Inr (Register ?i ?p ?st, ?s)"
    using e by simp
  have 3: "task_step demo_kube demo_os (Register ?i ?p ?st) ?s = Inr (List_Containers ?i ?p, ?t)"
    using reg by (simp add: demo_ident_def)
  obtain l where l: "?runs \<lparr>event_loop = run_init, handlers = \<lparr>shared = ?s, tasks = []\<rparr>\<rparr>
      \<lparr>event_loop = l, handlers = \<lparr>shared = ?s, tasks = [] @ [Enter ?p]\<rparr>\<rparr>"
    using event_starts [of run_init "\<lambda>_ h. h = Create demo_ready_pod" "\<lparr>shared = ?s, tasks = []\<rparr>" ?p demo_kube "\<lambda>_ _. False"]
    by (auto simp: run_init_def)
  note steps = pool_more [OF pool_more [OF pool_more [OF pool_here last_steps [OF 1]] last_steps [OF 2]] last_steps [OF 3]]
  have "?runs \<lparr>event_loop = run_init, handlers = \<lparr>shared = ?s, tasks = []\<rparr>\<rparr>
      \<lparr>event_loop = l, handlers = \<lparr>shared = ?t, tasks = [] @ [List_Containers ?i ?p]\<rparr>\<rparr>"
    by (rule manager_runs_trans [OF pool_in_manager [OF steps] l])
  moreover have "ContainerUIDByName ?t ''main'' = Some ''c1''" "map_list (ContainerUIDInPodUID ?t) ''u1'' = [''c1'']"
    by (simp_all add: enter_def map_list_def NewVirtualManager_def)
  ultimately show ?thesis
    using m0 by (intro exI conjI) (assumption | simp)+
qed

theorem manager_tables_consistent_witness:
  "\<exists>m0 m. manager_start demo_os demo_world = Inr m0
    \<and> manager_runs demo_kube (\<lambda>_ h. h = Create demo_ready_pod) (\<lambda>_ _. False) m0 m
    \<and> ContainerUIDByName (shared (handlers m)) ''main'' = Some ''c1''
    \<and> ContainerNameByUid (shared (handlers m)) ''c1'' = Some ''main''"
proof -
  obtain m0 m where m: "manager_start demo_os demo_world = Inr m0"
    "manager_runs demo_kube (\<lambda>_ h. h = Create demo_ready_pod) (\<lambda>_ _. False) m0 m"
    "ContainerUIDByName (shared (handlers m)) ''main'' = Some ''c1''"
    using demo_registering by blast
  have "status_named demo_kube (\<lambda>_. ''main'') (JGet demo_kube demo_ready_pod ''status'')"
    by (simp add: status_named_def demo_ready_pod_def demo_json)
  then have event: "status_named demo_kube (\<lambda>_. ''main'') (JGet demo_kube pod ''status'')"
    if "Create pod = Create demo_ready_pod" for pod
    using that by simp
  have world: "demo_answers demo_world"
    by (simp add: demo_answers_def demo_world_def status_named_def demo_kube_def json_get_def foldl_missing)
  have "locked_wf (shared (handlers m))"
    using manager_tables_consistent [OF demo_answers_named event _ m(1) world m(2)] by blast
  then have "ContainerNameByUid (shared (handlers m)) ''c1'' = Some ''main''"
    using m(3) by (simp add: locked_wf_def names_wf_def)
  then show ?thesis
    using m by blast
qed

end
