(* ===== verification/Plugin_Main.thy ===== *)
theory Plugin_Main
  imports Device_Plugin
begin

text \<open>
  \<open>main\<close> of the plugin (\<open>k8sPlugins/main.go\<close>): the GPUs it finds and registers at the start, and
  at the end the servers, their registration with the kubelet and what happens when the kubelet is
  restarted. The answers of the system and of the kubelet are arguments; a server counts as
  listening as long as its socket exists.
\<close>

subsection \<open>The GPUs\<close>

definition main_devices ::
    "nvml \<Rightarrow> ('b, 'j, 'w) kube \<Rightarrow> string \<Rightarrow> 'w \<Rightarrow> (GpuInfo \<times> 'w) go_result" where
  "main_devices nv k env w =
     go_bind (NvmlTest nv NewGpuInfo) (\<lambda>devInfo.
     go_bind (CreateCRD k devInfo env w) (\<lambda>w'. Inr (devInfo, w')))"

text \<open>
  C30: From the probe to the container: if the plugin started on a node whose GPUs have different
  UUIDs, and the listed GPUs are the ones it registered, with whatever earlier requests have booked on
  them, then the GPU that is granted to a request is one that NVML reported, and the container gets
  the device file with the minor number that NVML gave for this GPU. The grant changes nothing but the
  bookings of that GPU, so that the same holds of the next one.
\<close>

theorem granted_device_mounted:
  assumes "main_devices nv k hostname w0 = Inr (m, w1)" "fst (DeviceGetCount nv) = n"
    and "inj_on (uuid_of nv) {..<n}" "serves_gpus k stored"
    and "GetResource k ''GPU'' ''default'' [] w = ((bytes, None), w2)"
    and "list_all2 (document_of k) (items k bytes) gs"
    and "list_all2 booked (map (gpu_object m hostname) [0..<dev_count m]) gs"
    and "\<forall>g \<in> set gs. stored w (crd_name g) = Some g \<and> crd_name g \<noteq> []"
    and "GetGpuResource k c mm w = Inr ((uuid, None), w3)"
  shows "\<exists>i < n. uuid = uuid_of nv i
    \<and> device (''/dev/nvidia'' @ FormatInt (nvml_GetMinorNumber nv i))
        \<in> set (Devices (vcore_response podUid (GetMinorNumber m uuid)))
    \<and> stored w3 = (stored w)(crd_name (gs ! i) \<mapsto> book c mm (gs ! i))
    \<and> booked (gpu_object m hostname i) (book c mm (gs ! i))"
proof -
  have "NvmlTest nv NewGpuInfo = Inr m"
    using assms(1) by (auto simp: main_devices_def go_bind_eq_Inr)
  from NvmlTest_found [OF this assms(3,2)]
  have m: "dev_count m = n" "gpuUid m = map (uuid_of nv) [0..<n]"
    "\<And>i. i < n \<Longrightarrow> GetMinorNumber m (uuid_of nv i) = nvml_GetMinorNumber nv i"
    by simp_all
  obtain g where g: "g \<in> set gs" "uuid = UUID (Spec g)" "stored w3 = (stored w)(crd_name g \<mapsto> book c mm g)"
    using GetGpuResource_booked [OF assms(4-6,8,9)] by blast
  then obtain i where i: "i < length gs" "g = gs ! i"
    by (metis in_set_conv_nth)
  then have n: "i < n" and b: "booked (gpu_object m hostname i) (gs ! i)"
    using assms(7) m(1) by (simp_all add: list_all2_conv_all_nth)
  have "uuid = uuid_of nv i"
    using g(2) i(2) booked_same [OF b] m(2) n by (simp add: gpu_object_def)
  then show ?thesis
    using m(3) g(3) i(2) n booked_book [OF b] by (intro exI [of _ i]) (simp add: vcore_response_def)
qed

definition demo_nvml :: nvml where
  "demo_nvml = \<lparr>nvml_Init = True, nvml_Shutdown = True, DeviceGetCount = (1, True),
     DeviceGetHandleByIndex = (\<lambda>_. True), GetUUID = (\<lambda>_. (''uuid-t4'', True)), nvml_GetMinorNumber = (\<lambda>_. 3),
     GetMemoryInfo = (\<lambda>_. (\<lparr>Total = 16106127360, Free = 16106127360, nvml_Used = 0\<rparr>, True))\<rparr>"

definition demo_found_gpus :: GpuInfo where
  "demo_found_gpus = t4_info\<lparr>minorNumberByUUID := [''uuid-t4'' \<mapsto> 3]\<rparr>"

lemma demo_main_devices:
  "main_devices demo_nvml demo_kube ''n1'' \<lparr>gpus = [], pods = []\<rparr>
     = Inr (demo_found_gpus, \<lparr>gpus = [gpu_object demo_found_gpus ''n1'' 0], pods = []\<rparr>)"
proof -
  have "NvmlTest demo_nvml NewGpuInfo = Inr demo_found_gpus"
    by (simp add: NvmlTest_def demo_nvml_def probe_device_def NewGpuInfo_def demo_found_gpus_def t4_info_def Let_def)
  moreover have dev: "dev_count demo_found_gpus = 1" "length (gpuUid demo_found_gpus) = 1"
    by (simp_all add: demo_found_gpus_def t4_info_def)
  moreover have created: "create_object demo_kube (marshal_gpu demo_kube g) \<lparr>gpus = [], pods = []\<rparr>
      = Inr \<lparr>gpus = [g], pods = []\<rparr>" for g
    by (simp add: create_object_def demo_kube_def)
  ultimately show ?thesis
    using dev by (simp add: main_devices_def CreateCRD_def created)
qed

text \<open>The second grant on a T4: 50 of its cores and 8 blocks are booked already.\<close>

theorem granted_device_mounted_witness:
  "\<exists>w1 w2 w3. main_devices demo_nvml demo_kube ''n1'' \<lparr>gpus = [], pods = []\<rparr> = Inr (demo_found_gpus, w1)
    \<and> GetGpuResource demo_kube 50 8 w1 = Inr ((''uuid-t4'', None), w2)
    \<and> GetGpuResource demo_kube 10 20 w2 = Inr ((''uuid-t4'', None), w3)
    \<and> device ''/dev/nvidia3'' \<in> set (Devices (vcore_response ''u1'' (GetMinorNumber demo_found_gpus ''uuid-t4'')))"
proof -
  let ?g = "gpu_object demo_found_gpus ''n1'' 0" and ?w = "\<lparr>gpus = [gpu_object demo_found_gpus ''n1'' 0], pods = []\<rparr>"
  let ?h = "book 50 8 ?g"
  let ?w2 = "?w\<lparr>gpus := [?h]\<rparr>"
  have t4: "?g = gpu_object t4_info ''n1'' 0"
    by (simp add: gpu_object_def demo_found_gpus_def mem_total_def)
  have first: "GetGpuResource demo_kube 50 8 ?w = Inr ((''uuid-t4'', None), ?w2)"
    using demo_grant [of ?w] t4 by simp
  have name: "crd_name ?h = ''n1-gpu-0''" "UUID (Spec ?h) = ''uuid-t4''"
    using t4_name by (simp_all add: t4) (simp add: gpu_object_def t4_info_def)
  have blocks: "parse_i64 (FormatInt 60) = (60 :: i64)"
    using parse_memory_blocks [of "mem_total t4_info ''uuid-t4''"] t4_blocks by simp
  have uid: "gpuUid t4_info ! 0 = ''uuid-t4''"
    by (simp add: t4_info_def)
  have "memUsed (resource_of ?g) = 0" "coreUsed (resource_of ?g) = 0" "memTotal (resource_of ?g) = 100"
    "coreTotal (resource_of ?g) = 60"
    unfolding t4 using blocks uid t4_blocks by (simp_all add: resource_of_def gpu_object_def)
  moreover have "memTotal (resource_of ?h) = memTotal (resource_of ?g)" "coreTotal (resource_of ?h) = coreTotal (resource_of ?g)"
    "memUsed (resource_of ?h) = memUsed (resource_of ?g) + 50" "coreUsed (resource_of ?h) = coreUsed (resource_of ?g) + 8"
    using book_used [of 50 8 ?g] by (simp_all add: resource_of_def) (simp_all add: book_def Let_def)
  ultimately have "gpu_matches 10 20 (resource_of ?h)"
    by (simp add: gpu_matches_def)
  then have second: "GetGpuResource demo_kube 10 20 ?w2 = Inr ((''uuid-t4'', None), ?w2\<lparr>gpus := [book 10 20 ?h]\<rparr>)"
    using demo_grant_one [of ?w2 ?h 10 20] name by simp
  have docs: "list_all2 (document_of demo_kube) (items demo_kube (Gpus (gpus ?w2))) [?h]"
    using demo_documents [of "gpus ?w2"] by simp
  have regs: "list_all2 booked (map (gpu_object demo_found_gpus ''n1'') [0..<dev_count demo_found_gpus]) [?h]"
    using booked_book [OF booked_refl [of ?g], of 50 8] by (simp add: demo_found_gpus_def t4_info_def)
  have keep: "\<forall>g \<in> set [?h]. demo_stored ?w2 (crd_name g) = Some g \<and> crd_name g \<noteq> []"
    using name by (simp add: demo_stored_def)
  have "\<exists>i < 1. ''uuid-t4'' = uuid_of demo_nvml i
    \<and> device (''/dev/nvidia'' @ FormatInt (nvml_GetMinorNumber demo_nvml i))
        \<in> set (Devices (vcore_response ''u1'' (GetMinorNumber demo_found_gpus ''uuid-t4'')))
    \<and> demo_stored (?w2\<lparr>gpus := [book 10 20 ?h]\<rparr>) = (demo_stored ?w2)(crd_name ([?h] ! i) \<mapsto> book 10 20 ([?h] ! i))
    \<and> booked (gpu_object demo_found_gpus ''n1'' i) (book 10 20 ([?h] ! i))"
    by (rule granted_device_mounted [OF demo_main_devices _ _ demo_serves demo_list docs regs keep second])
      (simp_all add: demo_nvml_def inj_on_def)
  moreover have "FormatInt 3 = ''3''"
    by (simp add: FormatInt_def decimal.simps [of 3] digit_char_def char_of_def bit_0)
  ultimately show ?thesis
    using demo_main_devices first second by (auto simp: demo_nvml_def)
qed

subsection \<open>The servers\<close>

record plugin =
  serverFlag :: bool
  listening :: "string list"
  registrations :: "(string \<times> string) list"

text \<open>\<open>Run\<close> removes the socket, if it can, and listens on a new one, if it can.\<close>

definition server_Run :: "bool \<Rightarrow> bool \<Rightarrow> ResourceServer \<Rightarrow> plugin \<Rightarrow> plugin" where
  "server_Run unlinked listens srv p =
     (if \<not> unlinked then p
      else (let p1 = p\<lparr>listening := removeAll (socketFile srv) (listening p)\<rparr>
            in if \<not> listens then p1 else p1\<lparr>listening := socketFile srv # listening p1\<rparr>))"

definition server_Stop :: "ResourceServer \<Rightarrow> plugin \<Rightarrow> plugin" where
  "server_Stop srv p = p\<lparr>listening := removeAll (socketFile srv) (listening p)\<rparr>"

definition vcoreServer :: ResourceServer where "vcoreServer = NewVcoreResourceServer"

definition vmemServer :: ResourceServer where "vmemServer = NewVmemResourceServer"

definition main_start :: "bool \<times> bool \<Rightarrow> bool \<times> bool \<Rightarrow> string list \<Rightarrow> plugin" where
  "main_start core mem sockets = server_Run (fst mem) (snd mem) vmemServer
     (server_Run (fst core) (snd core) vcoreServer
        \<lparr>serverFlag = False, listening = sockets, registrations = []\<rparr>)"

subsection \<open>Registration\<close>

text \<open>The last element of a path without trailing slashes.\<close>

definition Base :: "string \<Rightarrow> string" where
  "Base p = rev (takeWhile (\<lambda>c. c \<noteq> CHR ''/'') (dropWhile (\<lambda>c. c = CHR ''/'') (rev p)))"

text \<open>The map of servers is ranged over in any order; the first refusal ends the loop.\<close>

fun register_loop :: "(ResourceServer \<Rightarrow> bool) \<Rightarrow> ResourceServer list \<Rightarrow> plugin \<Rightarrow> bool \<times> plugin" where
  "register_loop accepts [] p = (True, p)"
| "register_loop accepts (v # vs) p =
     (if accepts v
      then register_loop accepts vs (p\<lparr>registrations := registrations p @ [(Base (socketFile v), resourceName v)]\<rparr>)
      else (False, p))"

definition registerToKubelet ::
    "bool \<Rightarrow> (ResourceServer \<Rightarrow> bool) \<Rightarrow> ResourceServer list \<Rightarrow> plugin \<Rightarrow> bool \<times> plugin" where
  "registerToKubelet dialled accepts order p =
     (if \<not> dialled then (False, p) else register_loop accepts order p)"

subsection \<open>The loop at the label \<open>restart\<close>\<close>

text \<open>What the system and the kubelet answer in one pass.\<close>

record pass =
  removed :: bool
  unlinks :: bool
  listens :: bool
  dialled :: bool
  accepts :: "ResourceServer \<Rightarrow> bool"
  order :: "ResourceServer list"

text \<open>After a restart of the kubelet \<open>core.sock\<close> is removed and the server for cores is run again.\<close>

definition main_pass :: "pass \<Rightarrow> plugin \<Rightarrow> (bool \<times> plugin) go_result" where
  "main_pass a p =
     go_bind (if serverFlag p
              then (let p1 = server_Stop vcoreServer p in
                    if \<not> removed a then Inl Fatal
                    else Inr (server_Run (unlinks a) (listens a) vcoreServer
                      (p1\<lparr>listening := removeAll (DevicePluginPath @ ''core.sock'') (listening p1)\<rparr>)))
              else Inr p) (\<lambda>p2.
       case registerToKubelet (dialled a) (accepts a) (order a) p2 of
         (True, p3) \<Rightarrow> Inr (True, p3)
       | (False, p3) \<Rightarrow> Inr (False, p3\<lparr>serverFlag := False\<rparr>))"

text \<open>A failed registration is tried again at once; \<open>None\<close> is a loop still trying after all passes.\<close>

fun main_restart :: "pass list \<Rightarrow> plugin \<Rightarrow> plugin option go_result" where
  "main_restart [] p = Inr None"
| "main_restart (a # as) p =
     go_bind (main_pass a p) (\<lambda>(ok, p'). if ok then Inr (Some p') else main_restart as p')"

text \<open>
  The watcher reports that the kubelet created its socket. As its documentation says, a new kubelet
  has deleted all sockets of the directory and knows no registration.
\<close>

definition kubelet_restarts :: "plugin \<Rightarrow> plugin" where
  "kubelet_restarts p = p\<lparr>listening := [], registrations := []\<rparr>"

definition kubelet_created :: "plugin \<Rightarrow> plugin" where
  "kubelet_created p = p\<lparr>serverFlag := True\<rparr>"

text \<open>One restart of the kubelet after the other, each with the passes that follow it.\<close>

fun main_events :: "pass list list \<Rightarrow> plugin \<Rightarrow> plugin option go_result" where
  "main_events [] p = Inr (Some p)"
| "main_events (passes # later) p =
     go_bind (main_restart passes (kubelet_created (kubelet_restarts p))) (\<lambda>r.
       case r of None \<Rightarrow> Inr None | Some p' \<Rightarrow> main_events later p')"

subsection \<open>The socket of the server for memory\<close>

lemma sockets:
  "socketFile vcoreServer = DevicePluginPath @ ''nvidiacore.sock''"
  "socketFile vmemServer = DevicePluginPath @ ''nvidiamem.sock''"
  by (simp_all add: vcoreServer_def vmemServer_def NewVcoreResourceServer_def NewVmemResourceServer_def
      DevicePluginPath_def NvidiaCoreSocketName_def NvidiaMemSocketName_def Join_def Clean_def)

lemma register_loop_frame: "listening (snd (register_loop acc vs p)) = listening p"
  by (induction acc vs p rule: register_loop.induct) simp_all

lemma register_loop_keeps:
  "x \<in> set (registrations p) \<Longrightarrow> x \<in> set (registrations (snd (register_loop acc vs p)))"
  by (induction acc vs p rule: register_loop.induct) simp_all

lemma register_loop_registers:
  "fst (register_loop acc vs p) \<Longrightarrow> v \<in> set vs \<Longrightarrow>
    (Base (socketFile v), resourceName v) \<in> set (registrations (snd (register_loop acc vs p)))"
  by (induction acc vs p rule: register_loop.induct) (auto intro: register_loop_keeps split: if_splits)

lemma server_Run_other:
  "socketFile srv \<noteq> f \<Longrightarrow> f \<in> set (listening (server_Run u l srv p)) \<longleftrightarrow> f \<in> set (listening p)"
  by (simp add: server_Run_def Let_def)

text \<open>A pass starts no server but the one for cores, and registers all if it succeeds.\<close>

lemma main_pass_effect:
  assumes "main_pass a p = Inr (ok, p')" "socketFile vmemServer \<notin> set (listening p)"
  shows "socketFile vmemServer \<notin> set (listening p')
    \<and> (ok \<longrightarrow> (\<forall>v \<in> set (order a). (Base (socketFile v), resourceName v) \<in> set (registrations p')))"
proof -
  obtain p2 where p2: "socketFile vmemServer \<notin> set (listening p2)"
    "(case registerToKubelet (dialled a) (accepts a) (order a) p2 of
        (True, p3) \<Rightarrow> Inr (True, p3) | (False, p3) \<Rightarrow> Inr (False, p3\<lparr>serverFlag := False\<rparr>))
      = (Inr (ok, p') :: (bool \<times> plugin) go_result)"
  proof -
    let ?p1 = "(server_Stop vcoreServer p)\<lparr>listening :=
      removeAll (DevicePluginPath @ ''core.sock'') (listening (server_Stop vcoreServer p))\<rparr>"
    have "socketFile vmemServer \<notin> set (listening (server_Run (unlinks a) (listens a) vcoreServer ?p1))"
      using assms(2) by (subst server_Run_other) (simp_all add: sockets server_Stop_def)
    then show ?thesis
      using that assms by (auto simp: main_pass_def go_bind_eq_Inr Let_def split: if_splits)
  qed
  have "\<forall>v \<in> set (order a). (Base (socketFile v), resourceName v) \<in> set (registrations p')" if ok
    using p2(2) that register_loop_registers [of "accepts a" "order a" p2]
    by (auto simp: registerToKubelet_def split: if_splits prod.splits bool.splits)
  moreover have "listening p' = listening p2"
    using p2(2) register_loop_frame [of "accepts a" "order a" p2]
    by (auto simp: registerToKubelet_def split: if_splits prod.splits bool.splits)
  ultimately show ?thesis
    using p2(1) by simp
qed

lemma main_restart_effect:
  assumes "main_restart passes p = Inr (Some p')" "socketFile vmemServer \<notin> set (listening p)"
    and "\<forall>a \<in> set passes. v \<in> set (order a)"
  shows "socketFile vmemServer \<notin> set (listening p') \<and> (Base (socketFile v), resourceName v) \<in> set (registrations p')"
  using assms
proof (induction passes arbitrary: p)
  case (Cons a passes)
  then obtain ok p1 where p1: "main_pass a p = Inr (ok, p1)"
    "(if ok then Inr (Some p1) else main_restart passes p1) = Inr (Some p')"
    by auto
  note e = main_pass_effect [OF p1(1) Cons.prems(2)]
  show ?case
    using e p1(2) Cons.IH [of p1] Cons.prems(3) by (cases ok) auto
qed simp

text \<open>
  C31: After the first restart of the kubelet the memory of GPUs cannot be allocated any more: in
  every state in which the plugin has registered again, however often the kubelet restarts and
  however often the registration had to be tried, the resource is registered with the socket of a
  server that was not started again, and the socket does not exist.
\<close>

theorem memory_socket_lost:
  assumes "main_events (passes # later) p = Inr (Some p')"
    and "\<forall>as \<in> set (passes # later). \<forall>a \<in> set as. vmemServer \<in> set (order a)"
  shows "(''nvidiamem.sock'', ''iscas.cn/gpu-memory'') \<in> set (registrations p')
    \<and> ''/var/lib/kubelet/device-plugins/nvidiamem.sock'' \<notin> set (listening p')"
proof -
  have "socketFile vmemServer \<notin> set (listening p')
      \<and> (Base (socketFile vmemServer), resourceName vmemServer) \<in> set (registrations p')"
    using assms
  proof (induction later arbitrary: passes p)
    case Nil
    then show ?case
      using main_restart_effect [of passes "kubelet_created (kubelet_restarts p)" p' vmemServer]
      by (auto simp: kubelet_created_def kubelet_restarts_def split: option.splits)
  next
    case (Cons next_passes later)
    then obtain p1 where "main_events (next_passes # later) p1 = Inr (Some p')"
      by (auto simp del: main_events.simps(2) simp: main_events.simps(2) [of passes] go_bind_eq_Inr split: option.splits)
    then show ?case
      using Cons.IH Cons.prems(2) by (metis list.set_intros(2))
  qed
  moreover have "Base (socketFile vmemServer) = ''nvidiamem.sock''"
    by (simp add: sockets Base_def DevicePluginPath_def)
  ultimately show ?thesis
    by (simp add: sockets) (simp add: DevicePluginPath_def vmemServer_def NewVmemResourceServer_def ResourceMemory_def)
qed

definition demo_pass :: "bool \<Rightarrow> pass" where
  "demo_pass up = \<lparr>removed = True, unlinks = True, listens = True, dialled = up,
     accepts = (\<lambda>_. True), order = [vmemServer, vcoreServer]\<rparr>"

text \<open>The second of two passes reaches the kubelet; the server for cores has its socket again.\<close>

theorem memory_socket_lost_witness:
  "\<exists>p. main_events [[demo_pass False, demo_pass True]] (main_start (True, True) (True, True) []) = Inr (Some p)
    \<and> listening p = [DevicePluginPath @ ''nvidiacore.sock'']
    \<and> ''/var/lib/kubelet/device-plugins/nvidiamem.sock'' \<notin> set (listening p)"
proof -
  have run: "main_events [[demo_pass False, demo_pass True]] (main_start (True, True) (True, True) []) =
    Inr (Some \<lparr>serverFlag = False, listening = [socketFile vcoreServer], registrations =
      [(Base (socketFile vmemServer), resourceName vmemServer), (Base (socketFile vcoreServer), resourceName vcoreServer)]\<rparr>)"
    by (simp add: main_pass_def demo_pass_def main_start_def kubelet_created_def kubelet_restarts_def
        server_Run_def server_Stop_def registerToKubelet_def)
  show ?thesis
    using run memory_socket_lost [OF run] by (simp add: demo_pass_def sockets)
qed

end
