(* ===== verification/Plugin_Process.thy ===== *)
theory Plugin_Process
  imports Plugin_Main
begin

text \<open>
  The process of the plugin from its flags to its end: \<open>main\<close> of \<open>k8sPlugins/main.go\<close> as a whole, with
  the watchers of \<open>k8sPlugins/sockWatcher.go\<close>, over the parts of \<open>Plugin_Main\<close>.
\<close>

unbundle bit_operations_syntax

subsection \<open>The watchers\<close>

text \<open>
  A watcher of \<open>fsnotify\<close> is the files it watches until it is closed. Its constructor and \<open>Add\<close> answer
  with an error or \<open>None\<close>; the result is the watcher that is returned, the error, and the watcher
  that was made.
\<close>

record file_watcher =
  watched :: "string list"
  is_open :: bool

fun add_files ::
    "(string \<Rightarrow> string option) \<Rightarrow> string list \<Rightarrow> file_watcher
     \<Rightarrow> (file_watcher option \<times> string option) \<times> file_watcher option" where
  "add_files adds [] v = ((Some v, None), Some v)"
| "add_files adds (f # fs) v =
     (case adds f of
        Some err \<Rightarrow> ((None, Some err), Some (v\<lparr>is_open := False\<rparr>))
      | None \<Rightarrow> add_files adds fs (v\<lparr>watched := watched v @ [f]\<rparr>))"

definition NewFileWatcher ::
    "string option \<Rightarrow> (string \<Rightarrow> string option) \<Rightarrow> string list
     \<Rightarrow> (file_watcher option \<times> string option) \<times> file_watcher option" where
  "NewFileWatcher create adds fs =
     (case create of
        Some err \<Rightarrow> ((None, Some err), None)
      | None \<Rightarrow> add_files adds fs \<lparr>watched = [], is_open = True\<rparr>)"

text \<open>No watcher is left open without being returned, and one that is returned watches all files.\<close>

lemma add_files_result:
  "add_files adds fs v = ((r, err), made) \<Longrightarrow>
     (r = None \<and> err \<noteq> None \<and> (\<exists>v'. made = Some v' \<and> \<not> is_open v'))
     \<or> (r = Some (v\<lparr>watched := watched v @ fs\<rparr>) \<and> err = None)"
  by (induction adds fs v rule: add_files.induct) (auto split: option.splits, metis)

lemma NewFileWatcher_leaves_none_open:
  "NewFileWatcher create adds fs = ((r, err), made) \<Longrightarrow>
     (r = None \<and> err \<noteq> None \<and> (made = None \<or> (\<exists>v. made = Some v \<and> \<not> is_open v)))
     \<or> (r = Some \<lparr>watched = fs, is_open = True\<rparr> \<and> err = None)"
  using add_files_result [of adds fs "\<lparr>watched = [], is_open = True\<rparr>" r err made]
  by (auto simp: NewFileWatcher_def split: option.splits)

text \<open>
  A channel for signals with room for one: \<open>os/signal\<close> does not block and drops a signal that finds
  it full.
\<close>

datatype os_signal = SIGHUP | SIGINT | SIGTERM | Other_Signal nat

record signal_chan =
  notified :: "os_signal list"
  buffered :: "os_signal list"

definition NewOSWatcher :: "os_signal list \<Rightarrow> signal_chan" where
  "NewOSWatcher sigs = \<lparr>notified = sigs, buffered = []\<rparr>"

definition arrives :: "os_signal \<Rightarrow> signal_chan \<Rightarrow> signal_chan" where
  "arrives sig c =
     (if sig \<in> set (notified c) \<and> length (buffered c) < 1 then c\<lparr>buffered := buffered c @ [sig]\<rparr> else c)"

subsection \<open>The loop of events\<close>

text \<open>
  What happens to the running plugin: a new kubelet clears its directory, the watcher reports an
  event or an error, or a signal arrives. Each event carries the answers to the passes it starts.
  \<open>KubeletSocket\<close> and \<open>fsnotify.Create\<close> have the values that the libraries document.
\<close>

definition KubeletSocket :: string where "KubeletSocket = DevicePluginPath @ ''kubelet.sock''"

definition fsnotify_Create :: "32 word" where "fsnotify_Create = 1"

datatype happening =
    Directory_Cleared
  | File_Event string "32 word" "pass list"
  | Watch_Error
  | Signalled os_signal

definition main_signals :: signal_chan where "main_signals = NewOSWatcher [SIGHUP, SIGINT, SIGTERM]"

definition starts_restart :: "string \<Rightarrow> 32 word \<Rightarrow> bool" where
  "starts_restart path op \<longleftrightarrow> path = KubeletSocket \<and> op AND fsnotify_Create = fsnotify_Create"

fun main_loop :: "happening list \<Rightarrow> plugin \<Rightarrow> plugin option go_result" where
  "main_loop [] p = Inr (Some p)"
| "main_loop (Directory_Cleared # hs) p = main_loop hs (kubelet_restarts p)"
| "main_loop (File_Event path op passes # hs) p =
     (if starts_restart path op
      then go_bind (main_restart passes (kubelet_created p)) (\<lambda>r.
        case r of None \<Rightarrow> Inr None | Some p' \<Rightarrow> main_loop hs p')
      else main_loop hs p)"
| "main_loop (Watch_Error # hs) p = main_loop hs p"
| "main_loop (Signalled sig # hs) p =
     (if buffered (arrives sig main_signals) \<noteq> [] then Inl Fatal else main_loop hs p)"

text \<open>The restarts of \<open>Plugin_Main\<close> are the runs of this loop in which nothing else happens.\<close>

lemma main_events_loop:
  "main_events passes p = main_loop (concat (map (\<lambda>ps.
     [Directory_Cleared, File_Event KubeletSocket fsnotify_Create ps]) passes)) p"
proof (induction passes arbitrary: p)
  case (Cons ps passes)
  then have "main_events passes = main_loop (concat (map (\<lambda>ps.
      [Directory_Cleared, File_Event KubeletSocket fsnotify_Create ps]) passes))"
    by (rule ext)
  then show ?case
    by (simp add: starts_restart_def cong: option.case_cong)
qed simp

subsection \<open>The process\<close>

text \<open>
  The signals are looked at from the loop on. A failed registration is repeated for as long as there
  are answers; \<open>None\<close> is a plugin that is still trying.
\<close>

definition main_plugin ::
    "string \<Rightarrow> string \<Rightarrow> string \<Rightarrow> nvml \<Rightarrow> ('b, 'j, 'w) kube \<Rightarrow> 'w \<Rightarrow> bool \<times> bool \<Rightarrow> bool \<times> bool \<Rightarrow> string list
     \<Rightarrow> string option \<Rightarrow> (string \<Rightarrow> string option) \<Rightarrow> pass list \<Rightarrow> happening list
     \<Rightarrow> (GpuInfo \<times> 'w \<times> plugin option) go_result" where
  "main_plugin url token env nv k w core mem sockets create adds passes hs =
     (if url = [] \<or> token = [] then Inl Fatal
      else go_bind (main_devices nv k env w) (\<lambda>(devInfo, w1).
        case NewFileWatcher create adds [DevicePluginPath] of
          ((_, Some _), _) \<Rightarrow> Inl Fatal
        | ((_, None), _) \<Rightarrow>
            go_bind (main_restart passes (main_start core mem sockets)) (\<lambda>r.
              case r of
                None \<Rightarrow> Inr (devInfo, w1, None)
              | Some p \<Rightarrow> go_bind (main_loop hs p) (\<lambda>r'. Inr (devInfo, w1, r')))))"

subsection \<open>The resource for cores comes back\<close>

definition core_listens :: "plugin \<Rightarrow> bool" where
  "core_listens p \<longleftrightarrow> socketFile vcoreServer \<in> set (listening p)"

definition core_registered :: "plugin \<Rightarrow> bool" where
  "core_registered p \<longleftrightarrow> (Base (socketFile vcoreServer), resourceName vcoreServer) \<in> set (registrations p)"

text \<open>
  A pass in which the system removes and makes the sockets and the map of servers has the one for cores,
  one in which the kubelet answers, and passes of which one gets an answer.
\<close>

definition fair_pass :: "pass \<Rightarrow> bool" where
  "fair_pass a \<longleftrightarrow> removed a \<and> unlinks a \<and> listens a \<and> vcoreServer \<in> set (order a)"

definition answered :: "pass \<Rightarrow> bool" where
  "answered a \<longleftrightarrow> dialled a \<and> (\<forall>v \<in> set (order a). accepts a v)"

definition good_passes :: "pass list \<Rightarrow> bool" where
  "good_passes passes \<longleftrightarrow> (\<forall>a \<in> set passes. fair_pass a) \<and> (\<exists>a \<in> set passes. answered a)"

lemma register_all_accepted:
  "\<forall>v \<in> set vs. acc v \<Longrightarrow> fst (register_loop acc vs p)"
  by (induction acc vs p rule: register_loop.induct) simp_all

lemma core_register_loop:
  assumes "registerToKubelet d acc vs p = (ok, p')"
  shows "listening p' = listening p" "ok \<Longrightarrow> vcoreServer \<in> set vs \<Longrightarrow> core_registered p'"
proof -
  show "listening p' = listening p"
    using assms register_loop_frame [of acc vs p] by (auto simp: registerToKubelet_def split: if_splits)
  show "core_registered p'" if "ok" "vcoreServer \<in> set vs"
    using assms that register_loop_registers [of acc vs p vcoreServer]
    by (auto simp: registerToKubelet_def core_registered_def split: if_splits)
qed

text \<open>
  \<open>Run\<close> is started with \<open>go\<close>: it does not matter whether it makes its socket before the registration, as
  \<open>main_pass\<close> has it, or after.
\<close>

lemma server_Run_registrations [simp]:
  "server_Run u l srv (p\<lparr>registrations := r\<rparr>) = (server_Run u l srv p)\<lparr>registrations := r\<rparr>"
  "registrations (server_Run u l srv p) = registrations p"
  by (simp_all add: server_Run_def Let_def)

lemma run_beside_registration:
  "registerToKubelet d acc vs (server_Run u l srv p) = map_prod id (server_Run u l srv) (registerToKubelet d acc vs p)"
proof -
  have "register_loop acc vs (server_Run u l srv p) = map_prod id (server_Run u l srv) (register_loop acc vs p)"
  proof (induction vs arbitrary: p)
    case (Cons v vs)
    from Cons [of "p\<lparr>registrations := registrations p @ [(Base (socketFile v), resourceName v)]\<rparr>"] show ?case
      by simp
  qed simp
  then show ?thesis
    by (simp add: registerToKubelet_def)
qed

lemma core_pass:
  assumes "fair_pass a" "serverFlag p \<or> core_listens p"
  shows "\<exists>ok p'. main_pass a p = Inr (ok, p') \<and> core_listens p' \<and> (ok \<longrightarrow> core_registered p') \<and> (answered a \<longrightarrow> ok)"
proof -
  let ?p2 = "if serverFlag p then server_Run True True vcoreServer ((server_Stop vcoreServer p)\<lparr>listening :=
      removeAll (DevicePluginPath @ ''core.sock'') (listening (server_Stop vcoreServer p))\<rparr>) else p"
  obtain ok p3 where r: "registerToKubelet (dialled a) (accepts a) (order a) ?p2 = (ok, p3)"
    by fastforce
  have "core_listens ?p2"
    using assms(2) by (auto simp: core_listens_def server_Run_def Let_def)
  then have "core_listens p3"
    using core_register_loop(1) [OF r] by (simp add: core_listens_def)
  moreover have "ok \<Longrightarrow> core_registered p3"
    using core_register_loop(2) [OF r] assms(1) by (simp add: fair_pass_def)
  moreover have "answered a \<Longrightarrow> ok"
    using r register_all_accepted [of "order a" "accepts a" ?p2] by (simp add: answered_def registerToKubelet_def)
  moreover have "main_pass a p = Inr (if ok then (True, p3) else (False, p3\<lparr>serverFlag := False\<rparr>))"
    using r assms(1) by (cases ok; cases "serverFlag p") (simp_all add: main_pass_def fair_pass_def Let_def)
  ultimately show ?thesis
    by (cases ok) (auto simp: core_listens_def)
qed

lemma core_restart:
  assumes "good_passes passes" "serverFlag p \<or> core_listens p"
  shows "\<exists>p'. main_restart passes p = Inr (Some p') \<and> core_listens p' \<and> core_registered p'"
  using assms
proof (induction passes arbitrary: p)
  case (Cons a passes)
  then have "fair_pass a"
    by (simp add: good_passes_def)
  from core_pass [OF this Cons.prems(2)] obtain ok p1 where p1: "main_pass a p = Inr (ok, p1)" "core_listens p1"
    "ok \<longrightarrow> core_registered p1" "answered a \<longrightarrow> ok"
    by blast
  show ?case
  proof (cases ok)
    case False
    then have "good_passes passes"
      using Cons.prems(1) p1(4) by (auto simp: good_passes_def)
    then show ?thesis
      using Cons.IH [of p1] p1(1,2) False by simp
  qed (use p1 in simp)
qed (simp add: good_passes_def)

text \<open>
  A kubelet that restarts clears its directory and creates its socket later; in between the watcher may
  report anything, the removal of the sockets above all, and the directory may be cleared again. No
  signal ends the plugin. The argument says whether the directory is cleared and the socket still to come.
\<close>

fun kubelet_returns :: "bool \<Rightarrow> happening list \<Rightarrow> bool" where
  "kubelet_returns cleared [] \<longleftrightarrow> \<not> cleared"
| "kubelet_returns cleared (Directory_Cleared # hs) \<longleftrightarrow> kubelet_returns True hs"
| "kubelet_returns cleared (File_Event path op passes # hs) \<longleftrightarrow>
     (if starts_restart path op then good_passes passes \<and> kubelet_returns False hs else kubelet_returns cleared hs)"
| "kubelet_returns cleared (Watch_Error # hs) \<longleftrightarrow> kubelet_returns cleared hs"
| "kubelet_returns cleared (Signalled sig # hs) \<longleftrightarrow> sig \<notin> set (notified main_signals) \<and> kubelet_returns cleared hs"

lemma core_loop:
  "kubelet_returns cleared hs \<Longrightarrow> (\<not> cleared \<Longrightarrow> core_listens p \<and> core_registered p) \<Longrightarrow>
    \<exists>p'. main_loop hs p = Inr (Some p') \<and> core_listens p' \<and> core_registered p'"
proof (induction cleared hs arbitrary: p rule: kubelet_returns.induct)
  case (3 cleared path op passes hs)
  show ?case
  proof (cases "starts_restart path op")
    case True
    then have good: "good_passes passes" "kubelet_returns False hs"
      using 3(3) by simp_all
    obtain p1 where "main_restart passes (kubelet_created p) = Inr (Some p1)" "core_listens p1" "core_registered p1"
      using core_restart [OF good(1), of "kubelet_created p"] by (auto simp: kubelet_created_def)
    then show ?thesis
      using 3(1) [OF True good(2), of p1] True by simp
  next
    case False
    then show ?thesis
      using 3(2) [OF False, of p] 3(3,4) by simp
  qed
next
  case (5 cleared sig hs)
  then have "buffered (arrives sig main_signals) = []"
    by (simp add: arrives_def main_signals_def NewOSWatcher_def)
  then show ?case
    using 5 by simp
qed auto

text \<open>
  C32: The resource for cores survives every restart of the kubelet: if the plugin gets its flags, the
  device database and a watcher, if after every clearing of its directory the kubelet creates its
  socket at some later time, and if then one of the attempts to register is answered, \<open>main\<close> gets through
  all of it; in the end the resource is registered with the socket of its server, and the server listens
  on it. This holds whatever else the watcher reports, the removal of the plugin's own sockets included,
  and however many attempts fail before.
\<close>

theorem core_resource_returns:
  assumes "url \<noteq> []" "token \<noteq> []" "main_devices nv k env w = Inr (devInfo, w')"
    and "adds DevicePluginPath = None" "good_passes passes" "kubelet_returns False hs"
  shows "\<exists>p. main_plugin url token env nv k w (True, True) mem sockets None adds passes hs = Inr (devInfo, w', Some p)
    \<and> (''nvidiacore.sock'', ''iscas.cn/gpu-core'') \<in> set (registrations p)
    \<and> ''/var/lib/kubelet/device-plugins/nvidiacore.sock'' \<in> set (listening p)"
proof -
  let ?p0 = "main_start (True, True) mem sockets"
  have "socketFile vmemServer \<noteq> socketFile vcoreServer"
    by (simp add: sockets)
  then have "core_listens ?p0"
    by (simp add: core_listens_def main_start_def server_Run_other) (simp add: server_Run_def Let_def)
  then obtain p1 where p1: "main_restart passes ?p0 = Inr (Some p1)" "core_listens p1 \<and> core_registered p1"
    using core_restart [OF assms(5)] by blast
  obtain p where p: "main_loop hs p1 = Inr (Some p)" "core_listens p" "core_registered p"
    using core_loop [OF assms(6) p1(2)] by blast
  have "main_plugin url token env nv k w (True, True) mem sockets None adds passes hs = Inr (devInfo, w', Some p)"
    using assms(1-4) p1(1) p(1) by (simp add: main_plugin_def NewFileWatcher_def)
  moreover have "Base (socketFile vcoreServer) = ''nvidiacore.sock''"
    by (simp add: sockets Base_def DevicePluginPath_def)
  ultimately show ?thesis
    using p(2,3) by (intro exI [of _ p]) (simp add: core_listens_def core_registered_def sockets,
      simp add: DevicePluginPath_def vcoreServer_def NewVcoreResourceServer_def ResourceCore_def)
qed

text \<open>A restart as a watcher reports it: both sockets and the kubelet's are removed before it is created again.\<close>

theorem core_resource_returns_witness:
  "\<exists>p. main_plugin ''https://10.0.0.1'' ''t'' ''n1'' demo_nvml demo_kube \<lparr>gpus = [], pods = []\<rparr> (True, True) (True, True) []
       None (\<lambda>_. None) [demo_pass True] [Watch_Error, Directory_Cleared,
         File_Event (DevicePluginPath @ ''nvidiacore.sock'') 4 [], File_Event (DevicePluginPath @ ''nvidiamem.sock'') 4 [],
         File_Event KubeletSocket 4 [], File_Event KubeletSocket 1 [demo_pass False, demo_pass True], Signalled (Other_Signal 17)]
     = Inr (demo_found_gpus, \<lparr>gpus = [gpu_object demo_found_gpus ''n1'' 0], pods = []\<rparr>, Some p)
    \<and> ''/var/lib/kubelet/device-plugins/nvidiacore.sock'' \<in> set (listening p)"
proof -
  have ops: "starts_restart KubeletSocket 1" "\<not> starts_restart f 4" for f
    by (simp_all add: starts_restart_def fsnotify_Create_def)
  have passes: "good_passes [demo_pass True]" "good_passes [demo_pass False, demo_pass True]"
    by (simp_all add: good_passes_def fair_pass_def answered_def demo_pass_def)
  have "kubelet_returns False [Watch_Error, Directory_Cleared, File_Event (DevicePluginPath @ ''nvidiacore.sock'') 4 [],
      File_Event (DevicePluginPath @ ''nvidiamem.sock'') 4 [], File_Event KubeletSocket 4 [],
      File_Event KubeletSocket 1 [demo_pass False, demo_pass True], Signalled (Other_Signal 17)]"
    using ops passes(2) by (simp add: main_signals_def NewOSWatcher_def)
  note r = core_resource_returns [OF _ _ demo_main_devices _ passes(1) this]
  have a: "''https://10.0.0.1'' \<noteq> []" "''t'' \<noteq> []" "(\<lambda>_. None) DevicePluginPath = None"
    by simp_all
  from r [OF a, of "(True, True)" "[]"] show ?thesis
    by (elim exE conjE) (intro exI conjI, assumption+)
qed

end
