(* ===== verification/Spec2Isabelle.thy ===== *)
theory Spec2Isabelle
  imports Limiter_Concurrency Hook_Bucket Concurrent_Delivery Handler_Races Manager_Tables Plugin_Process
begin

text \<open>
  uni-share shares one accelerator (an NVIDIA GPU or a Cambricon MLU) between containers. Its C
  part, under \<open>src/core\<close>, is a library that is preloaded into the processes of a container: it
  replaces functions of the device drivers and of \<open>dlsym\<close>, reads the container's share from a
  file, and keeps the container to its share of the device by a token bucket. Its Go part, under
  \<open>src/k8sPlugins\<close>, runs once on each node: it registers the devices with Kubernetes, chooses a
  GPU for each pod, writes those files and tells the kubelet what to mount. This development
  models both parts, and ends with the way of a limit from the document of a pod to the control
  thread in its container (\<open>Limit_Delivery\<close>).

  \<^bold>\<open>How the program works.\<close> The application looks driver functions up with \<open>dlsym\<close> or
  \<open>cuGetProcAddress\<close> and gets wrappers of this library for some of them. The first call of an
  initialising wrapper finds out which container the process is in, reads
  \<open>/etc/unishare/vm/<container>/vcuda.config\<close>, loads the addresses of all driver functions into
  a table and creates a control thread. The control thread initialises the device's monitoring
  library, and then measures the utilization every 200 ms, moves a share towards the limit of
  the configuration and puts it into the bucket \<open>cur_cores\<close>. A kernel launch takes the number of
  its blocks from the bucket, and waits while the bucket is negative. Threads update the bucket
  by compare-and-swap. Allocations on an MLU are compared with a quota.

  On the node, the plugin enumerates the GPUs with NVML and creates an object for each. A watcher
  puts the events of pods into two queues, and the manager's loop starts a handler for each
  event. The first event of a pod makes its directory \<open>/etc/unishare/vm/<pod>\<close>, sums up its limits
  and annotates it as ready. The kubelet then asks the device plugin to allocate; \<open>Allocate\<close> finds
  the pending pod the request is for, waits for the annotation, books a GPU, has the directory and
  the hook library mounted and marks the pod as assigned. That is the event upon which the manager
  writes the file of each container. A deletion removes the directory.

  \<^bold>\<open>Theories and sources.\<close> First the C part.

  \<^item> \<open>C_Prelude\<close>: what the components need of C. A function that may fail returns \<open>c_error + 'a\<close>;
    a signed overflow, a division by zero, a null pointer, an access outside an array and a call
    of \<open>exit\<close> are values of \<open>c_error\<close>. \<open>int\<close> is the type \<open>int\<close> with checked operations,
    \<open>unsigned int\<close> and \<open>uint64_t\<close> are words that wrap.
  \<^item> \<open>C_Strings\<close>: the functions of \<open>string.h\<close> and \<open>stdio.h\<close> the sources use, on character arrays
    whose bounds are checked, and text files with their end-of-file flag.
  \<^item> \<open>Device_Monitor\<close>: \<open>monitor/monitor.c\<close>, \<open>monitor_gpu.c\<close>, \<open>monitor_mlu.c\<close>. Initialisation and
    the queries of utilization and memory; NVML, CUDA and CNDEV are arguments. The query loop
    without a bound is a \<open>partial_function\<close>, so that not returning is the value \<open>None\<close>.
  \<^item> \<open>Core_Controller\<close>: \<open>controller/pc_alg.c\<close> run by one thread at a time. The two share functions
    are interpretations of the locale \<open>share_policy\<close>, in which the bounds of the share, its
    direction and the runs of the control loop are proved once.
  \<^item> \<open>Token_Bucket\<close>: the contract of the bucket, as the locale \<open>token_bucket\<close>: what taking, putting
    and overwriting do to its level, and what follows for sequences of them. Its instances are
    the bucket as a pair of numbers (\<open>abstract\<close>) and \<open>rate_limiter\<close> and \<open>change_token\<close> without
    interference (\<open>sequential\<close>).
  \<^item> \<open>Limiter_Concurrency\<close>: \<open>rate_limiter\<close>, \<open>change_token\<close> and the loop of \<open>source_control\<close> under
    interleaving, as the step relation \<open>limiter_step\<close> of any number of launchers and one
    controller. Every run performs a sequence of operations of the abstract bucket; how far it
    can be overdrawn, what a negative bucket does and who makes progress are consequences.
  \<^item> \<open>Cgroup_Parser\<close>: \<open>getStr\<close>, \<open>get_cgroupV2_data\<close>, \<open>get_cgroup_data\<close> and \<open>checkCgroupVersion\<close> of
    \<open>container/contInfoReg.c\<close>: from the lines of the files under \<open>/proc\<close> to the identifiers,
    for both versions of cgroups and for the path layouts of systemd and cgroupfs.
  \<^item> \<open>Container_Config\<close>: the rest of that file and \<open>container/container.h\<close>: the paths, the record and
    its bytes, \<open>read_controller_configuration\<close> with each way it ends the process; and
    \<open>setting_to_disk\<close>, the C function of \<open>k8sPlugins/resourceManager/manager.go\<close> that writes
    the record.
  \<^item> \<open>Driver_Tables\<close>: the enumerators of \<open>interceptor/hijack.h\<close> and the names of the tables of
    \<open>hijack_mlu.c\<close> and \<open>hijack_gpu.c\<close>, all of them, as lists.
  \<^item> \<open>Symbol_Table\<close>: the loaders of the tables, \<open>real_dlsym\<close> and the access by enumerator. The locale
    \<open>symbol_table\<close> states that an enumeration fits its table; it is interpreted for both
    libraries (\<open>cndrv\<close>, \<open>cuda\<close>), with the six CUDA functions that do not fit by name as its
    parameter \<open>rename\<close>.
  \<^item> \<open>Hook_State\<close>: the state the wrappers share, \<open>MY_CALL_ENTRY\<close>, \<open>pthread_once\<close>, the creation of
    the control threads, and \<open>dlsym\<close> of \<open>hijack_dlsym.c\<close>.
  \<^item> \<open>Hook_Gpu\<close>, \<open>Hook_Mlu\<close>: the wrappers of \<open>hijack_gpu.c\<close> and \<open>hijack_mlu.c\<close>, one definition each.
  \<^item> \<open>Hook_Runs\<close>: runs of the library, as sequences of calls; invariants of every reachable state.
  \<^item> \<open>Hook_Bucket\<close>: these runs on the bucket of \<open>Token_Bucket\<close>: the launches that take tokens, the ones that
    do not (cooperative launches), and the bound that follows for the first.
  \<^item> This theory: what a control thread without a limit does to a process.

  The Go part; paths are relative to \<open>src/k8sPlugins\<close>.

  \<^item> \<open>Go_Prelude\<close>: results that carry a panic or a call of \<open>log.Fatal\<close>, words of 64 bits, and the
    functions of \<open>strconv\<close>, \<open>strings\<close> and \<open>path/filepath\<close> the sources use.
  \<^item> \<open>Kube_Messenger\<close>: \<open>podWatch/messenger.go\<close> and the objects of \<open>deviceInfo/gpu_types.go\<close>. The
    client, JSON and the encoding of objects are the fields of the record \<open>kube\<close>. \<open>Kube_Demo\<close> is an
    instance of it in memory, on which the witnesses run.
  \<^item> \<open>Device_Info\<close>: \<open>deviceInfo/gpu.go\<close> and \<open>mlu.go\<close>, what NVML finds and what is registered.
  \<^item> \<open>Gpu_Choice\<close>: which GPU \<open>GetGpuResource\<close> takes and what it books.
  \<^item> \<open>Pod_Events\<close>: the queues of \<open>podWatch/pod_mgr.go\<close> and the loop \<open>Run\<close> of
    \<open>resourceManager/manager.go\<close>, as steps that interleave. The contract of a queue is the locale
    \<open>event_queue\<close>, interpreted for both (\<open>modq\<close>, \<open>delq\<close>).
  \<^item> \<open>Resource_Manager\<close>: the virtual manager of \<open>manager.go\<close>, its tables and both handlers, and
    \<open>util.go\<close>. \<open>Manager_Files\<close>: the places and contents of the files it writes. \<open>Manager_Runs\<close>: runs
    of handlers, one after the other, and the invariant of seven tables. \<open>Manager_Demo\<close>: a pod for the witnesses.
    \<open>Manager_Life\<close>: a pod from its first event to its deletion, and what a deletion takes of other pods
    (entries of \<open>ContainerUIDByName\<close> of the same name). \<open>Manager_Order\<close>: what is left of
    deleted pods, and a deletion that overtakes a modification.
  \<^item> \<open>Handler_Steps\<close>: both handlers as the steps of a goroutine, the sections under the lock and what
    is between them (each unlocked access, request, \<open>MkdirAll\<close>, \<open>open\<close> and \<open>write\<close>), and that a handler which is not interrupted is the function of
    \<open>Resource_Manager\<close>. \<open>Handler_Pool\<close>: many of them at once, with the invariant that a pod is marked
    as ready only after its limits are recorded. \<open>Manager_System\<close>: the watcher, the loop \<open>Run\<close> and
    the handlers as one system. \<open>Manager_Tables\<close>: what every interleaving keeps of all eight tables.
    \<open>Handler_Races\<close>: a deletion in the middle of a first event, after which the rest does not hold.
  \<^item> \<open>Device_Plugin\<close>: \<open>pluginRegister\<close>, the announced devices and \<open>Allocate\<close>. \<open>Pod_Allocation\<close>: which
    pod it confirms and what it answers. \<open>Gpu_Accounts\<close>: that bookings are never given back.
  \<^item> \<open>Plugin_Main\<close>: \<open>main.go\<close>, the GPUs, the registration with the kubelet and its restarts.
    \<open>Plugin_Process\<close>: \<open>main\<close> as a whole, with the watchers of \<open>sockWatcher.go\<close>.
  \<^item> \<open>Limit_Delivery\<close>: both parts together, on nodes with either version of cgroups.
  \<^item> \<open>Stored_Limits\<close>: each handler writes only below the directory of its pod, and what is there, written
    in full or in part, holds the requests of the pod where a record holds its limits.
    \<open>Concurrent_Delivery\<close>: therefore, however the parts of the manager interleave, no process of a pod works
    with wrong limits, if the manager knows the pod from its beginning and as long as it is not deleted.

  \<^bold>\<open>State.\<close> The static variables of the sources are the fields of records: \<open>monitor_state\<close> (the
  device's geometry), \<open>controller_state\<close> (which extends it by \<open>cur_cores\<close> and \<open>total_cores\<close>),
  \<open>container_state\<close> (paths and configuration), \<open>hook_state\<close> (the flags of \<open>pthread_once\<close>, the two
  tables, \<open>total_mem\<close>, the memory the wrappers write, the threads), \<open>limiter_state\<close> (the bucket,
  and where each thread is in its loop), and in the Go part \<open>vm_tables\<close> (the eight maps of the
  manager) with the files and directories of the node and the state of the API server in \<open>node\<close>,
  \<open>PodManager\<close>, \<open>GpuInfo\<close>, \<open>MluInfo\<close> and \<open>plugin\<close> (the sockets and registrations). A \<open>pool\<close> is a node
  with the places of its handlers (\<open>task\<close>, with their local variables), a \<open>manager\<close> a pool with the
  loop that starts them.

  \<^bold>\<open>What is an argument.\<close> The answers of NVML, CUDA and CNDEV, the driver's functions, the dynamic
  linker, the contents of files and of the output of \<open>mount\<close>, the contents of uninitialised
  buffers, the constants of the vendors' headers and the renaming of API names in \<open>cuda.h\<close>.
  What the theorems assume of them is in the definitions \<open>reports_need\<close>, \<open>good_gpu\<close>, \<open>good_mlu\<close>,
  \<open>headers_match\<close> and \<open>hook_good\<close>. In the Go part: the API server and its client (\<open>serves_gpus\<close>,
  \<open>serves_pods\<close>, \<open>pod_requests_keep\<close>), the documents and the syntax of their paths
  (\<open>document_of\<close>, \<open>documented_paths\<close>), NVML, the file system (\<open>writes_all\<close>) and the kubelet. For the
  handlers at the same time, \<open>server_contract\<close> says what the API server does with annotations,
  \<open>update_contract\<close> what the documents of a pod say, \<open>name_kept\<close> that a name stays with its pod,
  \<open>document_contract\<close> and \<open>event_plain\<close> what names look like, and \<open>answers_named\<close> that a container id has
  one name. That a pod is assigned only after it is marked as ready is what \<open>Allocate\<close> does
  (\<open>Pod_Allocation.find_pod_marked\<close>); that a name stays with its pod, that the pod was not marked before
  the manager started and that its deletion was not reported are conditions without which its limits may
  be read as 0. For the restarts of the plugin, \<open>kubelet_returns\<close> says that the kubelet creates its socket
  after it cleared the directory, with any reports in between, and \<open>good_passes\<close> that an attempt succeeds.

  \<^bold>\<open>Bounds and loops.\<close> Loops over files, tables and samples end by a measure; the retry loop of the
  MLU queries is proved to end for drivers that report the size they need, and not to end for
  others; the loops of the launchers are steps of a relation. The two loops of the Go part that
  wait for Kubernetes count to 100 in the source, and so they do here. Only the repeated
  registration of \<open>main\<close> has no bound: \<open>main_restart\<close> takes the list of its rounds, and \<open>None\<close>
  says that it is still trying. Every step of a handler comes nearer to its end (\<open>nearer\<close>).

  \<^bold>\<open>Not modelled.\<close> Messages on the standard streams and in logs; the weak ordering of memory, beside
  compare-and-swap (every access of \<open>cur_cores\<close> is one atomic step); the time that \<open>nanosleep\<close> and
  \<open>time.Sleep\<close> take; gRPC, the internals of \<open>fsnotify\<close>, an interface without users
  (\<open>accelerator.go\<close>) and \<open>volume.go\<close>, which only prints. A thread's start and the call that creates
  it are separate steps, but a wrapper's call is one step, except in \<open>Limiter_Concurrency\<close>. The
  unlocked reads of the manager's maps are atomic, though the runtime of Go may end the process at
  one. One call of \<open>write\<close> is one step, and so is one of the reader's \<open>read\<close>; \<open>incarnation\<close> tells a file from
  a later one at its path, so that a write reaches the file that was opened. \<open>RemoveAll\<close> is part of the
  section under the lock it is in.
\<close>

subsection \<open>A control thread without a limit\<close>

text \<open>
  C38: A process whose first call is \<open>cuDriverGetVersion\<close> and whose control thread begins at once
  is refused tokens as long as it uses the device: whatever its configuration says, and whatever
  it calls, its control thread works with a limit under which every round that measures a load
  leaves the bucket as it is and the share at 0.
\<close>

theorem lost_limit_starves:
  assumes "hook_good env f" "cuDriverGetVersion env p (hook_init h) = Inr (ret, s)"
    and "hook_runs env (thread_begin 0 s) t" "threads t ! 0 = Running ''gpu'' y"
    and "good_gpu c" "cur_cores c \<le> total_cores c" "\<forall>u \<in> set loads. 0 < int_of_u32 u"
    and "control_run ''gpu'' y loads (c, 0) = Inr (c', share')"
  shows "c' = c \<and> share' = 0"
proof -
  have "y = 0"
    using gpu_limit_is_zero [OF assms(1-3)] assms(4) by simp
  then show ?thesis
    using gpu.run_limit_zero [OF assms(5-7)] assms(8) by (simp add: control_run_gpu)
qed

lemma zero_limit_round: "\<exists>c'. control_run ''gpu'' 0 [50] (t4_state, 0) = Inr c'"
  by (simp add: control_iteration_def control_branch_def change_token_def cores_after_def CAS_def
      delta_for_gpu_def utilization_diff_def gpu_increment_def boost_increment_def u32_of_int_def
      int_of_u32_def adjust_share_def t4_defs c_arith c_range)

theorem lost_limit_starves_witness:
  "control_run ''gpu'' 0 [50] (t4_state, 0) = Inr (t4_state, 0)"
proof -
  let ?s = "gpu_started demo_hook_env exports (hook_init demo_heap)"
  have f: "exports lib ''cuDriverGetVersion'' = Some (lib, ''cuDriverGetVersion'')" for lib
    by (simp add: exports_def)
  have run: "cuDriverGetVersion demo_hook_env 16 (hook_init demo_heap) = Inr (0, ?s)"
    using cuDriverGetVersion_result [OF demo_start_linked, where p = 16] f same_heap [of ?s] by simp
  have begun: "threads (thread_begin 0 ?s) ! 0 = Running ''gpu'' 0"
    using gpu_limit_is_zero [OF demo_hook_good run hook_runs.here] by blast
  obtain c' share' where r: "control_run ''gpu'' 0 [50] (t4_state, 0) = Inr (c', share')"
    using zero_limit_round by fastforce
  have "int_of_u32 50 = 50"
    by (simp add: int_of_u32_def)
  then have "c' = t4_state \<and> share' = 0"
    using lost_limit_starves [OF demo_hook_good run hook_runs.here begun t4_good _ _ r] by (simp add: t4_defs)
  with r show ?thesis by simp
qed

end
